(* ===== verification/Gptp_Prelude.thy ===== *)
theory Gptp_Prelude
  imports Main "HOL-Library.Word"
begin

text \<open>
  Shared vocabulary of the development: the machine integers of the C++ sources as words of
  their width, objects in memory as lists of octets, the host representation of an integer (all
  targets of the daemon are little-endian), \<open>memcpy\<close> into and out of an octet array with its
  bounds, \<open>memcmp\<close>, and the byte-order functions \<open>PLAT_htons\<close> and its kin. The collections
  \<open>bytes\<close> (octet representations) and \<open>mem\<close> (array accesses) carry the component proofs.
\<close>

unbundle bit_operations_syntax

named_theorems bytes \<open>representation of integers as octets\<close>
named_theorems mem \<open>reads and writes of octet arrays\<close>

type_synonym u8 = "8 word"
type_synonym u16 = "16 word"
type_synonym u32 = "32 word"
type_synonym u64 = "64 word"
type_synonym octets = "u8 list"

section \<open>Integers in memory\<close>

text \<open>The octets of the \<open>n\<close> low bytes of an integer, least significant first.\<close>

primrec le_bytes :: "nat \<Rightarrow> 'a::len word \<Rightarrow> octets" where
  "le_bytes 0 w = []"
| "le_bytes (Suc n) w = ucast w # le_bytes n (drop_bit 8 w)"

primrec of_le :: "octets \<Rightarrow> 'a::len word" where
  "of_le [] = 0"
| "of_le (b # bs) = ucast b OR push_bit 8 (of_le bs)"

lemma le_bytes_numeral:
  "le_bytes (numeral k) w = ucast w # le_bytes (pred_numeral k) (drop_bit 8 w)"
  by (simp add: numeral_eq_Suc)

lemma length_le_bytes [simp, bytes]: "length (le_bytes n w) = n"
  by (induction n arbitrary: w) simp_all

lemma bit_of_le:
  "bit (of_le bs :: 'a::len word) i \<longleftrightarrow>
     i < LENGTH('a) \<and> i < 8 * length bs \<and> bit (bs ! (i div 8)) (i mod 8)"
proof (induction bs arbitrary: i)
  case Nil
  then show ?case by simp
next
  case (Cons b bs)
  show ?case
  proof (cases "i < 8")
    case True
    then show ?thesis
      by (auto simp add: bit_or_iff bit_push_bit_iff bit_ucast_iff)
  next
    case False
    then have "(b # bs) ! (i div 8) = bs ! ((i - 8) div 8)" and "i mod 8 = (i - 8) mod 8"
      by (simp_all add: nth_Cons' le_div_geq le_mod_geq)
    moreover have "\<not> bit b i"
      using False by (auto dest: bit_imp_le_length)
    ultimately show ?thesis
      using False Cons.IH [of "i - 8"]
      by (auto simp add: bit_or_iff bit_push_bit_iff bit_ucast_iff possible_bit_def)
  qed
qed

lemma nth_le_bytes: "k < n \<Longrightarrow> le_bytes n w ! k = ucast (drop_bit (8 * k) w)"
proof (induction n arbitrary: k w)
  case (Suc n)
  then show ?case by (cases k) (simp_all add: add.commute)
qed simp

lemma of_le_le_bytes: "of_le (le_bytes n w) = take_bit (8 * n) (w :: 'a::len word)"
proof (rule bit_word_eqI)
  fix i assume "i < LENGTH('a)"
  then show "bit (of_le (le_bytes n w) :: 'a word) i \<longleftrightarrow> bit (take_bit (8 * n) w) i"
    by (auto simp add: bit_of_le bit_take_bit_iff nth_le_bytes bit_ucast_iff bit_drop_bit_eq
        less_mult_imp_div_less mult.commute)
qed

lemma of_le_le_bytes_full [simp, bytes]:
  "LENGTH('a) \<le> 8 * n \<Longrightarrow> of_le (le_bytes n w) = (w :: 'a::len word)"
  by (simp add: of_le_le_bytes take_bit_word_eq_self)

lemma le_bytes_of_le [bytes]:
  assumes "length bs = n" and "8 * n \<le> LENGTH('a)"
  shows "le_bytes n (of_le bs :: 'a::len word) = bs"
proof (rule nth_equalityI)
  show "length (le_bytes n (of_le bs :: 'a word)) = length bs"
    using assms(1) by simp
next
  fix k assume "k < length (le_bytes n (of_le bs :: 'a word))"
  then have k: "k < n" by simp
  show "le_bytes n (of_le bs :: 'a word) ! k = bs ! k"
  proof (rule bit_word_eqI)
    fix i assume "i < LENGTH(8)"
    then have i: "i < 8" by simp
    with k have "8 * k + i < 8 * n" by linarith
    with i k assms show "bit (le_bytes n (of_le bs :: 'a word) ! k) i = bit (bs ! k) i"
      by (auto simp add: nth_le_bytes bit_ucast_iff bit_drop_bit_eq bit_of_le)
  qed
qed

lemma le_bytes_inj:
  assumes "LENGTH('a) \<le> 8 * n"
  shows "le_bytes n v = le_bytes n (w :: 'a::len word) \<longleftrightarrow> v = w"
  using assms by (metis of_le_le_bytes_full)

section \<open>Byte order\<close>

text \<open>Reversal of the \<open>n\<close> low octets: what \<open>htons\<close> and \<open>htonl\<close> do on a little-endian host.\<close>

definition bswap :: "nat \<Rightarrow> 'a::len word \<Rightarrow> 'a word" where
  "bswap n w = of_le (rev (le_bytes n w))"

definition PLAT_htons :: "u16 \<Rightarrow> u16" where
  "PLAT_htons s = bswap 2 s"

definition PLAT_htonl :: "u32 \<Rightarrow> u32" where
  "PLAT_htonl l = bswap 4 l"

definition PLAT_ntohs :: "u16 \<Rightarrow> u16" where
  "PLAT_ntohs s = bswap 2 s"

definition PLAT_ntohl :: "u32 \<Rightarrow> u32" where
  "PLAT_ntohl l = bswap 4 l"

text \<open>The 64-bit functions are composed of the 32-bit ones; \<open>htonl(1) == 1\<close> tests for a
  big-endian host.\<close>

definition PLAT_htonll :: "u64 \<Rightarrow> u64" where
  "PLAT_htonll x =
     (if PLAT_htonl 1 = 1 then x
      else push_bit 32 (ucast (PLAT_htonl (ucast (x AND 0xFFFFFFFF))))
           OR ucast (PLAT_htonl (ucast (drop_bit 32 x))))"

definition PLAT_ntohll :: "u64 \<Rightarrow> u64" where
  "PLAT_ntohll x =
     (if PLAT_ntohl 1 = 1 then x
      else push_bit 32 (ucast (PLAT_ntohl (ucast (x AND 0xFFFFFFFF))))
           OR ucast (PLAT_ntohl (ucast (drop_bit 32 x))))"

lemma le_bytes_bswap [bytes]:
  "8 * n \<le> LENGTH('a) \<Longrightarrow> le_bytes n (bswap n w :: 'a::len word) = rev (le_bytes n w)"
  by (simp add: bswap_def le_bytes_of_le)

lemma bswap_bswap [bytes]:
  "LENGTH('a) = 8 * n \<Longrightarrow> bswap n (bswap n w) = (w :: 'a::len word)"
  by (simp add: bswap_def [of n "bswap n w"] le_bytes_bswap)

lemma bswap_of_le [bytes]:
  "LENGTH('a) = 8 * n \<Longrightarrow> length bs = n \<Longrightarrow> bswap n (of_le bs :: 'a::len word) = of_le (rev bs)"
  by (simp add: bswap_def le_bytes_of_le)

lemma bswap_eq_iff: "LENGTH('a) = 8 * n \<Longrightarrow> bswap n v = bswap n (w :: 'a::len word) \<longleftrightarrow> v = w"
  by (metis bswap_bswap)

lemma PLAT_htonl_1: "PLAT_htonl 1 \<noteq> 1" "PLAT_ntohl 1 \<noteq> 1"
  by code_simp+

lemma of_le_append:
  "(of_le (xs @ ys) :: 'a::len word) = of_le xs OR push_bit (8 * length xs) (of_le ys)"
  by (induction xs) (simp_all add: or.assoc)

lemma ucast_of_le:
  "8 * length bs \<le> LENGTH('a) \<Longrightarrow> ucast (of_le bs :: 'a::len word) = (of_le bs :: 'b::len word)"
  by (rule bit_word_eqI) (auto simp add: bit_of_le bit_ucast_iff)

lemma ucast_take_le_bytes:
  "LENGTH('b) = 8 * n \<Longrightarrow> (ucast (w :: 'a::len word) :: 'b::len word) = of_le (le_bytes n w)"
  by (rule bit_word_eqI)
    (auto simp add: bit_of_le bit_ucast_iff nth_le_bytes bit_drop_bit_eq
      less_mult_imp_div_less mult.commute)

lemma take_bit_of_le: "take_bit (8 * n) (of_le bs :: 'a::len word) = of_le (take n bs)"
  by (rule bit_word_eqI)
    (auto simp add: bit_of_le bit_take_bit_iff less_mult_imp_div_less mult.commute)

lemma drop_bit_of_le:
  assumes "8 * length bs \<le> LENGTH('a)"
  shows "drop_bit (8 * n) (of_le bs :: 'a::len word) = of_le (drop n bs)"
  by (rule bit_word_eqI) (use assms in \<open>auto simp add: bit_of_le bit_drop_bit_eq\<close>)

lemma PLAT_htonll_bswap [bytes]: "PLAT_htonll x = bswap 8 x"
proof -
  have lo: "ucast (x AND 0xFFFFFFFF) = (of_le (le_bytes 4 x) :: u32)"
  proof -
    have "x AND 0xFFFFFFFF = take_bit 32 x"
      by (simp add: take_bit_eq_mask mask_numeral)
    moreover have "ucast (take_bit 32 x) = (ucast x :: u32)"
      by (rule bit_word_eqI) (simp add: bit_ucast_iff bit_take_bit_iff)
    moreover have "(ucast x :: u32) = of_le (le_bytes 4 x)"
      by (rule ucast_take_le_bytes) simp
    ultimately show ?thesis by (simp only:)
  qed
  have hi: "ucast (drop_bit 32 x) = (of_le (le_bytes 4 (drop_bit 32 x)) :: u32)"
    by (rule ucast_take_le_bytes) simp
  have "PLAT_htonll x =
      push_bit 32 (of_le (rev (le_bytes 4 x))) OR of_le (rev (le_bytes 4 (drop_bit 32 x)))"
    by (simp only: PLAT_htonll_def PLAT_htonl_1 if_False lo hi)
      (simp add: PLAT_htonl_def bswap_of_le ucast_of_le)
  also have "\<dots> = of_le (rev (le_bytes 4 (drop_bit 32 x)) @ rev (le_bytes 4 x))"
    by (simp add: of_le_append or.commute)
  also have "\<dots> = bswap 8 x"
    by (simp add: bswap_def le_bytes_numeral)
  finally show ?thesis .
qed

lemma PLAT_ntohll_htonll [bytes]: "PLAT_ntohll x = PLAT_htonll x"
  by (simp only: PLAT_ntohll_def PLAT_htonll_def PLAT_ntohl_def PLAT_htonl_def)

lemma PLAT_ntoh_hton [simp, bytes]:
  "PLAT_ntohs (PLAT_htons a) = a" "PLAT_htons (PLAT_ntohs a) = a"
  "PLAT_ntohl (PLAT_htonl b) = b" "PLAT_htonl (PLAT_ntohl b) = b"
  "PLAT_ntohll (PLAT_htonll c) = c" "PLAT_htonll (PLAT_ntohll c) = c"
  by (simp_all add: PLAT_htons_def PLAT_ntohs_def PLAT_htonl_def PLAT_ntohl_def
      PLAT_ntohll_htonll PLAT_htonll_bswap bswap_bswap)

section \<open>Arrays of octets\<close>

text \<open>\<open>wr off bs buf\<close> is \<open>buf\<close> with the octets from \<open>off\<close> on replaced by \<open>bs\<close>;
  \<open>put\<close> and \<open>get\<close> are \<open>memcpy(&buf[off], bs, n)\<close> and \<open>memcpy(dst, &buf[off], n)\<close>. An access outside the array is
  undefined in C++; here it has no result.\<close>

definition wr :: "nat \<Rightarrow> octets \<Rightarrow> octets \<Rightarrow> octets" where
  "wr off bs buf = take (length buf) (take off buf @ bs @ drop (off + length bs) buf)"

definition put :: "nat \<Rightarrow> octets \<Rightarrow> octets \<Rightarrow> octets option" where
  "put off bs buf = (if off + length bs \<le> length buf then Some (wr off bs buf) else None)"

definition get :: "nat \<Rightarrow> nat \<Rightarrow> octets \<Rightarrow> octets option" where
  "get off n buf = (if off + n \<le> length buf then Some (take n (drop off buf)) else None)"

lemma length_wr [simp]: "length (wr off bs buf) = length buf"
  by (auto simp add: wr_def)

lemma wr_in_range:
  "off + length bs \<le> length buf \<Longrightarrow> wr off bs buf = take off buf @ bs @ drop (off + length bs) buf"
  by (simp add: wr_def)

lemma put_wr [mem]: "off + length bs \<le> length buf \<Longrightarrow> put off bs buf = Some (wr off bs buf)"
  by (simp add: put_def)

lemma put_bind [mem]:
  "off + length bs \<le> length buf \<Longrightarrow> Option.bind (put off bs buf) f = f (wr off bs buf)"
  by (simp add: put_def)

lemma get_length: "get off n buf = Some bs \<Longrightarrow> length bs = n"
  by (auto simp add: get_def split: if_splits)

lemma get_wr_same [mem]:
  "off + length bs \<le> length buf \<Longrightarrow> n = length bs \<Longrightarrow> get off n (wr off bs buf) = Some bs"
  by (auto simp add: wr_in_range get_def)

lemma get_wr_other [mem]:
  assumes "i + n \<le> off \<or> off + length bs \<le> i" and "off + length bs \<le> length buf"
  shows "get i n (wr off bs buf) = get i n buf"
  using assms(1)
proof
  assume "i + n \<le> off"
  then have "take (n + i) (wr off bs buf) = take (n + i) buf"
    using assms(2) by (simp add: wr_in_range min_def)
  then show ?thesis
    using assms(2) by (simp add: get_def take_drop)
next
  assume "off + length bs \<le> i"
  then have "drop i (wr off bs buf) = drop i buf"
    using assms(2) by (simp add: wr_in_range)
  then show ?thesis
    using assms(2) by (simp add: get_def)
qed

lemma get_take [mem]: "i + n \<le> l \<Longrightarrow> l \<le> length buf \<Longrightarrow> get i n (take l buf) = get i n buf"
  by (simp add: get_def take_drop min_def)

lemma get_append [mem]: "i + n \<le> length bs \<Longrightarrow> get i n (bs @ rest) = get i n bs"
  by (simp add: get_def)

text \<open>\<open>memcmp\<close>, of which callers use the sign only: the difference of the first octets that
  differ. On arrays of one length it orders them as big-endian numbers.\<close>

fun memcmp :: "octets \<Rightarrow> octets \<Rightarrow> int" where
  "memcmp (a # as) (b # bs) = (if a = b then memcmp as bs else uint a - uint b)"
| "memcmp _ _ = 0"

primrec be_val :: "octets \<Rightarrow> int" where
  "be_val [] = 0"
| "be_val (b # bs) = uint b * 256 ^ length bs + be_val bs"

lemma uint8_bounds: "0 \<le> uint (b :: u8)" "uint (b :: u8) < 256"
  using uint_lt2p [of b] by simp_all

lemma be_val_bounds: "0 \<le> be_val bs" "be_val bs < 256 ^ length bs"
proof (induction bs)
  case (Cons b bs)
  { case 1 from Cons show ?case by simp }
  { case 2
    have "uint b * 256 ^ length bs \<le> 255 * 256 ^ length bs"
      using uint8_bounds [of b] by (intro mult_right_mono) simp_all
    moreover have "be_val bs < 256 ^ length bs"
      by (rule Cons.IH)
    ultimately show ?case
      by (simp only: be_val.simps length_Cons power_Suc) }
qed simp_all

lemma be_val_step:
  assumes "uint a < uint b" and "length as = length bs"
  shows "be_val (a # as) < be_val (b # bs)"
proof -
  have "(uint a + 1) * 256 ^ length bs \<le> uint b * 256 ^ length bs"
    using assms(1) by (intro mult_right_mono) simp_all
  then show ?thesis
    using assms(2) be_val_bounds [of as] be_val_bounds [of bs] by (simp add: distrib_right)
qed

lemma memcmp_be_val:
  "length as = length bs \<Longrightarrow>
     (memcmp as bs < 0 \<longleftrightarrow> be_val as < be_val bs) \<and> (memcmp as bs = 0 \<longleftrightarrow> as = bs)"
proof (induction as bs rule: memcmp.induct)
  case (1 a as b bs)
  show ?case
  proof (cases "a = b")
    case False
    then have "uint a \<noteq> uint b" by (simp add: word_uint_eq_iff)
    then consider "uint a < uint b" | "uint b < uint a" by linarith
    then show ?thesis
      using 1 be_val_step [of a b as bs] be_val_step [of b a bs as] False by cases auto
  qed (use 1 in simp)
qed simp_all

lemma be_val_inj: "length as = length bs \<Longrightarrow> be_val as = be_val bs \<longleftrightarrow> as = bs"
proof (induction as bs rule: list_induct2)
  case (Cons a as b bs)
  show ?case
  proof (cases "uint a = uint b")
    case True
    with Cons show ?thesis by (simp add: word_uint_eq_iff)
  next
    case False
    then consider "uint a < uint b" | "uint b < uint a" by linarith
    then show ?thesis
      using Cons.hyps be_val_step [of a b as bs] be_val_step [of b a bs as] by cases auto
  qed
qed simp

section \<open>Arithmetic on words\<close>

lemma uint_plus_u32: "uint (a + b :: u32) = (if uint a + uint b < 2 ^ 32 then uint a + uint b else uint a + uint b - 2 ^ 32)"
  using uint_plus_if' [of a b] by simp

lemma u32_bounds: "0 \<le> uint (a :: u32)" "uint (a :: u32) < 2 ^ 32"
  using uint_lt2p [of a] by simp_all

lemma u16_bounds: "0 \<le> uint (a :: u16)" "uint (a :: u16) < 2 ^ 16"
  using uint_lt2p [of a] by simp_all

lemma borrow_test: "(b > l \<or> l - b < v) \<longleftrightarrow> uint l < uint v + uint (b :: 'a::len word)"
proof (cases "b > l")
  case True
  then show ?thesis using uint_ge_0 [of v] unfolding word_less_def by linarith
next
  case False
  then have "uint (l - b) = uint l - uint b"
    by (simp add: uint_sub_if' word_less_def not_less)
  with False show ?thesis by (auto simp add: word_less_def)
qed

lemma div_near_zero: "- b \<le> l \<Longrightarrow> l < b \<Longrightarrow> l div b = (if l < 0 then - 1 else 0 :: int)"
  using int_div_pos_eq [of l b "- 1" "l + b"] by auto

lemma mod_scale: "((s mod a) * b + n) mod (a * b) = (s * b + n) mod (a * b :: int)"
  by (metis mod_add_left_eq mod_mult_mult2)

lemma radix_unique:
  assumes "a * b + x = c * b + y" and "0 \<le> x" "x < b" "0 \<le> y" "y < (b :: int)"
  shows "a = c \<and> x = y"
proof -
  have "(a * b + x) div b = a" "(c * b + y) div b = c"
    using assms(2-) by simp_all
  with assms(1) show ?thesis by simp
qed

lemma uint_ucast_sub:
  "uint (ucast (ucast (m :: u16) - c - ucast (v :: u16) :: u32) :: u16) = (uint m - uint v - uint c) mod 2 ^ 16"
  by (simp add: unsigned_ucast_eq take_bit_eq_mod uint_word_ariths mod_mod_cancel mod_simps)
     (simp add: algebra_simps)

lemma uint_ucast_u32: "uint (w :: u64) < 2 ^ 32 \<Longrightarrow> uint (ucast w :: u32) = uint w"
  by (simp add: unsigned_ucast_eq take_bit_eq_mod)

section \<open>Lexicographic comparison\<close>

lemma memcmp_Cons: "memcmp (a # as) (b # bs) < 0 \<longleftrightarrow> a < b \<or> a = b \<and> memcmp as bs < 0"
  by (auto simp add: word_less_def word_uint_eq_iff)

lemma memcmp_append:
  "length as = length bs \<Longrightarrow> memcmp (as @ xs) (bs @ ys) < 0 \<longleftrightarrow> memcmp as bs < 0 \<or> as = bs \<and> memcmp xs ys < 0"
  by (induction as bs rule: list_induct2) auto

lemma be_val_htons: "be_val (le_bytes 2 (PLAT_htons v)) = uint v"
proof -
  have "uint v div 256 < 256" "0 \<le> uint v div 256"
    using u16_bounds [of v] by (simp_all add: pos_imp_zdiv_nonneg_iff)
  then have "uint v div 256 mod 256 = uint v div 256" by (rule mod_pos_pos_trivial [rotated])
  moreover have "uint (ucast (drop_bit 8 v) :: u8) = uint v div 256 mod 256" "uint (ucast v :: u8) = uint v mod 256"
    by (simp_all add: unsigned_ucast_eq unsigned_drop_bit_eq take_bit_eq_mod drop_bit_eq_div uint_div)
  moreover have "le_bytes 2 (PLAT_htons v) = [ucast (drop_bit 8 v), ucast v]"
    by (simp add: PLAT_htons_def le_bytes_bswap) (simp add: le_bytes_numeral)
  ultimately show ?thesis
    by simp
qed

lemma memcmp_htons: "memcmp (le_bytes 2 (PLAT_htons v)) (le_bytes 2 (PLAT_htons w)) < 0 \<longleftrightarrow> v < w"
  using memcmp_be_val [of "le_bytes 2 (PLAT_htons v)" "le_bytes 2 (PLAT_htons w)"]
  by (simp add: be_val_htons word_less_def)

lemma htons_eq_iff: "le_bytes 2 (PLAT_htons v) = le_bytes 2 (PLAT_htons w) \<longleftrightarrow> v = w"
  by (metis be_val_htons word_uint_eq_iff)

lemma sint_u64: "- (2 ^ 63) \<le> k \<Longrightarrow> k < 2 ^ 63 \<Longrightarrow> sint (word_of_int k :: u64) = k"
  by (simp add: int_word_sint)

end
