(* ===== verification/Ieee1588.thy ===== *)
theory Ieee1588
  imports Gptp_Prelude
begin

text \<open>
  The value types of \<open>common/ieee1588.hpp\<close>, \<open>common/avbts_osnet.hpp\<close> and the head of
  \<open>common/common_port.hpp\<close>: events and port states, link-layer addresses, clock and port
  identities, and timestamps with their arithmetic. A timestamp is read as a number of
  nanoseconds by \<open>ts_ns\<close>; the lemmas say for each operation when it computes the sum or the
  difference of those numbers and when it keeps the nanosecond field below one second.
\<close>

section \<open>Enumerations\<close>

datatype Event =
    NULL_EVENT | POWERUP | INITIALIZE | LINKUP | LINKDOWN | STATE_CHANGE_EVENT
  | SYNC_INTERVAL_TIMEOUT_EXPIRES | PDELAY_INTERVAL_TIMEOUT_EXPIRES
  | SYNC_RECEIPT_TIMEOUT_EXPIRES | QUALIFICATION_TIMEOUT_EXPIRES
  | ANNOUNCE_RECEIPT_TIMEOUT_EXPIRES | ANNOUNCE_INTERVAL_TIMEOUT_EXPIRES
  | FAULT_DETECTED | PDELAY_DEFERRED_PROCESSING | PDELAY_RESP_RECEIPT_TIMEOUT_EXPIRES
  | PDELAY_RESP_PEER_MISBEHAVING_TIMEOUT_EXPIRES | SYNC_RATE_INTERVAL_TIMEOUT_EXPIRED

datatype PortState =
    PTP_MASTER | PTP_PRE_MASTER | PTP_SLAVE | PTP_UNCALIBRATED | PTP_DISABLED | PTP_FAULTY
  | PTP_INITIALIZING | PTP_LISTENING

text \<open>The values the enumerators of \<^typ>\<open>PortState\<close> have in memory.\<close>

primrec PortState_val :: "PortState \<Rightarrow> u32" where
  "PortState_val PTP_MASTER = 7"
| "PortState_val PTP_PRE_MASTER = 8"
| "PortState_val PTP_SLAVE = 9"
| "PortState_val PTP_UNCALIBRATED = 10"
| "PortState_val PTP_DISABLED = 11"
| "PortState_val PTP_FAULTY = 12"
| "PortState_val PTP_INITIALIZING = 13"
| "PortState_val PTP_LISTENING = 14"

section \<open>Link-layer addresses\<close>

record LinkLayerAddress =
  addr :: octets

definition ETHER_ADDR_OCTETS :: nat where
  "ETHER_ADDR_OCTETS = 6"

primrec lla_octets :: "nat \<Rightarrow> u64 \<Rightarrow> octets" where
  "lla_octets 0 s = []"
| "lla_octets (Suc n) s =
     ucast (drop_bit 56 (s AND 0xFF00000000000000)) # lla_octets n (push_bit 8 s)"

definition LinkLayerAddress_scalar :: "u64 \<Rightarrow> LinkLayerAddress" where
  "LinkLayerAddress_scalar address_scalar =
     \<lparr>addr = lla_octets ETHER_ADDR_OCTETS (push_bit 16 address_scalar)\<rparr>"

definition LinkLayerAddress_octets :: "octets \<Rightarrow> LinkLayerAddress" where
  "LinkLayerAddress_octets a = \<lparr>addr = take ETHER_ADDR_OCTETS a\<rparr>"

definition lla_eq :: "LinkLayerAddress \<Rightarrow> LinkLayerAddress \<Rightarrow> bool" where
  "lla_eq a cmp \<longleftrightarrow> memcmp (addr a) (addr cmp) = 0"

definition lla_less :: "LinkLayerAddress \<Rightarrow> LinkLayerAddress \<Rightarrow> bool" where
  "lla_less a cmp \<longleftrightarrow> memcmp (addr a) (addr cmp) < 0"

definition lla_greater :: "LinkLayerAddress \<Rightarrow> LinkLayerAddress \<Rightarrow> bool" where
  "lla_greater a cmp \<longleftrightarrow> memcmp (addr a) (addr cmp) > 0"

definition toOctetArray :: "LinkLayerAddress \<Rightarrow> octets" where
  "toOctetArray a = addr a"

section \<open>Clock identities\<close>

record ClockIdentity =
  cid :: octets

definition PTP_CLOCK_IDENTITY_LENGTH :: nat where
  "PTP_CLOCK_IDENTITY_LENGTH = 8"

definition ClockIdentity_default :: ClockIdentity where
  "ClockIdentity_default = \<lparr>cid = replicate PTP_CLOCK_IDENTITY_LENGTH 0\<rparr>"

definition cid_eq :: "ClockIdentity \<Rightarrow> ClockIdentity \<Rightarrow> bool" where
  "cid_eq a cmp \<longleftrightarrow> memcmp (cid a) (cid cmp) = 0"

definition cid_neq :: "ClockIdentity \<Rightarrow> ClockIdentity \<Rightarrow> bool" where
  "cid_neq a cmp \<longleftrightarrow> memcmp (cid a) (cid cmp) \<noteq> 0"

definition cid_less :: "ClockIdentity \<Rightarrow> ClockIdentity \<Rightarrow> bool" where
  "cid_less a cmp \<longleftrightarrow> memcmp (cid a) (cid cmp) < 0"

definition cid_greater :: "ClockIdentity \<Rightarrow> ClockIdentity \<Rightarrow> bool" where
  "cid_greater a cmp \<longleftrightarrow> memcmp (cid a) (cid cmp) > 0"

definition getIdentityString :: "ClockIdentity \<Rightarrow> octets" where
  "getIdentityString c = cid c"

definition cid_set :: "octets \<Rightarrow> ClockIdentity" where
  "cid_set bs = \<lparr>cid = take PTP_CLOCK_IDENTITY_LENGTH bs\<rparr>"

text \<open>\<open>ClockIdentity::set\<close> on a link-layer address: the six octets are copied over the low end
  of a zeroed 64-bit integer, which is then shifted around the constant \<open>0xFEFF\<close>.\<close>

definition cid_set_address :: "LinkLayerAddress \<Rightarrow> ClockIdentity" where
  "cid_set_address a =
     (let tmp1 = of_le (toOctetArray a) :: u64;
          tmp2 = ucast (tmp1 AND 0xFFFFFF) :: u32;
          tmp1 = drop_bit 24 tmp1;
          tmp1 = push_bit 16 tmp1;
          tmp1 = tmp1 OR 0xFEFF;
          tmp1 = push_bit 24 tmp1;
          tmp1 = tmp1 OR ucast tmp2
      in \<lparr>cid = le_bytes PTP_CLOCK_IDENTITY_LENGTH tmp1\<rparr>)"

text \<open>The textual form: two upper-case hexadecimal digits per octet and a colon after each; the
  last colon is overwritten by the terminating zero.\<close>

definition hex_digit :: "nat \<Rightarrow> char" where
  "hex_digit n = ''0123456789ABCDEF'' ! n"

definition fmt_2_2X :: "u8 \<Rightarrow> string" where
  "fmt_2_2X b = [hex_digit (unat b div 16), hex_digit (unat b mod 16)]"

definition cid_getIdentityString :: "ClockIdentity \<Rightarrow> string" where
  "cid_getIdentityString c =
     take (PTP_CLOCK_IDENTITY_LENGTH * 3 - 1)
       (concat (map (\<lambda>b. fmt_2_2X b @ '':'') (getIdentityString c)))"

section \<open>Port identities\<close>

record PortIdentity =
  clock_id :: ClockIdentity
  portNumber :: u16

definition PortIdentity_wire :: "octets \<Rightarrow> u16 \<Rightarrow> PortIdentity" where
  "PortIdentity_wire c n = \<lparr>clock_id = cid_set c, portNumber = PLAT_ntohs n\<rparr>"

definition pi_neq :: "PortIdentity \<Rightarrow> PortIdentity \<Rightarrow> bool" where
  "pi_neq a cmp \<longleftrightarrow> \<not> cid_eq (clock_id a) (clock_id cmp) \<or> portNumber a \<noteq> portNumber cmp"

definition pi_eq :: "PortIdentity \<Rightarrow> PortIdentity \<Rightarrow> bool" where
  "pi_eq a cmp \<longleftrightarrow> cid_eq (clock_id a) (clock_id cmp) \<and> portNumber a = portNumber cmp"

definition pi_less :: "PortIdentity \<Rightarrow> PortIdentity \<Rightarrow> bool" where
  "pi_less a cmp \<longleftrightarrow>
     (if cid_less (clock_id a) (clock_id cmp) then True
      else cid_eq (clock_id a) (clock_id cmp) \<and> portNumber a < portNumber cmp)"

definition pi_greater :: "PortIdentity \<Rightarrow> PortIdentity \<Rightarrow> bool" where
  "pi_greater a cmp \<longleftrightarrow>
     (if cid_greater (clock_id a) (clock_id cmp) then True
      else cid_eq (clock_id a) (clock_id cmp) \<and> portNumber a > portNumber cmp)"

definition getPortNumberNO :: "PortIdentity \<Rightarrow> u16" where
  "getPortNumberNO p = PLAT_htons (portNumber p)"

section \<open>Timestamps\<close>

record Timestamp =
  nanoseconds :: u32
  seconds_ls :: u32
  seconds_ms :: u16
  ts_version :: u8

definition INVALID_TIMESTAMP_VERSION :: u8 where
  "INVALID_TIMESTAMP_VERSION = 0xFF"

definition MAX_NANOSECONDS :: u32 where
  "MAX_NANOSECONDS = 1000000000"

definition Timestamp_new :: "u32 \<Rightarrow> u32 \<Rightarrow> u16 \<Rightarrow> Timestamp" where
  "Timestamp_new ns s_l s_m =
     \<lparr>nanoseconds = ns, seconds_ls = s_l, seconds_ms = s_m, ts_version = INVALID_TIMESTAMP_VERSION\<rparr>"

definition Timestamp_default :: Timestamp where
  "Timestamp_default =
     \<lparr>nanoseconds = 0, seconds_ls = 0, seconds_ms = 0, ts_version = INVALID_TIMESTAMP_VERSION\<rparr>"

definition INVALID_TIMESTAMP :: Timestamp where
  "INVALID_TIMESTAMP = Timestamp_new 0xC0000000 0 0"

definition PDELAY_PENDING_TIMESTAMP :: Timestamp where
  "PDELAY_PENDING_TIMESTAMP = Timestamp_new 0xC0000001 0 0"

text \<open>\<open>Timestamp::operator+\<close>. Each field is added at its own width and a carry is a sum below the
  first operand.\<close>

definition ts_add :: "Timestamp \<Rightarrow> Timestamp \<Rightarrow> Timestamp" where
  "ts_add t u =
     (let ns = nanoseconds t + nanoseconds u;
          carry = (ns < nanoseconds t \<or> ns \<ge> MAX_NANOSECONDS);
          ns = ns - (if carry then MAX_NANOSECONDS else 0);
          ls = seconds_ls t + seconds_ls u + (if carry then 1 else 0);
          carry = (ls < seconds_ls t);
          ms = seconds_ms t + seconds_ms u + (if carry then 1 else 0);
          ver = (if ts_version t = ts_version u then ts_version t else INVALID_TIMESTAMP_VERSION)
      in \<lparr>nanoseconds = ns, seconds_ls = ls, seconds_ms = ms, ts_version = ver\<rparr>)"

text \<open>\<open>Timestamp::operator-\<close>. The comparisons on \<open>seconds_ms\<close> are made in \<open>unsigned\<close>, to which
  both operands are promoted; the assignment truncates to 16 bits.\<close>

definition ts_sub :: "Timestamp \<Rightarrow> Timestamp \<Rightarrow> Timestamp" where
  "ts_sub t u =
     (let borrow_this = nanoseconds t < nanoseconds u;
          ns = ((if borrow_this then MAX_NANOSECONDS else 0) + nanoseconds t) - nanoseconds u;
          carry = (ns > MAX_NANOSECONDS);
          ns = ns - (if carry then MAX_NANOSECONDS else 0);
          borrow_total = (if borrow_this then 1 else 0) :: u32;
          ls = (if carry then 1 else 0) + seconds_ls t;
          borrow_this = (borrow_total > ls \<or> ls - borrow_total < seconds_ls u);
          ls = (if borrow_this then ls - seconds_ls u + (- 1)
                else (ls - borrow_total) - seconds_ls u);
          borrow_total = (if borrow_this then borrow_total + 1 else 0);
          ms = (if carry then 1 else 0) + seconds_ms t;
          borrow_this = (borrow_total > ucast ms \<or> ucast ms - borrow_total < ucast (seconds_ms u));
          ms = (if borrow_this then ucast (ucast ms - ucast (seconds_ms u) + (- 1 :: u32))
                else ucast ((ucast ms - borrow_total) - ucast (seconds_ms u)));
          ver = (if ts_version t = ts_version u then ts_version t else INVALID_TIMESTAMP_VERSION)
      in \<lparr>nanoseconds = ns, seconds_ls = ls, seconds_ms = ms, ts_version = ver\<rparr>)"

definition ts_set64 :: "u64 \<Rightarrow> Timestamp \<Rightarrow> Timestamp" where
  "ts_set64 v t =
     t\<lparr>nanoseconds := ucast (v mod 1000000000),
       seconds_ls := ucast (v div 1000000000),
       seconds_ms := ucast (drop_bit 32 (v div 1000000000))\<rparr>"

text \<open>\<open>TIMESTAMP_TO_NS\<close> computes in \<open>long long\<close>; the model wraps at 64 bits as the compiled code
  does, which matters from \<open>seconds_ms\<close> = 2 on.\<close>

definition TIMESTAMP_TO_NS :: "Timestamp \<Rightarrow> u64" where
  "TIMESTAMP_TO_NS ts =
     (push_bit 32 (ucast (seconds_ms ts)) + ucast (seconds_ls ts)) * 1000000000
       + ucast (nanoseconds ts)"

definition NS_PER_SECOND :: u64 where
  "NS_PER_SECOND = 1000000000"

definition LS_SEC_MAX :: u64 where
  "LS_SEC_MAX = 0xFFFFFFFF"

definition TIMESTAMP_SUB_NS :: "Timestamp \<Rightarrow> u64 \<Rightarrow> Timestamp" where
  "TIMESTAMP_SUB_NS ts ns =
     (let secs = ucast (seconds_ls ts) OR push_bit 32 (ucast (seconds_ms ts)) :: u64;
          nanos = ucast (nanoseconds ts) :: u64;
          secs = secs - ns div NS_PER_SECOND;
          ns = ns mod NS_PER_SECOND;
          (nanos, secs) = (if ns > nanos then (nanos + NS_PER_SECOND, secs - 1) else (nanos, secs));
          nanos = nanos - ns
      in ts\<lparr>seconds_ms := ucast (drop_bit 32 secs),
            seconds_ls := ucast (secs AND LS_SEC_MAX),
            nanoseconds := ucast nanos\<rparr>)"

definition TIMESTAMP_ADD_NS :: "Timestamp \<Rightarrow> u64 \<Rightarrow> Timestamp" where
  "TIMESTAMP_ADD_NS ts ns =
     (let secs = ucast (seconds_ls ts) OR push_bit 32 (ucast (seconds_ms ts)) :: u64;
          nanos = ucast (nanoseconds ts) :: u64;
          secs = secs + ns div NS_PER_SECOND;
          nanos = nanos + ns mod NS_PER_SECOND;
          (nanos, secs) =
            (if nanos > NS_PER_SECOND then (nanos - NS_PER_SECOND, secs + 1) else (nanos, secs))
      in ts\<lparr>seconds_ms := ucast (drop_bit 32 secs),
            seconds_ls := ucast (secs AND LS_SEC_MAX),
            nanoseconds := ucast nanos\<rparr>)"

text \<open>\<open>byte_swap64\<close>: two indices walk towards each other over the octets of the argument.\<close>

function byte_swap_loop :: "nat \<Rightarrow> nat \<Rightarrow> octets \<Rightarrow> octets" where
  "byte_swap_loop s e m =
     (if e > s then byte_swap_loop (s + 1) (e - 1) (m[s := m ! e, e := m ! s]) else m)"
  by pat_completeness auto
termination
  by (relation "measure (\<lambda>(s, e, m). e - s)") auto

definition byte_swap64 :: "u64 \<Rightarrow> u64" where
  "byte_swap64 x = of_le (byte_swap_loop 0 7 (le_bytes 8 x))"

section \<open>Readings of the values\<close>

text \<open>A timestamp as nanoseconds and as whole seconds, the range of the nanosecond field, and the
  number of nanoseconds at which the 48-bit seconds wrap. A clock identity has eight octets. The
  order of port identities is that of \<open>pi_key\<close>.\<close>

definition ts_ns :: "Timestamp \<Rightarrow> int" where
  "ts_ns t = (uint (seconds_ms t) * 2 ^ 32 + uint (seconds_ls t)) * 10 ^ 9 + uint (nanoseconds t)"

definition ts_secs :: "Timestamp \<Rightarrow> int" where
  "ts_secs t = uint (seconds_ms t) * 2 ^ 32 + uint (seconds_ls t)"

definition wf_ts :: "Timestamp \<Rightarrow> bool" where
  "wf_ts t \<longleftrightarrow> nanoseconds t < MAX_NANOSECONDS"

definition TS_MODULUS :: int where
  "TS_MODULUS = 2 ^ 48 * 10 ^ 9"

definition wf_cid :: "ClockIdentity \<Rightarrow> bool" where
  "wf_cid c \<longleftrightarrow> length (cid c) = PTP_CLOCK_IDENTITY_LENGTH"

definition pi_key :: "PortIdentity \<Rightarrow> int" where
  "pi_key p = be_val (cid (clock_id p)) * 2 ^ 16 + uint (portNumber p)"

section \<open>Addresses and identities\<close>

declare byte_swap_loop.simps [simp del]

lemma byte_swap_loop_8:
  "byte_swap_loop 0 7 [a, b, c, d, e, f, g, h] = [h, g, f, e, d, c, b, a]"
proof -
  have "byte_swap_loop 0 7 [a, b, c, d, e, f, g, h] = byte_swap_loop 1 6 [h, b, c, d, e, f, g, a]"
    by (subst byte_swap_loop.simps) simp
  also have "\<dots> = byte_swap_loop 2 5 [h, g, c, d, e, f, b, a]"
    by (subst byte_swap_loop.simps) (simp add: numeral_2_eq_2)
  also have "\<dots> = byte_swap_loop 3 4 [h, g, f, d, e, c, b, a]"
    by (subst byte_swap_loop.simps) simp
  also have "\<dots> = byte_swap_loop 4 3 [h, g, f, e, d, c, b, a]"
    by (subst byte_swap_loop.simps) simp
  also have "\<dots> = [h, g, f, e, d, c, b, a]"
    by (subst byte_swap_loop.simps) simp
  finally show ?thesis .
qed

text \<open>\<open>byte_swap64\<close>, which exchanges the octets of its argument in place from both ends, computes
  the same function as \<open>PLAT_htonll\<close>, which is composed of two 32-bit swaps.\<close>

theorem byte_swap64_htonll: "byte_swap64 x = PLAT_htonll x"
  by (simp add: byte_swap64_def PLAT_htonll_bswap bswap_def le_bytes_numeral byte_swap_loop_8)

text \<open>The clock identity made from a link-layer address is the EUI-64 of IEEE 802.1AS 8.5.2.2: the
  three octets of the organisation, the octets FF and FE, and the other three octets, in wire
  order.\<close>

theorem cid_set_address_octets: 
  assumes "length m = ETHER_ADDR_OCTETS"
  shows "cid (cid_set_address \<lparr>addr = m\<rparr>) = take 3 m @ [0xFF, 0xFE] @ drop 3 m"
proof -
  let ?t = "of_le m :: u64"
  have m: "length m = 6" using assms by (simp add: ETHER_ADDR_OCTETS_def)
  have "?t AND 0xFFFFFF = of_le (take 3 m)"
    using take_bit_of_le [of 3 m, where ?'a = 64] by (simp add: take_bit_eq_mask mask_numeral)
  then have lo: "ucast (ucast (?t AND 0xFFFFFF) :: u32) = (of_le (take 3 m) :: u64)"
    using m by (simp add: ucast_of_le)
  have "push_bit 16 (drop_bit 24 ?t) OR 0xFEFF = of_le ([0xFF, 0xFE] @ drop 3 m)"
    using m drop_bit_of_le [of m 3, where ?'a = 64]
    by (subst of_le_append) (simp add: or.commute)
  then have "push_bit 24 (push_bit 16 (drop_bit 24 ?t) OR 0xFEFF) OR of_le (take 3 m) =
      of_le (take 3 m @ [0xFF, 0xFE] @ drop 3 m)"
    using m by (subst of_le_append) (simp add: or.commute del: of_le.simps)
  then show ?thesis
    using m by (simp only: cid_set_address_def Let_def toOctetArray_def LinkLayerAddress.simps lo
     ClockIdentity.simps PTP_CLOCK_IDENTITY_LENGTH_def) (subst le_bytes_of_le; simp)
qed

theorem cid_set_address_octets_witness:
  "cid (cid_set_address \<lparr>addr = [0, 0x1B, 0x21, 0xAA, 0xBB, 0xCC]\<rparr>) =
     [0, 0x1B, 0x21, 0xFF, 0xFE, 0xAA, 0xBB, 0xCC]"
  using cid_set_address_octets [of "[0, 0x1B, 0x21, 0xAA, 0xBB, 0xCC]"]
  by (simp add: ETHER_ADDR_OCTETS_def numeral_3_eq_3)

lemma lla_octets_nth:
  "k < n \<Longrightarrow> lla_octets n s ! k = ucast (drop_bit 56 (push_bit (8 * k) s))"
proof (induction n arbitrary: k s)
  case (Suc n)
  have "ucast (drop_bit 56 (s AND 0xFF00000000000000)) = (ucast (drop_bit 56 s) :: u8)"
  proof -
    have "s AND 0xFF00000000000000 = s AND push_bit 56 (mask 8)"
      by (simp add: mask_numeral push_bit_eq_mult)
    also have "(ucast (drop_bit 56 (s AND push_bit 56 (mask 8))) :: u8) = ucast (drop_bit 56 s)"
      by (intro bit_word_eqI)
        (simp only: bit_ucast_iff bit_drop_bit_eq bit_and_iff bit_push_bit_iff bit_mask_iff o_apply, simp)
    finally show ?thesis .
  qed
  with Suc show ?case
    by (cases k) (simp_all add: add.commute)
qed simp

lemma length_lla_octets [simp]: "length (lla_octets n s) = n"
  by (induction n arbitrary: s) simp_all

lemma LinkLayerAddress_scalar_octets: "addr (LinkLayerAddress_scalar s) = rev (le_bytes 6 s)"
proof (rule nth_equalityI)
  fix k assume "k < length (addr (LinkLayerAddress_scalar s))"
  then have k: "k < 6"
    by (simp add: LinkLayerAddress_scalar_def ETHER_ADDR_OCTETS_def)
  have "rev (le_bytes 6 s) ! k = le_bytes 6 s ! (5 - k)"
    using k by (simp add: rev_nth)
  also have "\<dots> = ucast (drop_bit (8 * (5 - k)) s)"
    by (rule nth_le_bytes) simp
  also have "\<dots> = ucast (drop_bit 56 (push_bit (8 * k) (push_bit 16 s)))"
    by (rule bit_word_eqI) (use k in \<open>auto simp add: bit_ucast_iff bit_drop_bit_eq bit_push_bit_iff algebra_simps dest: bit_imp_le_length\<close>)
  finally show "addr (LinkLayerAddress_scalar s) ! k = rev (le_bytes 6 s) ! k"
    using k by (simp add: LinkLayerAddress_scalar_def ETHER_ADDR_OCTETS_def lla_octets_nth del: lla_octets.simps push_bit_push_bit)
qed (simp add: LinkLayerAddress_scalar_def ETHER_ADDR_OCTETS_def)

lemma cid_inject: "cid a = cid b \<longleftrightarrow> a = (b :: ClockIdentity)"
  by (cases a; cases b) simp

lemma cid_eq_iff: "wf_cid a \<Longrightarrow> wf_cid b \<Longrightarrow> cid_eq a b \<longleftrightarrow> a = b"
  using memcmp_be_val [of "cid a" "cid b"] by (simp add: cid_eq_def wf_cid_def cid_inject)

lemma cid_less_iff: "wf_cid a \<Longrightarrow> wf_cid b \<Longrightarrow> cid_less a b \<longleftrightarrow> be_val (cid a) < be_val (cid b)"
  using memcmp_be_val [of "cid a" "cid b"] by (simp add: cid_less_def wf_cid_def)

lemma wf_cid_set_address: "length (addr a) = ETHER_ADDR_OCTETS \<Longrightarrow> wf_cid (cid_set_address a)"
  by (simp add: wf_cid_def cid_set_address_def Let_def)

lemma pi_less_key:
  assumes "wf_cid (clock_id a)" "wf_cid (clock_id b)"
  shows "pi_less a b \<longleftrightarrow> pi_key a < pi_key b"
proof -
  note n = u16_bounds [of "portNumber a"] u16_bounds [of "portNumber b"]
  have "be_val (cid (clock_id a)) = be_val (cid (clock_id b)) \<longleftrightarrow> cid_eq (clock_id a) (clock_id b)"
    using assms by (simp add: cid_eq_iff be_val_inj wf_cid_def cid_inject)
  then show ?thesis
    using n assms by (auto simp add: pi_less_def cid_less_iff pi_key_def word_less_def; use n in linarith)
qed

section \<open>Timestamp arithmetic\<close>

lemma wf_ts_uint: "wf_ts t \<longleftrightarrow> uint (nanoseconds t) < 10 ^ 9"
  by (simp add: wf_ts_def MAX_NANOSECONDS_def word_less_def)

lemma ts_ns_wrap:
  "(((m mod 2 ^ 16) * 2 ^ 32 + l) * 10 ^ 9 + n) mod TS_MODULUS = ((m * 2 ^ 32 + l) * 10 ^ 9 + n) mod TS_MODULUS"
proof -
  define q where "q = m div 2 ^ 16"
  have "m = m mod 2 ^ 16 + q * 2 ^ 16"
    by (simp add: q_def)
  then have "(m * 2 ^ 32 + l) * 10 ^ 9 + n = ((m mod 2 ^ 16) * 2 ^ 32 + l) * 10 ^ 9 + n + q * TS_MODULUS"
    by (subst \<open>m = _\<close>) (simp only: TS_MODULUS_def, simp add: algebra_simps)
  then show ?thesis by (simp only: mod_mult_self1)
qed

lemma ts_mod_eq_iff:
  assumes "x - y = k * 10 ^ 9" and "- (2 ^ 48) < k" and "k < 2 ^ 48"
  shows "x mod TS_MODULUS = y mod TS_MODULUS \<longleftrightarrow> k = 0"
proof -
  have "x mod TS_MODULUS = y mod TS_MODULUS \<longleftrightarrow> TS_MODULUS dvd k * 10 ^ 9"
    using assms(1) by (simp add: mod_eq_dvd_iff)
  also have "\<dots> \<longleftrightarrow> 2 ^ 48 dvd k"
    by (auto simp add: TS_MODULUS_def dvd_def)
  also have "\<dots> \<longleftrightarrow> k = 0"
    using assms(2,3) by (auto dest: zdvd_imp_le)
  finally show ?thesis .
qed

lemma ts_add_fields:
  assumes "wf_ts t" and "wf_ts u"
  defines "c \<equiv> (if uint (nanoseconds t) + uint (nanoseconds u) < 10 ^ 9 then 0 else 1 :: int)"
  shows "uint (nanoseconds (ts_add t u)) = uint (nanoseconds t) + uint (nanoseconds u) - c * 10 ^ 9"
    "uint (seconds_ls (ts_add t u)) = (uint (seconds_ls t) + uint (seconds_ls u) + c) mod 2 ^ 32"
    "uint (seconds_ms (ts_add t u)) =
      (uint (seconds_ms t) + uint (seconds_ms u) + (if seconds_ls (ts_add t u) < seconds_ls t then 1 else 0)) mod 2 ^ 16"
proof -
  let ?n = "nanoseconds t + nanoseconds u"
  have n: "uint ?n = uint (nanoseconds t) + uint (nanoseconds u)"
    using assms by (simp add: uint_plus_u32 wf_ts_uint)
  have carry: "(?n < nanoseconds t \<or> ?n \<ge> MAX_NANOSECONDS) \<longleftrightarrow> c = 1"
    using assms u32_bounds [of "nanoseconds u"] by (simp add: word_less_def word_le_def n MAX_NANOSECONDS_def c_def)
  have c: "c = 0 \<or> c = 1" by (simp add: c_def)
  show "uint (nanoseconds (ts_add t u)) = uint (nanoseconds t) + uint (nanoseconds u) - c * 10 ^ 9"
    using n by (simp only: ts_add_def Let_def carry Timestamp.simps)
      (auto simp add: c_def uint_sub_if' MAX_NANOSECONDS_def split: if_splits)
  show "uint (seconds_ls (ts_add t u)) = (uint (seconds_ls t) + uint (seconds_ls u) + c) mod 2 ^ 32"
    using c by (simp only: ts_add_def Let_def carry Timestamp.simps)
      (auto simp add: uint_word_ariths mod_simps)
  show "uint (seconds_ms (ts_add t u)) =
      (uint (seconds_ms t) + uint (seconds_ms u) + (if seconds_ls (ts_add t u) < seconds_ls t then 1 else 0)) mod 2 ^ 16"
    by (simp add: ts_add_def Let_def uint_word_ariths mod_simps)
qed

lemma wf_ts_add: "wf_ts t \<Longrightarrow> wf_ts u \<Longrightarrow> wf_ts (ts_add t u)"
  by (simp add: wf_ts_uint ts_add_fields)

text \<open>C40. The sum of two timestamps with nanoseconds below one second denotes the sum of their values,
  modulo the 48 bits of seconds, exactly when it is not the case that the second operand has
  \<open>seconds_ls\<close> at its maximum while the nanoseconds carry: there the carry out of \<open>seconds_ls\<close>, which
  is detected by comparison with the first operand, is lost.\<close>

theorem ts_add_exact:
  assumes "wf_ts t" and "wf_ts u"
  shows "ts_ns (ts_add t u) mod TS_MODULUS = (ts_ns t + ts_ns u) mod TS_MODULUS \<longleftrightarrow>
    \<not> (seconds_ls u = 0xFFFFFFFF \<and> uint (nanoseconds t) + uint (nanoseconds u) \<ge> 10 ^ 9)"
proof -
  define c :: int where "c = (if uint (nanoseconds t) + uint (nanoseconds u) < 10 ^ 9 then 0 else 1)"
  define d :: int where "d = (if seconds_ls (ts_add t u) < seconds_ls t then 1 else 0)"
  let ?l = "uint (seconds_ls t) + uint (seconds_ls u) + c"
  let ?m = "uint (seconds_ms t) + uint (seconds_ms u)"
  let ?n = "uint (nanoseconds t) + uint (nanoseconds u)"
  note f = ts_add_fields [OF assms, folded c_def d_def]
  note b = u32_bounds [of "seconds_ls t"] u32_bounds [of "seconds_ls u"]
  have wrap: "ts_ns (ts_add t u) mod TS_MODULUS =
      (((?m + d) * 2 ^ 32 + ?l mod 2 ^ 32) * 10 ^ 9 + (?n - c * 10 ^ 9)) mod TS_MODULUS" (is "_ = ?x mod _")
    unfolding ts_ns_def f by (rule ts_ns_wrap)
  have diff: "?x - (ts_ns t + ts_ns u) = ((d - ?l div 2 ^ 32) * 2 ^ 32) * 10 ^ 9"
    unfolding ts_ns_def minus_mult_div_eq_mod [symmetric, of ?l "2 ^ 32"] by (simp add: algebra_simps)
  have q: "?l div 2 ^ 32 = (if ?l < 2 ^ 32 then 0 else 1)"
    using b by (auto simp add: c_def div_pos_geq)
  have "ts_ns (ts_add t u) mod TS_MODULUS = (ts_ns t + ts_ns u) mod TS_MODULUS \<longleftrightarrow>
      (d - ?l div 2 ^ 32) * 2 ^ 32 = 0"
    unfolding wrap by (rule ts_mod_eq_iff [OF diff]) (simp_all add: q [simplified] d_def)
  also have "\<dots> \<longleftrightarrow> d = ?l div 2 ^ 32"
    by simp
  also have "d = (if ?l mod 2 ^ 32 < uint (seconds_ls t) then 1 else 0)"
    by (simp add: d_def word_less_def f)
  also have "?l mod 2 ^ 32 = ?l - (?l div 2 ^ 32) * 2 ^ 32"
    by (simp add: minus_div_mult_eq_mod)
  also have "(if ?l - (?l div 2 ^ 32) * 2 ^ 32 < uint (seconds_ls t) then 1 else 0) = ?l div 2 ^ 32 \<longleftrightarrow>
    \<not> (uint (seconds_ls u) = 0xFFFFFFFF \<and> c = 1)"
    unfolding q using b by (auto simp add: c_def; use b in linarith)
  finally show ?thesis
    by (simp add: c_def word_uint_eq_iff not_le)
qed

theorem ts_add_exact_witness:
  "ts_ns (ts_add (Timestamp_new 600000000 5 0) (Timestamp_new 700000000 9 0)) mod TS_MODULUS =
     (ts_ns (Timestamp_new 600000000 5 0) + ts_ns (Timestamp_new 700000000 9 0)) mod TS_MODULUS
   \<and> ts_ns (ts_add (Timestamp_new 600000000 5 0) (Timestamp_new 700000000 0xFFFFFFFF 0))
       mod TS_MODULUS \<noteq>
     (ts_ns (Timestamp_new 600000000 5 0) + ts_ns (Timestamp_new 700000000 0xFFFFFFFF 0))
       mod TS_MODULUS"
proof -
  have wf: "wf_ts (Timestamp_new 600000000 5 0)" "wf_ts (Timestamp_new 700000000 9 0)"
    "wf_ts (Timestamp_new 700000000 0xFFFFFFFF 0)"
    by (simp_all add: wf_ts_uint Timestamp_new_def)
  show ?thesis
    unfolding ts_add_exact [OF wf(1,2)] ts_add_exact [OF wf(1,3)] by (simp add: Timestamp_new_def)
qed

lemma ts_sub_fields:
  assumes "wf_ts t" and "wf_ts u"
  defines "bn \<equiv> (if uint (nanoseconds t) < uint (nanoseconds u) then 1 else 0 :: int)"
  defines "bl \<equiv> (uint (seconds_ls t) < uint (seconds_ls u) + bn)"
  defines "bt \<equiv> (if bl then bn + 1 else 0)"
  shows "uint (nanoseconds (ts_sub t u)) = uint (nanoseconds t) - uint (nanoseconds u) + bn * 10 ^ 9"
    "uint (seconds_ls (ts_sub t u)) =
       (uint (seconds_ls t) - uint (seconds_ls u) - (if bl then 1 else bn)) mod 2 ^ 32"
    "uint (seconds_ms (ts_sub t u)) =
       (uint (seconds_ms t) - uint (seconds_ms u) -
         (if uint (seconds_ms t) < uint (seconds_ms u) + bt then 1 else bt)) mod 2 ^ 16"
proof -
  let ?n = "((if nanoseconds t < nanoseconds u then MAX_NANOSECONDS else 0) + nanoseconds t) - nanoseconds u"
  let ?b = "if nanoseconds t < nanoseconds u then 1 else 0 :: u32"
  let ?b' = "if bl then ?b + 1 else 0 :: u32"
  note ns = u32_bounds [of "nanoseconds t"] u32_bounds [of "nanoseconds u"]
  have n: "uint ?n = uint (nanoseconds t) - uint (nanoseconds u) + bn * 10 ^ 9"
    using assms(1,2) by (auto simp add: bn_def wf_ts_uint word_less_def uint_plus_u32 uint_sub_if'
        MAX_NANOSECONDS_def; use ns in linarith)
  have carry: "\<not> (?n > MAX_NANOSECONDS)"
    using assms(1,2) unfolding not_less word_le_def n
    by (simp add: bn_def MAX_NANOSECONDS_def wf_ts_uint) (use ns in linarith)
  have b: "uint ?b = bn"
    by (simp add: bn_def word_less_def)
  have bl: "(?b > seconds_ls t \<or> seconds_ls t - ?b < seconds_ls u) \<longleftrightarrow> bl"
    unfolding borrow_test b by (simp add: bl_def)
  have b': "uint ?b' = bt"
    by (simp add: bt_def bn_def word_less_def)
  have bm: "(?b' > ucast (seconds_ms t) \<or> ucast (seconds_ms t) - ?b' < ucast (seconds_ms u)) \<longleftrightarrow>
      uint (seconds_ms t) < uint (seconds_ms u) + bt"
    unfolding borrow_test b' by (simp add: uint_up_ucast is_up)
  show "uint (nanoseconds (ts_sub t u)) = uint (nanoseconds t) - uint (nanoseconds u) + bn * 10 ^ 9"
    by (simp only: ts_sub_def Let_def carry if_False Timestamp.simps diff_zero n)
  show "uint (seconds_ls (ts_sub t u)) =
       (uint (seconds_ls t) - uint (seconds_ls u) - (if bl then 1 else bn)) mod 2 ^ 32"
    unfolding b [symmetric] by (simp only: ts_sub_def Let_def carry if_False bl add_0 Timestamp.simps)
     (simp add: uint_word_ariths mod_simps algebra_simps)
  show "uint (seconds_ms (ts_sub t u)) =
       (uint (seconds_ms t) - uint (seconds_ms u) -
         (if uint (seconds_ms t) < uint (seconds_ms u) + bt then 1 else bt)) mod 2 ^ 16"
    by (simp only: ts_sub_def Let_def carry if_False bl bm add_0 Timestamp.simps)
      (use uint_ucast_sub [of "seconds_ms t" 1 "seconds_ms u"] uint_ucast_sub [of "seconds_ms t" ?b' "seconds_ms u"] in
        \<open>simp add: b' algebra_simps\<close>)
qed

lemma wf_ts_sub: "wf_ts t \<Longrightarrow> wf_ts u \<Longrightarrow> wf_ts (ts_sub t u)"
  by (simp add: wf_ts_uint ts_sub_fields) (use u32_bounds [of "nanoseconds u"] in linarith)

text \<open>The difference of two timestamps with nanoseconds below one second denotes the difference of
  their values, modulo the 48 bits of seconds, exactly in these cases: without a borrow into
  \<open>seconds_ls\<close>, when \<open>seconds_ms\<close> needs no borrow either; with one, when the nanoseconds borrow as
  well and the \<open>seconds_ms\<close> are less than two apart.\<close>

theorem ts_sub_exact:
  assumes "wf_ts t" and "wf_ts u"
  defines "bn \<equiv> nanoseconds t < nanoseconds u"
  defines "bl \<equiv> uint (seconds_ls t) < uint (seconds_ls u) + of_bool bn"
  shows "ts_ns (ts_sub t u) mod TS_MODULUS = (ts_ns t - ts_ns u) mod TS_MODULUS \<longleftrightarrow>
    (if bl then bn \<and> uint (seconds_ms t) < uint (seconds_ms u) + 2
     else seconds_ms t \<ge> seconds_ms u)"
proof -
  define n :: int where "n = (if uint (nanoseconds t) < uint (nanoseconds u) then 1 else 0)"
  define k :: int where "k = (if bl then 1 else n)"
  define bt :: int where "bt = (if bl then n + 1 else 0)"
  define d :: int where "d = (if uint (seconds_ms t) < uint (seconds_ms u) + bt then 1 else bt)"
  have bn: "of_bool bn = n" by (simp add: bn_def n_def word_less_def)
  note f = ts_sub_fields [OF assms(1,2), folded n_def bn, folded bl_def, unfolded bn, folded bt_def, folded d_def k_def]
  note b = u32_bounds [of "seconds_ls t"] u32_bounds [of "seconds_ls u"]
  let ?l = "uint (seconds_ls t) - uint (seconds_ls u) - k"
  let ?m = "uint (seconds_ms t) - uint (seconds_ms u)"
  let ?n = "uint (nanoseconds t) - uint (nanoseconds u)"
  have wrap: "ts_ns (ts_sub t u) mod TS_MODULUS =
      (((?m - d) * 2 ^ 32 + ?l mod 2 ^ 32) * 10 ^ 9 + (?n + n * 10 ^ 9)) mod TS_MODULUS" (is "_ = ?x mod _")
    unfolding ts_ns_def f by (rule ts_ns_wrap)
  have diff: "?x - (ts_ns t - ts_ns u) = ((- d - ?l div 2 ^ 32) * 2 ^ 32 + n - k) * 10 ^ 9"
    unfolding ts_ns_def minus_mult_div_eq_mod [symmetric, of ?l "2 ^ 32"] by (simp add: algebra_simps)
  have k: "0 \<le> k" "k \<le> 1"
    by (simp_all add: k_def n_def)
  have q: "?l div 2 ^ 32 = (if ?l < 0 then - 1 else 0)"
    by (rule div_near_zero) (use b k in linarith)+
  have d: "0 \<le> d" "d \<le> 2"
    by (simp_all add: d_def bt_def n_def)
  have "ts_ns (ts_sub t u) mod TS_MODULUS = (ts_ns t - ts_ns u) mod TS_MODULUS \<longleftrightarrow>
      (- d - ?l div 2 ^ 32) * 2 ^ 32 + n - k = 0"
    unfolding wrap by (rule ts_mod_eq_iff [OF diff]) (use k d in \<open>simp_all add: q [simplified] n_def\<close>)
  also have "\<dots> \<longleftrightarrow> (if bl then n = 1 \<and> uint (seconds_ms t) < uint (seconds_ms u) + 2
     else uint (seconds_ms t) \<ge> uint (seconds_ms u))"
    unfolding q by (cases bl; cases "n = 1"; use b in \<open>auto simp add: k_def d_def bt_def bl_def bn n_def\<close>)
  finally show ?thesis
    by (simp add: word_le_def n_def bn_def word_less_def)
qed

theorem ts_sub_exact_witness:
  "ts_ns (ts_sub (Timestamp_new 100000000 9 0) (Timestamp_new 700000000 5 0)) mod TS_MODULUS =
     (ts_ns (Timestamp_new 100000000 9 0) - ts_ns (Timestamp_new 700000000 5 0)) mod TS_MODULUS
   \<and> ts_ns (ts_sub (Timestamp_new 700000000 5 1) (Timestamp_new 100000000 9 0)) mod TS_MODULUS \<noteq>
     (ts_ns (Timestamp_new 700000000 5 1) - ts_ns (Timestamp_new 100000000 9 0)) mod TS_MODULUS"
proof -
  have wf: "wf_ts (Timestamp_new 100000000 9 0)" "wf_ts (Timestamp_new 700000000 5 0)"
    "wf_ts (Timestamp_new 700000000 5 1)"
    by (simp_all add: wf_ts_uint Timestamp_new_def)
  show ?thesis
    unfolding ts_sub_exact [OF wf(1,2)] ts_sub_exact [OF wf(3,1)] by (simp add: Timestamp_new_def)
qed

lemma ts_secs_join:
  "uint (ucast (l :: u32) OR push_bit 32 (ucast (m :: u16)) :: u64) = uint m * 2 ^ 32 + uint l"
proof -
  have "(ucast l :: u64) AND push_bit 32 (ucast m) = 0"
    by (rule bit_word_eqI) (auto simp add: bit_and_iff bit_push_bit_iff bit_ucast_iff dest: bit_imp_le_length)
  then have "(ucast l OR push_bit 32 (ucast m) :: u64) = ucast l + push_bit 32 (ucast m)"
    by (simp add: disjunctive_add_eq_or)
  also have "\<dots> = word_of_int (uint m * 2 ^ 32 + uint l)"
    by (simp add: push_bit_eq_mult)
  also have "uint \<dots> = uint m * 2 ^ 32 + uint l"
    by (subst uint_word_of_int, rule mod_pos_pos_trivial)
      (use u16_bounds [of m] u32_bounds [of l] in simp_all)
  finally show ?thesis .
qed

lemma ts_secs_split:
  "uint (ucast (drop_bit 32 (s :: u64)) :: u16) * 2 ^ 32 + uint (ucast (s AND LS_SEC_MAX) :: u32) =
     uint s mod 2 ^ 48"
proof -
  have "s AND LS_SEC_MAX = take_bit 32 s"
    by (simp add: take_bit_eq_mask mask_numeral LS_SEC_MAX_def)
  then have "uint (ucast (s AND LS_SEC_MAX) :: u32) = uint s mod 2 ^ 32"
    by (simp only: unsigned_ucast_eq unsigned_take_bit_eq) (simp add: take_bit_eq_mod)
  moreover have "uint (ucast (drop_bit 32 s) :: u16) = (uint s div 2 ^ 32) mod 2 ^ 16"
    by (simp add: unsigned_ucast_eq take_bit_eq_mod drop_bit_eq_div uint_div)
  moreover have "uint s mod (2 ^ 32 * 2 ^ 16) = 2 ^ 32 * ((uint s div 2 ^ 32) mod 2 ^ 16) + uint s mod 2 ^ 32"
    by (rule zmod_zmult2_eq) simp
  ultimately show ?thesis by simp
qed

lemma ts_ns_wrap48: "((s mod 2 ^ 48) * 10 ^ 9 + n) mod TS_MODULUS = (s * 10 ^ 9 + n) mod TS_MODULUS"
  unfolding TS_MODULUS_def by (rule mod_scale)

lemma TIMESTAMP_TO_NS_ts_ns: "TIMESTAMP_TO_NS t = word_of_int (ts_ns t)"
  by (simp add: TIMESTAMP_TO_NS_def ts_ns_def push_bit_eq_mult)

lemma ts_ns_set64: "ts_ns (ts_set64 v t) = uint v" "wf_ts (ts_set64 v t)"
proof -
  let ?q = "uint v div 10 ^ 9"
  have ls: "uint (seconds_ls (ts_set64 v t)) = ?q mod 2 ^ 32"
    by (simp add: ts_set64_def unsigned_ucast_eq take_bit_eq_mod uint_div)
  have "?q < 2 ^ 48"
    using uint_lt2p [of v] by simp
  then have "(?q div 2 ^ 32) mod 2 ^ 16 = ?q div 2 ^ 32"
    by (intro mod_pos_pos_trivial) (simp_all add: pos_imp_zdiv_nonneg_iff)
  then have ms: "uint (seconds_ms (ts_set64 v t)) = ?q div 2 ^ 32"
    by (simp add: ts_set64_def unsigned_ucast_eq take_bit_eq_mod uint_div unsigned_drop_bit_eq drop_bit_eq_div)
  have ns: "uint (nanoseconds (ts_set64 v t)) = uint v mod 10 ^ 9"
    by (simp add: ts_set64_def unsigned_ucast_eq take_bit_eq_mod uint_mod)
  show "ts_ns (ts_set64 v t) = uint v"
    unfolding ts_ns_def ls ms ns by simp
  show "wf_ts (ts_set64 v t)"
    by (simp add: wf_ts_uint ns)
qed

text \<open>Every 64-bit count of nanoseconds written into a timestamp by \<open>set64\<close> is the one
  \<open>TIMESTAMP_TO_NS\<close> reads back.\<close>

theorem TIMESTAMP_TO_NS_set64: "TIMESTAMP_TO_NS (ts_set64 v t) = v"
  by (simp add: TIMESTAMP_TO_NS_ts_ns ts_ns_set64)

lemma ts_ns_inj:
  assumes "wf_ts t" and "wf_ts u" and "ts_ns t = ts_ns u" and "ts_version t = ts_version u"
  shows "t = u"
proof -
  have "uint (seconds_ms t) * 2 ^ 32 + uint (seconds_ls t) = uint (seconds_ms u) * 2 ^ 32 + uint (seconds_ls u)
      \<and> uint (nanoseconds t) = uint (nanoseconds u)"
    using assms unfolding ts_ns_def wf_ts_uint by (intro radix_unique [of _ "10 ^ 9"]) simp_all
  moreover from this have "uint (seconds_ms t) = uint (seconds_ms u) \<and> uint (seconds_ls t) = uint (seconds_ls u)"
    by (intro radix_unique [of _ "2 ^ 32"]) (use u32_bounds in simp_all)
  ultimately show ?thesis
    using assms(4) by (simp add: word_uint_eq_iff)
qed

text \<open>Writing the 64-bit nanosecond count of a timestamp back with \<open>set64\<close> restores it, when the
  timestamp has nanoseconds below one second and its value fits 64 bits.\<close>

theorem ts_set64_TIMESTAMP_TO_NS:
  assumes "wf_ts t" and "ts_ns t < 2 ^ 64"
  shows "ts_set64 (TIMESTAMP_TO_NS t) t = t"
proof (rule ts_ns_inj)
  have "0 \<le> ts_ns t"
    by (simp add: ts_ns_def)
  then show "ts_ns (ts_set64 (TIMESTAMP_TO_NS t) t) = ts_ns t"
    using assms(2) by (simp add: ts_ns_set64 TIMESTAMP_TO_NS_ts_ns uint_word_of_int)
next
  show "ts_version (ts_set64 (TIMESTAMP_TO_NS t) t) = ts_version t"
    by (simp add: ts_set64_def)
qed (simp_all add: assms ts_ns_set64)

theorem ts_set64_TIMESTAMP_TO_NS_witness:
  "ts_set64 (TIMESTAMP_TO_NS (Timestamp_new 7 1 1)) (Timestamp_new 7 1 1) = Timestamp_new 7 1 1"
  by (rule ts_set64_TIMESTAMP_TO_NS) (simp_all add: wf_ts_uint ts_ns_def Timestamp_new_def)

lemma ts_ns_secs: "ts_ns t = ts_secs t * 10 ^ 9 + uint (nanoseconds t)"
  by (simp add: ts_ns_def ts_secs_def)

lemma uint_secs_add:
  "uint (a + b + c :: u64) mod 2 ^ 48 = (uint a + uint b + uint c) mod 2 ^ 48"
  by (simp add: uint_word_ariths mod_mod_cancel mod_simps)

lemma uint_secs_sub:
  "uint (a - b - c :: u64) mod 2 ^ 48 = (uint a - uint b - uint c) mod 2 ^ 48"
  by (simp add: uint_word_ariths mod_mod_cancel mod_simps)

lemma TIMESTAMP_ADD_NS_fields:
  assumes "wf_ts t" and ns: "uint ns div 10 ^ 9 = q" "uint ns mod 10 ^ 9 = r"
  defines "n \<equiv> uint (nanoseconds t) + r"
  shows "uint (nanoseconds (TIMESTAMP_ADD_NS t ns)) = (if n > 10 ^ 9 then n - 10 ^ 9 else n)"
    "ts_secs (TIMESTAMP_ADD_NS t ns) = (ts_secs t + q + (if n > 10 ^ 9 then 1 else 0)) mod 2 ^ 48"
proof -
  let ?n = "ucast (nanoseconds t) + ns mod NS_PER_SECOND :: u64"
  let ?s = "(ucast (seconds_ls t) OR push_bit 32 (ucast (seconds_ms t))) + ns div NS_PER_SECOND :: u64"
  have b: "0 \<le> uint (nanoseconds t)" "uint (nanoseconds t) < 10 ^ 9" "r < 10 ^ 9" "0 \<le> r"
    using assms(1) ns(2) by (auto simp add: wf_ts_uint)
  have "uint (ucast (nanoseconds t) :: u64) = uint (nanoseconds t)" "uint (ns mod NS_PER_SECOND) = r"
    using ns(2) by (simp_all add: uint_up_ucast is_up uint_mod NS_PER_SECOND_def)
  with b have n: "uint ?n = n"
    by (simp add: uint_plus_if' n_def)
  have c: "NS_PER_SECOND < ?n \<longleftrightarrow> n > 10 ^ 9"
    by (simp only: word_less_def n) (simp add: NS_PER_SECOND_def)
  have n': "uint (?n - NS_PER_SECOND) = n - 10 ^ 9" if "n > 10 ^ 9"
    using that by (simp add: uint_sub_if' n) (simp add: NS_PER_SECOND_def)
  have "n < 2 * 10 ^ 9"
    using b by (simp add: n_def)
  then show "uint (nanoseconds (TIMESTAMP_ADD_NS t ns)) = (if n > 10 ^ 9 then n - 10 ^ 9 else n)"
    using n n' by (cases "n > 10 ^ 9") (simp_all add: TIMESTAMP_ADD_NS_def Let_def c uint_ucast_u32)
  have s: "uint (?s + d) mod 2 ^ 48 = (ts_secs t + q + uint d) mod 2 ^ 48" for d
    unfolding ns(1) [symmetric]
    by (simp only: uint_secs_add ts_secs_join ts_secs_def uint_div) (simp add: NS_PER_SECOND_def)
  show "ts_secs (TIMESTAMP_ADD_NS t ns) = (ts_secs t + q + (if n > 10 ^ 9 then 1 else 0)) mod 2 ^ 48"
    using s [of 1] s [of 0]
    by (simp add: TIMESTAMP_ADD_NS_def Let_def c ts_secs_def ts_secs_split [simplified])
qed

lemma TIMESTAMP_SUB_NS_fields:
  assumes "wf_ts t" and ns: "uint ns div 10 ^ 9 = q" "uint ns mod 10 ^ 9 = r"
  defines "n \<equiv> uint (nanoseconds t) - r"
  shows "uint (nanoseconds (TIMESTAMP_SUB_NS t ns)) = (if n < 0 then n + 10 ^ 9 else n)"
    "ts_secs (TIMESTAMP_SUB_NS t ns) = (ts_secs t - q - (if n < 0 then 1 else 0)) mod 2 ^ 48"
proof -
  let ?n = "ucast (nanoseconds t) :: u64"
  let ?r = "ns mod NS_PER_SECOND"
  let ?s = "(ucast (seconds_ls t) OR push_bit 32 (ucast (seconds_ms t))) - ns div NS_PER_SECOND :: u64"
  have b: "0 \<le> uint (nanoseconds t)" "uint (nanoseconds t) < 10 ^ 9" "r < 10 ^ 9" "0 \<le> r"
    using assms(1) ns(2) by (auto simp add: wf_ts_uint)
  have u: "uint ?n = uint (nanoseconds t)" "uint ?r = r" "uint NS_PER_SECOND = 10 ^ 9"
    using ns(2) by (simp_all add: uint_up_ucast is_up uint_mod NS_PER_SECOND_def)
  have c: "?n < ?r \<longleftrightarrow> n < 0"
    by (simp only: word_less_def u n_def) simp
  have n1: "uint (?n + NS_PER_SECOND - ?r) = n + 10 ^ 9" if "n < 0"
    using b that unfolding uint_sub_if' uint_plus_if' u n_def by simp (use b in linarith)
  have n2: "uint (?n - ?r) = n" if "\<not> n < 0"
    using b that unfolding uint_sub_if' u n_def by simp
  show "uint (nanoseconds (TIMESTAMP_SUB_NS t ns)) = (if n < 0 then n + 10 ^ 9 else n)"
  proof (cases "n < 0")
    case True
    with n1 show ?thesis by (simp add: TIMESTAMP_SUB_NS_def Let_def c uint_ucast_u32)
  next
    case False
    moreover from this have "uint (?n - ?r) < 2 ^ 32"
      using n2 b by (simp add: n_def)
    ultimately show ?thesis
      using n2 by (simp add: TIMESTAMP_SUB_NS_def Let_def c uint_ucast_u32)
  qed
  have s: "uint (?s - d) mod 2 ^ 48 = (ts_secs t - q - uint d) mod 2 ^ 48" for d
    unfolding ns(1) [symmetric]
    by (simp only: uint_secs_sub ts_secs_join ts_secs_def uint_div) (simp add: NS_PER_SECOND_def)
  show "ts_secs (TIMESTAMP_SUB_NS t ns) = (ts_secs t - q - (if n < 0 then 1 else 0)) mod 2 ^ 48"
    using s [of 1] s [of 0]
    by (simp add: TIMESTAMP_SUB_NS_def Let_def c ts_secs_def ts_secs_split [simplified])
qed

text \<open>\<open>TIMESTAMP_ADD_NS\<close> always denotes the sum modulo the 48 bits of seconds, and it keeps the
  nanoseconds below one second exactly when the nanosecond parts do not add up to one second: the
  carry test is \<open>>\<close> where \<open>>=\<close> is needed.\<close>

theorem TIMESTAMP_ADD_NS_exact:
  assumes "wf_ts t"
  shows "ts_ns (TIMESTAMP_ADD_NS t ns) mod TS_MODULUS = (ts_ns t + uint ns) mod TS_MODULUS \<and>
    (wf_ts (TIMESTAMP_ADD_NS t ns) \<longleftrightarrow> uint (nanoseconds t) + uint ns mod 10 ^ 9 \<noteq> 10 ^ 9)"
proof -
  obtain q r where qr: "uint ns div 10 ^ 9 = q" "uint ns mod 10 ^ 9 = r" by blast
  have ns: "uint ns = q * 10 ^ 9 + r"
    using div_mult_mod_eq [of "uint ns" "10 ^ 9"] unfolding qr by simp
  have r: "0 \<le> r" "r < 10 ^ 9"
    using qr(2) by auto
  define n where "n = uint (nanoseconds t) + r"
  note f = TIMESTAMP_ADD_NS_fields [OF assms qr, folded n_def]
  have "ts_ns (TIMESTAMP_ADD_NS t ns) mod TS_MODULUS =
      ((ts_secs t + q + (if n > 10 ^ 9 then 1 else 0)) * 10 ^ 9 + (if n > 10 ^ 9 then n - 10 ^ 9 else n))
        mod TS_MODULUS"
    unfolding ts_ns_secs f by (rule ts_ns_wrap48)
  also have "(ts_secs t + q + (if n > 10 ^ 9 then 1 else 0)) * 10 ^ 9 + (if n > 10 ^ 9 then n - 10 ^ 9 else n) =
      ts_ns t + uint ns"
    unfolding n_def ts_ns_secs ns by (simp add: algebra_simps)
  finally show ?thesis
    using assms r unfolding wf_ts_uint f qr by (auto simp add: n_def)
qed

theorem TIMESTAMP_ADD_NS_exact_witness:
  "wf_ts (TIMESTAMP_ADD_NS (Timestamp_new 600000000 5 0) 1400000001)
   \<and> \<not> wf_ts (TIMESTAMP_ADD_NS (Timestamp_new 600000000 5 0) 1400000000)"
proof -
  have "wf_ts (Timestamp_new 600000000 5 0)"
    by (simp add: wf_ts_uint Timestamp_new_def)
  from TIMESTAMP_ADD_NS_exact [OF this, of 1400000001] TIMESTAMP_ADD_NS_exact [OF this, of 1400000000]
  show ?thesis by (simp add: Timestamp_new_def)
qed

text \<open>\<open>TIMESTAMP_SUB_NS\<close> denotes the difference modulo the 48 bits of seconds and keeps the
  nanoseconds below one second, for every timestamp that has them below one second.\<close>

theorem TIMESTAMP_SUB_NS_exact:
  assumes "wf_ts t"
  shows "ts_ns (TIMESTAMP_SUB_NS t ns) mod TS_MODULUS = (ts_ns t - uint ns) mod TS_MODULUS \<and>
    wf_ts (TIMESTAMP_SUB_NS t ns)"
proof -
  obtain q r where qr: "uint ns div 10 ^ 9 = q" "uint ns mod 10 ^ 9 = r" by blast
  have ns: "uint ns = q * 10 ^ 9 + r"
    using div_mult_mod_eq [of "uint ns" "10 ^ 9"] unfolding qr by simp
  have r: "0 \<le> r" "r < 10 ^ 9"
    using qr(2) by auto
  define n where "n = uint (nanoseconds t) - r"
  note f = TIMESTAMP_SUB_NS_fields [OF assms qr, folded n_def]
  have "ts_ns (TIMESTAMP_SUB_NS t ns) mod TS_MODULUS =
      ((ts_secs t - q - (if n < 0 then 1 else 0)) * 10 ^ 9 + (if n < 0 then n + 10 ^ 9 else n)) mod TS_MODULUS"
    unfolding ts_ns_secs f by (rule ts_ns_wrap48)
  also have "(ts_secs t - q - (if n < 0 then 1 else 0)) * 10 ^ 9 + (if n < 0 then n + 10 ^ 9 else n) =
      ts_ns t - uint ns"
    unfolding n_def ts_ns_secs ns by (simp add: algebra_simps)
  finally show ?thesis
    using assms r unfolding wf_ts_uint f by (auto simp add: n_def)
qed

theorem TIMESTAMP_SUB_NS_exact_witness:
  "wf_ts (TIMESTAMP_SUB_NS (Timestamp_new 600000000 5 0) 1700000000)"
  by (rule TIMESTAMP_SUB_NS_exact [THEN conjunct2]) (simp add: wf_ts_uint Timestamp_new_def)

end
