(* ===== verification/Ptp_Message.thy ===== *)
theory Ptp_Message
  imports Ieee1588 "HOL-Library.Monad_Syntax"
begin

text \<open>
  The PTP messages of \<open>common/avbts_message.hpp\<close> and their wire format in
  \<open>common/ptp_message.cpp\<close>: the message classes as records that extend \<open>PTPMessageCommon\<close>, the TLVs,
  the writers that the \<open>sendPort\<close> methods use to lay a message out in a zeroed buffer of 256 octets
  (the payload offset of the Linux interface is 0), and the reader \<open>buildPTPMessage\<close> up to its
  accesses to the port. Every access to a buffer is checked: a write or a read outside the array
  has no result. Multi-octet fields are copied in host order, which is little-endian.
\<close>

section \<open>Message types and offsets\<close>

text \<open>Enumerators are their numeric values: \<open>buildPTPMessage\<close> casts any nibble to \<open>MessageType\<close> and
  copies four octets over a \<open>LegacyMessageType\<close>.\<close>

type_synonym MessageType = u8

definition SYNC_MESSAGE :: MessageType where "SYNC_MESSAGE = 0"
definition DELAY_REQ_MESSAGE :: MessageType where "DELAY_REQ_MESSAGE = 1"
definition PATH_DELAY_REQ_MESSAGE :: MessageType where "PATH_DELAY_REQ_MESSAGE = 2"
definition PATH_DELAY_RESP_MESSAGE :: MessageType where "PATH_DELAY_RESP_MESSAGE = 3"
definition FOLLOWUP_MESSAGE :: MessageType where "FOLLOWUP_MESSAGE = 8"
definition DELAY_RESP_MESSAGE :: MessageType where "DELAY_RESP_MESSAGE = 9"
definition PATH_DELAY_FOLLOWUP_MESSAGE :: MessageType where "PATH_DELAY_FOLLOWUP_MESSAGE = 0xA"
definition ANNOUNCE_MESSAGE :: MessageType where "ANNOUNCE_MESSAGE = 0xB"
definition SIGNALLING_MESSAGE :: MessageType where "SIGNALLING_MESSAGE = 0xC"
definition MANAGEMENT_MESSAGE :: MessageType where "MANAGEMENT_MESSAGE = 0xD"

lemmas message_types =
  SYNC_MESSAGE_def DELAY_REQ_MESSAGE_def PATH_DELAY_REQ_MESSAGE_def PATH_DELAY_RESP_MESSAGE_def
  FOLLOWUP_MESSAGE_def DELAY_RESP_MESSAGE_def PATH_DELAY_FOLLOWUP_MESSAGE_def
  ANNOUNCE_MESSAGE_def SIGNALLING_MESSAGE_def MANAGEMENT_MESSAGE_def

definition LEGACY_SYNC :: u32 where "LEGACY_SYNC = 0"
definition LEGACY_FOLLOWUP :: u32 where "LEGACY_FOLLOWUP = 2"
definition LEGACY_MESSAGE_OTHER :: u32 where "LEGACY_MESSAGE_OTHER = 5"

datatype MulticastType = MCAST_NONE | MCAST_PDELAY | MCAST_TEST_STATUS | MCAST_OTHER

definition GPTP_VERSION :: u8 where "GPTP_VERSION = 2"
definition PTP_NETWORK_VERSION :: u16 where "PTP_NETWORK_VERSION = 1"

text \<open>Offsets of the common header and of the message bodies, each body starting at octet 34.\<close>

definition PTP_COMMON_HDR_LENGTH :: nat where [simp]: "PTP_COMMON_HDR_LENGTH = 34"
definition PTP_COMMON_HDR_PTP_VERSION :: nat where [simp]: "PTP_COMMON_HDR_PTP_VERSION = 1"
definition PTP_COMMON_HDR_MSG_LENGTH :: nat where [simp]: "PTP_COMMON_HDR_MSG_LENGTH = 2"
definition PTP_COMMON_HDR_DOMAIN_NUMBER :: nat where [simp]: "PTP_COMMON_HDR_DOMAIN_NUMBER = 4"
definition PTP_COMMON_HDR_FLAGS :: nat where [simp]: "PTP_COMMON_HDR_FLAGS = 6"
definition PTP_COMMON_HDR_CORRECTION :: nat where [simp]: "PTP_COMMON_HDR_CORRECTION = 8"
definition PTP_COMMON_HDR_SOURCE_CLOCK_ID :: nat where [simp]: "PTP_COMMON_HDR_SOURCE_CLOCK_ID = 20"
definition PTP_COMMON_HDR_SOURCE_PORT_ID :: nat where [simp]: "PTP_COMMON_HDR_SOURCE_PORT_ID = 28"
definition PTP_COMMON_HDR_SEQUENCE_ID :: nat where [simp]: "PTP_COMMON_HDR_SEQUENCE_ID = 30"
definition PTP_COMMON_HDR_CONTROL :: nat where [simp]: "PTP_COMMON_HDR_CONTROL = 32"
definition PTP_COMMON_HDR_LOG_MSG_INTRVL :: nat where [simp]: "PTP_COMMON_HDR_LOG_MSG_INTRVL = 33"
definition PTP_ANNOUNCE_LENGTH :: nat where [simp]: "PTP_ANNOUNCE_LENGTH = 30"
definition PTP_SYNC_LENGTH :: nat where [simp]: "PTP_SYNC_LENGTH = 10"
definition PTP_FOLLOWUP_LENGTH :: nat where [simp]: "PTP_FOLLOWUP_LENGTH = 10"
definition PTP_PDELAY_REQ_LENGTH :: nat where [simp]: "PTP_PDELAY_REQ_LENGTH = 20"
definition PTP_PDELAY_RESP_LENGTH :: nat where [simp]: "PTP_PDELAY_RESP_LENGTH = 20"
definition PTP_SIGNALLING_LENGTH :: nat where [simp]: "PTP_SIGNALLING_LENGTH = 10"

definition TX_TIMEOUT_ITER :: nat where "TX_TIMEOUT_ITER = 6"

text \<open>Bits of the flags field: byte and bit of the two-step and of the timescale flag.\<close>

definition PTP_ASSIST :: "octets \<Rightarrow> octets" where
  "PTP_ASSIST fl = fl[0 := fl ! 0 OR push_bit 1 1]"

definition PTP_PTPTIMESCALE :: "octets \<Rightarrow> octets" where
  "PTP_PTPTIMESCALE fl = fl[1 := fl ! 1 OR push_bit 3 1]"

section \<open>Message classes\<close>

record PTPMessageId =
  id_messageType :: MessageType
  id_sequenceId :: u16

definition msgid_neq :: "PTPMessageId \<Rightarrow> PTPMessageId \<Rightarrow> bool" where
  "msgid_neq a cmp \<longleftrightarrow>
     id_sequenceId a \<noteq> id_sequenceId cmp \<or> id_messageType a \<noteq> id_messageType cmp"

definition msgid_eq :: "PTPMessageId \<Rightarrow> PTPMessageId \<Rightarrow> bool" where
  "msgid_eq a cmp \<longleftrightarrow>
     id_sequenceId a = id_sequenceId cmp \<and> id_messageType a = id_messageType cmp"

record PTPMessageCommon =
  versionPTP :: u8
  versionNetwork :: u16
  messageType :: MessageType
  sourcePortIdentity :: PortIdentity
  sequenceId :: u16
  control :: u32
  flags :: octets
  messageLength :: u16
  logMeanMessageInterval :: u8
  correctionField :: u64
  domainNumber :: u8
  msg_timestamp :: Timestamp
  timestamp_counter_value :: u32
  gc :: bool

definition isEvent :: "'a PTPMessageCommon_scheme \<Rightarrow> bool" where
  "isEvent m \<longleftrightarrow> drop_bit 3 (messageType m) AND 1 = 0"

definition getMessageId :: "'a PTPMessageCommon_scheme \<Rightarrow> PTPMessageId" where
  "getMessageId m = \<lparr>id_messageType = messageType m, id_sequenceId = sequenceId m\<rparr>"

definition isSenderEqual :: "'a PTPMessageCommon_scheme \<Rightarrow> PortIdentity \<Rightarrow> bool" where
  "isSenderEqual m p \<longleftrightarrow> pi_eq p (sourcePortIdentity m)"

record ClockQuality =
  cq_class :: u8
  clockAccuracy :: u8
  offsetScaledLogVariance :: u16

subsection \<open>Path trace TLV\<close>

record PathTraceTLV =
  pt_tlvType :: u16
  identityList :: "ClockIdentity list"

definition PATH_TRACE_TLV_TYPE :: u16 where
  "PATH_TRACE_TLV_TYPE = 8"

definition PathTraceTLV_new :: PathTraceTLV where
  "PathTraceTLV_new = \<lparr>pt_tlvType = PLAT_htons PATH_TRACE_TLV_TYPE, identityList = []\<rparr>"

text \<open>The loop of \<open>parseClockIdentity\<close>: \<open>n\<close> identities from octet \<open>off\<close> of \<open>buf\<close> on.\<close>

fun parse_identities :: "nat \<Rightarrow> nat \<Rightarrow> octets \<Rightarrow> PathTraceTLV \<Rightarrow> PathTraceTLV option" where
  "parse_identities 0 off buf t = Some t"
| "parse_identities (Suc n) off buf t =
     do {
       bs \<leftarrow> get off PTP_CLOCK_IDENTITY_LENGTH buf;
       parse_identities n (off + PTP_CLOCK_IDENTITY_LENGTH) buf
         (t\<lparr>identityList := identityList t @ [cid_set bs]\<rparr>)
     }"

text \<open>\<open>size\<close> is an \<open>int\<close>; both sides of the comparison are converted to \<open>unsigned\<close>.\<close>

definition parseClockIdentity :: "nat \<Rightarrow> octets \<Rightarrow> int \<Rightarrow> PathTraceTLV \<Rightarrow> PathTraceTLV option"
  where
  "parseClockIdentity off buf sz t =
     do {
       l \<leftarrow> get off 2 buf;
       let len = uint (PLAT_ntohs (of_le l));
       let sz = sz - 2;
       let len = (if (word_of_int sz :: u32) < word_of_int len then sz else len);
       parse_identities (nat (len div int PTP_CLOCK_IDENTITY_LENGTH)) (off + 2) buf t
     }"

definition appendClockIdentity :: "ClockIdentity \<Rightarrow> PathTraceTLV \<Rightarrow> PathTraceTLV" where
  "appendClockIdentity c t = t\<lparr>identityList := identityList t @ [c]\<rparr>"

definition pt_toByteString :: "PathTraceTLV \<Rightarrow> octets" where
  "pt_toByteString t =
     le_bytes 2 (pt_tlvType t) @
     le_bytes 2
       (PLAT_htons (of_nat (length (identityList t)) * of_nat PTP_CLOCK_IDENTITY_LENGTH)) @
     concat (map getIdentityString (identityList t))"

definition pt_has :: "ClockIdentity \<Rightarrow> PathTraceTLV \<Rightarrow> bool" where
  "pt_has c t \<longleftrightarrow> (\<exists>x \<in> set (identityList t). cid_eq x c)"

definition pt_length :: "PathTraceTLV \<Rightarrow> nat" where
  "pt_length t = 2 * 2 + PTP_CLOCK_IDENTITY_LENGTH * length (identityList t)"

subsection \<open>Follow-up TLV\<close>

record scaledNs =
  sn_ms :: u32
  sn_ls :: u64

definition scaledNs_new :: scaledNs where
  "scaledNs_new = \<lparr>sn_ms = 0, sn_ls = 0\<rparr>"

definition scaledNs_toByteString :: "scaledNs \<Rightarrow> octets" where
  "scaledNs_toByteString s = le_bytes 4 (sn_ms s) @ le_bytes 8 (sn_ls s)"

definition setLSB :: "u64 \<Rightarrow> scaledNs \<Rightarrow> scaledNs" where
  "setLSB lsb s = s\<lparr>sn_ls := lsb\<rparr>"

definition setMSB :: "u32 \<Rightarrow> scaledNs \<Rightarrow> scaledNs" where
  "setMSB msb s = s\<lparr>sn_ms := msb\<rparr>"

text \<open>The fields hold what was copied from the wire, or what the setters store.\<close>

record FollowUpTLV =
  fup_tlvType :: u16
  fup_lengthField :: u16
  fup_organizationId :: octets
  fup_organizationSubType_ms :: u8
  fup_organizationSubType_ls :: u16
  cumulativeScaledRateOffset :: u32
  gmTimeBaseIndicator :: u16
  scaledLastGmPhaseChange :: scaledNs
  scaledLastGmFreqChange :: u32

definition FollowUpTLV_new :: FollowUpTLV where
  "FollowUpTLV_new =
     \<lparr>fup_tlvType = PLAT_htons 3, fup_lengthField = PLAT_htons 28,
      fup_organizationId = [0x00, 0x80, 0xC2], fup_organizationSubType_ms = 0,
      fup_organizationSubType_ls = PLAT_htons 1, cumulativeScaledRateOffset = PLAT_htonl 0,
      gmTimeBaseIndicator = 0, scaledLastGmPhaseChange = scaledNs_new,
      scaledLastGmFreqChange = PLAT_htonl 0\<rparr>"

definition sizeof_FollowUpTLV :: nat where [simp]: "sizeof_FollowUpTLV = 32"

text \<open>The packed structure as octets, and the copy of octets over it.\<close>

definition fup_toByteString :: "FollowUpTLV \<Rightarrow> octets" where
  "fup_toByteString t =
     le_bytes 2 (fup_tlvType t) @ le_bytes 2 (fup_lengthField t) @ fup_organizationId t @
     [fup_organizationSubType_ms t] @ le_bytes 2 (fup_organizationSubType_ls t) @
     le_bytes 4 (cumulativeScaledRateOffset t) @ le_bytes 2 (gmTimeBaseIndicator t) @
     scaledNs_toByteString (scaledLastGmPhaseChange t) @ le_bytes 4 (scaledLastGmFreqChange t)"

definition fup_memcpy :: "octets \<Rightarrow> FollowUpTLV" where
  "fup_memcpy bs =
     \<lparr>fup_tlvType = of_le (take 2 bs), fup_lengthField = of_le (take 2 (drop 2 bs)),
      fup_organizationId = take 3 (drop 4 bs), fup_organizationSubType_ms = bs ! 7,
      fup_organizationSubType_ls = of_le (take 2 (drop 8 bs)),
      cumulativeScaledRateOffset = of_le (take 4 (drop 10 bs)),
      gmTimeBaseIndicator = of_le (take 2 (drop 14 bs)),
      scaledLastGmPhaseChange =
        \<lparr>sn_ms = of_le (take 4 (drop 16 bs)), sn_ls = of_le (take 8 (drop 20 bs))\<rparr>,
      scaledLastGmFreqChange = of_le (take 4 (drop 28 bs))\<rparr>"

text \<open>\<open>getRateOffset\<close> and \<open>getScaledLastGmFreqChange\<close> return the stored octets as they are;
  \<open>setScaledLastGmFreqChange\<close> stores its argument byte-swapped.\<close>

definition getRateOffset :: "FollowUpTLV \<Rightarrow> u32" where
  "getRateOffset t = cumulativeScaledRateOffset t"

definition getGmTimeBaseIndicator :: "FollowUpTLV \<Rightarrow> u16" where
  "getGmTimeBaseIndicator t = gmTimeBaseIndicator t"

definition setScaledLastGmFreqChange :: "u32 \<Rightarrow> FollowUpTLV \<Rightarrow> FollowUpTLV" where
  "setScaledLastGmFreqChange v t = t\<lparr>scaledLastGmFreqChange := PLAT_htonl v\<rparr>"

definition getScaledLastGmFreqChange :: "FollowUpTLV \<Rightarrow> u32" where
  "getScaledLastGmFreqChange t = scaledLastGmFreqChange t"

definition setGMTimeBaseIndicator :: "u16 \<Rightarrow> FollowUpTLV \<Rightarrow> FollowUpTLV" where
  "setGMTimeBaseIndicator tbi t = t\<lparr>gmTimeBaseIndicator := tbi\<rparr>"

definition incrementGMTimeBaseIndicator :: "FollowUpTLV \<Rightarrow> FollowUpTLV" where
  "incrementGMTimeBaseIndicator t = t\<lparr>gmTimeBaseIndicator := gmTimeBaseIndicator t + 1\<rparr>"

definition setScaledLastGmPhaseChange :: "scaledNs \<Rightarrow> FollowUpTLV \<Rightarrow> FollowUpTLV" where
  "setScaledLastGmPhaseChange pc t = t\<lparr>scaledLastGmPhaseChange := pc\<rparr>"

definition getScaledLastGmPhaseChange :: "FollowUpTLV \<Rightarrow> scaledNs" where
  "getScaledLastGmPhaseChange t = scaledLastGmPhaseChange t"

subsection \<open>Signalling TLV\<close>

record SignallingTLV =
  sig_tlvType :: u16
  sig_lengthField :: u16
  sig_organizationId :: octets
  sig_organizationSubType_ms :: u8
  sig_organizationSubType_ls :: u16
  linkDelayInterval :: u8
  timeSyncInterval :: u8
  announceInterval :: u8
  sig_flags :: u8
  sig_reserved :: u16

definition SignallingTLV_new :: SignallingTLV where
  "SignallingTLV_new =
     \<lparr>sig_tlvType = PLAT_htons 3, sig_lengthField = PLAT_htons 12,
      sig_organizationId = [0x00, 0x80, 0xC2], sig_organizationSubType_ms = 0,
      sig_organizationSubType_ls = PLAT_htons 2, linkDelayInterval = 0, timeSyncInterval = 0,
      announceInterval = 0, sig_flags = 3, sig_reserved = PLAT_htons 0\<rparr>"

definition sizeof_SignallingTLV :: nat where [simp]: "sizeof_SignallingTLV = 16"

definition sig_toByteString :: "SignallingTLV \<Rightarrow> octets" where
  "sig_toByteString t =
     le_bytes 2 (sig_tlvType t) @ le_bytes 2 (sig_lengthField t) @ sig_organizationId t @
     [sig_organizationSubType_ms t] @ le_bytes 2 (sig_organizationSubType_ls t) @
     [linkDelayInterval t, timeSyncInterval t, announceInterval t, sig_flags t] @
     le_bytes 2 (sig_reserved t)"

definition sig_memcpy :: "octets \<Rightarrow> SignallingTLV" where
  "sig_memcpy bs =
     \<lparr>sig_tlvType = of_le (take 2 bs), sig_lengthField = of_le (take 2 (drop 2 bs)),
      sig_organizationId = take 3 (drop 4 bs), sig_organizationSubType_ms = bs ! 7,
      sig_organizationSubType_ls = of_le (take 2 (drop 8 bs)), linkDelayInterval = bs ! 10,
      timeSyncInterval = bs ! 11, announceInterval = bs ! 12, sig_flags = bs ! 13,
      sig_reserved = of_le (take 2 (drop 14 bs))\<rparr>"

subsection \<open>Messages\<close>

record PTPMessageAnnounce = PTPMessageCommon +
  grandmasterIdentity :: octets
  grandmasterClockQuality :: ClockQuality
  ann_tlv :: PathTraceTLV
  currentUtcOffset :: u16
  grandmasterPriority1 :: u8
  grandmasterPriority2 :: u8
  stepsRemoved :: u16
  timeSource :: u8

record PTPMessageSync = PTPMessageCommon +
  sync_originTimestamp :: Timestamp

record PTPMessageFollowUp = PTPMessageCommon +
  preciseOriginTimestamp :: Timestamp
  fup_tlv :: FollowUpTLV

record PTPMessagePathDelayReq = PTPMessageCommon +
  req_originTimestamp :: Timestamp

record PTPMessagePathDelayResp = PTPMessageCommon +
  resp_requestingPortIdentity :: PortIdentity
  requestReceiptTimestamp :: Timestamp

record PTPMessagePathDelayRespFollowUp = PTPMessageCommon +
  responseOriginTimestamp :: Timestamp
  rfup_requestingPortIdentity :: PortIdentity

record PTPMessageSignalling = PTPMessageCommon +
  targetPortIdentify :: u8
  sig_tlv :: SignallingTLV

datatype PTPMessage =
    MsgAnnounce PTPMessageAnnounce
  | MsgSync PTPMessageSync
  | MsgFollowUp PTPMessageFollowUp
  | MsgPathDelayReq PTPMessagePathDelayReq
  | MsgPathDelayResp PTPMessagePathDelayResp
  | MsgPathDelayRespFollowUp PTPMessagePathDelayRespFollowUp
  | MsgSignalling PTPMessageSignalling

definition sigMsgInterval_Initial :: u8 where "sigMsgInterval_Initial = 126"
definition sigMsgInterval_NoSend :: u8 where "sigMsgInterval_NoSend = 127"
definition sigMsgInterval_NoChange :: u8 where "sigMsgInterval_NoChange = - 128"

definition setClockSourceTime :: "FollowUpTLV \<Rightarrow> PTPMessageFollowUp \<Rightarrow> PTPMessageFollowUp" where
  "setClockSourceTime fup m =
     m\<lparr>fup_tlv :=
       setScaledLastGmPhaseChange (getScaledLastGmPhaseChange fup)
         (setScaledLastGmFreqChange (getScaledLastGmFreqChange fup)
           (setGMTimeBaseIndicator (gmTimeBaseIndicator fup) (fup_tlv m)))\<rparr>"

definition setintervals ::
  "u8 \<Rightarrow> u8 \<Rightarrow> u8 \<Rightarrow> PTPMessageSignalling \<Rightarrow> PTPMessageSignalling" where
  "setintervals link sync ann m =
     m\<lparr>sig_tlv := (sig_tlv m)\<lparr>linkDelayInterval := link, timeSyncInterval := sync,
                              announceInterval := ann\<rparr>\<rparr>"

section \<open>Writing messages\<close>

text \<open>\<open>buildCommonHeader\<close>. The four octets of \<open>control\<close> are written first and the interval over the
  second of them.\<close>

definition buildCommonHeader :: "'a PTPMessageCommon_scheme \<Rightarrow> octets \<Rightarrow> octets option" where
  "buildCommonHeader m buf =
     do {
       let tspec_msg_t = messageType m OR 0x10;
       let correctionField_BE = PLAT_htonll (correctionField m);
       let messageLength_NO = PLAT_htons (messageLength m);
       buf \<leftarrow> put 0 [tspec_msg_t] buf;
       buf \<leftarrow> put PTP_COMMON_HDR_PTP_VERSION [versionPTP m] buf;
       buf \<leftarrow> put PTP_COMMON_HDR_MSG_LENGTH (le_bytes 2 messageLength_NO) buf;
       buf \<leftarrow> put PTP_COMMON_HDR_DOMAIN_NUMBER [domainNumber m] buf;
       buf \<leftarrow> put PTP_COMMON_HDR_FLAGS (flags m) buf;
       buf \<leftarrow> put PTP_COMMON_HDR_CORRECTION (le_bytes 8 correctionField_BE) buf;
       buf \<leftarrow> put PTP_COMMON_HDR_SOURCE_CLOCK_ID
                (getIdentityString (clock_id (sourcePortIdentity m))) buf;
       buf \<leftarrow> put PTP_COMMON_HDR_SOURCE_PORT_ID
                (le_bytes 2 (getPortNumberNO (sourcePortIdentity m))) buf;
       buf \<leftarrow> put PTP_COMMON_HDR_SEQUENCE_ID (le_bytes 2 (PLAT_htons (sequenceId m))) buf;
       buf \<leftarrow> put PTP_COMMON_HDR_CONTROL (le_bytes 4 (control m)) buf;
       put PTP_COMMON_HDR_LOG_MSG_INTRVL [logMeanMessageInterval m] buf
     }"

text \<open>A timestamp in network order: two octets of \<open>seconds_ms\<close>, four of \<open>seconds_ls\<close>, four of
  \<open>nanoseconds\<close>.\<close>

definition put_timestamp :: "nat \<Rightarrow> Timestamp \<Rightarrow> octets \<Rightarrow> octets option" where
  "put_timestamp off t buf =
     do {
       buf \<leftarrow> put off (le_bytes 2 (PLAT_htons (seconds_ms t))) buf;
       buf \<leftarrow> put (off + 2) (le_bytes 4 (PLAT_htonl (seconds_ls t))) buf;
       put (off + 6) (le_bytes 4 (PLAT_htonl (nanoseconds t))) buf
     }"

definition put_portIdentity :: "nat \<Rightarrow> PortIdentity \<Rightarrow> octets \<Rightarrow> octets option" where
  "put_portIdentity off p buf =
     do {
       buf \<leftarrow> put off (getIdentityString (clock_id p)) buf;
       put (off + 8) (le_bytes 2 (getPortNumberNO p)) buf
     }"

definition buf_t :: octets where
  "buf_t = replicate 256 0"

text \<open>The buffer each \<open>sendPort\<close> hands to the port, with the message as it is afterwards.\<close>

definition build_sync :: "PTPMessageSync \<Rightarrow> (PTPMessageSync \<times> octets) option" where
  "build_sync m =
     do {
       let m = m\<lparr>messageLength := of_nat (PTP_COMMON_HDR_LENGTH + PTP_SYNC_LENGTH)\<rparr>;
       buf \<leftarrow> buildCommonHeader m buf_t;
       let m = m\<lparr>sync_originTimestamp := Timestamp_new 0 0 0\<rparr>;
       buf \<leftarrow> put_timestamp 34 (sync_originTimestamp m) buf;
       Some (m, take (unat (messageLength m)) buf)
     }"

definition build_followup :: "PTPMessageFollowUp \<Rightarrow> (PTPMessageFollowUp \<times> octets) option" where
  "build_followup m =
     do {
       let m = m\<lparr>messageLength :=
                   of_nat (PTP_COMMON_HDR_LENGTH + PTP_FOLLOWUP_LENGTH + sizeof_FollowUpTLV)\<rparr>;
       buf \<leftarrow> buildCommonHeader m buf_t;
       buf \<leftarrow> put_timestamp 34 (preciseOriginTimestamp m) buf;
       let tbi_NO = (ucast (PLAT_htonl (ucast (gmTimeBaseIndicator (fup_tlv m)))) :: u16);
       let m = m\<lparr>fup_tlv := setGMTimeBaseIndicator tbi_NO (fup_tlv m)\<rparr>;
       buf \<leftarrow> put (PTP_COMMON_HDR_LENGTH + PTP_FOLLOWUP_LENGTH) (fup_toByteString (fup_tlv m)) buf;
       Some (m, take (unat (messageLength m)) buf)
     }"

definition build_announce :: "PTPMessageAnnounce \<Rightarrow> (PTPMessageAnnounce \<times> octets) option" where
  "build_announce m =
     do {
       let cq = grandmasterClockQuality m;
       let m = m\<lparr>messageLength :=
                   of_nat (PTP_COMMON_HDR_LENGTH + PTP_ANNOUNCE_LENGTH + pt_length (ann_tlv m))\<rparr>;
       buf \<leftarrow> buildCommonHeader m buf_t;
       buf \<leftarrow> put (34 + 10) (le_bytes 2 (PLAT_htons (currentUtcOffset m))) buf;
       buf \<leftarrow> put (34 + 13) [grandmasterPriority1 m] buf;
       buf \<leftarrow> put (34 + 14) ([cq_class cq, clockAccuracy cq] @
                (le_bytes 2 (PLAT_htons (offsetScaledLogVariance cq)))) buf;
       buf \<leftarrow> put (34 + 18) [grandmasterPriority2 m] buf;
       buf \<leftarrow> put (34 + 19) (grandmasterIdentity m) buf;
       buf \<leftarrow> put (34 + 27) (le_bytes 2 (PLAT_htons (stepsRemoved m))) buf;
       buf \<leftarrow> put (34 + 29) [timeSource m] buf;
       buf \<leftarrow> put (PTP_COMMON_HDR_LENGTH + PTP_ANNOUNCE_LENGTH) (pt_toByteString (ann_tlv m)) buf;
       Some (m, take (unat (messageLength m)) buf)
     }"

definition build_pdelay_req ::
  "PTPMessagePathDelayReq \<Rightarrow> (PTPMessagePathDelayReq \<times> octets) option" where
  "build_pdelay_req m =
     do {
       let m = m\<lparr>messageLength := of_nat (PTP_COMMON_HDR_LENGTH + PTP_PDELAY_REQ_LENGTH)\<rparr>;
       buf \<leftarrow> buildCommonHeader m buf_t;
       Some (m, take (unat (messageLength m)) buf)
     }"

definition build_pdelay_resp ::
  "PTPMessagePathDelayResp \<Rightarrow> (PTPMessagePathDelayResp \<times> octets) option" where
  "build_pdelay_resp m =
     do {
       let m = m\<lparr>messageLength := of_nat (PTP_COMMON_HDR_LENGTH + PTP_PDELAY_RESP_LENGTH)\<rparr>;
       buf \<leftarrow> buildCommonHeader m buf_t;
       buf \<leftarrow> put_portIdentity (34 + 10) (resp_requestingPortIdentity m) buf;
       buf \<leftarrow> put_timestamp 34 (requestReceiptTimestamp m) buf;
       Some (m, take (unat (messageLength m)) buf)
     }"

definition build_pdelay_resp_followup ::
  "PTPMessagePathDelayRespFollowUp \<Rightarrow> (PTPMessagePathDelayRespFollowUp \<times> octets) option" where
  "build_pdelay_resp_followup m =
     do {
       let m = m\<lparr>messageLength := of_nat (PTP_COMMON_HDR_LENGTH + PTP_PDELAY_RESP_LENGTH)\<rparr>;
       buf \<leftarrow> buildCommonHeader m buf_t;
       buf \<leftarrow> put_portIdentity (34 + 10) (rfup_requestingPortIdentity m) buf;
       buf \<leftarrow> put_timestamp 34 (responseOriginTimestamp m) buf;
       Some (m, take (unat (messageLength m)) buf)
     }"

definition build_signalling ::
  "PTPMessageSignalling \<Rightarrow> (PTPMessageSignalling \<times> octets) option" where
  "build_signalling m =
     do {
       let m = m\<lparr>messageLength :=
                   of_nat (PTP_COMMON_HDR_LENGTH + PTP_SIGNALLING_LENGTH + sizeof_SignallingTLV)\<rparr>;
       buf \<leftarrow> buildCommonHeader m buf_t;
       buf \<leftarrow> put 34 [targetPortIdentify m] buf;
       buf \<leftarrow> put (PTP_COMMON_HDR_LENGTH + PTP_SIGNALLING_LENGTH) (sig_toByteString (sig_tlv m)) buf;
       Some (m, take (unat (messageLength m)) buf)
     }"

section \<open>Reading messages\<close>

text \<open>Why \<open>buildPTPMessage\<close> returns no message. \<open>OverRead\<close> is not a result of the code: it stands for
  a read outside the receive buffer.\<close>

datatype build_error = WrongPort | NoTimestamp | BadTransport | TooShort | Unsupported | OverRead

definition rx_sourcePortIdentity :: "octets \<Rightarrow> PortIdentity option" where
  "rx_sourcePortIdentity buf =
     do {
       c \<leftarrow> get PTP_COMMON_HDR_SOURCE_CLOCK_ID PTP_CLOCK_IDENTITY_LENGTH buf;
       n \<leftarrow> get PTP_COMMON_HDR_SOURCE_PORT_ID 2 buf;
       Some (PortIdentity_wire c (of_le n))
     }"

definition rx_sequenceId :: "octets \<Rightarrow> u16 option" where
  "rx_sequenceId buf =
     do {
       n \<leftarrow> get PTP_COMMON_HDR_SEQUENCE_ID 2 buf;
       Some (PLAT_ntohs (of_le n))
     }"

definition get_timestamp :: "nat \<Rightarrow> octets \<Rightarrow> Timestamp option" where
  "get_timestamp off buf =
     do {
       ms \<leftarrow> get off 2 buf;
       ls \<leftarrow> get (off + 2) 4 buf;
       ns \<leftarrow> get (off + 6) 4 buf;
       Some (Timestamp_default\<lparr>seconds_ms := PLAT_ntohs (of_le ms),
               seconds_ls := PLAT_ntohl (of_le ls), nanoseconds := PLAT_ntohl (of_le ns)\<rparr>)
     }"

definition get_portIdentity :: "nat \<Rightarrow> octets \<Rightarrow> PortIdentity option" where
  "get_portIdentity off buf =
     do {
       c \<leftarrow> get off PTP_CLOCK_IDENTITY_LENGTH buf;
       n \<leftarrow> get (off + 8) 2 buf;
       Some (PortIdentity_wire c (of_le n))
     }"

text \<open>The copies of the common header fields, from octet \<open>b\<close> on: 0 except after an Announce body,
  whose case moves \<open>buf\<close> behind the body.\<close>

definition copy_common_header ::
  "nat \<Rightarrow> octets \<Rightarrow> PortIdentity \<Rightarrow> u16 \<Rightarrow> Timestamp \<Rightarrow> u32 \<Rightarrow>
     'a PTPMessageCommon_scheme \<Rightarrow> 'a PTPMessageCommon_scheme option" where
  "copy_common_header b buf src seq ts cnt m =
     do {
       v \<leftarrow> get (b + PTP_COMMON_HDR_PTP_VERSION) 1 buf;
       l \<leftarrow> get (b + PTP_COMMON_HDR_MSG_LENGTH) 2 buf;
       d \<leftarrow> get (b + PTP_COMMON_HDR_DOMAIN_NUMBER) 1 buf;
       f \<leftarrow> get (b + PTP_COMMON_HDR_FLAGS) 2 buf;
       c \<leftarrow> get (b + PTP_COMMON_HDR_CORRECTION) 8 buf;
       t \<leftarrow> get (b + PTP_COMMON_HDR_CONTROL) 4 buf;
       i \<leftarrow> get (b + PTP_COMMON_HDR_LOG_MSG_INTRVL) 1 buf;
       Some (m\<lparr>gc := False, versionPTP := hd v, messageLength := PLAT_ntohs (of_le l),
               domainNumber := hd d, flags := f, correctionField := PLAT_ntohll (of_le c),
               sourcePortIdentity := src, sequenceId := seq, control := of_le t,
               logMeanMessageInterval := hd i, msg_timestamp := ts,
               timestamp_counter_value := cnt\<rparr>)
     }"

text \<open>The cases of the switch: each yields the message with the fields of its body. \<open>blank\<close> is the
  memory of the new object.\<close>

definition parse_sync :: "PTPMessageCommon \<Rightarrow> octets \<Rightarrow> PTPMessageSync option" where
  "parse_sync blank buf =
     do {
       ms \<leftarrow> get 34 2 buf;
       ls \<leftarrow> get (34 + 2) 4 buf;
       ns \<leftarrow> get (34 + 6) 4 buf;
       Some (PTPMessageCommon.extend (blank\<lparr>messageType := SYNC_MESSAGE\<rparr>)
              (PTPMessageSync.fields
                (Timestamp_default\<lparr>seconds_ms := of_le ms, seconds_ls := of_le ls,
                   nanoseconds := of_le ns\<rparr>)))
     }"

definition parse_followup :: "PTPMessageCommon \<Rightarrow> octets \<Rightarrow> PTPMessageFollowUp option" where
  "parse_followup blank buf =
     do {
       t \<leftarrow> get_timestamp 34 buf;
       tlv \<leftarrow> get (34 + PTP_FOLLOWUP_LENGTH) sizeof_FollowUpTLV buf;
       Some (PTPMessageCommon.extend (blank\<lparr>messageType := FOLLOWUP_MESSAGE\<rparr>)
              (PTPMessageFollowUp.fields t (fup_memcpy tlv)))
     }"

definition parse_pdelay_req :: "PTPMessageCommon \<Rightarrow> PTPMessagePathDelayReq" where
  "parse_pdelay_req blank =
     PTPMessageCommon.extend (blank\<lparr>messageType := PATH_DELAY_REQ_MESSAGE\<rparr>)
       (PTPMessagePathDelayReq.fields Timestamp_default)"

definition parse_pdelay_resp :: "PTPMessageCommon \<Rightarrow> octets \<Rightarrow> PTPMessagePathDelayResp option" where
  "parse_pdelay_resp blank buf =
     do {
       p \<leftarrow> get_portIdentity (34 + 10) buf;
       t \<leftarrow> get_timestamp 34 buf;
       Some (PTPMessageCommon.extend (blank\<lparr>messageType := PATH_DELAY_RESP_MESSAGE\<rparr>)
              (PTPMessagePathDelayResp.fields p t))
     }"

definition parse_pdelay_resp_followup ::
  "PTPMessageCommon \<Rightarrow> octets \<Rightarrow> PTPMessagePathDelayRespFollowUp option" where
  "parse_pdelay_resp_followup blank buf =
     do {
       p \<leftarrow> get_portIdentity (34 + 10) buf;
       t \<leftarrow> get_timestamp 34 buf;
       Some (PTPMessageCommon.extend (blank\<lparr>messageType := PATH_DELAY_FOLLOWUP_MESSAGE\<rparr>)
              (PTPMessagePathDelayRespFollowUp.fields t p))
     }"

text \<open>The Announce case also yields the octet to which it has moved \<open>buf\<close>.\<close>

definition parse_announce ::
  "PTPMessageCommon \<Rightarrow> octets \<Rightarrow> int \<Rightarrow> (PTPMessageAnnounce \<times> nat) option" where
  "parse_announce blank buf sz =
     do {
       let tlv_length = sz - int PTP_COMMON_HDR_LENGTH + int PTP_ANNOUNCE_LENGTH;
       u \<leftarrow> get (34 + 10) 2 buf;
       p1 \<leftarrow> get (34 + 13) 1 buf;
       q \<leftarrow> get (34 + 14) 4 buf;
       p2 \<leftarrow> get (34 + 18) 1 buf;
       gm \<leftarrow> get (34 + 19) PTP_CLOCK_IDENTITY_LENGTH buf;
       st \<leftarrow> get (34 + 27) 2 buf;
       ts \<leftarrow> get (34 + 29) 1 buf;
       let b = PTP_COMMON_HDR_LENGTH + PTP_ANNOUNCE_LENGTH;
       let cq = \<lparr>cq_class = q ! 0, clockAccuracy = q ! 1,
                 offsetScaledLogVariance = PLAT_ntohs (of_le (drop 2 q))\<rparr>;
       pt \<leftarrow> (if tlv_length > 4
              then map_option (\<lambda>t. PLAT_ntohs (of_le t) = PATH_TRACE_TLV_TYPE) (get b 2 buf)
              else Some False);
       let b' = (if pt then b + 2 else b);
       tlv \<leftarrow> (if pt then parseClockIdentity b' buf (tlv_length - 2) PathTraceTLV_new
               else Some PathTraceTLV_new);
       Some (PTPMessageCommon.extend (blank\<lparr>messageType := ANNOUNCE_MESSAGE\<rparr>)
              (PTPMessageAnnounce.fields gm cq tlv (PLAT_ntohs (of_le u)) (hd p1) (hd p2)
                (PLAT_ntohs (of_le st)) (hd ts)), b')
     }"

definition parse_signalling :: "PTPMessageCommon \<Rightarrow> octets \<Rightarrow> PTPMessageSignalling option" where
  "parse_signalling blank buf =
     do {
       t \<leftarrow> get 34 1 buf;
       tlv \<leftarrow> get (34 + PTP_SIGNALLING_LENGTH) sizeof_SignallingTLV buf;
       Some (PTPMessageCommon.extend (blank\<lparr>messageType := SIGNALLING_MESSAGE\<rparr>)
              (PTPMessageSignalling.fields (hd t) (sig_memcpy tlv)))
     }"

definition read_or_fail :: "('a \<Rightarrow> PTPMessage) \<Rightarrow> 'a option \<Rightarrow> build_error + PTPMessage" where
  "read_or_fail f x = (case x of None \<Rightarrow> Inl OverRead | Some m \<Rightarrow> Inr (f m))"

text \<open>The switch of \<open>buildPTPMessage\<close> over the message type, with the size checks of its cases.\<close>

definition parse_message ::
  "PTPMessageCommon \<Rightarrow> octets \<Rightarrow> int \<Rightarrow> MessageType \<Rightarrow> PortIdentity \<Rightarrow> u16 \<Rightarrow> Timestamp \<Rightarrow> u32 \<Rightarrow>
     build_error + PTPMessage" where
  "parse_message blank buf sz mt src seq ts cnt =
     (if mt = SYNC_MESSAGE then
        if sz < int (PTP_COMMON_HDR_LENGTH + PTP_SYNC_LENGTH) then Inl TooShort
        else read_or_fail MsgSync
               (do { m \<leftarrow> parse_sync blank buf; copy_common_header 0 buf src seq ts cnt m })
      else if mt = FOLLOWUP_MESSAGE then
        if sz < int (PTP_COMMON_HDR_LENGTH + PTP_FOLLOWUP_LENGTH + sizeof_FollowUpTLV)
        then Inl TooShort
        else read_or_fail MsgFollowUp
               (do { m \<leftarrow> parse_followup blank buf; copy_common_header 0 buf src seq ts cnt m })
      else if mt = PATH_DELAY_REQ_MESSAGE then
        if sz < int (PTP_COMMON_HDR_LENGTH + PTP_PDELAY_REQ_LENGTH) \<and> sz \<noteq> 46 then Inl TooShort
        else read_or_fail MsgPathDelayReq
               (copy_common_header 0 buf src seq ts cnt (parse_pdelay_req blank))
      else if mt = PATH_DELAY_RESP_MESSAGE then
        if sz < int (PTP_COMMON_HDR_LENGTH + PTP_PDELAY_RESP_LENGTH) then Inl TooShort
        else read_or_fail MsgPathDelayResp
               (do { m \<leftarrow> parse_pdelay_resp blank buf; copy_common_header 0 buf src seq ts cnt m })
      else if mt = PATH_DELAY_FOLLOWUP_MESSAGE then
        read_or_fail MsgPathDelayRespFollowUp
          (do { m \<leftarrow> parse_pdelay_resp_followup blank buf;
                copy_common_header 0 buf src seq ts cnt m })
      else if mt = ANNOUNCE_MESSAGE then
        read_or_fail MsgAnnounce
          (do { (m, b) \<leftarrow> parse_announce blank buf sz; copy_common_header b buf src seq ts cnt m })
      else if mt = SIGNALLING_MESSAGE then
        read_or_fail MsgSignalling
          (do { m \<leftarrow> parse_signalling blank buf; copy_common_header 0 buf src seq ts cnt m })
      else Inl Unsupported)"

end
