(* ===== verification/Gptp_Float.thy ===== *)
theory Gptp_Float
  imports Gptp_Prelude Complex_Main
begin

text \<open>
  Floating-point arithmetic as the sources use it: IEEE 754 binary formats with rounding to
  nearest, ties to even, gradual underflow and overflow to infinity. A finite value is a rational
  number, so every definition computes. The format of \<open>FrequencyRatio\<close> (\<open>common/ptptypes.hpp\<close>:
  \<open>long double\<close>, or \<open>double\<close> for Clang on x86-64) is a parameter of the functions that use it. Zero
  has no sign here: a quotient by zero takes the sign of the dividend.
\<close>

section \<open>Formats and rounding\<close>

record fmt =
  fprec :: nat
  femin :: int
  femax :: int

definition FLOAT :: fmt where
  "FLOAT = \<lparr>fprec = 24, femin = - 126, femax = 127\<rparr>"

definition DOUBLE :: fmt where
  "DOUBLE = \<lparr>fprec = 53, femin = - 1022, femax = 1023\<rparr>"

definition EXTENDED :: fmt where
  "EXTENDED = \<lparr>fprec = 64, femin = - 16382, femax = 16383\<rparr>"

datatype fp = Fin rat | Inf bool | NaN

text \<open>\<open>Inf True\<close> is the negative infinity.\<close>

definition pow2 :: "int \<Rightarrow> rat" where
  "pow2 k = (if 0 \<le> k then 2 ^ nat k else 1 / 2 ^ nat (- k))"

text \<open>The number of binary digits of an integer, and the largest \<open>e\<close> with \<open>2\<^sup>e \<le> x\<close>, for \<open>x > 0\<close>.\<close>

function bit_length :: "int \<Rightarrow> int" where
  "bit_length n = (if n \<le> 0 then 0 else 1 + bit_length (n div 2))"
  by pat_completeness auto
termination
  by (relation "measure nat") auto

definition ilog2 :: "rat \<Rightarrow> int" where
  "ilog2 x =
     (if 1 \<le> x then bit_length \<lfloor>x\<rfloor> - 1 else - bit_length (\<lceil>1 / x\<rceil> - 1))"

definition round_even :: "rat \<Rightarrow> int" where
  "round_even m =
     (let f = \<lfloor>m\<rfloor>; d = m - of_int f
      in if d < 1 / 2 then f else if 1 / 2 < d then f + 1 else if even f then f else f + 1)"

text \<open>The exponent of the unit in the last place of \<open>x\<close>.\<close>

definition ulp_exp :: "fmt \<Rightarrow> rat \<Rightarrow> int" where
  "ulp_exp F x = max (ilog2 \<bar>x\<bar>) (femin F) - int (fprec F) + 1"

definition rnd :: "fmt \<Rightarrow> rat \<Rightarrow> rat" where
  "rnd F x = (if x = 0 then 0 else of_int (round_even (x / pow2 (ulp_exp F x))) * pow2 (ulp_exp F x))"

text \<open>A rounded value of \<open>2\<^sup>e\<^sup>m\<^sup>a\<^sup>x\<^sup>+\<^sup>1\<close> or more is an infinity.\<close>

definition fround :: "fmt \<Rightarrow> rat \<Rightarrow> fp" where
  "fround F x =
     (let r = rnd F x in if r \<noteq> 0 \<and> femax F < ilog2 \<bar>r\<bar> then Inf (r < 0) else Fin r)"

section \<open>Operations\<close>

fun fp_neg :: "fp \<Rightarrow> fp" where
  "fp_neg (Fin a) = Fin (- a)"
| "fp_neg (Inf s) = Inf (\<not> s)"
| "fp_neg NaN = NaN"

fun fp_add :: "fmt \<Rightarrow> fp \<Rightarrow> fp \<Rightarrow> fp" where
  "fp_add F (Fin a) (Fin b) = fround F (a + b)"
| "fp_add F (Inf s) (Inf t) = (if s = t then Inf s else NaN)"
| "fp_add F (Inf s) (Fin b) = Inf s"
| "fp_add F (Fin a) (Inf t) = Inf t"
| "fp_add F _ _ = NaN"

definition fp_sub :: "fmt \<Rightarrow> fp \<Rightarrow> fp \<Rightarrow> fp" where
  "fp_sub F x y = fp_add F x (fp_neg y)"

fun fp_mul :: "fmt \<Rightarrow> fp \<Rightarrow> fp \<Rightarrow> fp" where
  "fp_mul F (Fin a) (Fin b) = fround F (a * b)"
| "fp_mul F (Inf s) (Inf t) = Inf (s \<noteq> t)"
| "fp_mul F (Inf s) (Fin b) = (if b = 0 then NaN else Inf (s \<noteq> (b < 0)))"
| "fp_mul F (Fin a) (Inf t) = (if a = 0 then NaN else Inf (t \<noteq> (a < 0)))"
| "fp_mul F _ _ = NaN"

fun fp_div :: "fmt \<Rightarrow> fp \<Rightarrow> fp \<Rightarrow> fp" where
  "fp_div F (Fin a) (Fin b) =
     (if b = 0 then if a = 0 then NaN else Inf (a < 0) else fround F (a / b))"
| "fp_div F (Inf s) (Fin b) = Inf (s \<noteq> (b < 0))"
| "fp_div F (Fin a) (Inf t) = Fin 0"
| "fp_div F _ _ = NaN"

text \<open>Comparisons are false on NaN.\<close>

fun fp_lt :: "fp \<Rightarrow> fp \<Rightarrow> bool" where
  "fp_lt (Fin a) (Fin b) \<longleftrightarrow> a < b"
| "fp_lt (Inf s) (Inf t) \<longleftrightarrow> s \<and> \<not> t"
| "fp_lt (Inf s) (Fin b) \<longleftrightarrow> s"
| "fp_lt (Fin a) (Inf t) \<longleftrightarrow> \<not> t"
| "fp_lt _ _ \<longleftrightarrow> False"

fun fp_eq :: "fp \<Rightarrow> fp \<Rightarrow> bool" where
  "fp_eq (Fin a) (Fin b) \<longleftrightarrow> a = b"
| "fp_eq (Inf s) (Inf t) \<longleftrightarrow> s = t"
| "fp_eq _ _ \<longleftrightarrow> False"

fun fp_abs :: "fp \<Rightarrow> fp" where
  "fp_abs (Fin a) = Fin \<bar>a\<bar>"
| "fp_abs (Inf s) = Inf False"
| "fp_abs NaN = NaN"

text \<open>Conversion between formats, and from integers.\<close>

fun fp_conv :: "fmt \<Rightarrow> fp \<Rightarrow> fp" where
  "fp_conv F (Fin a) = fround F a"
| "fp_conv F x = x"

definition fp_of_int :: "fmt \<Rightarrow> int \<Rightarrow> fp" where
  "fp_of_int F n = fround F (of_int n)"

text \<open>Conversion to an integer type truncates towards zero; a value that the type does not hold is
  undefined in C++ and given by the platform through \<open>oob\<close>.\<close>

definition ftrunc :: "rat \<Rightarrow> int" where
  "ftrunc a = (if 0 \<le> a then \<lfloor>a\<rfloor> else \<lceil>a\<rceil>)"

fun fp_to_int :: "(fp \<Rightarrow> int) \<Rightarrow> int \<Rightarrow> int \<Rightarrow> fp \<Rightarrow> int" where
  "fp_to_int oob lo hi (Fin a) =
     (if lo \<le> ftrunc a \<and> ftrunc a \<le> hi then ftrunc a else oob (Fin a))"
| "fp_to_int oob lo hi x = oob x"

text \<open>Formats on which small integers are exact, and the values a format has.\<close>

definition wf_fmt :: "fmt \<Rightarrow> bool" where
  "wf_fmt F \<longleftrightarrow> 0 < fprec F \<and> femin F \<le> 0 \<and> int (fprec F) \<le> femax F"

definition representable :: "fmt \<Rightarrow> rat \<Rightarrow> bool" where
  "representable F x \<longleftrightarrow>
     (\<exists>n k. x = of_int n * pow2 k \<and> \<bar>n\<bar> < 2 ^ fprec F \<and> femin F - int (fprec F) + 1 \<le> k)"

section \<open>Exactness and error\<close>

declare bit_length.simps [simp del]

lemma pow2_pos [simp]: "0 < pow2 k"
  by (simp add: pow2_def)

lemma pow2_powi: "pow2 k = 2 powi k"
  by (simp add: pow2_def power_int_def field_simps)

lemma pow2_add: "pow2 (a + b) = pow2 a * pow2 b"
  by (simp add: pow2_powi power_int_add)

lemma pow2_0 [simp]: "pow2 0 = 1" "pow2 1 = 2"
  by (simp_all add: pow2_def)

lemma pow2_diff: "pow2 (a - b) = pow2 a / pow2 b"
  by (simp add: pow2_powi power_int_diff)

lemma pow2_neq_0 [simp]: "pow2 k \<noteq> 0"
  using pow2_pos [of k] by linarith

lemma abs_pow2 [simp]: "\<bar>pow2 k\<bar> = pow2 k"
  using pow2_pos [of k] by linarith

lemma pow2_less: "a < b \<Longrightarrow> pow2 a < pow2 b"
proof -
  assume "a < b"
  then have "1 < pow2 (b - a)"
    by (simp add: pow2_def)
  then show ?thesis by (simp add: pow2_diff)
qed

lemma pow2_less_iff [simp]: "pow2 a < pow2 b \<longleftrightarrow> a < b"
  using pow2_less [of a b] pow2_less [of b a] by (cases a b rule: linorder_cases) auto

lemma pow2_le_iff [simp]: "pow2 a \<le> pow2 b \<longleftrightarrow> a \<le> b"
  by (simp flip: not_less)

lemma bit_length_nonneg: "0 \<le> bit_length n"
  by (induction n rule: bit_length.induct) (simp add: bit_length.simps)

lemma bit_length_pos: "0 < n \<Longrightarrow> 0 < bit_length n"
  using bit_length_nonneg [of "n div 2"] by (simp add: bit_length.simps [of n])

lemma bit_length_bounds_int: "0 < n \<Longrightarrow> 2 ^ nat (bit_length n - 1) \<le> n \<and> n + 1 \<le> 2 ^ nat (bit_length n)"
proof (induction n rule: bit_length.induct)
  case (1 n)
  show ?case
  proof (cases "n = 1")
    case True
    have "bit_length 1 = 1" by (simp add: bit_length.simps [of 1] bit_length.simps [of 0])
    with True show ?thesis by simp
  next
    case False
    let ?l = "bit_length (n div 2)"
    have l: "bit_length n = 1 + ?l" using 1 by (simp add: bit_length.simps [of n])
    have pos: "0 < ?l"
      using 1 False by (intro bit_length_pos) auto
    then have "nat ?l = Suc (nat (?l - 1))" "nat (1 + ?l) = Suc (nat ?l)"
      by simp_all
    moreover have "2 ^ nat (?l - 1) \<le> n div 2 \<and> n div 2 + 1 \<le> 2 ^ nat ?l"
      using 1 False by auto
    ultimately show ?thesis
      by (simp add: l) linarith
  qed
qed

lemma bit_length_bounds:
  assumes "0 < n"
  shows "pow2 (bit_length n - 1) \<le> of_int n" "of_int n + 1 \<le> pow2 (bit_length n)"
proof -
  have "rat_of_int (2 ^ nat (bit_length n - 1)) \<le> of_int n" "rat_of_int (n + 1) \<le> of_int (2 ^ nat (bit_length n))"
    using bit_length_bounds_int [OF assms] by (simp_all only: of_int_le_iff)
  then show "pow2 (bit_length n - 1) \<le> of_int n" "of_int n + 1 \<le> pow2 (bit_length n)"
    using bit_length_pos [OF assms] by (simp_all add: pow2_def)
qed

lemma ilog2_bounds:
  assumes "0 < x"
  shows "pow2 (ilog2 x) \<le> x" "x < pow2 (ilog2 x + 1)"
proof -
  have "pow2 (ilog2 x) \<le> x \<and> x < pow2 (ilog2 x + 1)"
  proof (cases "1 \<le> x")
    case True
    then have "0 < \<lfloor>x\<rfloor>" by linarith
    from bit_length_bounds [OF this] have "pow2 (bit_length \<lfloor>x\<rfloor> - 1) \<le> x" "x < pow2 (bit_length \<lfloor>x\<rfloor>)"
      by linarith+
    then show ?thesis
      using True by (simp add: ilog2_def)
  next
    case False
    define c where "c = \<lceil>1 / x\<rceil> - 1"
    have "1 < 1 / x" using assms False by (simp add: field_simps)
    then have c: "0 < c" by (simp add: c_def)
    have "of_int c < 1 / x" "1 / x \<le> of_int c + 1"
      unfolding c_def by linarith+
    with bit_length_bounds [OF c] have "pow2 (bit_length c - 1) < 1 / x" "1 / x \<le> pow2 (bit_length c)"
      by linarith+
    then have "x < 1 / pow2 (bit_length c - 1)" "1 / pow2 (bit_length c) \<le> x"
      using assms by (simp_all add: field_simps)
    moreover have "pow2 (- bit_length c) = 1 / pow2 (bit_length c)" "pow2 (- bit_length c + 1) = 1 / pow2 (bit_length c - 1)"
      using pow2_diff [of 0 "bit_length c"] pow2_diff [of 0 "bit_length c - 1"] by simp_all
    ultimately show ?thesis
      using False by (simp add: ilog2_def c_def)
  qed
  then show "pow2 (ilog2 x) \<le> x" "x < pow2 (ilog2 x + 1)" by simp_all
qed

lemma ilog2_unique:
  assumes "pow2 e \<le> x" "x < pow2 (e + 1)"
  shows "ilog2 x = e"
proof -
  have "0 < x" using assms(1) pow2_pos [of e] by linarith
  note b = ilog2_bounds [OF this]
  have "pow2 e < pow2 (ilog2 x + 1)" "pow2 (ilog2 x) < pow2 (e + 1)"
    using b assms by linarith+
  then show ?thesis by simp
qed

lemma ilog2_less: "0 < x \<Longrightarrow> x < pow2 e \<Longrightarrow> ilog2 x < e"
  using ilog2_bounds [of x] pow2_less_iff [of "ilog2 x" e] by linarith

lemma round_even_int [simp]: "round_even (of_int n) = n"
  by (simp add: round_even_def)

lemma round_even_error: "\<bar>of_int (round_even m) - m\<bar> \<le> 1 / 2"
proof -
  have "of_int \<lfloor>m\<rfloor> \<le> m" "m < of_int \<lfloor>m\<rfloor> + 1" by linarith+
  then show ?thesis
    unfolding round_even_def Let_def by (simp add: abs_le_iff)
qed

lemma rnd_error: "\<bar>rnd F x - x\<bar> \<le> pow2 (ulp_exp F x) / 2"
proof (cases "x = 0")
  case False
  let ?u = "pow2 (ulp_exp F x)"
  have "rnd F x - x = (of_int (round_even (x / ?u)) - x / ?u) * ?u"
    using False pow2_pos [of "ulp_exp F x"] by (simp add: rnd_def field_simps)
  then have "\<bar>rnd F x - x\<bar> = \<bar>of_int (round_even (x / ?u)) - x / ?u\<bar> * ?u"
    by (simp only: abs_mult abs_of_pos [OF pow2_pos])
  also have "\<dots> \<le> 1 / 2 * ?u"
    by (intro mult_right_mono round_even_error) (simp add: less_imp_le)
  finally show ?thesis by simp
qed (simp add: rnd_def less_imp_le)

lemma rnd_representable:
  assumes "representable F x"
  shows "rnd F x = x"
proof (cases "x = 0")
  case False
  obtain n k where nk: "x = of_int n * pow2 k" "\<bar>n\<bar> < 2 ^ fprec F" "femin F - int (fprec F) + 1 \<le> k"
    using assms by (auto simp add: representable_def)
  have "rat_of_int \<bar>n\<bar> < of_int (2 ^ fprec F)"
    using nk(2) by (simp only: of_int_less_iff)
  then have "\<bar>rat_of_int n\<bar> < pow2 (int (fprec F))"
    by (simp add: pow2_def)
  then have "\<bar>x\<bar> < pow2 (int (fprec F) + k)"
    by (simp add: nk(1) abs_mult pow2_add)
  then have "ilog2 \<bar>x\<bar> < int (fprec F) + k"
    using False by (intro ilog2_less) simp_all
  then have "0 \<le> k - ulp_exp F x"
    using nk(3) by (simp add: ulp_exp_def)
  then have "pow2 (k - ulp_exp F x) = of_int (2 ^ nat (k - ulp_exp F x))"
    by (simp add: pow2_def)
  then have "x / pow2 (ulp_exp F x) = of_int (n * 2 ^ nat (k - ulp_exp F x))"
    by (subst nk(1)) (simp only: pow2_diff of_int_mult times_divide_eq_right [symmetric])
  then have "round_even (x / pow2 (ulp_exp F x)) = n * 2 ^ nat (k - ulp_exp F x)"
    by (simp only: round_even_int)
  with \<open>x / _ = _\<close> have "rnd F x = x / pow2 (ulp_exp F x) * pow2 (ulp_exp F x)"
    using False by (simp only: rnd_def if_False)
  then show ?thesis by simp
qed (simp add: rnd_def)

lemma fround_representable:
  assumes "representable F x" and "\<bar>x\<bar> < pow2 (femax F + 1)"
  shows "fround F x = Fin x"
proof -
  have "ilog2 \<bar>x\<bar> < femax F + 1" if "x \<noteq> 0"
    using assms(2) that by (intro ilog2_less) simp_all
  then show ?thesis
    using assms(1) by (auto simp add: fround_def rnd_representable)
qed

lemma representable_int:
  assumes "wf_fmt F" and "\<bar>n\<bar> \<le> 2 ^ fprec F"
  shows "representable F (of_int n)"
proof (cases "\<bar>n\<bar> = 2 ^ fprec F")
  case True
  then have "n = sgn n * 2 ^ fprec F"
    by (metis abs_mult_sgn mult.commute)
  then have "rat_of_int n = of_int (sgn n) * pow2 (int (fprec F))"
    by (metis nat_int of_int_mult of_int_numeral of_int_power pow2_def of_nat_0_le_iff)
  moreover have "\<bar>sgn n\<bar> < 2 ^ fprec F"
    using assms(1) by (simp add: wf_fmt_def abs_sgn_eq)
  ultimately show ?thesis
    using assms(1) unfolding representable_def wf_fmt_def by (intro exI [of _ "sgn n"] exI [of _ "int (fprec F)"]) auto
next
  case False
  then show ?thesis
    using assms unfolding representable_def wf_fmt_def by (intro exI [of _ n] exI [of _ 0]) auto
qed

lemma fp_of_int_exact:
  assumes "wf_fmt F" and "\<bar>n\<bar> \<le> 2 ^ fprec F"
  shows "fp_of_int F n = Fin (of_int n)"
proof -
  have "rat_of_int \<bar>n\<bar> \<le> of_int (2 ^ fprec F)"
    using assms(2) by (simp only: of_int_le_iff)
  also have "\<dots> = pow2 (int (fprec F))" by (simp add: pow2_def)
  also have "\<dots> < pow2 (femax F + 1)" using assms(1) by (simp add: wf_fmt_def)
  finally show ?thesis
    using assms unfolding fp_of_int_def by (intro fround_representable representable_int) simp_all
qed

lemma ftrunc_int [simp]: "ftrunc (of_int n) = n"
  by (simp add: ftrunc_def)

lemma wf_fmts [simp]: "wf_fmt FLOAT" "wf_fmt DOUBLE" "wf_fmt EXTENDED"
  by (simp_all add: wf_fmt_def FLOAT_def DOUBLE_def EXTENDED_def)

lemma fround_1 [simp]: "wf_fmt F \<Longrightarrow> fround F 1 = Fin 1"
  using fp_of_int_exact [of F 1] by (simp add: fp_of_int_def)

lemma fround_0 [simp]: "fround F 0 = Fin 0"
  by (simp add: fround_def rnd_def)

lemma fp_div_self: "wf_fmt F \<Longrightarrow> a \<noteq> 0 \<Longrightarrow> fp_div F (Fin a) (Fin a) = Fin 1"
  by simp

lemma fp_lt_NaN [simp]: "\<not> fp_lt NaN x" "\<not> fp_lt x NaN"
  by (cases x; simp)+

lemma fp_lt_asym: "fp_lt x y \<Longrightarrow> \<not> fp_lt y x"
  by (cases x; cases y; auto)

lemma fp_to_int_range:
  "lo \<le> n \<Longrightarrow> n \<le> hi \<Longrightarrow> fp_to_int oob lo hi (Fin (of_int n)) = n"
  by simp

section \<open>Finite results\<close>

text \<open>Values that are finite and below a power of two; every operation on such values is finite as long
  as the powers fit the format.\<close>

definition fp_below :: "int \<Rightarrow> fp \<Rightarrow> bool" where
  "fp_below k x \<longleftrightarrow> (\<exists>r. x = Fin r \<and> \<bar>r\<bar> < pow2 k)"

lemma fp_below_mono: "fp_below k x \<Longrightarrow> k \<le> l \<Longrightarrow> fp_below l x"
  unfolding fp_below_def by (metis less_le_trans pow2_le_iff)

lemma rnd_below:
  assumes "\<bar>x\<bar> < pow2 k" and "femin F \<le> k" and "0 < fprec F"
  shows "\<bar>rnd F x\<bar> < pow2 (k + 1)"
proof (cases "x = 0")
  case False
  then have "ilog2 \<bar>x\<bar> < k" using assms(1) by (intro ilog2_less) simp_all
  then have "ulp_exp F x \<le> k" using assms(2,3) by (simp add: ulp_exp_def)
  then have "pow2 (ulp_exp F x) \<le> pow2 k" by simp
  with rnd_error [of F x] assms(1) have "\<bar>rnd F x\<bar> < pow2 k + pow2 k" by linarith
  then show ?thesis by (simp add: pow2_add)
qed (simp add: rnd_def)

lemma fround_below:
  assumes "\<bar>x\<bar> < pow2 k" and "femin F \<le> k" and "0 < fprec F" and "k \<le> femax F"
  shows "fp_below (k + 1) (fround F x)"
proof -
  have "\<bar>rnd F x\<bar> < pow2 (k + 1)" using assms by (intro rnd_below)
  moreover from this have "rnd F x \<noteq> 0 \<Longrightarrow> ilog2 \<bar>rnd F x\<bar> \<le> femax F"
    using assms(4) ilog2_less [of "\<bar>rnd F x\<bar>" "k + 1"] by simp
  ultimately show ?thesis
    by (auto simp add: fround_def fp_below_def Let_def)
qed

lemma fp_below_add:
  assumes "fp_below a x" and "fp_below b y" and "a \<le> c" and "b \<le> c"
    and "wf_fmt F" and "0 \<le> c" and "c < femax F"
  shows "fp_below (c + 2) (fp_add F x y)"
proof -
  obtain r s where "x = Fin r" "y = Fin s" "\<bar>r\<bar> < pow2 c" "\<bar>s\<bar> < pow2 c"
    using assms(1-4) fp_below_mono by (metis fp_below_def)
  moreover from this have "\<bar>r + s\<bar> < pow2 (c + 1)" by (simp add: pow2_add)
  ultimately show ?thesis
    using fround_below [of "r + s" "c + 1" F] assms(5-) by (simp add: wf_fmt_def add.commute)
qed

lemma fp_below_mul:
  assumes "fp_below a x" and "fp_below b y"
    and "wf_fmt F" and "0 \<le> a + b" and "a + b \<le> femax F"
  shows "fp_below (a + b + 1) (fp_mul F x y)"
proof -
  obtain r s where rs: "x = Fin r" "y = Fin s" "\<bar>r\<bar> < pow2 a" "\<bar>s\<bar> < pow2 b"
    using assms(1,2) by (auto simp add: fp_below_def)
  then have "\<bar>r * s\<bar> < pow2 (a + b)"
    by (simp add: abs_mult pow2_add mult_strict_mono')
  with rs show ?thesis
    using fround_below [of "r * s" "a + b" F] assms(3-) by (simp add: wf_fmt_def)
qed

lemma fround_pow2: "femin F - int (fprec F) + 1 \<le> k \<Longrightarrow> k \<le> femax F \<Longrightarrow> 0 < fprec F \<Longrightarrow> fround F (pow2 k) = Fin (pow2 k)"
  by (intro fround_representable, unfold representable_def, intro exI [of _ 1] exI [of _ k]) auto

lemma fp_below_int: "wf_fmt F \<Longrightarrow> \<bar>n\<bar> < 2 ^ k \<Longrightarrow> int k \<le> femax F \<Longrightarrow> fp_below (int k + 1) (fp_of_int F n)"
proof -
  assume "wf_fmt F" "\<bar>n\<bar> < 2 ^ k" "int k \<le> femax F"
  moreover from this(2) have "\<bar>rat_of_int n\<bar> < pow2 (int k)"
    by (metis nat_int of_int_abs of_int_less_iff of_int_numeral of_int_power of_nat_0_le_iff pow2_def)
  ultimately show ?thesis
    unfolding fp_of_int_def by (intro fround_below) (simp_all add: wf_fmt_def)
qed

text \<open>A positive integer does not vanish in a conversion.\<close>

lemma fp_of_int_ge_half:
  assumes "wf_fmt F" and "0 < n" and "fp_of_int F n = Fin r"
  shows "1 / 2 \<le> r"
proof -
  let ?x = "rat_of_int n"
  have x: "1 \<le> ?x" using assms(2) by simp
  have "0 \<le> ilog2 ?x" using ilog2_bounds(2) [of ?x] x pow2_le_iff [of "ilog2 ?x + 1" 0] by force
  then have "ulp_exp F ?x \<le> ilog2 ?x" using assms(1,2) by (simp add: ulp_exp_def wf_fmt_def)
  then have "pow2 (ulp_exp F ?x) \<le> ?x"
    using ilog2_bounds(1) [of ?x] x pow2_le_iff [of "ulp_exp F ?x" "ilog2 ?x"] by linarith
  then have "1 / 2 \<le> rnd F ?x" using rnd_error [of F ?x] x by linarith
  moreover have "r = rnd F ?x" using assms(3) by (auto simp add: fp_of_int_def fround_def Let_def split: if_splits)
  ultimately show ?thesis by simp
qed

lemma fp_below_quotient:
  assumes "wf_fmt F" and "100 \<le> femax F" and "0 \<le> n" and "n < 2 ^ 64" and "0 < d" and "d < 2 ^ 64"
  shows "fp_below 68 (fp_div F (fp_of_int F n) (fp_of_int F d))"
proof -
  have "fp_below 65 (fp_of_int F n)" "fp_below 65 (fp_of_int F d)"
    using fp_below_int [of F _ 64] assms by simp_all
  then obtain r s where rs: "fp_of_int F n = Fin r" "fp_of_int F d = Fin s" "\<bar>r\<bar> < pow2 65"
    by (auto simp add: fp_below_def)
  have s: "1 / 2 \<le> s" by (rule fp_of_int_ge_half [OF assms(1,5) rs(2)])
  then have "1 / s \<le> 2" by (simp add: field_simps)
  then have "\<bar>r / s\<bar> \<le> \<bar>r\<bar> * 2"
    using s mult_left_mono [of "1 / s" 2 "\<bar>r\<bar>"] by (simp add: abs_divide)
  also have "\<dots> < pow2 66" using rs(3) pow2_add [of 65 1] by simp
  finally have "\<bar>r / s\<bar> < pow2 67" using pow2_less [of 66 67] by linarith
  with rs s show ?thesis
    using fround_below [of "r / s" 67 F] assms(1,2) by (simp add: wf_fmt_def)
qed

text \<open>Rounding does not leave a range between small integers.\<close>

lemma round_even_le: "m \<le> of_int n \<Longrightarrow> round_even m \<le> n"
proof -
  assume "m \<le> of_int n"
  then have "\<lfloor>m\<rfloor> \<le> n" "\<lfloor>m\<rfloor> = n \<Longrightarrow> m = of_int n" using floor_mono [of m "of_int n"] by (simp, linarith)
  then show ?thesis unfolding round_even_def Let_def by (cases "\<lfloor>m\<rfloor> = n") auto
qed

lemma round_even_ge: "of_int n \<le> m \<Longrightarrow> n \<le> round_even m"
proof -
  assume "of_int n \<le> m"
  then have "n \<le> \<lfloor>m\<rfloor>" by (simp add: le_floor_iff)
  then show ?thesis unfolding round_even_def Let_def by auto
qed

lemma int_less_pow2: "n < 2 ^ k \<Longrightarrow> rat_of_int n < pow2 (int k)"
  by (metis nat_int of_int_less_iff of_int_numeral of_int_power of_nat_0_le_iff pow2_def)

lemma rnd_within_int:
  assumes "wf_fmt F" and "\<bar>x\<bar> \<le> of_int n" and "n < 2 ^ fprec F"
  shows "\<bar>rnd F x\<bar> \<le> of_int n"
proof (cases "x = 0")
  case False
  let ?e = "ulp_exp F x"
  have "\<bar>x\<bar> < pow2 (int (fprec F))" using assms(2) int_less_pow2 [OF assms(3)] by (rule le_less_trans)
  then have "ilog2 \<bar>x\<bar> < int (fprec F)" using False by (intro ilog2_less) simp_all
  then have "?e \<le> 0" using assms(1) unfolding ulp_exp_def wf_fmt_def by linarith
  then have n: "of_int (n * 2 ^ nat (- ?e)) * pow2 ?e = of_int n"
    by (auto simp add: pow2_def)
  define k where "k = n * 2 ^ nat (- ?e)"
  have u: "0 < pow2 ?e" by simp
  have k: "of_int k * pow2 ?e = of_int n" using n by (simp add: k_def)
  have "x / pow2 ?e \<le> of_int k" "of_int (- k) \<le> x / pow2 ?e"
    using assms(2) u k by (simp_all add: field_simps abs_le_iff)
  then have "round_even (x / pow2 ?e) \<le> k" "- k \<le> round_even (x / pow2 ?e)"
    by (blast intro: round_even_le, blast intro: round_even_ge)
  then have "\<bar>rat_of_int (round_even (x / pow2 ?e))\<bar> \<le> of_int k"
    by (simp add: abs_le_iff flip: of_int_minus)
  then have "\<bar>rat_of_int (round_even (x / pow2 ?e))\<bar> * pow2 ?e \<le> of_int k * pow2 ?e"
    using less_imp_le [OF u] by (rule mult_right_mono)
  then show ?thesis
    using False k by (simp add: rnd_def abs_mult)
qed (use assms in \<open>simp add: rnd_def\<close>)

lemma fround_within_int:
  assumes "wf_fmt F" and "\<bar>x\<bar> \<le> of_int n" and "n < 2 ^ fprec F"
  shows "\<exists>r. fround F x = Fin r \<and> \<bar>r\<bar> \<le> of_int n"
proof -
  have r: "\<bar>rnd F x\<bar> \<le> of_int n" by (rule rnd_within_int [OF assms])
  have "\<bar>rnd F x\<bar> < pow2 (int (fprec F))" using r int_less_pow2 [OF assms(3)] by (rule le_less_trans)
  then have "ilog2 \<bar>rnd F x\<bar> < femax F + 1" if "rnd F x \<noteq> 0"
    using that assms(1) ilog2_less [of "\<bar>rnd F x\<bar>" "int (fprec F)"] by (simp add: wf_fmt_def)
  then show ?thesis using r by (auto simp add: fround_def Let_def)
qed

lemma rnd_near:
  assumes "wf_fmt F" and "\<bar>x\<bar> < pow2 (int (fprec F))"
  shows "\<bar>rnd F x - x\<bar> \<le> 1"
proof (cases "x = 0")
  case False
  then have "ilog2 \<bar>x\<bar> < int (fprec F)" using assms(2) by (intro ilog2_less) simp_all
  then have "ulp_exp F x \<le> 0" using assms(1) unfolding ulp_exp_def wf_fmt_def by linarith
  then have "pow2 (ulp_exp F x) \<le> pow2 0" by (simp only: pow2_le_iff)
  then show ?thesis using rnd_error [of F x] by simp
qed (simp add: rnd_def)

lemma fround_near:
  assumes "wf_fmt F" and "\<bar>x\<bar> < pow2 (int (fprec F))"
  shows "\<exists>r. fround F x = Fin r \<and> \<bar>r - x\<bar> \<le> 1"
proof -
  have "fp_below (int (fprec F) + 1) (fround F x)"
    using assms by (intro fround_below) (simp_all add: wf_fmt_def)
  then have "fround F x = Fin (rnd F x)"
    by (auto simp add: fp_below_def fround_def Let_def split: if_splits)
  then show ?thesis using rnd_near [OF assms] by simp
qed

lemma ftrunc_near: "\<bar>of_int (ftrunc r) - r\<bar> < (1 :: rat)"
  unfolding ftrunc_def by (simp add: abs_less_iff) linarith

end
