(* ===== verification/Std_Map.thy ===== *)
theory Std_Map
  imports Ieee1588
begin

text \<open>
  \<open>std::map\<close> as the sources use it: an association list in increasing order of the keys, compared
  by the \<open>operator<\<close> of the key type. The locale \<open>map_keys\<close> states what a key type must promise, a
  strict total order on its well-formed keys; the laws of lookup, assignment and removal are proved
  once inside it. Its instances are the \<open>int\<close> keys of the Linux timer queue and the
  \<open>PortIdentity\<close> keys of the identity map of \<open>EtherPort\<close>.
\<close>

section \<open>Operations\<close>

fun smap_find :: "('k \<Rightarrow> 'k \<Rightarrow> bool) \<Rightarrow> 'k \<Rightarrow> ('k \<times> 'v) list \<Rightarrow> 'v option" where
  "smap_find lt k [] = None"
| "smap_find lt k ((a, v) # m) =
     (if lt a k then smap_find lt k m else if lt k a then None else Some v)"

text \<open>\<open>m[k] = v\<close>\<close>

fun smap_assign :: "('k \<Rightarrow> 'k \<Rightarrow> bool) \<Rightarrow> 'k \<Rightarrow> 'v \<Rightarrow> ('k \<times> 'v) list \<Rightarrow> ('k \<times> 'v) list" where
  "smap_assign lt k v [] = [(k, v)]"
| "smap_assign lt k v ((a, u) # m) =
     (if lt a k then (a, u) # smap_assign lt k v m
      else if lt k a then (k, v) # (a, u) # m else (a, v) # m)"

fun smap_erase :: "('k \<Rightarrow> 'k \<Rightarrow> bool) \<Rightarrow> 'k \<Rightarrow> ('k \<times> 'v) list \<Rightarrow> ('k \<times> 'v) list" where
  "smap_erase lt k [] = []"
| "smap_erase lt k ((a, u) # m) =
     (if lt a k then (a, u) # smap_erase lt k m
      else if lt k a then (a, u) # m else m)"

text \<open>Representation invariant: well-formed keys, strictly increasing.\<close>

fun smap_inv :: "('k \<Rightarrow> 'k \<Rightarrow> bool) \<Rightarrow> ('k \<Rightarrow> bool) \<Rightarrow> ('k \<times> 'v) list \<Rightarrow> bool" where
  "smap_inv lt ok [] \<longleftrightarrow> True"
| "smap_inv lt ok ((a, u) # m) \<longleftrightarrow>
     ok a \<and> (\<forall>p \<in> set m. lt a (fst p)) \<and> smap_inv lt ok m"

section \<open>Laws\<close>

locale map_keys =
  fixes lt :: "'k \<Rightarrow> 'k \<Rightarrow> bool" and ok :: "'k \<Rightarrow> bool"
  assumes irrefl: "ok a \<Longrightarrow> \<not> lt a a"
    and trans: "ok a \<Longrightarrow> ok b \<Longrightarrow> ok c \<Longrightarrow> lt a b \<Longrightarrow> lt b c \<Longrightarrow> lt a c"
    and total: "ok a \<Longrightarrow> ok b \<Longrightarrow> lt a b \<or> a = b \<or> lt b a"
begin

lemma asym: "ok a \<Longrightarrow> ok b \<Longrightarrow> lt a b \<Longrightarrow> \<not> lt b a"
  using irrefl trans by blast

lemma inv_wf: "smap_inv lt ok m \<Longrightarrow> p \<in> set m \<Longrightarrow> ok (fst p)"
  by (induction m) auto

lemma find_None: "\<forall>p \<in> set m. ok (fst p) \<and> lt k (fst p) \<Longrightarrow> ok k \<Longrightarrow> smap_find lt k m = None"
  by (induction m) (auto dest: asym)

lemma find_map_of: "smap_inv lt ok m \<Longrightarrow> ok k \<Longrightarrow> smap_find lt k m = map_of m k"
proof (induction m)
  case (Cons p m)
  obtain a u where p: "p = (a, u)" by fastforce
  show ?case
  proof (cases "lt k a")
    case True
    then have "\<forall>q \<in> set m. lt k (fst q)"
      using Cons.prems p trans [of k a] by (auto dest: inv_wf)
    then have "map_of m k = None"
      using Cons.prems(2) irrefl by (auto simp add: map_of_eq_None_iff)
    then show ?thesis
      using True Cons.prems p irrefl asym [of k a] by auto
  next
    case False
    then show ?thesis
      using Cons p irrefl [of k] total [of a k] by auto
  qed
qed simp

lemma assign_keys: "q \<in> set (smap_assign lt k v m) \<Longrightarrow> fst q = k \<or> (\<exists>p \<in> set m. fst q = fst p)"
  by (induction m) (auto split: if_splits)

lemma assign_inv: "smap_inv lt ok m \<Longrightarrow> ok k \<Longrightarrow> smap_inv lt ok (smap_assign lt k v m)"
proof (induction m)
  case (Cons p m)
  obtain a u where p: "p = (a, u)" by fastforce
  have "\<forall>q \<in> set (smap_assign lt k v m). lt a (fst q)" if "lt a k"
    using assign_keys [of _ k v m] Cons.prems(1) p that by fastforce
  moreover have "\<forall>q \<in> set m. lt k (fst q)" if "lt k a"
    using Cons.prems p that trans [of k a] by (auto dest: inv_wf)
  ultimately show ?case
    using Cons p by auto
qed simp

lemma map_of_assign:
  "smap_inv lt ok m \<Longrightarrow> ok k \<Longrightarrow> map_of (smap_assign lt k v m) = (map_of m)(k \<mapsto> v)"
proof (induction m)
  case (Cons p m)
  obtain a u where p: "p = (a, u)" by fastforce
  show ?case
    using Cons p total [of a k] irrefl [of k] by (auto simp add: fun_upd_twist)
qed simp

lemma find_assign:
  assumes "smap_inv lt ok m" and "ok k" and "ok j"
  shows "smap_find lt j (smap_assign lt k v m) = (if j = k then Some v else smap_find lt j m)"
  using assms by (simp add: find_map_of assign_inv map_of_assign)

lemma erase_subset: "set (smap_erase lt k m) \<subseteq> set m"
  by (induction m) (auto split: if_splits)

lemma erase_inv: "smap_inv lt ok m \<Longrightarrow> smap_inv lt ok (smap_erase lt k m)"
proof (induction m)
  case (Cons p m)
  then show ?case
    using erase_subset [of k m] by (cases p) auto
qed simp

lemma inv_distinct: "smap_inv lt ok m \<Longrightarrow> distinct (map fst m)"
proof (induction m)
  case (Cons p m)
  then show ?case
    using irrefl by (cases p) auto
qed simp

lemma filter_inv: "smap_inv lt ok m \<Longrightarrow> smap_inv lt ok (filter P m)"
  by (induction m) auto

text \<open>A key that is found stands once in the list, and erasing it removes that entry only.\<close>

lemma find_split:
  "smap_find lt k m = Some v \<Longrightarrow> smap_inv lt ok m \<Longrightarrow> ok k \<Longrightarrow>
     \<exists>xs ys. m = xs @ (k, v) # ys \<and> smap_erase lt k m = xs @ ys"
proof (induction m)
  case (Cons p m)
  obtain a u where p: "p = (a, u)" by fastforce
  show ?case
  proof (cases "lt a k")
    case True
    then obtain xs ys where "m = xs @ (k, v) # ys" "smap_erase lt k m = xs @ ys"
      using Cons p by auto
    then show ?thesis
      using True p by (intro exI [of _ "p # xs"] exI [of _ ys]) auto
  next
    case False
    then have "a = k" "u = v"
      using Cons.prems p total [of a k] by (auto split: if_splits)
    then show ?thesis
      using False Cons.prems p irrefl [of k] by (intro exI [of _ "[]"] exI [of _ m]) auto
  qed
qed simp

end

interpretation int_keys: map_keys "(<) :: int \<Rightarrow> int \<Rightarrow> bool" "\<lambda>_. True"
  by unfold_locales auto

text \<open>Port identities with a clock identity of eight octets.\<close>

definition wf_pi :: "PortIdentity \<Rightarrow> bool" where
  "wf_pi p \<longleftrightarrow> wf_cid (clock_id p)"

lemma pi_key_inj: "wf_pi a \<Longrightarrow> wf_pi b \<Longrightarrow> pi_key a = pi_key b \<Longrightarrow> a = b"
proof -
  assume wf: "wf_pi a" "wf_pi b" and "pi_key a = pi_key b"
  then have "be_val (cid (clock_id a)) = be_val (cid (clock_id b)) \<and>
      uint (portNumber a) = uint (portNumber b)"
    unfolding pi_key_def using u16_bounds by (intro radix_unique) auto
  then show "a = b"
    using wf by (cases a; cases b) (auto simp add: wf_pi_def wf_cid_def be_val_inj cid_inject word_uint_eq_iff)
qed

interpretation pi_keys: map_keys pi_less wf_pi
proof unfold_locales
  fix a b c
  show "wf_pi a \<Longrightarrow> \<not> pi_less a a"
    by (simp add: wf_pi_def pi_less_key)
  show "wf_pi a \<Longrightarrow> wf_pi b \<Longrightarrow> wf_pi c \<Longrightarrow> pi_less a b \<Longrightarrow> pi_less b c \<Longrightarrow> pi_less a c"
    by (simp add: wf_pi_def pi_less_key)
  show "wf_pi a \<Longrightarrow> wf_pi b \<Longrightarrow> pi_less a b \<or> a = b \<or> pi_less b a"
    using pi_key_inj [of a b] by (auto simp add: wf_pi_def pi_less_key)
qed

end
