(* ===== verification/Timer_Queue.thy ===== *)
theory Timer_Queue
  imports Std_Map "HOL-Library.Multiset"
begin

text \<open>
  The timer queue of the Linux platform (\<open>linux/src/linux_hal_common.cpp\<close>): POSIX timers whose
  signal carries an integer key, kept in a map from keys to their arguments. The results of
  \<open>timer_create\<close> and \<open>timer_settime\<close> are arguments of \<open>addEvent\<close>. Expiry of a timer is the delivery of
  a key to the signal thread, which removes the entry before it runs the handler. The locale
  \<open>timer_queue\<close> is what the clock relies on: the queue seen as a multiset of pending timers.
\<close>

section \<open>State\<close>

text \<open>\<open>event_descriptor_t\<close> of \<open>common/ieee1588.hpp\<close>: a port, by its address, and an event.\<close>

record event_descriptor_t =
  ed_event :: Event
  ed_port :: nat

text \<open>The argument of a timer. \<open>it_value\<close> is the expiry given to \<open>timer_settime\<close> in seconds and
  nanoseconds, \<open>None\<close> while the timer is disarmed. The type is the event cast to \<open>int\<close>.\<close>

record LinuxTimerQueueActionArg =
  it_value :: "(u64 \<times> u64) option"
  inner_arg :: event_descriptor_t
  tq_type :: Event
  tq_rm :: bool

text \<open>The key is an \<open>int\<close> of the machine, which no run increments to its end: it is unbounded here.\<close>

record LinuxTimerQueue =
  timerQueueMap :: "(int \<times> LinuxTimerQueueActionArg) list"
  tq_key :: int
  tq_stop :: bool

definition createOSTimerQueue :: LinuxTimerQueue where
  "createOSTimerQueue = \<lparr>timerQueueMap = [], tq_key = 0, tq_stop = False\<rparr>"

section \<open>Operations\<close>

lemma int_find_mem: "smap_find (<) (k :: int) m \<noteq> None \<Longrightarrow> k \<in> fst ` set m"
  by (induction m) (auto split: if_splits)

text \<open>The search for a key that is not in use.\<close>

function find_free_key :: "(int \<times> 'a) list \<Rightarrow> int \<Rightarrow> int" where
  "find_free_key m k = (if smap_find (<) k m \<noteq> None then find_free_key m (k + 1) else k)"
  by pat_completeness auto
termination
proof (relation "measure (\<lambda>(m, k). card {x \<in> fst ` set m. k \<le> x})")
  fix m :: "(int \<times> 'a) list" and k :: int
  assume "smap_find (<) k m \<noteq> None"
  then have "{x \<in> fst ` set m. k + 1 \<le> x} \<subset> {x \<in> fst ` set m. k \<le> x}"
    using int_find_mem [of k m] by force
  then show "((m, k + 1), m, k) \<in> measure (\<lambda>(m, k). card {x \<in> fst ` set m. k \<le> x})"
    by (simp add: psubset_card_mono)
qed simp

declare find_free_key.simps [simp del]

definition itimerspec :: "u64 \<Rightarrow> u64 \<times> u64" where
  "itimerspec micros = (micros div 1000000, (micros mod 1000000) * 1000)"

definition addEvent ::
  "bool \<Rightarrow> bool \<Rightarrow> u64 \<Rightarrow> Event \<Rightarrow> event_descriptor_t \<Rightarrow> bool \<Rightarrow> LinuxTimerQueue \<Rightarrow> bool \<times> LinuxTimerQueue"
  where
  "addEvent created armed micros type arg rm q =
     (let outer_arg = \<lparr>it_value = None, inner_arg = arg, tq_type = type, tq_rm = rm\<rparr>;
          q = q\<lparr>tq_key := find_free_key (timerQueueMap q) (tq_key q)\<rparr>
      in if \<not> created then (False, q)
         else let outer_arg = (if armed then outer_arg\<lparr>it_value := Some (itimerspec micros)\<rparr> else outer_arg)
              in (armed, q\<lparr>timerQueueMap := smap_assign (<) (tq_key q) outer_arg (timerQueueMap q)\<rparr>))"

fun cancel_loop :: "Event \<Rightarrow> (int \<times> LinuxTimerQueueActionArg) list \<Rightarrow> (int \<times> LinuxTimerQueueActionArg) list"
  where
  "cancel_loop type [] = []"
| "cancel_loop type ((k, a) # m) =
     (if tq_type a = type then cancel_loop type m else (k, a) # cancel_loop type m)"

definition cancelEvent :: "Event \<Rightarrow> LinuxTimerQueue \<Rightarrow> bool \<times> LinuxTimerQueue" where
  "cancelEvent type q = (True, q\<lparr>timerQueueMap := cancel_loop type (timerQueueMap q)\<rparr>)"

text \<open>The signal thread on a signal with value \<open>k\<close>: the entry it removes, and on which it then runs
  the handler.\<close>

definition LinuxTimerQueueHandler ::
  "int \<Rightarrow> LinuxTimerQueue \<Rightarrow> (LinuxTimerQueueActionArg \<times> LinuxTimerQueue) option" where
  "LinuxTimerQueueHandler k q =
     (case smap_find (<) k (timerQueueMap q) of
        None \<Rightarrow> None
      | Some arg \<Rightarrow> Some (arg, q\<lparr>timerQueueMap := smap_erase (<) k (timerQueueMap q)\<rparr>))"

section \<open>Interface\<close>

text \<open>What the clock relies on. \<open>pending\<close> is the multiset of timers that have not been delivered.\<close>

locale timer_queue =
  fixes add :: "bool \<Rightarrow> bool \<Rightarrow> u64 \<Rightarrow> Event \<Rightarrow> event_descriptor_t \<Rightarrow> bool \<Rightarrow> 'q \<Rightarrow> bool \<times> 'q"
    and cancel :: "Event \<Rightarrow> 'q \<Rightarrow> bool \<times> 'q"
    and deliver :: "int \<Rightarrow> 'q \<Rightarrow> (LinuxTimerQueueActionArg \<times> 'q) option"
    and pending :: "'q \<Rightarrow> LinuxTimerQueueActionArg multiset"
    and valid :: "'q \<Rightarrow> bool"
  assumes add_valid: "valid q \<Longrightarrow> valid (snd (add c s us e d r q))"
    and cancel_valid: "valid q \<Longrightarrow> valid (snd (cancel e q))"
    and deliver_valid: "valid q \<Longrightarrow> deliver k q = Some (a, q') \<Longrightarrow> valid q'"
    and add_result: "fst (add c s us e d r q) \<longleftrightarrow> c \<and> s"
    and add_pending: "valid q \<Longrightarrow> pending (snd (add c s us e d r q)) =
          (if c then add_mset \<lparr>it_value = (if s then Some (itimerspec us) else None),
                               inner_arg = d, tq_type = e, tq_rm = r\<rparr> (pending q) else pending q)"
    and cancel_pending: "pending (snd (cancel e q)) = filter_mset (\<lambda>a. tq_type a \<noteq> e) (pending q)"
    and deliver_pending: "valid q \<Longrightarrow> deliver k q = Some (a, q') \<Longrightarrow> pending q = add_mset a (pending q')"
    and deliver_some: "valid q \<Longrightarrow> a \<in># pending q \<Longrightarrow> \<exists>k q'. deliver k q = Some (a, q')"
begin

text \<open>Cancelling an event and adding it again, as every \<open>start\<close> function of the ports does.\<close>

definition restart :: "bool \<Rightarrow> bool \<Rightarrow> u64 \<Rightarrow> Event \<Rightarrow> event_descriptor_t \<Rightarrow> bool \<Rightarrow> 'q \<Rightarrow> bool \<times> 'q" where
  "restart c s us e d r q = add c s us e d r (snd (cancel e q))"

lemma restart_valid: "valid q \<Longrightarrow> valid (snd (restart c s us e d r q))"
  by (simp add: restart_def add_valid cancel_valid)

lemma restart_single:
  "valid q \<Longrightarrow> filter_mset (\<lambda>a. tq_type a = e) (pending (snd (restart True s us e d r q))) =
     {#\<lparr>it_value = (if s then Some (itimerspec us) else None), inner_arg = d, tq_type = e, tq_rm = r\<rparr>#}"
  by (simp add: restart_def add_pending cancel_valid cancel_pending filter_filter_mset)

lemma restart_other:
  "valid q \<Longrightarrow> e' \<noteq> e \<Longrightarrow> filter_mset (\<lambda>a. tq_type a = e') (pending (snd (restart c s us e d r q))) =
     filter_mset (\<lambda>a. tq_type a = e') (pending q)"
  by (auto simp add: restart_def add_pending cancel_valid cancel_pending filter_filter_mset
      intro: filter_mset_cong)

text \<open>A delivered timer is gone: no timer is delivered twice.\<close>

lemma deliver_size: "valid q \<Longrightarrow> deliver k q = Some (a, q') \<Longrightarrow> size (pending q) = Suc (size (pending q'))"
  by (simp add: deliver_pending)

lemma deliver_none: "valid q \<Longrightarrow> (\<forall>k. deliver k q = None) \<longleftrightarrow> pending q = {#}"
  using deliver_some deliver_pending by (metis add_mset_not_empty multiset_nonemptyE not_None_eq prod.collapse)

end

section \<open>Correctness of the Linux queue\<close>

definition tq_inv :: "LinuxTimerQueue \<Rightarrow> bool" where
  "tq_inv q \<longleftrightarrow> smap_inv (<) (\<lambda>_. True) (timerQueueMap q)"

definition tq_pending :: "LinuxTimerQueue \<Rightarrow> LinuxTimerQueueActionArg multiset" where
  "tq_pending q = mset (map snd (timerQueueMap q))"

lemma find_free_key_free: "smap_find (<) (find_free_key m k) m = None"
  by (induction m k rule: find_free_key.induct) (subst find_free_key.simps, simp)

lemma find_free_key_ge: "k \<le> find_free_key m k"
proof (induction m k rule: find_free_key.induct)
  case (1 m k)
  then show ?case by (cases "smap_find (<) k m = None") (simp_all add: find_free_key.simps [of m k])
qed

lemma find_free_key_bound: "find_free_key m k \<le> k + int (card {x \<in> fst ` set m. k \<le> x})"
proof (induction m k rule: find_free_key.induct)
  case (1 m k)
  show ?case
  proof (cases "smap_find (<) k m = None")
    case False
    then have "{x \<in> fst ` set m. k \<le> x} = insert k {x \<in> fst ` set m. k + 1 \<le> x}"
      using int_find_mem [of k m] by force
    then have "card {x \<in> fst ` set m. k \<le> x} = Suc (card {x \<in> fst ` set m. k + 1 \<le> x})"
      by simp
    then show ?thesis
      using 1 False by (simp add: find_free_key.simps [of m k])
  qed (simp add: find_free_key.simps [of m k])
qed

lemma cancel_loop_filter: "cancel_loop e m = filter (\<lambda>p. tq_type (snd p) \<noteq> e) m"
  by (induction e m rule: cancel_loop.induct) simp_all

lemma mset_map_filter: "mset (map f (filter (\<lambda>p. P (f p)) m)) = filter_mset P (mset (map f m))"
  by (induction m) simp_all

lemma mset_assign_fresh:
  "smap_find (<) (k :: int) m = None \<Longrightarrow> mset (smap_assign (<) k v m) = add_mset (k, v) (mset m)"
  by (induction m) (auto split: if_splits)

lemma create_inv [simp]: "tq_inv createOSTimerQueue"
  by (simp add: tq_inv_def createOSTimerQueue_def)

interpretation ltq: timer_queue addEvent cancelEvent LinuxTimerQueueHandler tq_pending tq_inv
proof unfold_locales
  fix q q' c s us e d r k a
  show "tq_inv q \<Longrightarrow> tq_inv (snd (addEvent c s us e d r q))"
    by (simp add: tq_inv_def addEvent_def Let_def int_keys.assign_inv)
  show "tq_inv q \<Longrightarrow> tq_inv (snd (cancelEvent e q))"
    by (simp add: tq_inv_def cancelEvent_def cancel_loop_filter int_keys.filter_inv)
  show "tq_inv q \<Longrightarrow> LinuxTimerQueueHandler k q = Some (a, q') \<Longrightarrow> tq_inv q'"
    by (auto simp add: tq_inv_def LinuxTimerQueueHandler_def int_keys.erase_inv split: option.splits)
  show "fst (addEvent c s us e d r q) \<longleftrightarrow> c \<and> s"
    by (simp add: addEvent_def Let_def)
  show "tq_pending (snd (addEvent c s us e d r q)) =
      (if c then add_mset \<lparr>it_value = (if s then Some (itimerspec us) else None),
         inner_arg = d, tq_type = e, tq_rm = r\<rparr> (tq_pending q) else tq_pending q)"
    by (simp add: tq_pending_def addEvent_def Let_def mset_assign_fresh find_free_key_free)
  show "tq_pending (snd (cancelEvent e q)) = filter_mset (\<lambda>a. tq_type a \<noteq> e) (tq_pending q)"
    using mset_map_filter [of snd "\<lambda>a. tq_type a \<noteq> e"]
    by (simp add: tq_pending_def cancelEvent_def cancel_loop_filter del: mset_map)
  show "tq_inv q \<Longrightarrow> LinuxTimerQueueHandler k q = Some (a, q') \<Longrightarrow> tq_pending q = add_mset a (tq_pending q')"
    using int_keys.find_split [of k "timerQueueMap q" a]
    by (auto simp add: tq_inv_def tq_pending_def LinuxTimerQueueHandler_def split: option.splits)
  show "tq_inv q \<Longrightarrow> a \<in># tq_pending q \<Longrightarrow> \<exists>k q'. LinuxTimerQueueHandler k q = Some (a, q')"
  proof -
    assume "tq_inv q" "a \<in># tq_pending q"
    then obtain k where "(k, a) \<in> set (timerQueueMap q)" by (auto simp add: tq_pending_def)
    then have "smap_find (<) k (timerQueueMap q) = Some a"
      using \<open>tq_inv q\<close> by (simp add: tq_inv_def int_keys.find_map_of int_keys.inv_distinct)
    then have "LinuxTimerQueueHandler k q = Some (a, q\<lparr>timerQueueMap := smap_erase (<) k (timerQueueMap q)\<rparr>)"
      by (simp add: LinuxTimerQueueHandler_def)
    then show ?thesis by blast
  qed
qed

text \<open>\<open>addEvent\<close> terminates with a key that no pending timer has, between the previous key and
  that key plus the number of timers; the new timer is stored under it, every other timer keeps its
  key, and the result is true exactly when the timer was created and armed.\<close>

theorem addEvent_fresh_key:
  assumes "tq_inv q" and "addEvent created armed us e d r q = (ok, q')"
  shows "map_of (timerQueueMap q) (tq_key q') = None \<and>
    tq_key q \<le> tq_key q' \<and> tq_key q' \<le> tq_key q + int (length (timerQueueMap q)) \<and>
    map_of (timerQueueMap q') =
      (if created
       then (map_of (timerQueueMap q))(tq_key q' \<mapsto>
              \<lparr>it_value = (if armed then Some (itimerspec us) else None), inner_arg = d, tq_type = e, tq_rm = r\<rparr>)
       else map_of (timerQueueMap q)) \<and>
    (ok \<longleftrightarrow> created \<and> armed)"
proof (intro conjI)
  have key: "tq_key q' = find_free_key (timerQueueMap q) (tq_key q)"
    and res: "ok \<longleftrightarrow> created \<and> armed"
    using assms(2) by (auto simp add: addEvent_def Let_def split: if_splits)
  have "card {x \<in> fst ` set (timerQueueMap q). tq_key q \<le> x} \<le> card (set (map fst (timerQueueMap q)))"
    by (intro card_mono) auto
  also have "\<dots> \<le> length (timerQueueMap q)"
    using card_length [of "map fst (timerQueueMap q)"] by simp
  finally have "card {x \<in> fst ` set (timerQueueMap q). tq_key q \<le> x} \<le> length (timerQueueMap q)" .
  then show "tq_key q' \<le> tq_key q + int (length (timerQueueMap q))" "tq_key q \<le> tq_key q'"
    using find_free_key_bound [of "timerQueueMap q" "tq_key q"] find_free_key_ge key by simp_all
  show "map_of (timerQueueMap q) (tq_key q') = None"
    using assms(1) find_free_key_free [of "timerQueueMap q" "tq_key q"] key
    by (simp add: tq_inv_def int_keys.find_map_of)
  show "map_of (timerQueueMap q') =
      (if created
       then (map_of (timerQueueMap q))(tq_key q' \<mapsto>
              \<lparr>it_value = (if armed then Some (itimerspec us) else None), inner_arg = d, tq_type = e, tq_rm = r\<rparr>)
       else map_of (timerQueueMap q))"
    using assms by (auto simp add: addEvent_def Let_def tq_inv_def int_keys.map_of_assign split: if_splits)
  show "ok \<longleftrightarrow> created \<and> armed" by (rule res)
qed

text \<open>C37. Restarting a timer, \<open>cancelEvent\<close> then \<open>addEvent\<close> of the same event, leaves exactly one pending
  timer of that event, the new one, and does not touch the timers of other events.\<close>

theorem timer_restart:
  assumes "tq_inv q" and "q' = snd (addEvent True armed us e d r (snd (cancelEvent e q)))"
  shows "filter_mset (\<lambda>a. tq_type a = e) (tq_pending q') =
      {#\<lparr>it_value = (if armed then Some (itimerspec us) else None), inner_arg = d, tq_type = e, tq_rm = r\<rparr>#} \<and>
    (\<forall>e'. e' \<noteq> e \<longrightarrow>
       filter_mset (\<lambda>a. tq_type a = e') (tq_pending q') = filter_mset (\<lambda>a. tq_type a = e') (tq_pending q)) \<and>
    tq_inv q'"
  using ltq.restart_single [OF assms(1)] ltq.restart_other [OF assms(1)] ltq.restart_valid [OF assms(1)] assms(2)
  unfolding ltq.restart_def by simp_all

text \<open>A signal is delivered to at most one timer, the one stored under its key, which is removed:
  the same signal value delivered again finds nothing, and all other timers stay pending.\<close>

theorem handler_delivers_once:
  assumes "tq_inv q" and "LinuxTimerQueueHandler k q = Some (a, q')"
  shows "map_of (timerQueueMap q) k = Some a \<and> LinuxTimerQueueHandler k q' = None \<and>
    tq_pending q = add_mset a (tq_pending q') \<and> tq_inv q'"
proof (intro conjI)
  show q': "tq_inv q'" and "tq_pending q = add_mset a (tq_pending q')"
    using ltq.deliver_valid [OF assms] ltq.deliver_pending [OF assms] by simp_all
  have find: "smap_find (<) k (timerQueueMap q) = Some a" "timerQueueMap q' = smap_erase (<) k (timerQueueMap q)"
    using assms(2) by (auto simp add: LinuxTimerQueueHandler_def split: option.splits)
  then show "map_of (timerQueueMap q) k = Some a"
    using assms(1) by (simp add: tq_inv_def int_keys.find_map_of)
  obtain xs ys where s: "timerQueueMap q = xs @ (k, a) # ys" "timerQueueMap q' = xs @ ys"
    using int_keys.find_split [OF find(1)] assms(1) find(2) by (auto simp add: tq_inv_def)
  have "distinct (map fst (timerQueueMap q))"
    using assms(1) by (simp add: tq_inv_def int_keys.inv_distinct)
  then have "smap_find (<) k (timerQueueMap q') = None"
    using q' s by (simp add: tq_inv_def int_keys.find_map_of map_of_eq_None_iff)
  then show "LinuxTimerQueueHandler k q' = None"
    by (simp add: LinuxTimerQueueHandler_def)
qed

section \<open>Witnesses\<close>

definition sample_queue :: LinuxTimerQueue where
  "sample_queue =
     snd (addEvent True True 16000 SYNC_INTERVAL_TIMEOUT_EXPIRES
       \<lparr>ed_event = SYNC_INTERVAL_TIMEOUT_EXPIRES, ed_port = 0\<rparr> True
       (snd (addEvent True True 32000 PDELAY_INTERVAL_TIMEOUT_EXPIRES
         \<lparr>ed_event = PDELAY_INTERVAL_TIMEOUT_EXPIRES, ed_port = 0\<rparr> True createOSTimerQueue)))"

lemma sample_queue_inv: "tq_inv sample_queue"
  unfolding sample_queue_def by (intro ltq.add_valid create_inv)

theorem addEvent_fresh_key_witness:
  "map_of (timerQueueMap sample_queue) (tq_key (snd (addEvent True True 5 LINKUP \<lparr>ed_event = LINKUP, ed_port = 0\<rparr> True sample_queue))) = None"
  using addEvent_fresh_key [OF sample_queue_inv prod.collapse [symmetric]] by blast

theorem timer_restart_witness:
  "filter_mset (\<lambda>a. tq_type a = SYNC_INTERVAL_TIMEOUT_EXPIRES)
     (tq_pending (snd (addEvent True True 5 SYNC_INTERVAL_TIMEOUT_EXPIRES \<lparr>ed_event = SYNC_INTERVAL_TIMEOUT_EXPIRES, ed_port = 0\<rparr> True
       (snd (cancelEvent SYNC_INTERVAL_TIMEOUT_EXPIRES sample_queue))))) =
   {#\<lparr>it_value = Some (itimerspec 5), inner_arg = \<lparr>ed_event = SYNC_INTERVAL_TIMEOUT_EXPIRES, ed_port = 0\<rparr>,
      tq_type = SYNC_INTERVAL_TIMEOUT_EXPIRES, tq_rm = True\<rparr>#} \<and>
   filter_mset (\<lambda>a. tq_type a = PDELAY_INTERVAL_TIMEOUT_EXPIRES)
     (tq_pending (snd (addEvent True True 5 SYNC_INTERVAL_TIMEOUT_EXPIRES \<lparr>ed_event = SYNC_INTERVAL_TIMEOUT_EXPIRES, ed_port = 0\<rparr> True
       (snd (cancelEvent SYNC_INTERVAL_TIMEOUT_EXPIRES sample_queue))))) =
   filter_mset (\<lambda>a. tq_type a = PDELAY_INTERVAL_TIMEOUT_EXPIRES) (tq_pending sample_queue)"
  using timer_restart [OF sample_queue_inv refl, where armed = True] by simp

theorem handler_delivers_once_witness:
  "\<exists>a q'. LinuxTimerQueueHandler 1 sample_queue = Some (a, q') \<and> LinuxTimerQueueHandler 1 q' = None \<and> tq_type a = SYNC_INTERVAL_TIMEOUT_EXPIRES"
proof -
  have "map_option (tq_type \<circ> fst) (LinuxTimerQueueHandler 1 sample_queue) = Some SYNC_INTERVAL_TIMEOUT_EXPIRES"
    by code_simp
  then obtain a q' where "LinuxTimerQueueHandler 1 sample_queue = Some (a, q')" "tq_type a = SYNC_INTERVAL_TIMEOUT_EXPIRES"
    by fastforce
  with handler_delivers_once [OF sample_queue_inv this(1)] show ?thesis by blast
qed

end
