(* ===== verification/Ieee1588_Clock.thy ===== *)
theory Ieee1588_Clock
  imports Ptp_Message Gptp_Float Timer_Queue "HOL-Library.Product_Lexorder"
begin

text \<open>
  The clock object of \<open>common/avbts_clock.hpp\<close> and \<open>common/ieee1588clock.cpp\<close>: its state, the
  constructor, the comparison of priority vectors on which the best master clock algorithm rests,
  the measurement of rate ratios, one step of the frequency controller, and the saving and
  restoring of its persistent state. Operations that also act on ports are in the port theories.

  The floating-point formats, the memory representation of a \<open>FrequencyRatio\<close> and the results of
  out-of-range conversions belong to the machine and are the fields of \<open>arch\<close>. Fields of the C++
  class that no operation reads are left out.
\<close>

section \<open>Machine parameters\<close>

record arch =
  fr_fmt :: fmt
  ld_fmt :: fmt
  fr_size :: nat
  fr_bytes :: "fp \<Rightarrow> octets"
  fr_of_bytes :: "octets \<Rightarrow> fp"
  oob :: "fp \<Rightarrow> int"

text \<open>Conversions to the integer types the sources use.\<close>

definition to_i64 :: "'a arch_scheme \<Rightarrow> fp \<Rightarrow> u64" where
  "to_i64 A x = word_of_int (fp_to_int (oob A) (- (2 ^ 63)) (2 ^ 63 - 1) x)"

definition to_u64 :: "'a arch_scheme \<Rightarrow> fp \<Rightarrow> u64" where
  "to_u64 A x = word_of_int (fp_to_int (oob A) 0 (2 ^ 64 - 1) x)"

definition to_i32 :: "'a arch_scheme \<Rightarrow> fp \<Rightarrow> u32" where
  "to_i32 A x = word_of_int (fp_to_int (oob A) (- (2 ^ 31)) (2 ^ 31 - 1) x)"

text \<open>What the clock relies on: formats at least as wide as \<open>double\<close>, and that a value is read back
  from its memory representation.\<close>

definition wf_arch :: "'a arch_scheme \<Rightarrow> bool" where
  "wf_arch A \<longleftrightarrow>
     wf_fmt (fr_fmt A) \<and> wf_fmt (ld_fmt A) \<and>
     53 \<le> fprec (fr_fmt A) \<and> femin (fr_fmt A) \<le> - 1022 \<and> 1023 \<le> femax (fr_fmt A) \<and>
     53 \<le> fprec (ld_fmt A) \<and> femin (ld_fmt A) \<le> - 1022 \<and> 1023 \<le> femax (ld_fmt A)"

definition fr_saved :: "'a arch_scheme \<Rightarrow> fp \<Rightarrow> bool" where
  "fr_saved A x \<longleftrightarrow> length (fr_bytes A x) = fr_size A \<and> fr_of_bytes A (fr_bytes A x) = x"

section \<open>State\<close>

definition MAX_PORTS :: nat where
  "MAX_PORTS = 32"

text \<open>Ports are named by their addresses; a null pointer is \<open>None\<close>.\<close>

record IEEE1588Clock =
  clock_identity :: ClockIdentity
  clock_quality :: ClockQuality
  priority1 :: u8
  priority2 :: u8
  domain_number :: u8
  number_ports :: u16
  current_utc_offset :: u16
  steps_removed :: u16
  grandmaster_clock_identity :: ClockIdentity
  grandmaster_clock_quality :: ClockQuality
  grandmaster_priority1 :: u8
  grandmaster_priority2 :: u8
  time_source :: u8
  LastEBestIdentity :: ClockIdentity
  syntonize :: bool
  new_syntonization_set_point :: bool
  ppm :: fp
  phase_error_violation :: int
  port_list :: "nat option list"
  master_local_freq_offset_init :: bool
  prev_master_time :: Timestamp
  prev_sync_time :: Timestamp
  local_system_freq_offset_init :: bool
  prev_local_time :: Timestamp
  prev_system_time :: Timestamp
  has_ipc :: bool
  timerq :: LinuxTimerQueue
  forceOrdinarySlave :: bool
  master_local_freq_offset :: fp
  local_system_freq_offset :: fp
  fup_info :: FollowUpTLV
  fup_status :: FollowUpTLV

text \<open>The constructor. \<open>mem\<close> is the memory of the new object: members of class type are default
  constructed, and what the body does not assign keeps its value.\<close>

definition IEEE1588Clock_new ::
  "IEEE1588Clock \<Rightarrow> bool \<Rightarrow> bool \<Rightarrow> u8 \<Rightarrow> bool \<Rightarrow> IEEE1588Clock" where
  "IEEE1588Clock_new mem forceOrdinarySlave' syntonize' priority1' ipc =
     mem\<lparr>clock_identity := ClockIdentity_default, grandmaster_clock_identity := ClockIdentity_default,
         prev_master_time := Timestamp_default, prev_sync_time := Timestamp_default,
         prev_local_time := Timestamp_default, prev_system_time := Timestamp_default,
         priority1 := priority1', priority2 := 248, number_ports := 0,
         forceOrdinarySlave := forceOrdinarySlave',
         clock_quality := \<lparr>cq_class = 248, clockAccuracy = 0x22, offsetScaledLogVariance = 0x436A\<rparr>,
         time_source := 160, domain_number := 0,
         syntonize := syntonize', new_syntonization_set_point := False, ppm := Fin 0,
         phase_error_violation := 0,
         master_local_freq_offset_init := False, local_system_freq_offset_init := False,
         has_ipc := ipc, LastEBestIdentity := \<lparr>cid = replicate PTP_CLOCK_IDENTITY_LENGTH 0xFF\<rparr>,
         timerq := createOSTimerQueue,
         fup_info := FollowUpTLV_new, fup_status := FollowUpTLV_new\<rparr>"

section \<open>Accessors with an effect\<close>

definition setGrandmasterClockIdentity :: "ClockIdentity \<Rightarrow> IEEE1588Clock \<Rightarrow> IEEE1588Clock" where
  "setGrandmasterClockIdentity ident c =
     (if cid_neq ident (grandmaster_clock_identity c) then c\<lparr>grandmaster_clock_identity := ident\<rparr> else c)"

definition getNextPortId :: "IEEE1588Clock \<Rightarrow> u16 \<times> IEEE1588Clock" where
  "getNextPortId c =
     (word_of_int (uint (number_ports c) mod (int MAX_PORTS + 1) + 1), c\<lparr>number_ports := number_ports c + 1\<rparr>)"

definition updateFUPInfo :: "IEEE1588Clock \<Rightarrow> IEEE1588Clock" where
  "updateFUPInfo c =
     (let fi = incrementGMTimeBaseIndicator (fup_info c);
          fi = setScaledLastGmFreqChange (getScaledLastGmFreqChange (fup_status c)) fi;
          fi = setScaledLastGmPhaseChange (getScaledLastGmPhaseChange (fup_status c)) fi
      in c\<lparr>fup_info := fi\<rparr>)"

text \<open>\<open>None\<close> stands for the write before the array, with index 0.\<close>

definition registerPort :: "nat \<Rightarrow> u16 \<Rightarrow> IEEE1588Clock \<Rightarrow> IEEE1588Clock option" where
  "registerPort port index c =
     (if index = 0 then None
      else let c = (if unat index < MAX_PORTS
                    then c\<lparr>port_list := (port_list c)[unat index - 1 := Some port]\<rparr> else c)
           in Some (c\<lparr>number_ports := number_ports c + 1\<rparr>))"

definition newSyntonizationSetPoint :: "IEEE1588Clock \<Rightarrow> IEEE1588Clock" where
  "newSyntonizationSetPoint c = c\<lparr>new_syntonization_set_point := True\<rparr>"

definition getSystemTime :: Timestamp where
  "getSystemTime = Timestamp_new 0 0 0"

text \<open>The grandmaster fields set to the properties of the clock itself, and to those of an Announce
  message, as in the best master selection.\<close>

definition grandmaster_self :: "IEEE1588Clock \<Rightarrow> IEEE1588Clock" where
  "grandmaster_self c =
     (let c = setGrandmasterClockIdentity (clock_identity c) c
      in c\<lparr>grandmaster_priority1 := priority1 c, grandmaster_priority2 := priority2 c,
           grandmaster_clock_quality := clock_quality c\<rparr>)"

definition grandmaster_announced :: "PTPMessageAnnounce \<Rightarrow> IEEE1588Clock \<Rightarrow> IEEE1588Clock" where
  "grandmaster_announced m c =
     (let c = setGrandmasterClockIdentity (cid_set (grandmasterIdentity m)) c
      in c\<lparr>grandmaster_priority1 := grandmasterPriority1 m,
           grandmaster_priority2 := grandmasterPriority2 m,
           grandmaster_clock_quality := grandmasterClockQuality m\<rparr>)"

section \<open>Priority vectors\<close>

text \<open>The 14 octets that the \<open>isBetterThan\<close> functions compare.\<close>

definition priority_octets :: "u8 \<Rightarrow> ClockQuality \<Rightarrow> u8 \<Rightarrow> octets \<Rightarrow> octets" where
  "priority_octets p1 q p2 ident =
     [p1, cq_class q, clockAccuracy q] @ le_bytes 2 (PLAT_htons (offsetScaledLogVariance q)) @ [p2] @ ident"

definition clock_vector :: "IEEE1588Clock \<Rightarrow> octets" where
  "clock_vector c =
     priority_octets (priority1 c) (clock_quality c) (priority2 c) (getIdentityString (clock_identity c))"

definition announce_vector :: "PTPMessageAnnounce \<Rightarrow> octets" where
  "announce_vector m =
     priority_octets (grandmasterPriority1 m) (grandmasterClockQuality m) (grandmasterPriority2 m)
       (grandmasterIdentity m)"

text \<open>\<open>PTPMessageAnnounce::isBetterThan\<close> and \<open>IEEE1588Clock::isBetterThan\<close>.\<close>

definition ann_isBetterThan :: "PTPMessageAnnounce \<Rightarrow> PTPMessageAnnounce \<Rightarrow> bool" where
  "ann_isBetterThan a msg \<longleftrightarrow> memcmp (announce_vector a) (announce_vector msg) < 0"

definition clock_isBetterThan :: "IEEE1588Clock \<Rightarrow> PTPMessageAnnounce option \<Rightarrow> bool" where
  "clock_isBetterThan c msg =
     (case msg of None \<Rightarrow> True | Some m \<Rightarrow> memcmp (clock_vector c) (announce_vector m) < 0)"

section \<open>Rate ratios\<close>

definition NEGATIVE_TIME_JUMP :: fp where
  "NEGATIVE_TIME_JUMP = Fin 0"

text \<open>A rate ratio from an offset in ppm, \<open>PPM_OFFSET_TO_RATIO\<close>.\<close>

definition ppm_ratio :: "'a arch_scheme \<Rightarrow> int \<Rightarrow> fp" where
  "ppm_ratio A n = fp_add (fr_fmt A) (fp_div (fr_fmt A) (Fin (of_int n)) (Fin 1000000)) (Fin 1)"

definition calcLocalSystemClockRateDifference ::
  "'a arch_scheme \<Rightarrow> Timestamp \<Rightarrow> Timestamp \<Rightarrow> IEEE1588Clock \<Rightarrow> fp \<times> IEEE1588Clock" where
  "calcLocalSystemClockRateDifference A local_time system_time c =
     (if \<not> local_system_freq_offset_init c
      then (Fin 1, c\<lparr>prev_system_time := system_time, prev_local_time := local_time,
                     local_system_freq_offset_init := True\<rparr>)
      else
        let inter_system_time = TIMESTAMP_TO_NS system_time - TIMESTAMP_TO_NS (prev_system_time c);
            inter_local_time = TIMESTAMP_TO_NS local_time - TIMESTAMP_TO_NS (prev_local_time c);
            ppt_offset =
              (if inter_system_time \<noteq> 0
               then fp_div (fr_fmt A) (fp_of_int (fr_fmt A) (uint inter_local_time))
                      (fp_of_int (fr_fmt A) (uint inter_system_time))
               else Fin 1)
        in (ppt_offset, c\<lparr>prev_system_time := system_time, prev_local_time := local_time\<rparr>))"

definition calcMasterLocalClockRateDifference ::
  "'a arch_scheme \<Rightarrow> Timestamp \<Rightarrow> Timestamp \<Rightarrow> IEEE1588Clock \<Rightarrow> fp \<times> IEEE1588Clock" where
  "calcMasterLocalClockRateDifference A master_time sync_time c =
     (if \<not> master_local_freq_offset_init c
      then (Fin 1, c\<lparr>prev_sync_time := sync_time, prev_master_time := master_time,
                     master_local_freq_offset_init := True\<rparr>)
      else
        let inter_sync_time = TIMESTAMP_TO_NS sync_time - TIMESTAMP_TO_NS (prev_sync_time c);
            master_time_ns = TIMESTAMP_TO_NS master_time;
            prev_master_time_ns = TIMESTAMP_TO_NS (prev_master_time c);
            inter_master_time = master_time_ns - prev_master_time_ns;
            ppt_offset =
              (if inter_sync_time \<noteq> 0
               then fp_div (fr_fmt A) (fp_of_int (fr_fmt A) (uint inter_master_time))
                      (fp_of_int (fr_fmt A) (uint inter_sync_time))
               else Fin 1)
        in if master_time_ns < prev_master_time_ns
           then (NEGATIVE_TIME_JUMP, c\<lparr>master_local_freq_offset_init := False\<rparr>)
           else (ppt_offset, c\<lparr>prev_sync_time := sync_time, prev_master_time := master_time\<rparr>))"

section \<open>Frequency controller\<close>

definition PHASE_ERROR_THRESHOLD :: rat where
  "PHASE_ERROR_THRESHOLD = 1000000000"

definition PHASE_ERROR_MAX_COUNT :: int where
  "PHASE_ERROR_MAX_COUNT = 6"

definition INTEGRAL :: fp where
  "INTEGRAL = fround DOUBLE (3 / 10000)"

definition PROPORTIONAL :: fp where
  "PROPORTIONAL = Fin 1"

definition UPPER_FREQ_LIMIT :: rat where
  "UPPER_FREQ_LIMIT = 250"

definition LOWER_FREQ_LIMIT :: rat where
  "LOWER_FREQ_LIMIT = - 250"

text \<open>\<open>pow(2, n)\<close> in \<open>double\<close>, for an 8-bit exponent.\<close>

definition pow_2 :: "u8 \<Rightarrow> fp" where
  "pow_2 n = Fin (pow2 (sint n))"

text \<open>The part of \<open>setMasterOffset\<close> from the phase error to the limits of the frequency.
  \<open>interval\<close> is the sync interval of the port.\<close>

definition ppm_increment :: "'a arch_scheme \<Rightarrow> u8 \<Rightarrow> fp \<Rightarrow> fp \<Rightarrow> fp" where
  "ppm_increment A interval phase_error freq_offset =
     (let syncPerSec = fp_conv FLOAT (fp_div DOUBLE (Fin 1) (pow_2 interval));
          p = fp_mul (ld_fmt A) (fp_mul DOUBLE INTEGRAL syncPerSec) phase_error;
          f = fp_mul (fr_fmt A) PROPORTIONAL
                (fp_mul (fr_fmt A) (fp_sub (fr_fmt A) freq_offset (Fin 1)) (Fin 1000000))
      in fp_conv FLOAT (fp_add (ld_fmt A) p f))"

definition adjust_frequency :: "'a arch_scheme \<Rightarrow> u8 \<Rightarrow> u64 \<Rightarrow> fp \<Rightarrow> IEEE1588Clock \<Rightarrow> IEEE1588Clock"
  where
  "adjust_frequency A interval master_local_offset freq_offset c =
     (let phase_error = fp_of_int (ld_fmt A) (sint (- master_local_offset));
          c = (if fp_lt (Fin PHASE_ERROR_THRESHOLD) (fp_abs phase_error)
               then c\<lparr>phase_error_violation := phase_error_violation c + 1\<rparr>
               else c\<lparr>phase_error_violation := 0,
                      ppm := fp_add FLOAT (ppm c) (ppm_increment A interval phase_error freq_offset)\<rparr>);
          c = (if fp_lt (ppm c) (Fin LOWER_FREQ_LIMIT) then c\<lparr>ppm := Fin LOWER_FREQ_LIMIT\<rparr> else c);
          c = (if fp_lt (Fin UPPER_FREQ_LIMIT) (ppm c) then c\<lparr>ppm := Fin UPPER_FREQ_LIMIT\<rparr> else c)
      in c)"

section \<open>Persistent state\<close>

text \<open>One block of the \<open>serializeState\<close> functions: \<open>bs\<close> is the memory of the field, the state is the
  result so far, the octets written and the room left; after a failure the count collects the
  octets that are missing. In \<open>restore_field\<close> the octets not yet read take the place of those written.\<close>

fun save_field :: "octets \<Rightarrow> bool \<times> octets \<times> int \<Rightarrow> bool \<times> octets \<times> int" where
  "save_field bs (ret, out, cnt) =
     (if ret \<and> cnt \<ge> int (length bs) then (True, out @ bs, cnt - int (length bs))
      else if \<not> ret then (False, out, cnt + int (length bs))
      else (False, out, int (length bs) - cnt))"

fun restore_field :: "nat \<Rightarrow> (octets \<Rightarrow> 's \<Rightarrow> 's) \<Rightarrow> bool \<times> octets \<times> int \<times> 's \<Rightarrow> bool \<times> octets \<times> int \<times> 's" where
  "restore_field n upd (ret, buf, cnt, s) =
     (if ret \<and> cnt \<ge> int n then (True, drop n buf, cnt - int n, upd (take n buf) s)
      else if \<not> ret then (False, buf, cnt + int n, s)
      else (False, buf, int n - cnt, s))"

text \<open>With a null buffer the function only reports the size.\<close>

definition clock_serializeState :: "'a arch_scheme \<Rightarrow> IEEE1588Clock \<Rightarrow> int option \<Rightarrow> bool \<times> octets \<times> int" where
  "clock_serializeState A c buf =
     (case buf of
        None \<Rightarrow> (True, [], int (fr_size A + fr_size A + PTP_CLOCK_IDENTITY_LENGTH))
      | Some cnt \<Rightarrow>
          save_field (cid (LastEBestIdentity c))
            (save_field (fr_bytes A (local_system_freq_offset c))
              (save_field (fr_bytes A (master_local_freq_offset c)) (True, [], cnt))))"

definition clock_restoreSerializedState ::
  "'a arch_scheme \<Rightarrow> octets \<Rightarrow> int \<Rightarrow> IEEE1588Clock \<Rightarrow> bool \<times> octets \<times> int \<times> IEEE1588Clock" where
  "clock_restoreSerializedState A buf cnt c =
     restore_field PTP_CLOCK_IDENTITY_LENGTH (\<lambda>bs c. c\<lparr>LastEBestIdentity := \<lparr>cid = bs\<rparr>\<rparr>)
       (restore_field (fr_size A) (\<lambda>bs c. c\<lparr>local_system_freq_offset := fr_of_bytes A bs\<rparr>)
         (restore_field (fr_size A) (\<lambda>bs c. c\<lparr>master_local_freq_offset := fr_of_bytes A bs\<rparr>)
           (True, buf, cnt, c)))"

section \<open>Best master order\<close>

lemma priority_octets_length: "length i = 8 \<Longrightarrow> length (priority_octets p q r i) = 14"
  by (simp add: priority_octets_def)

text \<open>What the selection of a master relies on: a comparison of vectors of 14 octets. It is a strict
  order, total up to equal vectors, and a pass that keeps the better candidate ends with one that
  no candidate beats.\<close>

locale priority_vectors =
  fixes better :: "'a \<Rightarrow> 'a \<Rightarrow> bool" and vec :: "'a \<Rightarrow> octets" and ok :: "'a \<Rightarrow> bool"
  assumes vec_length: "ok a \<Longrightarrow> length (vec a) = 14"
    and better_memcmp: "better a b \<longleftrightarrow> memcmp (vec a) (vec b) < 0"
begin

lemma better_be_val: "ok a \<Longrightarrow> ok b \<Longrightarrow> better a b \<longleftrightarrow> be_val (vec a) < be_val (vec b)"
  using memcmp_be_val [of "vec a" "vec b"] by (simp add: better_memcmp vec_length)

lemma irrefl: "ok a \<Longrightarrow> \<not> better a a"
  by (simp add: better_be_val)

lemma asym: "ok a \<Longrightarrow> ok b \<Longrightarrow> better a b \<Longrightarrow> \<not> better b a"
  by (simp add: better_be_val)

lemma trans: "ok a \<Longrightarrow> ok b \<Longrightarrow> ok c \<Longrightarrow> better a b \<Longrightarrow> better b c \<Longrightarrow> better a c"
  by (simp add: better_be_val)

lemma total: "ok a \<Longrightarrow> ok b \<Longrightarrow> better a b \<or> vec a = vec b \<or> better b a"
  using be_val_inj [of "vec a" "vec b"] by (auto simp add: better_be_val vec_length)

text \<open>The candidate that is kept when every next one must be better to replace it.\<close>

fun best :: "'a option \<Rightarrow> 'a list \<Rightarrow> 'a option" where
  "best e [] = e"
| "best e (x # xs) = best (case e of None \<Rightarrow> Some x | Some m \<Rightarrow> if better x m then Some x else e) xs"

lemma best_minimal:
  "\<forall>x \<in> set xs. ok x \<Longrightarrow> ok m \<Longrightarrow>
     \<exists>b. best (Some m) xs = Some b \<and> b \<in> set (m # xs) \<and> (\<forall>x \<in> set (m # xs). \<not> better x b)"
proof (induction xs arbitrary: m)
  case (Cons y xs)
  let ?n = "if better y m then y else m"
  obtain b where b: "best (Some ?n) xs = Some b" "b \<in> set (?n # xs)" "\<forall>x \<in> set (?n # xs). \<not> better x b"
    using Cons.IH [of ?n] Cons.prems by (cases "better y m") auto
  moreover have "ok b" using b(2) Cons.prems by (auto split: if_splits)
  ultimately show ?case
    using Cons.prems by (auto simp add: better_be_val split: if_splits)
qed (simp add: irrefl)

lemma best_none: "best None xs = None \<longleftrightarrow> xs = []"
proof -
  have "best (Some m) ys \<noteq> None" for m ys
    by (induction ys arbitrary: m) simp_all
  then show ?thesis by (cases xs) simp_all
qed

end

text \<open>Announce messages with a grandmaster identity of eight octets.\<close>

definition wf_ann :: "PTPMessageAnnounce \<Rightarrow> bool" where
  "wf_ann m \<longleftrightarrow> length (grandmasterIdentity m) = PTP_CLOCK_IDENTITY_LENGTH"

interpretation ann: priority_vectors ann_isBetterThan announce_vector wf_ann
  by unfold_locales
    (simp_all add: wf_ann_def announce_vector_def priority_octets_length PTP_CLOCK_IDENTITY_LENGTH_def ann_isBetterThan_def)

text \<open>The rank of IEEE 802.1AS: the fields as numbers, compared from the first on.\<close>

definition priority_rank :: "u8 \<Rightarrow> ClockQuality \<Rightarrow> u8 \<Rightarrow> octets \<Rightarrow> u8 \<times> u8 \<times> u8 \<times> u16 \<times> u8 \<times> int" where
  "priority_rank p1 q p2 i =
     (p1, cq_class q, clockAccuracy q, offsetScaledLogVariance q, p2, be_val i)"

lemma memcmp_priority:
  "length i = length j \<Longrightarrow>
     memcmp (priority_octets p q r i) (priority_octets p' q' r' j) < 0 \<longleftrightarrow>
     priority_rank p q r i < priority_rank p' q' r' j"
  unfolding priority_octets_def priority_rank_def
  using memcmp_be_val [of i j]
  by (auto simp add: memcmp_Cons memcmp_append memcmp_htons htons_eq_iff less_prod_simp simp del: memcmp.simps)

text \<open>C38. \<open>isBetterThan\<close> of the clock and of an Announce message order the candidates as the standard
  does: by \<open>priority1\<close>, clock class, accuracy, variance and \<open>priority2\<close> as unsigned numbers, and last
  by the clock identity.\<close>

theorem isBetterThan_rank:
  assumes "wf_cid (clock_identity c)" and "wf_ann a" and "wf_ann b"
  shows "(clock_isBetterThan c (Some a) \<longleftrightarrow>
       priority_rank (priority1 c) (clock_quality c) (priority2 c) (cid (clock_identity c)) <
       priority_rank (grandmasterPriority1 a) (grandmasterClockQuality a) (grandmasterPriority2 a) (grandmasterIdentity a)) \<and>
    (ann_isBetterThan a b \<longleftrightarrow>
       priority_rank (grandmasterPriority1 a) (grandmasterClockQuality a) (grandmasterPriority2 a) (grandmasterIdentity a) <
       priority_rank (grandmasterPriority1 b) (grandmasterClockQuality b) (grandmasterPriority2 b) (grandmasterIdentity b))"
  using assms
  by (simp add: clock_isBetterThan_def ann_isBetterThan_def clock_vector_def announce_vector_def getIdentityString_def
      memcmp_priority wf_ann_def wf_cid_def)

section \<open>Controller, rates and persistent state\<close>

definition ppm_ok :: "IEEE1588Clock \<Rightarrow> bool" where
  "ppm_ok c \<longleftrightarrow> (\<exists>r. ppm c = Fin r \<and> LOWER_FREQ_LIMIT \<le> r \<and> r \<le> UPPER_FREQ_LIMIT)"

lemma sint8_bounds: "- 128 \<le> sint (n :: u8)" "sint (n :: u8) \<le> 127"
  using sint_greater_eq [of n] sint_less [of n] by simp_all

lemma sint8_min: "sint (n :: u8) = - 128 \<longleftrightarrow> n = 0x80"
proof -
  have "sint (0x80 :: u8) = - 128" by simp
  then show ?thesis by (metis scast_eq scast_id)
qed

lemma syncPerSec_exact:
  assumes "interval \<noteq> 0x80"
  shows "fp_conv FLOAT (fp_div DOUBLE (Fin 1) (pow_2 interval)) = Fin (pow2 (- sint interval))"
proof -
  have "- 127 \<le> sint interval" using sint8_bounds(1) [of interval] sint8_min [of interval] assms by linarith
  moreover have "1 / pow2 (sint interval) = pow2 (- sint interval)"
    using pow2_diff [of 0 "sint interval"] by simp
  ultimately show ?thesis
    using sint8_bounds(2) [of interval] by (simp add: pow_2_def fround_pow2 DOUBLE_def FLOAT_def)
qed

lemma INTEGRAL_below: "fp_below 0 INTEGRAL"
  unfolding INTEGRAL_def using fround_below [of "3 / 10000" "- 1" DOUBLE] by (simp add: DOUBLE_def pow2_def)

lemma ppm_increment_not_NaN:
  assumes "wf_arch A" and "fp_below 65 phase" and "fp_below 68 f" and "interval \<noteq> 0x80"
  shows "ppm_increment A interval phase f \<noteq> NaN"
proof -
  note A = assms(1) [unfolded wf_arch_def]
  have "- sint interval \<le> 127" 
    using sint8_bounds(1) [of interval] sint8_min [of interval] assms(4) by linarith
  then have s: "fp_below 128 (Fin (pow2 (- sint interval)))"
    by (simp add: fp_below_def)
  have d: "wf_fmt DOUBLE" by simp
  have "fp_below 129 (fp_mul DOUBLE INTEGRAL (Fin (pow2 (- sint interval))))"
    using fp_below_mul [OF INTEGRAL_below s d] by (simp add: DOUBLE_def)
  then have p: "fp_below 195 (fp_mul (ld_fmt A) (fp_mul DOUBLE INTEGRAL (Fin (pow2 (- sint interval)))) phase)"
    using fp_below_mul [of 129 _ 65 phase "ld_fmt A"] assms(2) A by simp
  have "fp_below 1 (Fin (- 1))" by (simp add: fp_below_def)
  then have "fp_below 70 (fp_sub (fr_fmt A) f (Fin 1))"
    using fp_below_add [of 68 f 1 "Fin (- 1)" 68 "fr_fmt A"] assms(3) A by (simp add: fp_sub_def)
  moreover have "fp_below 20 (Fin 1000000)" by (simp add: fp_below_def pow2_def)
  ultimately have "fp_below 91 (fp_mul (fr_fmt A) (fp_sub (fr_fmt A) f (Fin 1)) (Fin 1000000))"
    using fp_below_mul [of 70 _ 20 _ "fr_fmt A"] A by simp
  moreover have "fp_below 1 PROPORTIONAL" by (simp add: fp_below_def PROPORTIONAL_def)
  ultimately have f: "fp_below 93 (fp_mul (fr_fmt A) PROPORTIONAL (fp_mul (fr_fmt A) (fp_sub (fr_fmt A) f (Fin 1)) (Fin 1000000)))"
    using fp_below_mul [of 1 _ 91 _ "fr_fmt A"] A by simp
  obtain r where "fp_add (ld_fmt A) (fp_mul (ld_fmt A) (fp_mul DOUBLE INTEGRAL (Fin (pow2 (- sint interval)))) phase)
      (fp_mul (fr_fmt A) PROPORTIONAL (fp_mul (fr_fmt A) (fp_sub (fr_fmt A) f (Fin 1)) (Fin 1000000))) = Fin r"
    using fp_below_add [OF p f, of 195 "ld_fmt A"] A by (auto simp add: fp_below_def)
  then show ?thesis
    by (simp add: ppm_increment_def Let_def syncPerSec_exact [OF assms(4)] fround_def)
qed

lemma fp_add_Fin_not_NaN: "x \<noteq> NaN \<Longrightarrow> fp_add F (Fin a) x \<noteq> NaN"
  by (cases x) (simp_all add: fround_def Let_def)

lemma clamp_ok:
  assumes "x \<noteq> NaN"
  shows "\<exists>r. (let y = (if fp_lt x (Fin LOWER_FREQ_LIMIT) then Fin LOWER_FREQ_LIMIT else x)
      in if fp_lt (Fin UPPER_FREQ_LIMIT) y then Fin UPPER_FREQ_LIMIT else y) = Fin r \<and>
    LOWER_FREQ_LIMIT \<le> r \<and> r \<le> UPPER_FREQ_LIMIT"
  using assms by (cases x) (auto simp add: Let_def LOWER_FREQ_LIMIT_def UPPER_FREQ_LIMIT_def)

lemma phase_error_below: "wf_arch A \<Longrightarrow> fp_below 65 (fp_of_int (ld_fmt A) (sint (x :: u64)))"
  using fp_below_int [of "ld_fmt A" "sint x" 64] sint_greater_eq [of x] sint_less [of x]
  by (simp add: wf_arch_def abs_less_iff)


lemma ppm_adjust_frequency:
  "ppm (adjust_frequency A interval off f c) =
     (let x = (if fp_lt (Fin PHASE_ERROR_THRESHOLD) (fp_abs (fp_of_int (ld_fmt A) (sint (- off)))) then ppm c
               else fp_add FLOAT (ppm c) (ppm_increment A interval (fp_of_int (ld_fmt A) (sint (- off))) f));
          y = (if fp_lt x (Fin LOWER_FREQ_LIMIT) then Fin LOWER_FREQ_LIMIT else x)
      in if fp_lt (Fin UPPER_FREQ_LIMIT) y then Fin UPPER_FREQ_LIMIT else y)"
  by (simp add: adjust_frequency_def Let_def)

text \<open>The controller keeps the frequency within 250 ppm, for every phase error, every rate ratio below
  \<open>2 ^ 68\<close> and every sync interval but \<open>-128\<close>.\<close>

lemma adjust_frequency_ppm_ok:
  assumes "wf_arch A" and "ppm_ok c" and "fp_below 68 freq_offset" and "interval \<noteq> 0x80"
  shows "ppm_ok (adjust_frequency A interval off freq_offset c)"
proof -
  obtain p where p: "ppm c = Fin p" using assms(2) by (auto simp add: ppm_ok_def)
  let ?e = "fp_of_int (ld_fmt A) (sint (- off))"
  have "fp_add FLOAT (ppm c) (ppm_increment A interval ?e freq_offset) \<noteq> NaN"
    unfolding p by (intro fp_add_Fin_not_NaN ppm_increment_not_NaN phase_error_below assms)
  then have "(if fp_lt (Fin PHASE_ERROR_THRESHOLD) (fp_abs ?e) then ppm c
      else fp_add FLOAT (ppm c) (ppm_increment A interval ?e freq_offset)) \<noteq> NaN"
    by (simp add: p)
  from clamp_ok [OF this] show ?thesis
    unfolding ppm_ok_def ppm_adjust_frequency by (simp only: Let_def)
qed

lemma wf_fr: "wf_arch A \<Longrightarrow> wf_fmt (fr_fmt A)"
  by (simp add: wf_arch_def)

lemma rate_ratio_below:
  assumes "wf_arch A" and "(d :: u64) \<noteq> 0"
  shows "fp_below 68 (fp_div (fr_fmt A) (fp_of_int (fr_fmt A) (uint (n :: u64))) (fp_of_int (fr_fmt A) (uint d)))"
proof -
  have "uint d \<noteq> 0" using assms(2) by (simp add: word_uint_eq_iff)
  then have "0 < uint d" using uint_ge_0 [of d] by linarith
  then show ?thesis
    using assms(1) uint_lt2p [of n] uint_lt2p [of d] by (intro fp_below_quotient) (simp_all add: wf_arch_def)
qed

lemma one_below: "0 < k \<Longrightarrow> fp_below k (Fin 1)"
  using pow2_less [of 0 k] by (simp add: fp_below_def)

lemma zero_below: "fp_below k (Fin 0)"
  by (simp add: fp_below_def)

lemma calcMaster_below: "wf_arch A \<Longrightarrow> fp_below 68 (fst (calcMasterLocalClockRateDifference A mt st c))"
  by (auto simp add: calcMasterLocalClockRateDifference_def Let_def rate_ratio_below one_below NEGATIVE_TIME_JUMP_def zero_below)

lemma fp_quotient_exact:
  assumes "wf_fmt F" and "0 \<le> n" and "n \<le> 2 ^ fprec F" and "0 < d" and "d \<le> 2 ^ fprec F"
  shows "fp_div F (fp_of_int F n) (fp_of_int F d) = fround F (of_int n / of_int d)"
  using assms by (simp add: fp_of_int_exact)

text \<open>C39. Once initialised, \<open>calcMasterLocalClockRateDifference\<close> returns the correctly rounded quotient of
  the time elapsed at the master and at the port since the previous call, and keeps the new times;
  if the master time runs backwards it returns \<open>NEGATIVE_TIME_JUMP\<close> and starts over.\<close>

theorem calcMasterLocalClockRateDifference_ratio:
  assumes "wf_arch A" and "master_local_freq_offset_init c"
    and "dm = uint (TIMESTAMP_TO_NS mt) - uint (TIMESTAMP_TO_NS (prev_master_time c))"
    and "ds = uint (TIMESTAMP_TO_NS st) - uint (TIMESTAMP_TO_NS (prev_sync_time c))"
    and "0 < ds" and "ds \<le> 2 ^ 53" and "dm \<le> 2 ^ 53"
  shows "calcMasterLocalClockRateDifference A mt st c =
    (if 0 \<le> dm then (fround (fr_fmt A) (of_int dm / of_int ds), c\<lparr>prev_sync_time := st, prev_master_time := mt\<rparr>)
     else (NEGATIVE_TIME_JUMP, c\<lparr>master_local_freq_offset_init := False\<rparr>))"
proof -
  let ?F = "fr_fmt A"
  have p: "2 ^ 53 \<le> (2 :: int) ^ fprec ?F" using assms(1) by (intro power_increasing) (simp_all add: wf_arch_def)
  have s: "uint (TIMESTAMP_TO_NS st - TIMESTAMP_TO_NS (prev_sync_time c)) = ds"
    using assms(4,5) by (simp add: uint_sub_if')
  then have nz: "TIMESTAMP_TO_NS st - TIMESTAMP_TO_NS (prev_sync_time c) \<noteq> 0" using assms(5) by force
  show ?thesis
  proof (cases "0 \<le> dm")
    case True
    then have m: "uint (TIMESTAMP_TO_NS mt - TIMESTAMP_TO_NS (prev_master_time c)) = dm"
      "\<not> TIMESTAMP_TO_NS mt < TIMESTAMP_TO_NS (prev_master_time c)"
      using assms(3) by (simp_all add: uint_sub_if' word_less_def)
    have "fp_div ?F (fp_of_int ?F dm) (fp_of_int ?F ds) = fround ?F (of_int dm / of_int ds)"
      using assms(1,5-) True p by (intro fp_quotient_exact) (simp_all add: wf_fr)
    then show ?thesis
      using True assms(2) nz m by (simp add: calcMasterLocalClockRateDifference_def Let_def s)
  next
    case False
    then have "TIMESTAMP_TO_NS mt < TIMESTAMP_TO_NS (prev_master_time c)"
      using assms(3) by (simp add: word_less_def)
    then show ?thesis
      using False assms(2) by (simp add: calcMasterLocalClockRateDifference_def Let_def)
  qed
qed

text \<open>\<open>serializeState\<close> with the size it reports succeeds, fills the buffer exactly, and
  \<open>restoreSerializedState\<close> gives another clock the same rate ratios and the same last best master.\<close>

theorem clock_serialize_restore:
  assumes "fr_saved A (master_local_freq_offset c)" and "fr_saved A (local_system_freq_offset c)"
    and "wf_cid (LastEBestIdentity c)" and "clock_serializeState A c None = (r, out0, cnt)"
    and "clock_serializeState A c (Some cnt) = (ret, out, left)"
  shows "ret \<and> left = 0 \<and> int (length out) = cnt \<and>
    clock_restoreSerializedState A out cnt c' =
      (True, [], 0, c'\<lparr>master_local_freq_offset := master_local_freq_offset c,
        local_system_freq_offset := local_system_freq_offset c, LastEBestIdentity := LastEBestIdentity c\<rparr>)"
  using assms
  by (cases "LastEBestIdentity c")
    (auto simp add: clock_serializeState_def clock_restoreSerializedState_def fr_saved_def wf_cid_def)

text \<open>With a buffer that is too small \<open>serializeState\<close> fails, writes no more than the buffer holds,
  and reports exactly the number of octets that are missing.\<close>

theorem clock_serialize_short:
  assumes "fr_saved A (master_local_freq_offset c)" and "fr_saved A (local_system_freq_offset c)"
    and "wf_cid (LastEBestIdentity c)" and "0 \<le> n" and "n < int (2 * fr_size A + PTP_CLOCK_IDENTITY_LENGTH)"
    and "clock_serializeState A c (Some n) = (ret, out, missing)"
  shows "\<not> ret \<and> int (length out) \<le> n \<and> int (2 * fr_size A + PTP_CLOCK_IDENTITY_LENGTH) = n + missing"
  using assms
  by (auto simp add: clock_serializeState_def fr_saved_def wf_cid_def split: if_splits)

section \<open>Witnesses\<close>

definition sample_arch :: arch where
  "sample_arch =
     \<lparr>fr_fmt = EXTENDED, ld_fmt = EXTENDED, fr_size = 16,
      fr_bytes = (\<lambda>x. (if x = Fin 1 then 1 else 0) # replicate 15 0),
      fr_of_bytes = (\<lambda>bs. if hd bs = 1 then Fin 1 else Fin 0), oob = (\<lambda>_. - (2 ^ 63))\<rparr>"

definition sample_clock_memory :: IEEE1588Clock where
  "sample_clock_memory =
     \<lparr>clock_identity = ClockIdentity_default, clock_quality = \<lparr>cq_class = 0, clockAccuracy = 0, offsetScaledLogVariance = 0\<rparr>,
      priority1 = 0, priority2 = 0, domain_number = 0, number_ports = 0, current_utc_offset = 0, steps_removed = 0,
      grandmaster_clock_identity = ClockIdentity_default,
      grandmaster_clock_quality = \<lparr>cq_class = 0, clockAccuracy = 0, offsetScaledLogVariance = 0\<rparr>,
      grandmaster_priority1 = 0, grandmaster_priority2 = 0, time_source = 0,
      LastEBestIdentity = ClockIdentity_default, syntonize = False, new_syntonization_set_point = False,
      ppm = Fin 0, phase_error_violation = 0, port_list = replicate MAX_PORTS None,
      master_local_freq_offset_init = False, prev_master_time = Timestamp_default, prev_sync_time = Timestamp_default,
      local_system_freq_offset_init = False, prev_local_time = Timestamp_default, prev_system_time = Timestamp_default,
      has_ipc = False, timerq = createOSTimerQueue, forceOrdinarySlave = False,
      master_local_freq_offset = Fin 1, local_system_freq_offset = Fin 1,
      fup_info = FollowUpTLV_new, fup_status = FollowUpTLV_new\<rparr>"

definition sample_clock :: IEEE1588Clock where
  "sample_clock = IEEE1588Clock_new sample_clock_memory False True 248 True"

definition sample_ann :: PTPMessageAnnounce where
  "sample_ann =
     \<lparr>versionPTP = 2, versionNetwork = 1, messageType = ANNOUNCE_MESSAGE,
      sourcePortIdentity = \<lparr>clock_id = \<lparr>cid = [1, 2, 3, 0xFF, 0xFE, 4, 5, 6]\<rparr>, portNumber = 1\<rparr>,
      sequenceId = 7, control = 5, flags = [0, 8], messageLength = 76, logMeanMessageInterval = 0,
      correctionField = 0, domainNumber = 0, msg_timestamp = Timestamp_default, timestamp_counter_value = 0,
      gc = False, grandmasterIdentity = [1, 2, 3, 0xFF, 0xFE, 4, 5, 6],
      grandmasterClockQuality = \<lparr>cq_class = 248, clockAccuracy = 0x22, offsetScaledLogVariance = 0x436A\<rparr>,
      ann_tlv = PathTraceTLV_new, currentUtcOffset = 0, grandmasterPriority1 = 247, grandmasterPriority2 = 248,
      stepsRemoved = 0, timeSource = 160\<rparr>"

lemma sample_arch_wf: "wf_arch sample_arch" "fr_saved sample_arch (Fin 1)"
  by (simp_all add: wf_arch_def sample_arch_def EXTENDED_def wf_fmt_def fr_saved_def)

lemma sample_clock_facts:
  "wf_cid (clock_identity sample_clock)" "wf_cid (LastEBestIdentity sample_clock)" "ppm_ok sample_clock"
  "master_local_freq_offset sample_clock = Fin 1" "local_system_freq_offset sample_clock = Fin 1"
  by (simp_all add: sample_clock_def IEEE1588Clock_new_def sample_clock_memory_def wf_cid_def ClockIdentity_default_def
      ppm_ok_def LOWER_FREQ_LIMIT_def UPPER_FREQ_LIMIT_def)

lemma sample_ann_wf: "wf_ann sample_ann"
  by (simp add: wf_ann_def sample_ann_def PTP_CLOCK_IDENTITY_LENGTH_def)

theorem isBetterThan_rank_witness:
  "\<not> clock_isBetterThan sample_clock (Some sample_ann) \<and>
   ann_isBetterThan sample_ann (sample_ann\<lparr>grandmasterPriority2 := 249\<rparr>)"
proof -
  have "wf_ann (sample_ann\<lparr>grandmasterPriority2 := 249\<rparr>)"
    using sample_ann_wf by (simp add: wf_ann_def)
  from isBetterThan_rank [OF sample_clock_facts(1) sample_ann_wf this] show ?thesis
    by (simp add: priority_rank_def sample_clock_def IEEE1588Clock_new_def sample_ann_def less_prod_simp)
qed

theorem calcMasterLocalClockRateDifference_ratio_witness:
  "fst (calcMasterLocalClockRateDifference sample_arch (Timestamp_new 250000000 5 0) (Timestamp_new 375000000 7 0)
     (sample_clock\<lparr>master_local_freq_offset_init := True, prev_master_time := Timestamp_new 125000000 5 0,
        prev_sync_time := Timestamp_new 250000000 7 0\<rparr>)) = Fin 1"
proof -
  have ns: "TIMESTAMP_TO_NS (Timestamp_new 250000000 5 0) = 5250000000" "TIMESTAMP_TO_NS (Timestamp_new 375000000 7 0) = 7375000000"
    "TIMESTAMP_TO_NS (Timestamp_new 125000000 5 0) = 5125000000" "TIMESTAMP_TO_NS (Timestamp_new 250000000 7 0) = 7250000000"
    by code_simp+
  have "wf_fmt (fr_fmt sample_arch)" using sample_arch_wf(1) by (simp add: wf_fr)
  then show ?thesis
    by (subst calcMasterLocalClockRateDifference_ratio [OF sample_arch_wf(1), where dm = 125000000 and ds = 125000000])
      (simp_all add: ns)
qed

theorem clock_serialize_restore_witness:
  "case clock_serializeState sample_arch sample_clock (Some 40) of (ret, out, left) \<Rightarrow>
     ret \<and> left = 0 \<and> length out = 40"
proof -
  have "clock_serializeState sample_arch sample_clock None = (True, [], 40)"
    by (simp add: clock_serializeState_def sample_arch_def PTP_CLOCK_IDENTITY_LENGTH_def)
  moreover obtain ret out left where "clock_serializeState sample_arch sample_clock (Some 40) = (ret, out, left)"
    by (metis surj_pair)
  ultimately show ?thesis
    using clock_serialize_restore [of sample_arch sample_clock] sample_arch_wf(2) sample_clock_facts by auto
qed

theorem clock_serialize_short_witness:
  "case clock_serializeState sample_arch sample_clock (Some 20) of (ret, out, missing) \<Rightarrow> \<not> ret \<and> missing = 20"
proof -
  obtain ret out missing where "clock_serializeState sample_arch sample_clock (Some 20) = (ret, out, missing)"
    by (metis surj_pair)
  then show ?thesis
    using clock_serialize_short [of sample_arch sample_clock 20 ret out missing] sample_arch_wf(2) sample_clock_facts
    by (auto simp add: sample_arch_def PTP_CLOCK_IDENTITY_LENGTH_def)
qed

end
