(* ===== verification/Gptp_World.thy ===== *)
theory Gptp_World
  imports Ieee1588_Clock
begin

text \<open>
  The state of the daemon and its platform. A \<open>world\<close> holds the clock, the ports in a store indexed by
  their addresses, and what has been handed to the outside: frames, timestamper commands and updates
  for other processes. The classes \<open>CommonPort\<close> and \<open>EtherPort\<close> are records, the second extending the
  first; pointers to messages are options holding the message.

  The platform (timestamper, network interface, threads, locks and POSIX timers) is a record of
  functions; the result of a call may depend on the number of calls made before, which the world
  counts, so a platform is an arbitrary environment. Every access that the code would make outside an
  array or through a null pointer, and \<open>abort()\<close>, sets \<open>fault\<close>; a world with a fault takes no further
  step.
\<close>

section \<open>Ports\<close>

datatype StationState_t =
    STATION_STATE_RESERVED | STATION_STATE_ETHERNET_READY | STATION_STATE_AVB_SYNC
  | STATION_STATE_AVB_MEDIA_READY

primrec StationState_val :: "StationState_t \<Rightarrow> u8" where
  "StationState_val STATION_STATE_RESERVED = 0"
| "StationState_val STATION_STATE_ETHERNET_READY = 1"
| "StationState_val STATION_STATE_AVB_SYNC = 2"
| "StationState_val STATION_STATE_AVB_MEDIA_READY = 3"

record phy_delay_spec_t =
  tx_delay :: u16
  rx_delay :: u16

record PortCounters_t =
  ieee8021AsPortStatRxSyncCount :: u32
  ieee8021AsPortStatRxFollowUpCount :: u32
  ieee8021AsPortStatRxPdelayRequest :: u32
  ieee8021AsPortStatRxPdelayResponse :: u32
  ieee8021AsPortStatRxPdelayResponseFollowUp :: u32
  ieee8021AsPortStatRxAnnounce :: u32
  ieee8021AsPortStatRxPTPPacketDiscard :: u32
  ieee8021AsPortStatRxSyncReceiptTimeouts :: u32
  ieee8021AsPortStatAnnounceReceiptTimeouts :: u32
  ieee8021AsPortStatPdelayAllowedLostResponsesExceeded :: u32
  ieee8021AsPortStatTxSyncCount :: u32
  ieee8021AsPortStatTxFollowUpCount :: u32
  ieee8021AsPortStatTxPdelayRequest :: u32
  ieee8021AsPortStatTxPdelayResponse :: u32
  ieee8021AsPortStatTxPdelayResponseFollowUp :: u32
  ieee8021AsPortStatTxAnnounce :: u32

definition PortCounters_zero :: PortCounters_t where
  "PortCounters_zero = \<lparr>
     ieee8021AsPortStatRxSyncCount = 0, ieee8021AsPortStatRxFollowUpCount = 0,
     ieee8021AsPortStatRxPdelayRequest = 0, ieee8021AsPortStatRxPdelayResponse = 0,
     ieee8021AsPortStatRxPdelayResponseFollowUp = 0, ieee8021AsPortStatRxAnnounce = 0,
     ieee8021AsPortStatRxPTPPacketDiscard = 0, ieee8021AsPortStatRxSyncReceiptTimeouts = 0,
     ieee8021AsPortStatAnnounceReceiptTimeouts = 0,
     ieee8021AsPortStatPdelayAllowedLostResponsesExceeded = 0, ieee8021AsPortStatTxSyncCount = 0,
     ieee8021AsPortStatTxFollowUpCount = 0, ieee8021AsPortStatTxPdelayRequest = 0,
     ieee8021AsPortStatTxPdelayResponse = 0, ieee8021AsPortStatTxPdelayResponseFollowUp = 0,
     ieee8021AsPortStatTxAnnounce = 0\<rparr>"

text \<open>\<open>one_way_delay\<close> and its threshold are signed 64-bit integers, the intervals signed characters.
  \<open>hw_timestamper\<close> tells whether there is a timestamper object.\<close>

record CommonPort =
  local_addr :: LinkLayerAddress
  port_identity :: PortIdentity
  ifindex :: u16
  link_speed :: u32
  one_way_delay :: u64
  neighbor_prop_delay_thresh :: u64
  port_state :: PortState
  testMode :: bool
  automotive_profile :: bool
  allow_negative_correction_field :: bool
  log_mean_sync_interval :: u8
  log_mean_announce_interval :: u8
  initialLogSyncInterval :: u8
  sync_receipt_thresh :: u32
  wrongSeqIDCounter :: u32
  counters :: PortCounters_t
  listening_thread_running :: bool
  peer_rate_offset :: fp
  peer_offset_ts_theirs :: Timestamp
  peer_offset_ts_mine :: Timestamp
  peer_offset_init :: bool
  asCapable :: bool
  sync_count :: u32
  pdelay_count :: u32
  initialLogPdelayReqInterval :: u8
  log_min_mean_pdelay_req_interval :: u8
  qualified_announce :: "PTPMessageAnnounce option"
  announce_sequence_id :: u16
  signal_sequence_id :: u16
  sync_sequence_id :: u16
  lastGmTimeBaseIndicator :: u16
  hw_timestamper :: bool
  isGM :: bool
  phy_delay :: "u32 \<Rightarrow> phy_delay_spec_t option"

record EtherPort = CommonPort +
  linkUp :: bool
  duplicate_resp_counter :: u32
  last_invalid_seqid :: u16
  operLogPdelayReqInterval :: u8
  operLogSyncInterval :: u8
  linkUpCount :: u32
  linkDownCount :: u32
  stationState :: StationState_t
  avbSyncState :: u32
  pdelay_sequence_id :: u16
  last_pdelay_req :: "PTPMessagePathDelayReq option"
  last_pdelay_resp :: "PTPMessagePathDelayResp option"
  last_pdelay_resp_fwup :: "PTPMessagePathDelayRespFollowUp option"
  identity_map :: "(PortIdentity \<times> LinkLayerAddress) list"
  last_sync :: "PTPMessageSync option"
  pdelay_started :: bool
  pdelay_halted :: bool
  sync_rate_interval_timer_started :: bool

section \<open>Platform\<close>

datatype net_result = net_trfail | net_fatal | net_succeed

definition GPTP_EC_SUCCESS :: int where
  "GPTP_EC_SUCCESS = 0"

text \<open>\<open>msg_mem\<close> and \<open>lla_mem\<close> are the memory of a new message and of a new link-layer address.\<close>

record platform = arch +
  hw_gettime :: "nat \<Rightarrow> Timestamp \<times> Timestamp \<times> u32 \<times> u32"
  hw_txtimestamp :: "nat \<Rightarrow> PortIdentity \<Rightarrow> PTPMessageId \<Rightarrow> bool \<Rightarrow> int \<times> Timestamp"
  hw_rxtimestamp :: "nat \<Rightarrow> PortIdentity \<Rightarrow> PTPMessageId \<Rightarrow> bool \<Rightarrow> int \<times> Timestamp \<times> u32"
  hw_version :: "nat \<Rightarrow> int"
  hw_adjclockrate :: "nat \<Rightarrow> bool"
  hw_adjclockphase :: "nat \<Rightarrow> bool"
  net_send :: "nat \<Rightarrow> net_result"
  net_build :: "nat \<Rightarrow> LinkLayerAddress option"
  lock_timerq :: "nat \<Rightarrow> bool"
  trylock_sync_interval :: "nat \<Rightarrow> bool"
  trylock_pdelay_rx :: "nat \<Rightarrow> bool"
  timer_created :: "nat \<Rightarrow> bool"
  timer_armed :: "nat \<Rightarrow> bool"
  thread_started :: "nat \<Rightarrow> bool"
  msg_mem :: PTPMessageCommon
  lla_mem :: LinkLayerAddress

section \<open>World\<close>

datatype fault = Aborted | NullPointer | OutOfBounds

record sent_frame =
  sf_port :: nat
  sf_dest :: LinkLayerAddress
  sf_etherType :: u16
  sf_payload :: octets
  sf_timestamp :: bool
  sf_result :: net_result

datatype hw_command = AdjClockRate fp | AdjClockPhase u64 | HwReset

record ipc_update =
  ml_phoffset :: u64
  ls_phoffset :: u64
  ml_freqoffset :: fp
  ls_freqoffset :: fp
  ipc_local_time :: u64
  ipc_sync_count :: u32
  ipc_pdelay_count :: u32
  ipc_port_state :: PortState
  ipc_asCapable :: bool

record ipc_network_interface =
  ni_clock_identity :: octets
  ni_priority1 :: u8
  ni_clock_class :: u8
  ni_offset_scaled_log_variance :: u16
  ni_clock_accuracy :: u8
  ni_priority2 :: u8
  ni_domain_number :: u8
  ni_log_sync_interval :: u8
  ni_log_announce_interval :: u8
  ni_log_pdelay_interval :: u8
  ni_port_number :: u16

datatype ipc_call =
    IpcUpdate ipc_update
  | IpcUpdateGrandmaster octets u8
  | IpcUpdateNetworkInterface ipc_network_interface

text \<open>Logs have the newest entry first. \<open>ap_sequenceId\<close> is the static variable of
  \<open>APMessageTestStatus::sendPort\<close>.\<close>

record world =
  clk :: IEEE1588Clock
  ports :: "nat \<Rightarrow> EtherPort"
  sent :: "sent_frame list"
  hw_log :: "hw_command list"
  ipc_log :: "ipc_call list"
  ap_sequenceId :: u16
  ncalls :: nat
  fault :: "fault option"

definition tick :: "world \<Rightarrow> world" where
  "tick w = w\<lparr>ncalls := ncalls w + 1\<rparr>"

definition crash :: "fault \<Rightarrow> world \<Rightarrow> world" where
  "crash f w = (case fault w of None \<Rightarrow> w\<lparr>fault := Some f\<rparr> | Some _ \<Rightarrow> w)"

definition upd_port :: "nat \<Rightarrow> (EtherPort \<Rightarrow> EtherPort) \<Rightarrow> world \<Rightarrow> world" where
  "upd_port i f w = w\<lparr>ports := (ports w)(i := f (ports w i))\<rparr>"

definition upd_clk :: "(IEEE1588Clock \<Rightarrow> IEEE1588Clock) \<Rightarrow> world \<Rightarrow> world" where
  "upd_clk f w = w\<lparr>clk := f (clk w)\<rparr>"

section \<open>Timers of the clock\<close>

text \<open>\<open>addEventTimer\<close> converts the time to microseconds of type \<open>unsigned\<close>.\<close>

definition event_micros :: "u64 \<Rightarrow> u64" where
  "event_micros time_ns = ucast (ucast (time_ns div 1000) :: u32)"

definition addEventTimer :: "platform \<Rightarrow> nat \<Rightarrow> Event \<Rightarrow> u64 \<Rightarrow> world \<Rightarrow> world" where
  "addEventTimer P target e time_ns w =
     (let n = ncalls w;
          (r, q) = addEvent (timer_created P n) (timer_armed P n) (event_micros time_ns) e
                     \<lparr>ed_event = e, ed_port = target\<rparr> True (timerq (clk w))
      in tick (upd_clk (timerq_update (\<lambda>_. q)) w))"

definition addEventTimerLocked :: "platform \<Rightarrow> nat \<Rightarrow> Event \<Rightarrow> u64 \<Rightarrow> world \<Rightarrow> world" where
  "addEventTimerLocked P target e time_ns w =
     (if \<not> lock_timerq P (ncalls w) then tick w
      else addEventTimer P target e time_ns (tick w))"

definition deleteEventTimer :: "nat \<Rightarrow> Event \<Rightarrow> world \<Rightarrow> world" where
  "deleteEventTimer target event w = upd_clk (\<lambda>c. c\<lparr>timerq := snd (cancelEvent event (timerq c))\<rparr>) w"

definition deleteEventTimerLocked :: "platform \<Rightarrow> nat \<Rightarrow> Event \<Rightarrow> world \<Rightarrow> world" where
  "deleteEventTimerLocked P target event w =
     (if \<not> lock_timerq P (ncalls w) then tick w else deleteEventTimer target event (tick w))"

section \<open>Loops over the ports\<close>

text \<open>\<open>while (ports[j] == NULL) ++j;\<close> the next registered port from index \<open>j\<close> on, with its index; no
  result when the search leaves the array.\<close>

function skip_null :: "nat option list \<Rightarrow> nat \<Rightarrow> (nat \<times> nat) option" where
  "skip_null ps j =
     (if j < length ps then case ps ! j of Some p \<Rightarrow> Some (j, p) | None \<Rightarrow> skip_null ps (j + 1)
      else None)"
  by pat_completeness auto
termination
  by (relation "measure (\<lambda>(ps, j). length ps - j)") auto

declare skip_null.simps [simp del]

text \<open>The loops over \<open>number_ports\<close> ports: \<open>j\<close> is only advanced past null pointers.\<close>

primrec port_loop :: "nat \<Rightarrow> nat \<Rightarrow> nat option list \<Rightarrow> (nat \<Rightarrow> 's \<Rightarrow> 's) \<Rightarrow> 's \<Rightarrow> 's option" where
  "port_loop 0 j ps f s = Some s"
| "port_loop (Suc n) j ps f s =
     (case skip_null ps j of None \<Rightarrow> None | Some (j, p) \<Rightarrow> port_loop n j ps f (f p s))"

definition for_ports :: "(nat \<Rightarrow> world \<Rightarrow> world) \<Rightarrow> world \<Rightarrow> world" where
  "for_ports f w =
     (case port_loop (unat (number_ports (clk w))) 0 (port_list (clk w)) f w of
        None \<Rightarrow> crash OutOfBounds w | Some w \<Rightarrow> w)"

section \<open>Laws of the updates\<close>

lemma tick_simps [simp]:
  "clk (tick w) = clk w" "ports (tick w) = ports w" "sent (tick w) = sent w" "hw_log (tick w) = hw_log w"
  "ipc_log (tick w) = ipc_log w" "ap_sequenceId (tick w) = ap_sequenceId w" "fault (tick w) = fault w"
  "ncalls (tick w) = Suc (ncalls w)"
  by (simp_all add: tick_def)

lemma crash_simps [simp]:
  "clk (crash f w) = clk w" "ports (crash f w) = ports w" "sent (crash f w) = sent w"
  "hw_log (crash f w) = hw_log w" "ipc_log (crash f w) = ipc_log w"
  "ap_sequenceId (crash f w) = ap_sequenceId w" "ncalls (crash f w) = ncalls w"
  "fault (crash f w) = (case fault w of None \<Rightarrow> Some f | Some e \<Rightarrow> Some e)"
  by (simp_all add: crash_def split: option.splits)

lemma upd_port_simps [simp]:
  "clk (upd_port i f w) = clk w" "sent (upd_port i f w) = sent w" "hw_log (upd_port i f w) = hw_log w"
  "ipc_log (upd_port i f w) = ipc_log w" "ap_sequenceId (upd_port i f w) = ap_sequenceId w"
  "fault (upd_port i f w) = fault w" "ncalls (upd_port i f w) = ncalls w"
  "ports (upd_port i f w) j = (if j = i then f (ports w i) else ports w j)"
  by (simp_all add: upd_port_def)

lemma upd_clk_simps [simp]:
  "clk (upd_clk f w) = f (clk w)" "ports (upd_clk f w) = ports w" "sent (upd_clk f w) = sent w"
  "hw_log (upd_clk f w) = hw_log w" "ipc_log (upd_clk f w) = ipc_log w"
  "ap_sequenceId (upd_clk f w) = ap_sequenceId w" "fault (upd_clk f w) = fault w" "ncalls (upd_clk f w) = ncalls w"
  by (simp_all add: upd_clk_def)

section \<open>Well-formed worlds\<close>

text \<open>A peer rate ratio is 1 or within 250 ppm; a timer is of the event it delivers and its expiry is
  a valid \<open>itimerspec\<close>.\<close>

definition rate_ok :: "'a arch_scheme \<Rightarrow> fp \<Rightarrow> bool" where
  "rate_ok A r \<longleftrightarrow> r = Fin 1 \<or> fp_lt (ppm_ratio A (- 250)) r \<and> fp_lt r (ppm_ratio A 250)"

definition timer_ok :: "nat set \<Rightarrow> LinuxTimerQueueActionArg \<Rightarrow> bool" where
  "timer_ok S a \<longleftrightarrow> tq_type a = ed_event (inner_arg a) \<and> ed_port (inner_arg a) \<in> S \<and>
     (\<forall>s n. it_value a = Some (s, n) \<longrightarrow> uint s < 4295 \<and> uint n < 1000000000)"

definition wf_clk :: "nat set \<Rightarrow> IEEE1588Clock \<Rightarrow> bool" where
  "wf_clk S c \<longleftrightarrow>
     tq_inv (timerq c) \<and> (\<forall>a \<in># tq_pending (timerq c). timer_ok S a) \<and> ppm_ok c \<and> wf_cid (clock_identity c)"

text \<open>The states a port takes, the representation of its identity map, the announce message it holds,
  and sync intervals that are not the reserved value of \<open>sigMsgInterval_NoChange\<close>.\<close>

definition wf_port :: "'a arch_scheme \<Rightarrow> EtherPort \<Rightarrow> bool" where
  "wf_port A p \<longleftrightarrow>
     port_state p \<in> {PTP_INITIALIZING, PTP_MASTER, PTP_SLAVE} \<and>
     smap_inv pi_less wf_pi (identity_map p) \<and>
     (\<forall>m. qualified_announce p = Some m \<longrightarrow> wf_ann m) \<and>
     rate_ok A (peer_rate_offset p) \<and>
     log_mean_sync_interval p \<noteq> 0x80 \<and> initialLogSyncInterval p \<noteq> 0x80 \<and> operLogSyncInterval p \<noteq> 0x80"

text \<open>The rates that the timestamper is asked for are numbers within 250 ppm.\<close>

definition command_ok :: "hw_command \<Rightarrow> bool" where
  "command_ok h \<longleftrightarrow> (\<forall>f. h = AdjClockRate f \<longrightarrow> (\<exists>r. f = Fin r \<and> LOWER_FREQ_LIMIT \<le> r \<and> r \<le> UPPER_FREQ_LIMIT))"

definition wf_world :: "'a arch_scheme \<Rightarrow> nat set \<Rightarrow> world \<Rightarrow> bool" where
  "wf_world A S w \<longleftrightarrow>
     wf_clk S (clk w) \<and> (\<forall>k. Some k \<in> set (port_list (clk w)) \<longrightarrow> k \<in> S) \<and>
     (\<forall>i \<in> S. wf_port A (ports w i)) \<and> (\<forall>h \<in> set (hw_log w). command_ok h)"

lemma wf_tick [simp]: "wf_world A S (tick w) = wf_world A S w"
  by (simp add: wf_world_def)

lemma wf_crash [simp]: "wf_world A S (crash f w) = wf_world A S w"
  by (simp add: wf_world_def)

lemma wf_logs [simp]:
  "wf_world A S (sent_update f w) = wf_world A S w" "wf_world A S (ipc_log_update g w) = wf_world A S w"
  "wf_world A S (ap_sequenceId_update h w) = wf_world A S w"
  by (simp_all add: wf_world_def)

lemma wf_command [simp]: "wf_world A S w \<Longrightarrow> command_ok h \<Longrightarrow> wf_world A S (w\<lparr>hw_log := h # hw_log w\<rparr>)"
  by (simp add: wf_world_def)

lemma wf_upd_port [simp]:
  "wf_world A S w \<Longrightarrow> (wf_port A (ports w i) \<longrightarrow> wf_port A (f (ports w i))) \<Longrightarrow> wf_world A S (upd_port i f w)"
  by (simp add: wf_world_def)

lemma wf_upd_clk [simp]:
  "wf_world A S w \<Longrightarrow> port_list (f (clk w)) = port_list (clk w) \<Longrightarrow>
     (wf_clk S (clk w) \<longrightarrow> wf_clk S (f (clk w))) \<Longrightarrow> wf_world A S (upd_clk f w)"
  by (simp add: wf_world_def)

lemma wf_world_port: "wf_world A S w \<Longrightarrow> i \<in> S \<Longrightarrow> wf_port A (ports w i)"
  by (simp add: wf_world_def)

lemma wf_world_clk: "wf_world A S w \<Longrightarrow> wf_clk S (clk w)"
  by (simp add: wf_world_def)

lemma wf_port_fields [simp]:
  "wf_port A (sync_count_update f0 p) = wf_port A p"
  "wf_port A (pdelay_count_update f1 p) = wf_port A p"
  "wf_port A (counters_update f2 p) = wf_port A p"
  "wf_port A (asCapable_update f3 p) = wf_port A p"
  "wf_port A (peer_offset_init_update f4 p) = wf_port A p"
  "wf_port A (peer_offset_ts_mine_update f5 p) = wf_port A p"
  "wf_port A (peer_offset_ts_theirs_update f6 p) = wf_port A p"
  "wf_port A (one_way_delay_update f7 p) = wf_port A p"
  "wf_port A (wrongSeqIDCounter_update f8 p) = wf_port A p"
  "wf_port A (log_mean_announce_interval_update f9 p) = wf_port A p"
  "wf_port A (log_min_mean_pdelay_req_interval_update g0 p) = wf_port A p"
  "wf_port A (announce_sequence_id_update g1 p) = wf_port A p"
  "wf_port A (signal_sequence_id_update g2 p) = wf_port A p"
  "wf_port A (sync_sequence_id_update g3 p) = wf_port A p"
  "wf_port A (pdelay_sequence_id_update g4 p) = wf_port A p"
  "wf_port A (lastGmTimeBaseIndicator_update g5 p) = wf_port A p"
  "wf_port A (listening_thread_running_update g6 p) = wf_port A p"
  "wf_port A (linkUp_update g7 p) = wf_port A p"
  "wf_port A (duplicate_resp_counter_update g8 p) = wf_port A p"
  "wf_port A (last_invalid_seqid_update g9 p) = wf_port A p"
  "wf_port A (linkUpCount_update h0 p) = wf_port A p"
  "wf_port A (linkDownCount_update h1 p) = wf_port A p"
  "wf_port A (stationState_update h2 p) = wf_port A p"
  "wf_port A (avbSyncState_update h3 p) = wf_port A p"
  "wf_port A (last_pdelay_req_update h4 p) = wf_port A p"
  "wf_port A (last_pdelay_resp_update h5 p) = wf_port A p"
  "wf_port A (last_pdelay_resp_fwup_update h6 p) = wf_port A p"
  "wf_port A (last_sync_update h7 p) = wf_port A p"
  "wf_port A (pdelay_started_update h8 p) = wf_port A p"
  "wf_port A (pdelay_halted_update h9 p) = wf_port A p"
  "wf_port A (sync_rate_interval_timer_started_update k0 p) = wf_port A p"
  by (simp_all add: wf_port_def)

lemma wf_port_state [simp]:
  "wf_port A p \<Longrightarrow> wf_port A (port_state_update (\<lambda>_. PTP_MASTER) p)"
  "wf_port A p \<Longrightarrow> wf_port A (port_state_update (\<lambda>_. PTP_SLAVE) p)"
  by (simp_all add: wf_port_def)

lemma wf_port_announce [simp]:
  "wf_port A p \<Longrightarrow> wf_ann m \<Longrightarrow> wf_port A (qualified_announce_update (\<lambda>_. Some m) p)"
  "wf_port A p \<Longrightarrow> wf_port A (qualified_announce_update (\<lambda>_. None) p)"
  by (simp_all add: wf_port_def)

lemma wf_port_set_sync [simp]:
  "wf_port A p \<Longrightarrow> n \<noteq> 0x80 \<Longrightarrow> wf_port A (log_mean_sync_interval_update (\<lambda>_. n) p)"
  by (simp add: wf_port_def)

lemma wf_port_set_rate [simp]:
  "wf_port A p \<Longrightarrow> rate_ok A r \<Longrightarrow> wf_port A (peer_rate_offset_update (\<lambda>_. r) p)"
  by (simp add: wf_port_def)

lemma wf_clk_fields [simp]:
  "wf_clk S (new_syntonization_set_point_update f0 c) = wf_clk S c"
  "wf_clk S (phase_error_violation_update f1 c) = wf_clk S c"
  "wf_clk S (master_local_freq_offset_init_update f2 c) = wf_clk S c"
  "wf_clk S (local_system_freq_offset_init_update f3 c) = wf_clk S c"
  "wf_clk S (master_local_freq_offset_update f4 c) = wf_clk S c"
  "wf_clk S (local_system_freq_offset_update f5 c) = wf_clk S c"
  "wf_clk S (prev_master_time_update f6 c) = wf_clk S c"
  "wf_clk S (prev_sync_time_update f7 c) = wf_clk S c"
  "wf_clk S (prev_local_time_update f8 c) = wf_clk S c"
  "wf_clk S (prev_system_time_update f9 c) = wf_clk S c"
  "wf_clk S (LastEBestIdentity_update g0 c) = wf_clk S c"
  "wf_clk S (grandmaster_clock_identity_update g1 c) = wf_clk S c"
  "wf_clk S (grandmaster_priority1_update g2 c) = wf_clk S c"
  "wf_clk S (grandmaster_priority2_update g3 c) = wf_clk S c"
  "wf_clk S (grandmaster_clock_quality_update g4 c) = wf_clk S c"
  "wf_clk S (fup_info_update g5 c) = wf_clk S c"
  "wf_clk S (fup_status_update g6 c) = wf_clk S c"
  by (simp_all add: wf_clk_def ppm_ok_def)

lemma wf_clk_timerq:
  "wf_clk S c \<Longrightarrow> tq_inv q \<Longrightarrow> (\<forall>a \<in># tq_pending q. timer_ok S a) \<Longrightarrow> wf_clk S (c\<lparr>timerq := q\<rparr>)"
  by (simp add: wf_clk_def ppm_ok_def)

lemma event_micros_bound: "uint (event_micros t) < 4294967296"
  using uint_lt2p [of "ucast (t div 1000) :: u32"] unfolding event_micros_def by (subst uint_up_ucast) (simp_all add: is_up)

lemma itimerspec_ok: "itimerspec (event_micros t) = (s, n) \<Longrightarrow> uint s < 4295 \<and> uint n < 1000000000"
proof -
  assume "itimerspec (event_micros t) = (s, n)"
  then have s: "uint s = uint (event_micros t) div 1000000"
    and n: "uint n = (uint (event_micros t) mod 1000000 * 1000) mod 2 ^ 64"
    by (auto simp add: itimerspec_def uint_div_distrib uint_mod_distrib uint_word_ariths)
  have "0 \<le> uint (event_micros t) mod 1000000" "uint (event_micros t) mod 1000000 < 1000000" by simp_all
  then have "uint n < 1000000000" unfolding n by (simp add: mod_pos_pos_trivial)
  then show ?thesis using s event_micros_bound [of t] by simp
qed

section \<open>Pending timers\<close>

text \<open>The pending timers of an event, and the timer that \<open>addEventTimer\<close> adds when the platform lets
  it.\<close>

definition pending :: "Event \<Rightarrow> world \<Rightarrow> LinuxTimerQueueActionArg multiset" where
  "pending e w = filter_mset (\<lambda>a. tq_type a = e) (tq_pending (timerq (clk w)))"

definition timer :: "nat \<Rightarrow> Event \<Rightarrow> u64 \<Rightarrow> LinuxTimerQueueActionArg" where
  "timer i e t = \<lparr>it_value = Some (itimerspec (event_micros t)), inner_arg = \<lparr>ed_event = e, ed_port = i\<rparr>,
                 tq_type = e, tq_rm = True\<rparr>"

definition timers_work :: "platform \<Rightarrow> bool" where
  "timers_work P \<longleftrightarrow>
     (\<forall>n. lock_timerq P n \<and> trylock_sync_interval P n \<and> timer_created P n \<and> timer_armed P n)"

lemma timers_workD:
  "timers_work P \<Longrightarrow> lock_timerq P n" "timers_work P \<Longrightarrow> trylock_sync_interval P n"
  "timers_work P \<Longrightarrow> timer_created P n" "timers_work P \<Longrightarrow> timer_armed P n"
  by (simp_all add: timers_work_def)

lemma timer_type [simp]: "tq_type (timer i e t) = e"
  by (simp add: timer_def)

lemma addEventTimer_timerq:
  "timerq (clk (addEventTimer P i e t w)) =
     snd (addEvent (timer_created P (ncalls w)) (timer_armed P (ncalls w)) (event_micros t) e
            \<lparr>ed_event = e, ed_port = i\<rparr> True (timerq (clk w)))"
  by (simp add: addEventTimer_def Let_def split_beta)

lemma timers_inv [simp]:
  assumes "tq_inv (timerq (clk w))"
  shows "tq_inv (timerq (clk (addEventTimer P i e t w)))" "tq_inv (timerq (clk (deleteEventTimer i e w)))"
  using assms by (simp_all add: addEventTimer_timerq deleteEventTimer_def ltq.add_valid ltq.cancel_valid)

lemma timers_frame [simp]:
  "ports (addEventTimer P i e t w) = ports w" "ports (deleteEventTimer i e w) = ports w"
  "ports (addEventTimerLocked P i e t w) = ports w" "ports (deleteEventTimerLocked P i e w) = ports w"
  "sent (addEventTimer P i e t w) = sent w" "sent (deleteEventTimer i e w) = sent w"
  "sent (addEventTimerLocked P i e t w) = sent w" "sent (deleteEventTimerLocked P i e w) = sent w"
  "hw_log (addEventTimer P i e t w) = hw_log w" "hw_log (deleteEventTimer i e w) = hw_log w"
  "hw_log (addEventTimerLocked P i e t w) = hw_log w" "hw_log (deleteEventTimerLocked P i e w) = hw_log w"
  "fault (addEventTimer P i e t w) = fault w" "fault (deleteEventTimer i e w) = fault w"
  "fault (addEventTimerLocked P i e t w) = fault w" "fault (deleteEventTimerLocked P i e w) = fault w"
  by (simp_all add: addEventTimer_def deleteEventTimer_def addEventTimerLocked_def deleteEventTimerLocked_def
      Let_def split_beta)

lemma timers_priority1 [simp]:
  "priority1 (clk (addEventTimer P i e t w)) = priority1 (clk w)"
  "priority1 (clk (deleteEventTimer i e w)) = priority1 (clk w)"
  "priority1 (clk (addEventTimerLocked P i e t w)) = priority1 (clk w)"
  "priority1 (clk (deleteEventTimerLocked P i e w)) = priority1 (clk w)"
  by (simp_all add: addEventTimer_def deleteEventTimer_def addEventTimerLocked_def deleteEventTimerLocked_def
      Let_def split_beta)

lemma timers_clk [simp]:
  "ipc_log (addEventTimer P i e t w) = ipc_log w" "ipc_log (deleteEventTimer i e w) = ipc_log w"
  "ipc_log (addEventTimerLocked P i e t w) = ipc_log w" "ipc_log (deleteEventTimerLocked P i e w) = ipc_log w"
  "clock_identity (clk (addEventTimer P i e t w)) = clock_identity (clk w)" "clock_identity (clk (deleteEventTimer i e w)) = clock_identity (clk w)"
  "clock_identity (clk (addEventTimerLocked P i e t w)) = clock_identity (clk w)" "clock_identity (clk (deleteEventTimerLocked P i e w)) = clock_identity (clk w)"
  "grandmaster_clock_identity (clk (addEventTimer P i e t w)) = grandmaster_clock_identity (clk w)" "grandmaster_clock_identity (clk (deleteEventTimer i e w)) = grandmaster_clock_identity (clk w)"
  "grandmaster_clock_identity (clk (addEventTimerLocked P i e t w)) = grandmaster_clock_identity (clk w)" "grandmaster_clock_identity (clk (deleteEventTimerLocked P i e w)) = grandmaster_clock_identity (clk w)"
  "port_list (clk (addEventTimer P i e t w)) = port_list (clk w)" "port_list (clk (deleteEventTimer i e w)) = port_list (clk w)"
  "port_list (clk (addEventTimerLocked P i e t w)) = port_list (clk w)" "port_list (clk (deleteEventTimerLocked P i e w)) = port_list (clk w)"
  "number_ports (clk (addEventTimer P i e t w)) = number_ports (clk w)" "number_ports (clk (deleteEventTimer i e w)) = number_ports (clk w)"
  "number_ports (clk (addEventTimerLocked P i e t w)) = number_ports (clk w)" "number_ports (clk (deleteEventTimerLocked P i e w)) = number_ports (clk w)"
  "fup_info (clk (addEventTimer P i e t w)) = fup_info (clk w)" "fup_info (clk (deleteEventTimer i e w)) = fup_info (clk w)"
  "fup_info (clk (addEventTimerLocked P i e t w)) = fup_info (clk w)" "fup_info (clk (deleteEventTimerLocked P i e w)) = fup_info (clk w)"
  "domain_number (clk (addEventTimer P i e t w)) = domain_number (clk w)" "domain_number (clk (deleteEventTimer i e w)) = domain_number (clk w)"
  "domain_number (clk (addEventTimerLocked P i e t w)) = domain_number (clk w)" "domain_number (clk (deleteEventTimerLocked P i e w)) = domain_number (clk w)"
  "LastEBestIdentity (clk (addEventTimer P i e t w)) = LastEBestIdentity (clk w)" "LastEBestIdentity (clk (deleteEventTimer i e w)) = LastEBestIdentity (clk w)"
  "LastEBestIdentity (clk (addEventTimerLocked P i e t w)) = LastEBestIdentity (clk w)" "LastEBestIdentity (clk (deleteEventTimerLocked P i e w)) = LastEBestIdentity (clk w)"
  by (simp_all add: addEventTimer_def deleteEventTimer_def addEventTimerLocked_def deleteEventTimerLocked_def
      Let_def split_beta)

lemma pending_delete [simp]: "pending e (deleteEventTimer i e' w) = (if e = e' then {#} else pending e w)"
  by (auto simp add: pending_def deleteEventTimer_def ltq.cancel_pending filter_filter_mset intro: filter_mset_cong)

lemma pending_add:
  "tq_inv (timerq (clk w)) \<Longrightarrow> timers_work P \<Longrightarrow>
     pending e (addEventTimer P i e' t w) = (if e = e' then add_mset (timer i e t) (pending e w) else pending e w)"
  by (simp add: pending_def addEventTimer_timerq ltq.add_pending timers_workD timer_def)

lemma pending_add_subset: "tq_inv (timerq (clk w)) \<Longrightarrow> pending e w \<subseteq># pending e (addEventTimer P i e' t w)"
  by (simp add: pending_def addEventTimer_timerq ltq.add_pending)

lemma pending_frame [simp]:
  "pending e (tick w) = pending e w" "pending e (crash f w) = pending e w" "pending e (upd_port i g w) = pending e w"
  "timerq (h (clk w)) = timerq (clk w) \<Longrightarrow> pending e (upd_clk h w) = pending e w"
  by (simp_all add: pending_def)

lemma pending_locked [simp]:
  assumes "timers_work P"
  shows "pending e (deleteEventTimerLocked P i e' w) = (if e = e' then {#} else pending e w)"
    and "tq_inv (timerq (clk w)) \<Longrightarrow> pending e (addEventTimerLocked P i e' t w) =
           (if e = e' then add_mset (timer i e t) (pending e w) else pending e w)"
  using assms by (simp_all add: deleteEventTimerLocked_def addEventTimerLocked_def pending_add timers_workD)

lemma locked_inv [simp]:
  assumes "tq_inv (timerq (clk w))"
  shows "tq_inv (timerq (clk (deleteEventTimerLocked P i e w)))" "tq_inv (timerq (clk (addEventTimerLocked P i e t w)))"
  using assms by (simp_all add: deleteEventTimerLocked_def addEventTimerLocked_def)

section \<open>Repeated visits of the first port\<close>

text \<open>The loops over the ports skip the empty slots but do not advance past the port they found, so they visit
  the first port \<open>number_ports\<close> times.\<close>

lemma skip_null_found: "skip_null ps j = Some (k, p) \<Longrightarrow> skip_null ps k = Some (k, p)"
proof (induction ps j rule: skip_null.induct)
  case (1 ps j)
  then show ?case
    by (auto simp add: skip_null.simps [of ps j] skip_null.simps [of ps k] split: if_splits option.splits)
qed

lemma port_loop_first: "skip_null ps j = Some (k, p) \<Longrightarrow> port_loop n j ps f s = Some ((f p ^^ n) s)"
proof (induction n arbitrary: j s)
  case (Suc n)
  then show ?case
    using skip_null_found [of ps j k p] by (simp add: funpow_swap1)
qed simp

lemma funpow_fix: "0 < n \<Longrightarrow> (\<And>s. f (f s) = f s) \<Longrightarrow> (f ^^ n) s = f s"
proof (induction n)
  case (Suc n)
  then show ?case by (cases n) auto
qed simp

section \<open>Predicates kept by the handlers\<close>

text \<open>The part of the clock that only the timers change, and the port numbers of pending timers.\<close>

definition clk_frame :: "IEEE1588Clock \<Rightarrow> LinuxTimerQueue \<times> u8 \<times> nat option list" where
  "clk_frame c = (timerq c, priority1 c, port_list c)"

lemma clk_frame_fields [simp]:
  "clk_frame (new_syntonization_set_point_update f0 c) = clk_frame c"
  "clk_frame (phase_error_violation_update f1 c) = clk_frame c"
  "clk_frame (master_local_freq_offset_init_update f2 c) = clk_frame c"
  "clk_frame (master_local_freq_offset_update f4 c) = clk_frame c"
  "clk_frame (local_system_freq_offset_update f5 c) = clk_frame c"
  "clk_frame (LastEBestIdentity_update g0 c) = clk_frame c"
  "clk_frame (fup_status_update g6 c) = clk_frame c"
  by (simp_all add: clk_frame_def)

lemma clk_frame_ops [simp]:
  "clk_frame (updateFUPInfo c) = clk_frame c" "clk_frame (newSyntonizationSetPoint c) = clk_frame c"
  "clk_frame (grandmaster_self c) = clk_frame c" "clk_frame (grandmaster_announced m c) = clk_frame c"
  "clk_frame (snd (calcLocalSystemClockRateDifference A t t' c)) = clk_frame c"
  "clk_frame (snd (calcMasterLocalClockRateDifference A t t' c)) = clk_frame c"
  "clk_frame (adjust_frequency A n d f c) = clk_frame c"
  by (simp_all add: updateFUPInfo_def newSyntonizationSetPoint_def grandmaster_self_def grandmaster_announced_def
      setGrandmasterClockIdentity_def calcLocalSystemClockRateDifference_def calcMasterLocalClockRateDifference_def
      adjust_frequency_def clk_frame_def Let_def)

lemma wf_clk_ops [simp]:
  "wf_clk S (updateFUPInfo c) = wf_clk S c" "wf_clk S (newSyntonizationSetPoint c) = wf_clk S c"
  "wf_clk S (grandmaster_self c) = wf_clk S c" "wf_clk S (grandmaster_announced m c) = wf_clk S c"
  "wf_clk S (snd (calcLocalSystemClockRateDifference A t t' c)) = wf_clk S c"
  "wf_clk S (snd (calcMasterLocalClockRateDifference A t t' c)) = wf_clk S c"
  by (simp_all add: updateFUPInfo_def newSyntonizationSetPoint_def grandmaster_self_def grandmaster_announced_def
      setGrandmasterClockIdentity_def calcLocalSystemClockRateDifference_def calcMasterLocalClockRateDifference_def Let_def)

lemma wf_adjust_frequency:
  "wf_clk S c \<Longrightarrow> wf_arch A \<Longrightarrow> fp_below 68 f \<Longrightarrow> n \<noteq> 0x80 \<Longrightarrow> wf_clk S (adjust_frequency A n d f c)"
  using adjust_frequency_ppm_ok [of A c f n d] by (simp add: wf_clk_def adjust_frequency_def Let_def)

lemma wf_addEventTimer: "wf_world A S w \<Longrightarrow> i \<in> S \<Longrightarrow> wf_world A S (addEventTimer P i e t w)"
proof -
  assume w: "wf_world A S w" and i: "i \<in> S"
  from w have c: "wf_clk S (clk w)" by (rule wf_world_clk)
  let ?q = "snd (addEvent (timer_created P (ncalls w)) (timer_armed P (ncalls w)) (event_micros t) e
    \<lparr>ed_event = e, ed_port = i\<rparr> True (timerq (clk w)))"
  have "tq_inv ?q" using c by (simp add: wf_clk_def ltq.add_valid)
  moreover have "\<forall>a \<in># tq_pending ?q. timer_ok S a"
    using c i itimerspec_ok [of t] by (auto simp add: wf_clk_def ltq.add_pending timer_ok_def)
  ultimately show ?thesis
    using w c by (simp add: addEventTimer_def Let_def split_beta wf_clk_timerq)
qed

lemma wf_deleteEventTimer: "wf_world A S w \<Longrightarrow> wf_world A S (deleteEventTimer i e w)"
  by (auto simp add: deleteEventTimer_def wf_clk_def ltq.cancel_valid ltq.cancel_pending ppm_ok_def
      dest: wf_world_clk intro!: wf_upd_clk)

lemma skip_null_mem: "skip_null ps j = Some (k, p) \<Longrightarrow> Some p \<in> set ps"
proof (induction ps j rule: skip_null.induct)
  case (1 ps j)
  then show ?case
    by (simp add: skip_null.simps [of ps j] split: if_splits option.splits) (metis nth_mem)+
qed

text \<open>What a predicate on worlds must promise so that the handlers of the ports keep it: it holds only
  of well-formed worlds and is kept by the elementary updates. \<open>active\<close> are the ports whose handlers
  run. The handlers are proved to keep every such predicate once, in the theories that define them.
  Beyond well-formedness only three things may matter to the predicate: sync interval timers, whose removal is
  left to the operations that start them again or stop being master; the halt of the peer delay mechanism, which may begin at any
  time and whose end is left to the two events that end it; and the number of requests transmitted, which grows only
  without a halt.\<close>

abbreviation tx_requests :: "EtherPort \<Rightarrow> u32" where
  "tx_requests p \<equiv> ieee8021AsPortStatTxPdelayRequest (counters p)"

locale world_predicate =
  fixes P :: platform and active :: "nat \<Rightarrow> bool" and I :: "world \<Rightarrow> bool"
  assumes I_wf: "I w \<Longrightarrow> wf_arch P \<and> wf_world P (Collect active) w"
    and I_tick: "I w \<Longrightarrow> I (tick w)"
    and I_crash: "I w \<Longrightarrow> I (crash f w)"
    and I_sent: "I w \<Longrightarrow> I (w\<lparr>sent := fs\<rparr>)"
    and I_ipc: "I w \<Longrightarrow> I (w\<lparr>ipc_log := cs\<rparr>)"
    and I_ap: "I w \<Longrightarrow> I (w\<lparr>ap_sequenceId := n\<rparr>)"
    and I_command: "I w \<Longrightarrow> command_ok h \<Longrightarrow> hs = hw_log w \<Longrightarrow> I (w\<lparr>hw_log := h # hs\<rparr>)"
    and I_port: "I w \<Longrightarrow> active i \<Longrightarrow> port_state (g (ports w i)) = port_state (ports w i) \<Longrightarrow>
          (pdelay_halted (ports w i) \<longrightarrow> pdelay_halted (g (ports w i))) \<Longrightarrow>
          tx_requests (g (ports w i)) = tx_requests (ports w i) \<Longrightarrow>
          (wf_port P (ports w i) \<longrightarrow> wf_port P (g (ports w i))) \<Longrightarrow> I (upd_port i g w)"
    and I_request: "I w \<Longrightarrow> active i \<Longrightarrow> \<not> pdelay_halted (ports w i) \<Longrightarrow>
          I (upd_port i (\<lambda>p. p\<lparr>counters := ieee8021AsPortStatTxPdelayRequest_update (\<lambda>n. n + 1) (counters p)\<rparr>) w)"
    and I_clk: "I w \<Longrightarrow> clk_frame (u (clk w)) = clk_frame (clk w) \<Longrightarrow>
          (wf_clk (Collect active) (clk w) \<longrightarrow> wf_clk (Collect active) (u (clk w))) \<Longrightarrow> I (upd_clk u w)"
    and I_add: "I w \<Longrightarrow> active i \<Longrightarrow> I (addEventTimer P i e t w)"
    and I_delete: "I w \<Longrightarrow> active i \<Longrightarrow> e \<noteq> SYNC_INTERVAL_TIMEOUT_EXPIRES \<Longrightarrow> I (deleteEventTimer i e w)"
begin

declare I_tick [simp] I_crash [simp] I_sent [simp] I_ipc [simp] I_ap [simp] I_command [simp]
declare I_port [simp] I_clk [simp] I_add [simp] I_delete [simp]

lemma I_active: "I w \<Longrightarrow> Some k \<in> set (port_list (clk w)) \<Longrightarrow> active k"
  using I_wf [of w] by (simp add: wf_world_def)

lemma I_addLocked [simp]: "I w \<Longrightarrow> active i \<Longrightarrow> I (addEventTimerLocked P i e t w)"
  by (simp add: addEventTimerLocked_def)

lemma I_deleteLocked [simp]:
  "I w \<Longrightarrow> active i \<Longrightarrow> e \<noteq> SYNC_INTERVAL_TIMEOUT_EXPIRES \<Longrightarrow> I (deleteEventTimerLocked P i e w)"
  by (simp add: deleteEventTimerLocked_def)

lemma I_port_loop:
  "port_loop n j ps f s = Some s' \<Longrightarrow> I (pr s) \<Longrightarrow> (\<And>p s. Some p \<in> set ps \<Longrightarrow> I (pr s) \<Longrightarrow> I (pr (f p s))) \<Longrightarrow> I (pr s')"
proof (induction n arbitrary: j s)
  case (Suc n)
  then obtain k p where k: "skip_null ps j = Some (k, p)" by (cases "skip_null ps j") auto
  then have "Some p \<in> set ps" by (rule skip_null_mem)
  then show ?case using Suc k by auto
qed simp

lemma I_for_ports:
  assumes "I w" and "\<And>p w. active p \<Longrightarrow> I w \<Longrightarrow> I (f p w)"
  shows "I (for_ports f w)"
proof (cases "port_loop (unat (number_ports (clk w))) 0 (port_list (clk w)) f w")
  case (Some w')
  then have "I w'"
    using I_port_loop [of _ _ _ f w w' "\<lambda>w. w"] I_active [OF assms(1)] assms by blast
  then show ?thesis using Some by (simp add: for_ports_def)
qed (use assms(1) in \<open>simp add: for_ports_def\<close>)

end

text \<open>Well-formedness itself.\<close>

definition wf_system :: "platform \<Rightarrow> nat set \<Rightarrow> world \<Rightarrow> bool" where
  "wf_system P S w \<longleftrightarrow> wf_arch P \<and> wf_world P S w"

interpretation wfw: world_predicate P "\<lambda>i. i \<in> S" "wf_system P S" for P S
  by unfold_locales (simp_all add: wf_system_def wf_addEventTimer wf_deleteEventTimer clk_frame_def)

section \<open>Witnesses\<close>

definition sample_message :: PTPMessageCommon where
  "sample_message =
     \<lparr>versionPTP = 2, versionNetwork = 1, messageType = 0,
      sourcePortIdentity = \<lparr>clock_id = \<lparr>cid = [1, 2, 3, 0xFF, 0xFE, 4, 5, 6]\<rparr>, portNumber = 1\<rparr>,
      sequenceId = 0, control = 0, flags = [0, 0], messageLength = 0, logMeanMessageInterval = 0,
      correctionField = 0, domainNumber = 0, msg_timestamp = Timestamp_default, timestamp_counter_value = 0,
      gc = False\<rparr>"

definition sample_platform :: platform where
  "sample_platform =
     \<lparr>fr_fmt = EXTENDED, ld_fmt = EXTENDED, fr_size = 16,
      fr_bytes = (\<lambda>x. (if x = Fin 1 then 1 else 0) # replicate 15 0),
      fr_of_bytes = (\<lambda>bs. if hd bs = 1 then Fin 1 else Fin 0), oob = (\<lambda>_. - (2 ^ 63)),
      hw_gettime = (\<lambda>n. (Timestamp_new 0 100 0, Timestamp_new 0 100 0, 0, 0)),
      hw_txtimestamp = (\<lambda>n src mid l. (GPTP_EC_SUCCESS, Timestamp_new 5000 100 0)),
      hw_rxtimestamp = (\<lambda>n src mid l. (GPTP_EC_SUCCESS, Timestamp_new 9000 100 0, 0)),
      hw_version = (\<lambda>n. 0), hw_adjclockrate = (\<lambda>n. True), hw_adjclockphase = (\<lambda>n. True),
      net_send = (\<lambda>n. net_succeed), net_build = (\<lambda>n. Some \<lparr>addr = [0, 0x1B, 0x21, 1, 2, 3]\<rparr>),
      lock_timerq = (\<lambda>n. True), trylock_sync_interval = (\<lambda>n. True), trylock_pdelay_rx = (\<lambda>n. True),
      timer_created = (\<lambda>n. True), timer_armed = (\<lambda>n. True), thread_started = (\<lambda>n. True),
      msg_mem = sample_message, lla_mem = \<lparr>addr = [0, 0, 0, 0, 0, 0]\<rparr>\<rparr>"

definition sample_port :: EtherPort where
  "sample_port =
     \<lparr>local_addr = \<lparr>addr = [0, 0x1B, 0x21, 1, 2, 3]\<rparr>,
      port_identity = \<lparr>clock_id = \<lparr>cid = [0, 0x1B, 0x21, 0xFF, 0xFE, 1, 2, 3]\<rparr>, portNumber = 1\<rparr>,
      ifindex = 1, link_speed = 1000000, one_way_delay = 500, neighbor_prop_delay_thresh = 800,
      port_state = PTP_SLAVE, testMode = False, automotive_profile = False, allow_negative_correction_field = False,
      log_mean_sync_interval = - 3, log_mean_announce_interval = 0, initialLogSyncInterval = - 3,
      sync_receipt_thresh = 8, wrongSeqIDCounter = 0, counters = PortCounters_zero, listening_thread_running = True,
      peer_rate_offset = Fin 1, peer_offset_ts_theirs = Timestamp_default, peer_offset_ts_mine = Timestamp_default,
      peer_offset_init = False, asCapable = True, sync_count = 0, pdelay_count = 0, initialLogPdelayReqInterval = 0,
      log_min_mean_pdelay_req_interval = 0, qualified_announce = None, announce_sequence_id = 0,
      signal_sequence_id = 0, sync_sequence_id = 0, lastGmTimeBaseIndicator = 0, hw_timestamper = True, isGM = False,
      phy_delay = (\<lambda>_. None), linkUp = True, duplicate_resp_counter = 0, last_invalid_seqid = 0,
      operLogPdelayReqInterval = 0, operLogSyncInterval = 0, linkUpCount = 0, linkDownCount = 0,
      stationState = STATION_STATE_RESERVED, avbSyncState = 0, pdelay_sequence_id = 0, last_pdelay_req = None,
      last_pdelay_resp = None, last_pdelay_resp_fwup = None, identity_map = [], last_sync = None,
      pdelay_started = True, pdelay_halted = False, sync_rate_interval_timer_started = False\<rparr>"

text \<open>One port, at address 0, in slave state.\<close>

definition sample_world :: world where
  "sample_world =
     \<lparr>clk = sample_clock\<lparr>port_list := (replicate MAX_PORTS None)[0 := Some 0], number_ports := 1\<rparr>,
      ports = (\<lambda>_. sample_port), sent = [], hw_log = [], ipc_log = [], ap_sequenceId = 0, ncalls = 0, fault = None\<rparr>"

lemma sample_platform_wf: "wf_arch sample_platform" "timers_work sample_platform"
  by (simp_all add: wf_arch_def sample_platform_def EXTENDED_def wf_fmt_def timers_work_def)

lemma sample_port_wf: "wf_port A sample_port"
  by (simp add: wf_port_def sample_port_def rate_ok_def)

lemma sample_world_sel [simp]:
  "ports sample_world i = sample_port" "sent sample_world = []" "hw_log sample_world = []" "fault sample_world = None"
  "number_ports (clk sample_world) = 1" "priority1 (clk sample_world) = 248"
  by (simp_all add: sample_world_def sample_clock_def IEEE1588Clock_new_def)

lemma sample_port_list: "port_list (clk sample_world) = Some 0 # replicate (MAX_PORTS - 1) None"
  by (simp add: sample_world_def MAX_PORTS_def numeral_eq_Suc)

lemma sample_first_port: "skip_null (port_list (clk sample_world)) 0 = Some (0, 0)"
  by (simp add: sample_port_list skip_null.simps)

lemma sample_world_wf: "wf_system sample_platform {0} sample_world"
proof -
  have "wf_clk {0} (clk sample_world)"
    using sample_clock_facts
    by (simp add: wf_clk_def sample_world_def sample_clock_def IEEE1588Clock_new_def tq_pending_def
        createOSTimerQueue_def tq_inv_def ppm_ok_def)
  then show ?thesis
    by (simp add: wf_system_def wf_world_def sample_platform_wf sample_port_wf sample_port_list)
qed

end
