(* ===== verification/Common_Port.thy ===== *)
theory Common_Port
  imports Gptp_World
begin

text \<open>
  The media-independent part of a port, \<open>common/common_port.hpp\<close> and \<open>common/common_port.cpp\<close>: the
  constructor and initialisation, the link delay, the counters, the timers, device time and clock
  adjustment, and \<open>IEEE1588Clock::setMasterOffset\<close> of \<open>common/ieee1588clock.cpp\<close>, which acts on the
  port it is given. The virtual functions that it calls are those of \<open>EtherPort\<close>.

  Locks that are taken unconditionally have no effect on the modelled state; of the others the
  platform gives the result.
\<close>

section \<open>Construction\<close>

record PortInit_t =
  init_index :: u16
  init_timestamper :: bool
  init_automotive_profile :: bool
  init_isGM :: bool
  init_testMode :: bool
  init_linkUp :: bool
  init_initialLogSyncInterval :: u8
  init_initialLogPdelayReqInterval :: u8
  init_operLogPdelayReqInterval :: u8
  init_operLogSyncInterval :: u8
  init_phy_delay :: "u32 \<Rightarrow> phy_delay_spec_t option"
  init_syncReceiptThreshold :: u32
  init_neighborPropDelayThreshold :: u64
  init_allowNegativeCorrField :: bool

definition INVALID_LINKDELAY :: u64 where
  "INVALID_LINKDELAY = 3600000000000"

definition INVALID_LINKSPEED :: u32 where
  "INVALID_LINKSPEED = 0xFFFFFFFF"

text \<open>The constructor of the base class, on the memory of the new object. Members of class type are
  default constructed; the number of the default \<open>PortIdentity\<close> is not initialised.\<close>

definition CommonPort_fields :: "PortInit_t \<Rightarrow> EtherPort \<Rightarrow> EtherPort" where
  "CommonPort_fields portInit p =
     p\<lparr>port_identity := (port_identity p)\<lparr>clock_id := ClockIdentity_default\<rparr>,
       peer_offset_ts_theirs := Timestamp_default, peer_offset_ts_mine := Timestamp_default,
       hw_timestamper := init_timestamper portInit, isGM := init_isGM portInit,
       phy_delay := init_phy_delay portInit, one_way_delay := INVALID_LINKDELAY,
       neighbor_prop_delay_thresh := init_neighborPropDelayThreshold portInit,
       sync_receipt_thresh := init_syncReceiptThreshold portInit, wrongSeqIDCounter := 0,
       peer_rate_offset := Fin 1, peer_offset_init := False, ifindex := init_index portInit,
       testMode := False, port_state := PTP_INITIALIZING, qualified_announce := None,
       automotive_profile := init_automotive_profile portInit, announce_sequence_id := 0,
       signal_sequence_id := 0, sync_sequence_id := 0,
       initialLogPdelayReqInterval := init_initialLogPdelayReqInterval portInit,
       initialLogSyncInterval := init_initialLogSyncInterval portInit,
       log_mean_announce_interval := 0, pdelay_count := 0, asCapable := False,
       link_speed := INVALID_LINKSPEED,
       allow_negative_correction_field := init_allowNegativeCorrField portInit,
       counters := PortCounters_zero\<rparr>"

definition CommonPort_new :: "PortInit_t \<Rightarrow> nat \<Rightarrow> world \<Rightarrow> world" where
  "CommonPort_new portInit this w =
     (let w = upd_port this (CommonPort_fields portInit) w
      in case registerPort this (init_index portInit) (clk w) of
           None \<Rightarrow> crash OutOfBounds w
         | Some c \<Rightarrow> upd_clk (\<lambda>_. c) w)"

text \<open>\<open>init_port\<close>: without a network interface the port is not initialised. A timestamper that fails
  to initialise is only logged.\<close>

definition init_port :: "platform \<Rightarrow> nat \<Rightarrow> world \<Rightarrow> bool \<times> world" where
  "init_port P i w =
     (let w = upd_port i (\<lambda>p. p\<lparr>log_mean_sync_interval := initialLogSyncInterval p\<rparr>) w;
          iface = net_build P (ncalls w);
          w = tick w
      in case iface of
           None \<Rightarrow> (False, w)
         | Some a \<Rightarrow>
             let w = upd_port i (local_addr_update (\<lambda>_. a)) w;
                 w = upd_clk (clock_identity_update (\<lambda>_. cid_set_address a)) w;
                 w = upd_port i (\<lambda>p. p\<lparr>port_identity := \<lparr>clock_id = clock_identity (clk w), portNumber = ifindex p\<rparr>\<rparr>) w
             in (True, w))"

section \<open>Fields of the port\<close>

text \<open>\<open>getLinkDelay\<close> in both forms; the second tells whether the delay is valid.\<close>

definition getLinkDelay :: "EtherPort \<Rightarrow> u64" where
  "getLinkDelay p = (if 0 < sint (one_way_delay p) then one_way_delay p else 0)"

definition getLinkDelay_valid :: "EtherPort \<Rightarrow> bool" where
  "getLinkDelay_valid p \<longleftrightarrow> getLinkDelay p < INVALID_LINKDELAY"

definition setLinkDelay :: "u64 \<Rightarrow> EtherPort \<Rightarrow> bool \<times> EtherPort" where
  "setLinkDelay delay p =
     (let p = p\<lparr>one_way_delay := delay\<rparr>;
          abs_delay = (if sint (one_way_delay p) < 0 then - one_way_delay p else one_way_delay p)
      in (sint abs_delay \<le> sint (neighbor_prop_delay_thresh p), p))"

definition incWrongSeqIDCounter :: "EtherPort \<Rightarrow> bool \<times> EtherPort" where
  "incWrongSeqIDCounter p =
     (let p = (if asCapable p then p\<lparr>wrongSeqIDCounter := wrongSeqIDCounter p + 1\<rparr> else p)
      in (wrongSeqIDCounter p < sync_receipt_thresh p, p))"

definition setAsCapable :: "bool \<Rightarrow> EtherPort \<Rightarrow> EtherPort" where
  "setAsCapable ascap p =
     (let p = (if \<not> ascap then p\<lparr>peer_offset_init := False\<rparr> else p)
      in p\<lparr>asCapable := ascap\<rparr>)"

definition setPeerOffset :: "Timestamp \<Rightarrow> Timestamp \<Rightarrow> EtherPort \<Rightarrow> EtherPort" where
  "setPeerOffset mine theirs p =
     p\<lparr>peer_offset_ts_mine := mine, peer_offset_ts_theirs := theirs, peer_offset_init := True\<rparr>"

definition restartPDelay :: "EtherPort \<Rightarrow> EtherPort" where
  "restartPDelay p = p\<lparr>peer_offset_init := False\<rparr>"

text \<open>Sequence numbers are handed out and advanced.\<close>

definition getNextAnnounceSequenceId :: "EtherPort \<Rightarrow> u16 \<times> EtherPort" where
  "getNextAnnounceSequenceId p = (announce_sequence_id p, p\<lparr>announce_sequence_id := announce_sequence_id p + 1\<rparr>)"

definition getNextSignalSequenceId :: "EtherPort \<Rightarrow> u16 \<times> EtherPort" where
  "getNextSignalSequenceId p = (signal_sequence_id p, p\<lparr>signal_sequence_id := signal_sequence_id p + 1\<rparr>)"

definition getNextSyncSequenceId :: "EtherPort \<Rightarrow> u16 \<times> EtherPort" where
  "getNextSyncSequenceId p = (sync_sequence_id p, p\<lparr>sync_sequence_id := sync_sequence_id p + 1\<rparr>)"

definition resetInitPDelayInterval :: "EtherPort \<Rightarrow> EtherPort" where
  "resetInitPDelayInterval p = p\<lparr>log_min_mean_pdelay_req_interval := initialLogPdelayReqInterval p\<rparr>"

definition resetInitSyncInterval :: "EtherPort \<Rightarrow> EtherPort" where
  "resetInitSyncInterval p = p\<lparr>log_mean_sync_interval := initialLogSyncInterval p\<rparr>"

text \<open>The counters. \<open>inc\<close> is the body that the sixteen \<open>incCounter\<close> functions share: \<open>upd\<close> is the
  update function of the counter.\<close>

definition incCounter :: "((u32 \<Rightarrow> u32) \<Rightarrow> PortCounters_t \<Rightarrow> PortCounters_t) \<Rightarrow> nat \<Rightarrow> world \<Rightarrow> world" where
  "incCounter upd i w = upd_port i (\<lambda>p. p\<lparr>counters := upd (\<lambda>n. n + 1) (counters p)\<rparr>) w"

text \<open>PHY delays for a link speed, as timestamps.\<close>

definition getTxPhyDelay :: "EtherPort \<Rightarrow> u32 \<Rightarrow> Timestamp" where
  "getTxPhyDelay p speed =
     (case phy_delay p speed of Some d \<Rightarrow> Timestamp_new (ucast (tx_delay d)) 0 0 | None \<Rightarrow> Timestamp_new 0 0 0)"

definition getRxPhyDelay :: "EtherPort \<Rightarrow> u32 \<Rightarrow> Timestamp" where
  "getRxPhyDelay p speed =
     (case phy_delay p speed of Some d \<Rightarrow> Timestamp_new (ucast (rx_delay d)) 0 0 | None \<Rightarrow> Timestamp_new 0 0 0)"

section \<open>Intervals\<close>

text \<open>\<open>pow(2, interval) * 1000000000.0\<close> in \<open>double\<close>, and the waiting times computed from it.\<close>

definition interval_fp :: "u8 \<Rightarrow> fp" where
  "interval_fp interval = fp_mul DOUBLE (pow_2 interval) (Fin 1000000000)"

definition interval_u64 :: "'a arch_scheme \<Rightarrow> u8 \<Rightarrow> u64" where
  "interval_u64 A interval = to_u64 A (interval_fp interval)"

definition interval_i64 :: "'a arch_scheme \<Rightarrow> u8 \<Rightarrow> u64" where
  "interval_i64 A interval = to_i64 A (interval_fp interval)"

text \<open>Three times the interval, multiplied before the conversion or, as \<open>becomeSlave\<close> and the announce
  timeout do, after it; the last form multiplies before the seconds are scaled.\<close>

definition receipt_wait :: "'a arch_scheme \<Rightarrow> u8 \<Rightarrow> u64" where
  "receipt_wait A interval = to_u64 A (fp_mul DOUBLE (Fin 3) (interval_fp interval))"

definition announce_receipt_wait :: "'a arch_scheme \<Rightarrow> u8 \<Rightarrow> u64" where
  "announce_receipt_wait A interval = 3 * interval_u64 A interval"

definition announce_receipt_wait_d :: "'a arch_scheme \<Rightarrow> u8 \<Rightarrow> u64" where
  "announce_receipt_wait_d A interval =
     to_u64 A (fp_mul DOUBLE (fp_mul DOUBLE (Fin 3) (pow_2 interval)) (Fin 1000000000))"

section \<open>Timers\<close>

definition startSyncReceiptTimer :: "platform \<Rightarrow> nat \<Rightarrow> u64 \<Rightarrow> world \<Rightarrow> world" where
  "startSyncReceiptTimer P i waitTime w =
     addEventTimer P i SYNC_RECEIPT_TIMEOUT_EXPIRES waitTime
       (deleteEventTimer i SYNC_RECEIPT_TIMEOUT_EXPIRES w)"

definition stopSyncReceiptTimer :: "nat \<Rightarrow> world \<Rightarrow> world" where
  "stopSyncReceiptTimer i w = deleteEventTimer i SYNC_RECEIPT_TIMEOUT_EXPIRES w"

definition startSyncIntervalTimer :: "platform \<Rightarrow> nat \<Rightarrow> u64 \<Rightarrow> world \<Rightarrow> world" where
  "startSyncIntervalTimer P i waitTime w =
     (if \<not> trylock_sync_interval P (ncalls w) then tick w
      else addEventTimerLocked P i SYNC_INTERVAL_TIMEOUT_EXPIRES waitTime
             (deleteEventTimerLocked P i SYNC_INTERVAL_TIMEOUT_EXPIRES (tick w)))"

definition startAnnounceIntervalTimer :: "platform \<Rightarrow> nat \<Rightarrow> u64 \<Rightarrow> world \<Rightarrow> world" where
  "startAnnounceIntervalTimer P i waitTime w =
     addEventTimerLocked P i ANNOUNCE_INTERVAL_TIMEOUT_EXPIRES waitTime
       (deleteEventTimerLocked P i ANNOUNCE_INTERVAL_TIMEOUT_EXPIRES w)"

definition startAnnounce :: "platform \<Rightarrow> nat \<Rightarrow> world \<Rightarrow> world" where
  "startAnnounce P i w = startAnnounceIntervalTimer P i 16000000 w"

section \<open>Timestamper\<close>

definition getDeviceTime :: "platform \<Rightarrow> nat \<Rightarrow> world \<Rightarrow> (Timestamp \<times> Timestamp) \<times> world" where
  "getDeviceTime P i w =
     (if hw_timestamper (ports w i)
      then let (system_time, device_time, local_clock, nominal) = hw_gettime P (ncalls w)
           in ((system_time, device_time), tick w)
      else ((getSystemTime, getSystemTime), w))"

definition getTimestampVersion :: "platform \<Rightarrow> nat \<Rightarrow> world \<Rightarrow> int \<times> world" where
  "getTimestampVersion P i w =
     (if hw_timestamper (ports w i) then (hw_version P (ncalls w), tick w)
      else (0, crash NullPointer w))"

definition adjustClockRate :: "platform \<Rightarrow> nat \<Rightarrow> fp \<Rightarrow> world \<Rightarrow> bool \<times> world" where
  "adjustClockRate P i freq_offset w =
     (if hw_timestamper (ports w i)
      then (hw_adjclockrate P (ncalls w), tick (w\<lparr>hw_log := AdjClockRate (fp_conv FLOAT freq_offset) # hw_log w\<rparr>))
      else (False, w))"

definition adjustClockPhase :: "platform \<Rightarrow> nat \<Rightarrow> u64 \<Rightarrow> world \<Rightarrow> bool \<times> world" where
  "adjustClockPhase P i phase_adjust w =
     (if hw_timestamper (ports w i)
      then (hw_adjclockphase P (ncalls w), tick (w\<lparr>hw_log := AdjClockPhase phase_adjust # hw_log w\<rparr>))
      else (False, w))"

definition timestamper_reset :: "nat \<Rightarrow> world \<Rightarrow> world" where
  "timestamper_reset i w = (if hw_timestamper (ports w i) then w\<lparr>hw_log := HwReset # hw_log w\<rparr> else w)"

section \<open>Clock operations on the ports\<close>

definition restartPDelayAll :: "world \<Rightarrow> world" where
  "restartPDelayAll w = for_ports (\<lambda>p. upd_port p restartPDelay) w"

text \<open>The transmit locks of all ports: only the search for the ports shows.\<close>

definition getTxLockAll :: "world \<Rightarrow> world" where
  "getTxLockAll w = for_ports (\<lambda>_ w. w) w"

definition putTxLockAll :: "world \<Rightarrow> world" where
  "putTxLockAll w = for_ports (\<lambda>_ w. w) w"

text \<open>The updates for other processes.\<close>

definition ipc_calls :: "nat \<Rightarrow> u64 \<Rightarrow> Timestamp \<Rightarrow> fp \<Rightarrow> u64 \<Rightarrow> fp \<Rightarrow> u32 \<Rightarrow> u32 \<Rightarrow> PortState \<Rightarrow> bool \<Rightarrow> world \<Rightarrow> world"
  where
  "ipc_calls i master_local_offset local_time mlfo local_system_offset lsfo sync pdelay state ascap w =
     (let c = clk w; p = ports w i in
      w\<lparr>ipc_log :=
          [IpcUpdateNetworkInterface
             \<lparr>ni_clock_identity = getIdentityString (clock_identity c), ni_priority1 = priority1 c,
              ni_clock_class = cq_class (clock_quality c),
              ni_offset_scaled_log_variance = offsetScaledLogVariance (clock_quality c),
              ni_clock_accuracy = clockAccuracy (clock_quality c), ni_priority2 = priority2 c,
              ni_domain_number = domain_number c, ni_log_sync_interval = log_mean_sync_interval p,
              ni_log_announce_interval = log_mean_announce_interval p, ni_log_pdelay_interval = 0,
              ni_port_number = portNumber (port_identity p)\<rparr>,
           IpcUpdateGrandmaster (getIdentityString (grandmaster_clock_identity c)) (domain_number c),
           IpcUpdate
             \<lparr>ml_phoffset = master_local_offset, ls_phoffset = local_system_offset, ml_freqoffset = mlfo,
              ls_freqoffset = lsfo, ipc_local_time = TIMESTAMP_TO_NS local_time, ipc_sync_count = sync,
              ipc_pdelay_count = pdelay, ipc_port_state = state, ipc_asCapable = ascap\<rparr>]
          @ ipc_log w\<rparr>)"

text \<open>A phase adjustment, and the whole of \<open>setMasterOffset\<close>.\<close>

definition adjust_phase :: "platform \<Rightarrow> nat \<Rightarrow> u64 \<Rightarrow> world \<Rightarrow> world" where
  "adjust_phase P i master_local_offset w =
     (let w = upd_clk (\<lambda>c. c\<lparr>new_syntonization_set_point := False, phase_error_violation := 0\<rparr>) w;
          w = getTxLockAll w;
          (r, w) = adjustClockPhase P i (- master_local_offset) w;
          w = upd_clk (master_local_freq_offset_init_update (\<lambda>_. False)) w;
          w = restartPDelayAll w
      in putTxLockAll w)"

definition setMasterOffset ::
  "platform \<Rightarrow> nat \<Rightarrow> u64 \<Rightarrow> Timestamp \<Rightarrow> fp \<Rightarrow> u64 \<Rightarrow> fp \<Rightarrow> u32 \<Rightarrow> u32 \<Rightarrow> PortState \<Rightarrow> bool \<Rightarrow> world \<Rightarrow> world" where
  "setMasterOffset P i master_local_offset local_time mlfo local_system_offset lsfo sync pdelay state ascap w =
     (let w = upd_clk (\<lambda>c. c\<lparr>master_local_freq_offset := mlfo, local_system_freq_offset := lsfo\<rparr>) w;
          w = (if has_ipc (clk w)
               then ipc_calls i master_local_offset local_time mlfo local_system_offset lsfo sync pdelay state ascap w
               else w)
      in if master_local_offset = 0 \<and> fp_eq mlfo (Fin 1) then w
         else if \<not> syntonize (clk w) then w
         else let adjust = new_syntonization_set_point (clk w) \<or> PHASE_ERROR_MAX_COUNT < phase_error_violation (clk w);
                  w = (if adjust then adjust_phase P i master_local_offset w else w);
                  offset = (if adjust then 0 else master_local_offset);
                  w = upd_clk (adjust_frequency P (log_mean_sync_interval (ports w i)) offset mlfo) w
              in snd (adjustClockRate P i (ppm (clk w)) w))"

section \<open>Persistent state\<close>

text \<open>A \<open>bool\<close> takes one octet, a \<open>PortState\<close> four. The state of the port is restored from any four
  octets; only those of an enumerator are read back here, other values keep the state.\<close>

definition bool_bytes :: "bool \<Rightarrow> octets" where
  "bool_bytes b = [if b then 1 else 0]"

definition PortState_of_val :: "u32 \<Rightarrow> PortState option" where
  "PortState_of_val v =
     find (\<lambda>s. PortState_val s = v)
       [PTP_MASTER, PTP_PRE_MASTER, PTP_SLAVE, PTP_UNCALIBRATED, PTP_DISABLED, PTP_FAULTY, PTP_INITIALIZING, PTP_LISTENING]"

definition port_serializeState :: "'a arch_scheme \<Rightarrow> EtherPort \<Rightarrow> int option \<Rightarrow> bool \<times> octets \<times> int" where
  "port_serializeState A p buf =
     (case buf of
        None \<Rightarrow> (True, [], int (4 + fr_size A + 1 + 8))
      | Some cnt \<Rightarrow>
          if port_state p \<noteq> PTP_MASTER \<and> port_state p \<noteq> PTP_SLAVE then (False, [], 0)
          else save_field (fr_bytes A (peer_rate_offset p))
                 (save_field (le_bytes 8 (one_way_delay p))
                   (save_field (le_bytes 4 (PortState_val (port_state p)))
                     (save_field (bool_bytes (asCapable p)) (True, [], cnt)))))"

definition port_restoreSerializedState ::
  "'a arch_scheme \<Rightarrow> octets \<Rightarrow> int \<Rightarrow> EtherPort \<Rightarrow> bool \<times> octets \<times> int \<times> EtherPort" where
  "port_restoreSerializedState A buf cnt p =
     restore_field (fr_size A) (\<lambda>bs p. p\<lparr>peer_rate_offset := fr_of_bytes A bs\<rparr>)
       (restore_field 8 (\<lambda>bs p. p\<lparr>one_way_delay := of_le bs\<rparr>)
         (restore_field 4 (\<lambda>bs p. case PortState_of_val (of_le bs) of None \<Rightarrow> p | Some s \<Rightarrow> p\<lparr>port_state := s\<rparr>)
           (restore_field 1 (\<lambda>bs p. p\<lparr>asCapable := (hd bs \<noteq> 0)\<rparr>) (True, buf, cnt, p))))"

section \<open>Effect on the ports\<close>

lemma port_state_ops [simp]:
  "port_state (setAsCapable b p) = port_state p" "port_state (snd (setLinkDelay d p)) = port_state p"
  "port_state (snd (incWrongSeqIDCounter p)) = port_state p" "port_state (setPeerOffset t t' p) = port_state p"
  "port_state (restartPDelay p) = port_state p" "port_state (resetInitPDelayInterval p) = port_state p"
  "port_state (snd (getNextAnnounceSequenceId p)) = port_state p" "port_state (snd (getNextSignalSequenceId p)) = port_state p"
  "port_state (snd (getNextSyncSequenceId p)) = port_state p" "port_state (resetInitSyncInterval p) = port_state p"
  by (simp_all add: setAsCapable_def setLinkDelay_def incWrongSeqIDCounter_def setPeerOffset_def restartPDelay_def
      getNextAnnounceSequenceId_def getNextSignalSequenceId_def getNextSyncSequenceId_def resetInitPDelayInterval_def
      resetInitSyncInterval_def Let_def)

lemma pdelay_halted_ops [simp]:
  "pdelay_halted (setAsCapable b p) = pdelay_halted p" "pdelay_halted (snd (setLinkDelay d p)) = pdelay_halted p"
  "pdelay_halted (snd (incWrongSeqIDCounter p)) = pdelay_halted p" "pdelay_halted (setPeerOffset t t' p) = pdelay_halted p"
  "pdelay_halted (restartPDelay p) = pdelay_halted p" "pdelay_halted (resetInitPDelayInterval p) = pdelay_halted p"
  "pdelay_halted (snd (getNextAnnounceSequenceId p)) = pdelay_halted p" "pdelay_halted (snd (getNextSignalSequenceId p)) = pdelay_halted p"
  "pdelay_halted (snd (getNextSyncSequenceId p)) = pdelay_halted p" "pdelay_halted (resetInitSyncInterval p) = pdelay_halted p"
  by (simp_all add: setAsCapable_def setLinkDelay_def incWrongSeqIDCounter_def setPeerOffset_def restartPDelay_def
      getNextAnnounceSequenceId_def getNextSignalSequenceId_def getNextSyncSequenceId_def resetInitPDelayInterval_def
      resetInitSyncInterval_def Let_def)

lemma tx_requests_ops [simp]:
  "tx_requests (setAsCapable b p) = tx_requests p" "tx_requests (snd (setLinkDelay d p)) = tx_requests p"
  "tx_requests (snd (incWrongSeqIDCounter p)) = tx_requests p" "tx_requests (setPeerOffset t t' p) = tx_requests p"
  "tx_requests (restartPDelay p) = tx_requests p" "tx_requests (resetInitPDelayInterval p) = tx_requests p"
  "tx_requests (snd (getNextAnnounceSequenceId p)) = tx_requests p" "tx_requests (snd (getNextSignalSequenceId p)) = tx_requests p"
  "tx_requests (snd (getNextSyncSequenceId p)) = tx_requests p" "tx_requests (resetInitSyncInterval p) = tx_requests p"
  by (simp_all add: setAsCapable_def setLinkDelay_def incWrongSeqIDCounter_def setPeerOffset_def restartPDelay_def
      getNextAnnounceSequenceId_def getNextSignalSequenceId_def getNextSyncSequenceId_def resetInitPDelayInterval_def
      resetInitSyncInterval_def Let_def)

lemma wf_port_ops [simp]:
  "wf_port A (setAsCapable b p) = wf_port A p" "wf_port A (snd (setLinkDelay d p)) = wf_port A p"
  "wf_port A (snd (incWrongSeqIDCounter p)) = wf_port A p" "wf_port A (setPeerOffset t t' p) = wf_port A p"
  "wf_port A (restartPDelay p) = wf_port A p" "wf_port A (resetInitPDelayInterval p) = wf_port A p"
  "wf_port A (snd (getNextAnnounceSequenceId p)) = wf_port A p" "wf_port A (snd (getNextSignalSequenceId p)) = wf_port A p"
  "wf_port A (snd (getNextSyncSequenceId p)) = wf_port A p"
  by (simp_all add: setAsCapable_def setLinkDelay_def incWrongSeqIDCounter_def setPeerOffset_def restartPDelay_def
      getNextAnnounceSequenceId_def getNextSignalSequenceId_def getNextSyncSequenceId_def resetInitPDelayInterval_def
      Let_def)

lemma wf_resetInitSyncInterval [simp]: "wf_port A p \<Longrightarrow> wf_port A (resetInitSyncInterval p)"
  by (simp add: resetInitSyncInterval_def wf_port_def)

lemma ppm_command:
  assumes "ppm_ok c"
  shows "command_ok (AdjClockRate (fp_conv FLOAT (ppm c)))"
proof -
  obtain r where r: "ppm c = Fin r" "\<bar>r\<bar> \<le> of_int 250"
    using assms by (auto simp add: ppm_ok_def UPPER_FREQ_LIMIT_def LOWER_FREQ_LIMIT_def)
  obtain s where "fround FLOAT r = Fin s" "\<bar>s\<bar> \<le> 250"
    using fround_within_int [OF _ r(2), of FLOAT] by (auto simp add: FLOAT_def wf_fmt_def)
  then show ?thesis
    using r by (simp add: command_ok_def UPPER_FREQ_LIMIT_def LOWER_FREQ_LIMIT_def abs_le_iff)
qed

section \<open>Predicates kept by the port\<close>

context world_predicate
begin

lemma I_incCounter [simp]:
  "I w \<Longrightarrow> active i \<Longrightarrow> (\<And>c. ieee8021AsPortStatTxPdelayRequest (u (\<lambda>n. n + 1) c) = ieee8021AsPortStatTxPdelayRequest c) \<Longrightarrow>
    I (incCounter u i w)"
  by (simp add: incCounter_def)

lemma I_timers [simp]:
  assumes "I w" and "active i"
  shows "I (startSyncReceiptTimer P i t w)" "I (stopSyncReceiptTimer i w)" "I (startAnnounceIntervalTimer P i t w)"
    "I (startAnnounce P i w)"
  using assms
  by (simp_all add: startSyncReceiptTimer_def stopSyncReceiptTimer_def startAnnounceIntervalTimer_def startAnnounce_def)

lemma I_timestamper [simp]:
  assumes "I w"
  shows "I (snd (getDeviceTime P i w))" "I (snd (getTimestampVersion P i w))" "I (snd (adjustClockPhase P i d w))"
    "I (timestamper_reset i w)"
  using assms
  by (simp_all add: getDeviceTime_def getTimestampVersion_def adjustClockPhase_def timestamper_reset_def command_ok_def
      Let_def split_beta)

lemma I_ports_all [simp]: "I w \<Longrightarrow> I (restartPDelayAll w)" "I w \<Longrightarrow> I (getTxLockAll w)" "I w \<Longrightarrow> I (putTxLockAll w)"
  by (auto simp add: restartPDelayAll_def getTxLockAll_def putTxLockAll_def intro!: I_for_ports)

lemma I_adjust_phase [simp]: "I w \<Longrightarrow> I (adjust_phase P i d w)"
  by (simp add: adjust_phase_def Let_def split_beta)

lemma I_adjust_rate:
  assumes "I w" and "active i" and "fp_below 68 f"
  shows "I (let w = upd_clk (adjust_frequency P (log_mean_sync_interval (ports w i)) d f) w
            in snd (adjustClockRate P i (ppm (clk w)) w))"
proof -
  note wf = I_wf [OF assms(1), THEN conjunct2]
  let ?n = "log_mean_sync_interval (ports w i)"
  have "?n \<noteq> 0x80" using wf_world_port [OF wf, of i] assms(2) unfolding wf_port_def by simp
  then have c: "wf_clk (Collect active) (adjust_frequency P ?n d f (clk w))"
    by (rule wf_adjust_frequency [OF wf_world_clk [OF wf] I_wf [OF assms(1), THEN conjunct1] assms(3)])
  then have "command_ok (AdjClockRate (fp_conv FLOAT (ppm (adjust_frequency P ?n d f (clk w)))))"
    by (intro ppm_command) (simp add: wf_clk_def)
  moreover have "I (upd_clk (adjust_frequency P ?n d f) w)"
    using c by (intro I_clk [OF assms(1)]) simp_all
  ultimately show ?thesis
    by (simp add: Let_def adjustClockRate_def)
qed

lemma I_setMasterOffset [simp]:
  assumes "I w" and "active i" and "fp_below 68 f"
  shows "I (setMasterOffset P i d t f o' g s q st b w)"
proof -
  let ?w = "upd_clk (\<lambda>c. c\<lparr>master_local_freq_offset := f, local_system_freq_offset := g\<rparr>) w"
  have w: "I (if has_ipc (clk ?w) then ipc_calls i d t f o' g s q st b ?w else ?w)"
    using assms(1) by (simp add: ipc_calls_def Let_def)
  then have "I (if x then adjust_phase P i d (if has_ipc (clk ?w) then ipc_calls i d t f o' g s q st b ?w else ?w)
        else (if has_ipc (clk ?w) then ipc_calls i d t f o' g s q st b ?w else ?w))" for x
    by simp
  from I_adjust_rate [OF this assms(2,3)] show ?thesis
    unfolding setMasterOffset_def using w by (simp add: Let_def)
qed

end

section \<open>Intervals\<close>

text \<open>Every interval of the protocol is a power of two of a second; it is exact in a double and, from \<open>2 ^ - 9\<close> s
  on, a whole number of nanoseconds.\<close>

lemma fround_scaled:
  assumes "0 \<le> c" and "c < 2 ^ 32"
  shows "fround DOUBLE (of_int c * pow2 (sint (n :: u8))) = Fin (of_int c * pow2 (sint n))"
proof -
  have "representable DOUBLE (of_int c * pow2 (sint n))"
    unfolding representable_def using assms
    by (intro exI [of _ c] exI [of _ "sint n"]) (use sint8_bounds [of n] in \<open>simp add: DOUBLE_def\<close>)
  moreover have "of_int c * pow2 (sint n) < pow2 (femax DOUBLE + 1)"
  proof -
    have "of_int c * pow2 (sint n) < pow2 32 * pow2 (sint n)"
      using int_less_pow2 [OF assms(2)] by (intro mult_strict_right_mono) simp_all
    also have "\<dots> \<le> pow2 (femax DOUBLE + 1)"
      unfolding pow2_add [symmetric] using sint8_bounds(2) [of n] by (simp add: DOUBLE_def)
    finally show ?thesis .
  qed
  ultimately show ?thesis
    using assms(1) by (intro fround_representable) (simp_all add: abs_mult)
qed

lemma interval_fp_exact: "interval_fp n = Fin (1000000000 * pow2 (sint n))"
  using fround_scaled [of 1000000000 n] by (simp add: interval_fp_def pow_2_def mult.commute)

text \<open>The nanoseconds of an interval, as an integer.\<close>

lemma interval_int: "- 9 \<le> sint n \<Longrightarrow> pow2 (sint n) * 1000000000 = of_int (1953125 * 2 ^ nat (sint n + 9))"
proof -
  assume "- 9 \<le> sint n"
  then have "pow2 (sint n + 9) = of_int (2 ^ nat (sint n + 9))" by (simp add: pow2_def)
  moreover have "pow2 (sint n + 9) = pow2 (sint n) * 512" by (simp only: pow2_add) (simp add: pow2_def)
  ultimately show ?thesis by simp
qed

lemma interval_bound:
  assumes "- 9 \<le> sint (n :: u8)" and "sint n \<le> 32"
  shows "1953125 * 2 ^ nat (sint n + 9) \<le> (4294967296000000000 :: int)"
proof -
  have "(2 :: int) ^ nat (sint n + 9) \<le> 2 ^ 41" using assms by (intro power_increasing) auto
  then show ?thesis by simp
qed

lemma to_u64_int: "0 \<le> n \<Longrightarrow> n < 2 ^ 64 \<Longrightarrow> to_u64 A (Fin (of_int n)) = word_of_int n"
  by (simp add: to_u64_def)

lemma to_i64_int: "- (2 ^ 63) \<le> n \<Longrightarrow> n < 2 ^ 63 \<Longrightarrow> to_i64 A (Fin (of_int n)) = word_of_int n"
  by (simp add: to_i64_def)

section \<open>Properties\<close>

text \<open>C33. The four ways in which the code computes a receipt timeout (in floating point with a \<open>double\<close>
  and an integer factor, in 64 bit integers, and through a signed 64 bit integer) give the same number of
  nanoseconds for every log interval from -9 to 32: three times the interval, which itself is computed exactly.\<close>

theorem receipt_waits_agree:
  assumes "- 9 \<le> sint interval" and "sint interval \<le> 32"
  shows "of_int (uint (interval_u64 A interval)) = pow2 (sint interval) * 1000000000 \<and>
    interval_i64 A interval = interval_u64 A interval \<and>
    uint (receipt_wait A interval) = 3 * uint (interval_u64 A interval) \<and>
    announce_receipt_wait A interval = receipt_wait A interval \<and>
    announce_receipt_wait_d A interval = receipt_wait A interval"
proof -
  define N :: int where "N = 1953125 * 2 ^ nat (sint interval + 9)"
  have N: "1000000000 * pow2 (sint interval) = of_int N" "0 \<le> N" "N \<le> 4294967296000000000"
    using interval_int [OF assms(1)] interval_bound [OF assms] by (simp_all add: N_def mult.commute)
  have e3: "3000000000 * pow2 (sint interval) = of_int (3 * N)" by (simp flip: N(1))
  have "fround DOUBLE (3000000000 * pow2 (sint interval)) = Fin (3000000000 * pow2 (sint interval))"
    using fround_scaled [of 3000000000 interval] by simp
  then have 3: "fround DOUBLE (of_int (3 * N)) = Fin (of_int (3 * N))" unfolding e3 .
  have u: "interval_u64 A interval = word_of_int N"
    using N to_u64_int [of N A] by (simp add: interval_u64_def interval_fp_exact)
  have r: "receipt_wait A interval = word_of_int (3 * N)"
    using N 3 to_u64_int [of "3 * N" A] by (simp add: receipt_wait_def interval_fp_exact)
  have d: "announce_receipt_wait_d A interval = word_of_int (3 * N)"
  proof -
    have "announce_receipt_wait_d A interval = to_u64 A (fround DOUBLE (3000000000 * pow2 (sint interval)))"
      using fround_scaled [of 3 interval] by (simp add: announce_receipt_wait_d_def pow_2_def)
    then show ?thesis unfolding e3 3 using to_u64_int [of "3 * N" A] N(2,3) by simp
  qed
  have i: "interval_i64 A interval = word_of_int N"
    using N to_i64_int [of N A] by (simp add: interval_i64_def interval_fp_exact)
  have "uint (word_of_int N :: u64) = N" "uint (word_of_int (3 * N) :: u64) = 3 * N"
    using N(2,3) unfolding uint_word_of_int by simp_all
  then show ?thesis
    unfolding announce_receipt_wait_def u r d i using N(1) by (simp add: mult.commute)
qed

text \<open>\<open>restartPDelayAll\<close> restarts the measurement of the first port of the clock only: the loop over the
  ports runs \<open>number_ports\<close> times but never advances past the first port.\<close>

theorem restartPDelayAll_first_port:
  assumes "skip_null (port_list (clk w)) 0 = Some (k, p)" and "0 < number_ports (clk w)"
  shows "restartPDelayAll w = upd_port p restartPDelay w"
proof -
  have "(upd_port p restartPDelay ^^ unat (number_ports (clk w))) w = upd_port p restartPDelay w"
    using assms(2) by (intro funpow_fix) (simp_all add: unat_gt_0 word_gt_0 upd_port_def restartPDelay_def)
  then show ?thesis
    using port_loop_first [OF assms(1), where f = "\<lambda>p. upd_port p restartPDelay" and s = w]
    by (simp add: restartPDelayAll_def for_ports_def)
qed

lemma PortState_of_val_inverse: "PortState_of_val (PortState_val s) = Some s"
  by (cases s) (simp_all add: PortState_of_val_def)

text \<open>\<open>serializeState\<close> of a port that is master or slave succeeds with the size it reports and fills
  the buffer, and \<open>restoreSerializedState\<close> gives another port the same state, link delay, rate and
  \<open>asCapable\<close>, and changes nothing else.\<close>

theorem port_serialize_restore:
  assumes "fr_saved A (peer_rate_offset p)" and "port_state p = PTP_MASTER \<or> port_state p = PTP_SLAVE"
    and "port_serializeState A p None = (r, out0, cnt)" and "port_serializeState A p (Some cnt) = (ret, out, left)"
  shows "ret \<and> left = 0 \<and> int (length out) = cnt \<and>
    port_restoreSerializedState A out cnt p' =
      (True, [], 0, p'\<lparr>asCapable := asCapable p, port_state := port_state p, one_way_delay := one_way_delay p,
        peer_rate_offset := peer_rate_offset p\<rparr>)"
proof -
  have cnt: "cnt = int (13 + fr_size A)" using assms(3) by (auto simp add: port_serializeState_def)
  let ?out = "bool_bytes (asCapable p) @ le_bytes 4 (PortState_val (port_state p)) @ le_bytes 8 (one_way_delay p) @
    fr_bytes A (peer_rate_offset p)"
  have "port_serializeState A p (Some cnt) = (True, ?out, 0)"
    using assms(1,2) unfolding cnt by (auto simp add: port_serializeState_def fr_saved_def bool_bytes_def simp del: PortState_val.simps)
  then have out: "ret" "left = 0" "out = ?out" using assms(4) by auto
  have "port_restoreSerializedState A ?out cnt p' =
      (True, [], 0, p'\<lparr>asCapable := asCapable p, port_state := port_state p, one_way_delay := one_way_delay p,
        peer_rate_offset := peer_rate_offset p\<rparr>)"
    using assms(1) unfolding cnt port_restoreSerializedState_def
    by (simp add: fr_saved_def bool_bytes_def PortState_of_val_inverse del: PortState_val.simps)
  then show ?thesis using assms(1) out cnt by (simp add: fr_saved_def bool_bytes_def)
qed

section \<open>Witnesses\<close>

theorem receipt_waits_agree_witness:
  "uint (receipt_wait sample_arch (- 3)) = 375000000 \<and> announce_receipt_wait_d sample_arch (- 3) = receipt_wait sample_arch (- 3)"
proof -
  have s: "sint (- 3 :: u8) = - 3" by simp
  have "rat_of_int (uint (interval_u64 sample_arch (- 3))) = of_int 125000000"
    using receipt_waits_agree [of "- 3" sample_arch] unfolding s by (simp add: pow2_def)
  then have "uint (interval_u64 sample_arch (- 3)) = 125000000" by (simp only: of_int_eq_iff)
  then show ?thesis
    using receipt_waits_agree [of "- 3" sample_arch] unfolding s by simp
qed


theorem restartPDelayAll_first_port_witness: "restartPDelayAll sample_world = upd_port 0 restartPDelay sample_world"
  by (rule restartPDelayAll_first_port [OF sample_first_port]) simp

theorem port_serialize_restore_witness:
  "case port_serializeState sample_arch sample_port (Some 29) of (ret, out, left) \<Rightarrow>
     ret \<and> left = 0 \<and> length out = 29 \<and>
     port_state (snd (snd (snd (port_restoreSerializedState sample_arch out 29 (sample_port\<lparr>port_state := PTP_DISABLED\<rparr>))))) = PTP_SLAVE"
proof -
  have "port_serializeState sample_arch sample_port None = (True, [], 29)"
    by (simp add: port_serializeState_def sample_arch_def)
  moreover obtain ret out left where "port_serializeState sample_arch sample_port (Some 29) = (ret, out, left)"
    by (metis surj_pair)
  moreover have "fr_saved sample_arch (peer_rate_offset sample_port)" "port_state sample_port = PTP_SLAVE"
    using sample_arch_wf(2) by (simp_all add: sample_port_def)
  ultimately show ?thesis
    using port_serialize_restore [of sample_arch sample_port] by auto
qed

end
