(* ===== verification/Ether_Port.thy ===== *)
theory Ether_Port
  imports Common_Port
begin

text \<open>
  The Ethernet port, \<open>common/ether_port.hpp\<close> and \<open>common/ether_port.cpp\<close>, up to its event handler: the
  constructor, the control of peer delay measurement, sending, hardware timestamps, the changes of
  role and the end of a synchronisation; and the test status message of the automotive profile
  (\<open>common/ap_message.cpp\<close>).
\<close>

section \<open>Construction\<close>

definition LOG2_INTERVAL_INVALID :: u8 where
  "LOG2_INTERVAL_INVALID = - 127"

definition valid_interval :: "u8 \<Rightarrow> u8 \<Rightarrow> u8" where
  "valid_interval v d = (if v = LOG2_INTERVAL_INVALID then d else v)"

definition EtherPort_fields :: "PortInit_t \<Rightarrow> EtherPort \<Rightarrow> EtherPort" where
  "EtherPort_fields portInit p =
     (let p = p\<lparr>linkUp := init_linkUp portInit, testMode := init_testMode portInit,
                pdelay_sequence_id := 0, pdelay_started := False, pdelay_halted := False,
                sync_rate_interval_timer_started := False, duplicate_resp_counter := 0,
                last_invalid_seqid := 0, identity_map := [],
                operLogPdelayReqInterval := init_operLogPdelayReqInterval portInit,
                operLogSyncInterval := init_operLogSyncInterval portInit\<rparr>;
          p = setAsCapable (automotive_profile p) p;
          p = p\<lparr>initialLogSyncInterval :=
                   valid_interval (initialLogSyncInterval p) (if automotive_profile p then - 5 else - 3),
                 initialLogPdelayReqInterval := valid_interval (initialLogPdelayReqInterval p) 0,
                 operLogPdelayReqInterval := valid_interval (operLogPdelayReqInterval p) 0,
                 operLogSyncInterval := valid_interval (operLogSyncInterval p) 0\<rparr>;
          p = resetInitPDelayInterval p;
          p = p\<lparr>last_sync := None, last_pdelay_req := None, last_pdelay_resp := None,
                 last_pdelay_resp_fwup := None, pdelay_count := 0, sync_count := 0\<rparr>
      in if automotive_profile p
         then let p = p\<lparr>avbSyncState := (if isGM p then 1 else 2)\<rparr>;
                  p = (if testMode p then p\<lparr>linkUpCount := 1, linkDownCount := 0\<rparr> else p)
              in p\<lparr>stationState := STATION_STATE_RESERVED\<rparr>
         else p)"

definition EtherPort_new :: "PortInit_t \<Rightarrow> nat \<Rightarrow> world \<Rightarrow> world" where
  "EtherPort_new portInit this w = upd_port this (EtherPort_fields portInit) (CommonPort_new portInit this w)"

section \<open>Peer delay control\<close>

definition EVENT_TIMER_GRANULARITY :: u64 where
  "EVENT_TIMER_GRANULARITY = 5000000"

definition startPDelayIntervalTimer :: "platform \<Rightarrow> nat \<Rightarrow> u64 \<Rightarrow> world \<Rightarrow> world" where
  "startPDelayIntervalTimer P i waitTime w =
     addEventTimerLocked P i PDELAY_INTERVAL_TIMEOUT_EXPIRES waitTime
       (deleteEventTimerLocked P i PDELAY_INTERVAL_TIMEOUT_EXPIRES w)"

definition startPDelay :: "platform \<Rightarrow> nat \<Rightarrow> world \<Rightarrow> world" where
  "startPDelay P i w =
     (let p = ports w i in
      if pdelay_halted p then w
      else if automotive_profile p then
        if log_min_mean_pdelay_req_interval p \<noteq> sigMsgInterval_NoSend
        then startPDelayIntervalTimer P i EVENT_TIMER_GRANULARITY (upd_port i (pdelay_started_update (\<lambda>_. True)) w)
        else w
      else startPDelayIntervalTimer P i 32000000 (upd_port i (pdelay_started_update (\<lambda>_. True)) w))"

definition stopPDelay :: "platform \<Rightarrow> nat \<Rightarrow> world \<Rightarrow> world" where
  "stopPDelay P i w =
     deleteEventTimerLocked P i PDELAY_INTERVAL_TIMEOUT_EXPIRES
       (upd_port i (\<lambda>p. p\<lparr>pdelay_halted := True, pdelay_started := False\<rparr>) w)"

definition startSyncRateIntervalTimer :: "platform \<Rightarrow> nat \<Rightarrow> world \<Rightarrow> world" where
  "startSyncRateIntervalTimer P i w =
     (if automotive_profile (ports w i)
      then let w = upd_port i (sync_rate_interval_timer_started_update (\<lambda>_. True)) w
           in addEventTimerLocked P i SYNC_RATE_INTERVAL_TIMEOUT_EXPIRED
                (if isGM (ports w i) then 8000000000 else 4000000000) w
      else w)"

definition getNextPDelaySequenceId :: "EtherPort \<Rightarrow> u16 \<times> EtherPort" where
  "getNextPDelaySequenceId p = (pdelay_sequence_id p, p\<lparr>pdelay_sequence_id := pdelay_sequence_id p + 1\<rparr>)"

definition DUPLICATE_RESP_THRESH :: u32 where
  "DUPLICATE_RESP_THRESH = 3"

definition incrementDuplicateRespCounter :: "EtherPort \<Rightarrow> bool \<times> EtherPort" where
  "incrementDuplicateRespCounter p =
     (let p = p\<lparr>duplicate_resp_counter := duplicate_resp_counter p + 1\<rparr>
      in (duplicate_resp_counter p = DUPLICATE_RESP_THRESH, p))"

section \<open>Sending\<close>

definition PTP_ETHERTYPE :: u16 where "PTP_ETHERTYPE = 0x88F7"
definition AVTP_ETHERTYPE :: u16 where "AVTP_ETHERTYPE = 0x22F0"

definition pdelay_multicast :: LinkLayerAddress where
  "pdelay_multicast = LinkLayerAddress_scalar 0x0180C200000E"

definition other_multicast :: LinkLayerAddress where
  "other_multicast = LinkLayerAddress_scalar 0x0180C200000E"

definition test_status_multicast :: LinkLayerAddress where
  "test_status_multicast = LinkLayerAddress_scalar 0x011BC50AC000"

text \<open>\<open>identity_map[*destIdentity]\<close> stores a new address under an identity that it does not have.\<close>

definition mapSocketAddr :: "platform \<Rightarrow> nat \<Rightarrow> PortIdentity \<Rightarrow> world \<Rightarrow> LinkLayerAddress \<times> world" where
  "mapSocketAddr P i destIdentity w =
     (case smap_find pi_less destIdentity (identity_map (ports w i)) of
        Some a \<Rightarrow> (a, w)
      | None \<Rightarrow> (lla_mem P, upd_port i (\<lambda>p. p\<lparr>identity_map := smap_assign pi_less destIdentity (lla_mem P) (identity_map p)\<rparr>) w))"

definition addSockAddrMap :: "nat \<Rightarrow> PortIdentity \<Rightarrow> LinkLayerAddress \<Rightarrow> world \<Rightarrow> world" where
  "addSockAddrMap i destIdentity remote w =
     upd_port i (\<lambda>p. p\<lparr>identity_map := smap_assign pi_less destIdentity remote (identity_map p)\<rparr>) w"

text \<open>A unicast message without a destination identity dereferences a null pointer.\<close>

definition port_send ::
  "platform \<Rightarrow> nat \<Rightarrow> u16 \<Rightarrow> octets \<Rightarrow> MulticastType \<Rightarrow> PortIdentity option \<Rightarrow> bool \<Rightarrow> world \<Rightarrow> net_result \<times> world" where
  "port_send P i etherType buf mcast_type destIdentity timestamp w =
     (let (dest, w) =
            (if mcast_type \<noteq> MCAST_NONE
             then ((if mcast_type = MCAST_PDELAY then pdelay_multicast
                    else if mcast_type = MCAST_TEST_STATUS then test_status_multicast
                    else other_multicast), w)
             else case destIdentity of
                    None \<Rightarrow> (lla_mem P, crash NullPointer w)
                  | Some d \<Rightarrow> mapSocketAddr P i d w);
          r = net_send P (ncalls w)
      in (r, tick (w\<lparr>sent := \<lparr>sf_port = i, sf_dest = dest, sf_etherType = etherType, sf_payload = buf,
                              sf_timestamp = timestamp, sf_result = r\<rparr> # sent w\<rparr>)))"

definition sendEventPort ::
  "platform \<Rightarrow> nat \<Rightarrow> u16 \<Rightarrow> octets \<Rightarrow> MulticastType \<Rightarrow> PortIdentity option \<Rightarrow> world \<Rightarrow> u32 \<times> world" where
  "sendEventPort P i etherType buf mcast_type destIdentity w =
     (let (rtx, w) = port_send P i etherType buf mcast_type destIdentity True w
      in if rtx \<noteq> net_succeed then (INVALID_LINKSPEED, w) else (link_speed (ports w i), w))"

definition sendGeneralPort ::
  "platform \<Rightarrow> nat \<Rightarrow> u16 \<Rightarrow> octets \<Rightarrow> MulticastType \<Rightarrow> PortIdentity option \<Rightarrow> world \<Rightarrow> world" where
  "sendGeneralPort P i etherType buf mcast_type destIdentity w =
     snd (port_send P i etherType buf mcast_type destIdentity False w)"

section \<open>Timestamps\<close>

definition port_getTxTimestamp ::
  "platform \<Rightarrow> nat \<Rightarrow> PortIdentity \<Rightarrow> PTPMessageId \<Rightarrow> bool \<Rightarrow> world \<Rightarrow> int \<times> Timestamp \<times> world" where
  "port_getTxTimestamp P i src messageId last' w =
     (if hw_timestamper (ports w i)
      then let (rc, ts) = hw_txtimestamp P (ncalls w) src messageId last' in (rc, ts, tick w)
      else (0, getSystemTime, w))"

definition port_getRxTimestamp ::
  "platform \<Rightarrow> nat \<Rightarrow> PortIdentity \<Rightarrow> PTPMessageId \<Rightarrow> bool \<Rightarrow> u32 \<Rightarrow> world \<Rightarrow> int \<times> Timestamp \<times> u32 \<times> world" where
  "port_getRxTimestamp P i src messageId last' cnt w =
     (if hw_timestamper (ports w i)
      then let (rc, ts, cnt) = hw_rxtimestamp P (ncalls w) src messageId last' in (rc, ts, cnt, tick w)
      else (0, getSystemTime, cnt, w))"

text \<open>The loops \<open>while( ts_good != GPTP_EC_SUCCESS && iter-- != 0 )\<close>, on the remaining iterations.\<close>

primrec tx_retry ::
  "nat \<Rightarrow> platform \<Rightarrow> nat \<Rightarrow> PortIdentity \<Rightarrow> PTPMessageId \<Rightarrow> int \<times> Timestamp \<times> world \<Rightarrow> int \<times> Timestamp \<times> world" where
  "tx_retry 0 P i src mid r = r"
| "tx_retry (Suc iter) P i src mid r =
     (if fst r \<noteq> GPTP_EC_SUCCESS
      then tx_retry iter P i src mid (port_getTxTimestamp P i src mid (iter = 0) (snd (snd r)))
      else r)"

primrec rx_retry ::
  "nat \<Rightarrow> platform \<Rightarrow> nat \<Rightarrow> PortIdentity \<Rightarrow> PTPMessageId \<Rightarrow> int \<times> Timestamp \<times> u32 \<times> world \<Rightarrow>
     int \<times> Timestamp \<times> u32 \<times> world" where
  "rx_retry 0 P i src mid r = r"
| "rx_retry (Suc iter) P i src mid r =
     (if fst r \<noteq> GPTP_EC_SUCCESS
      then rx_retry iter P i src mid
             (port_getRxTimestamp P i src mid (iter = 0) (fst (snd (snd r))) (snd (snd (snd r))))
      else r)"

text \<open>\<open>PTPMessageCommon::getTxTimestamp\<close>.\<close>

definition getTxTimestamp ::
  "platform \<Rightarrow> nat \<Rightarrow> u32 \<Rightarrow> 'a PTPMessageCommon_scheme \<Rightarrow> world \<Rightarrow> bool \<times> 'a PTPMessageCommon_scheme \<times> world" where
  "getTxTimestamp P i speed m w =
     (let src = sourcePortIdentity m;
          (ts_good, tx_timestamp, w) =
            tx_retry TX_TIMEOUT_ITER P i src (getMessageId m) (port_getTxTimestamp P i src (getMessageId m) False w)
      in if ts_good = GPTP_EC_SUCCESS
         then let phy_compensation = (getTxPhyDelay (ports w i) speed)\<lparr>ts_version := ts_version tx_timestamp\<rparr>
              in (True, m\<lparr>msg_timestamp := ts_add tx_timestamp phy_compensation\<rparr>, w)
         else (False, m\<lparr>msg_timestamp := INVALID_TIMESTAMP\<rparr>, w))"

section \<open>Change of role\<close>

definition becomeMaster :: "platform \<Rightarrow> nat \<Rightarrow> bool \<Rightarrow> world \<Rightarrow> world" where
  "becomeMaster P i annc w =
     (let w = upd_port i (port_state_update (\<lambda>_. PTP_MASTER)) w;
          w = deleteEventTimerLocked P i ANNOUNCE_RECEIPT_TIMEOUT_EXPIRES w;
          w = stopSyncReceiptTimer i w;
          w = (if annc \<and> \<not> automotive_profile (ports w i) then startAnnounce P i w else w);
          w = startSyncIntervalTimer P i 16000000 w
      in upd_clk updateFUPInfo w)"

definition becomeSlave :: "platform \<Rightarrow> nat \<Rightarrow> bool \<Rightarrow> world \<Rightarrow> world" where
  "becomeSlave P i restart_syntonization w =
     (let w = deleteEventTimerLocked P i ANNOUNCE_INTERVAL_TIMEOUT_EXPIRES w;
          w = deleteEventTimerLocked P i SYNC_INTERVAL_TIMEOUT_EXPIRES w;
          w = upd_port i (port_state_update (\<lambda>_. PTP_SLAVE)) w;
          w = (if \<not> automotive_profile (ports w i)
               then addEventTimerLocked P i ANNOUNCE_RECEIPT_TIMEOUT_EXPIRES
                      (announce_receipt_wait P (log_mean_announce_interval (ports w i))) w
               else w);
          w = (if restart_syntonization then upd_clk newSyntonizationSetPoint w else w)
      in upd_clk updateFUPInfo w)"

section \<open>Test status message\<close>

text \<open>The 160 octets of the message; the \<open>|=\<close> macros act on zeroed octets or on a field written before.\<close>

definition build_test_status ::
  "LinkLayerAddress \<Rightarrow> u16 \<Rightarrow> u32 \<Rightarrow> u32 \<Rightarrow> u64 \<Rightarrow> StationState_t \<Rightarrow> octets option" where
  "build_test_status mac seq up down now st =
     do {
       buf \<leftarrow> put 0 [0xfb] buf_t;
       buf \<leftarrow> put 1 [1] buf;
       buf \<leftarrow> put 2 (le_bytes 2 (PLAT_htons 148)) buf;
       buf \<leftarrow> put 4 (toOctetArray mac) buf;
       buf \<leftarrow> put 20 (le_bytes 2 (PLAT_htons seq)) buf;
       buf \<leftarrow> put 22 (le_bytes 2 (PLAT_htons (push_bit 15 1) OR PLAT_htons 0x29)) buf;
       buf \<leftarrow> put 24 (le_bytes 2 (PLAT_htons 9)) buf;
       buf \<leftarrow> put 26 (le_bytes 2 (PLAT_htons 0)) buf;
       buf \<leftarrow> put 28 (le_bytes 4 (PLAT_htonl 0x07000023)) buf;
       buf \<leftarrow> put 32 (le_bytes 4 (PLAT_htonl up)) buf;
       buf \<leftarrow> put 36 (le_bytes 4 (PLAT_htonl down)) buf;
       buf \<leftarrow> put 128 (le_bytes 8 (PLAT_htonll now)) buf;
       buf \<leftarrow> put 136 [StationState_val st] buf;
       Some (take 160 buf)
     }"

text \<open>A frame that does not fit its buffer is a write outside the array.\<close>

definition or_crash :: "'a option \<Rightarrow> ('a \<Rightarrow> world \<Rightarrow> world) \<Rightarrow> world \<Rightarrow> world" where
  "or_crash x f w = (case x of None \<Rightarrow> crash OutOfBounds w | Some a \<Rightarrow> f a w)"

definition testStatus_sendPort :: "platform \<Rightarrow> nat \<Rightarrow> world \<Rightarrow> world" where
  "testStatus_sendPort P i w =
     (let seq = ap_sequenceId w;
          w = w\<lparr>ap_sequenceId := seq + 1\<rparr>;
          ((system_time, device_time), w) = getDeviceTime P i w;
          p = ports w i
      in or_crash (build_test_status (local_addr p) seq (linkUpCount p) (linkDownCount p)
                    (TIMESTAMP_TO_NS system_time) (stationState p))
           (\<lambda>buf. sendGeneralPort P i AVTP_ETHERTYPE buf MCAST_TEST_STATUS None) w)"

definition send_test_status :: "platform \<Rightarrow> nat \<Rightarrow> world \<Rightarrow> world" where
  "send_test_status P i w = (if testMode (ports w i) then testStatus_sendPort P i w else w)"

section \<open>Completed synchronisation\<close>

text \<open>The count-down to the \<open>AVB_SYNC\<close> state of the automotive profile.\<close>

definition avb_sync :: "platform \<Rightarrow> nat \<Rightarrow> world \<Rightarrow> world" where
  "avb_sync P i w =
     (if 0 < avbSyncState (ports w i)
      then let w = upd_port i (\<lambda>p. p\<lparr>avbSyncState := avbSyncState p - 1\<rparr>) w
           in if avbSyncState (ports w i) = 0
              then send_test_status P i (upd_port i (stationState_update (\<lambda>_. STATION_STATE_AVB_SYNC)) w)
              else w
      else w)"

definition syncDone :: "platform \<Rightarrow> nat \<Rightarrow> world \<Rightarrow> world" where
  "syncDone P i w =
     (let w = (if automotive_profile (ports w i) \<and> port_state (ports w i) = PTP_SLAVE then avb_sync P i w else w);
          p = ports w i;
          w = (if automotive_profile p \<and> \<not> sync_rate_interval_timer_started p \<and>
                  log_mean_sync_interval p \<noteq> operLogSyncInterval p
               then startSyncRateIntervalTimer P i w else w)
      in if \<not> pdelay_started (ports w i) then startPDelay P i w else w)"

section \<open>Predicates kept by the port\<close>

lemma port_state_ether_ops [simp]:
  "port_state (snd (getNextPDelaySequenceId p)) = port_state p"
  "port_state (snd (incrementDuplicateRespCounter p)) = port_state p"
  by (simp_all add: getNextPDelaySequenceId_def incrementDuplicateRespCounter_def Let_def)

lemma pdelay_halted_ether_ops [simp]:
  "pdelay_halted (snd (getNextPDelaySequenceId p)) = pdelay_halted p"
  "pdelay_halted (snd (incrementDuplicateRespCounter p)) = pdelay_halted p"
  by (simp_all add: getNextPDelaySequenceId_def incrementDuplicateRespCounter_def Let_def)

lemma tx_requests_ether_ops [simp]:
  "tx_requests (snd (getNextPDelaySequenceId p)) = tx_requests p"
  "tx_requests (snd (incrementDuplicateRespCounter p)) = tx_requests p"
  by (simp_all add: getNextPDelaySequenceId_def incrementDuplicateRespCounter_def Let_def)

lemma wf_port_ether_ops [simp]:
  "wf_port A (snd (getNextPDelaySequenceId p)) = wf_port A p"
  "wf_port A (snd (incrementDuplicateRespCounter p)) = wf_port A p"
  by (simp_all add: getNextPDelaySequenceId_def incrementDuplicateRespCounter_def Let_def)

lemma wf_identity_map [simp]:
  "wf_port A p \<Longrightarrow> wf_pi d \<Longrightarrow> wf_port A (p\<lparr>identity_map := smap_assign pi_less d a (identity_map p)\<rparr>)"
  by (simp add: wf_port_def pi_keys.assign_inv)

lemma pdelay_halted_send [simp]:
  "pdelay_halted (ports (snd (sendEventPort P i t b mc dest w)) i) = pdelay_halted (ports w i)"
  by (simp add: sendEventPort_def port_send_def mapSocketAddr_def Let_def split_beta split: option.split)

text \<open>A port that is already master becomes master as any other.\<close>

lemmas timer_ops = startSyncReceiptTimer_def stopSyncReceiptTimer_def startSyncIntervalTimer_def
  startAnnounceIntervalTimer_def startAnnounce_def startPDelayIntervalTimer_def

lemma becomeMaster_idem:
  "becomeMaster P i a (upd_port i (port_state_update (\<lambda>_. PTP_MASTER)) w) = becomeMaster P i a w"
  by (simp add: becomeMaster_def upd_port_def)

context world_predicate
begin

lemma I_pdelay [simp]:
  assumes "I w" and "active i"
  shows "I (startPDelayIntervalTimer P i t w)" "I (startPDelay P i w)" "I (stopPDelay P i w)"
    "I (startSyncRateIntervalTimer P i w)"
  using assms
  by (simp_all add: startPDelayIntervalTimer_def startPDelay_def stopPDelay_def startSyncRateIntervalTimer_def Let_def)

lemma I_addSockAddrMap [simp]: "I w \<Longrightarrow> active i \<Longrightarrow> wf_pi d \<Longrightarrow> I (addSockAddrMap i d r w)"
  by (simp add: addSockAddrMap_def)

lemma I_mapSocketAddr [simp]: "I w \<Longrightarrow> active i \<Longrightarrow> wf_pi d \<Longrightarrow> I (snd (mapSocketAddr P i d w))"
  by (simp add: mapSocketAddr_def split: option.split)

lemma I_port_send [simp]:
  assumes "I w" and "active i" and "\<And>d. dest = Some d \<Longrightarrow> wf_pi d"
  shows "I (snd (port_send P i t b mc dest ts w))"
  using assms by (simp add: port_send_def Let_def split_beta split: option.split)

lemma I_send [simp]:
  assumes "I w" and "active i" and "\<forall>d. dest = Some d \<longrightarrow> wf_pi d"
  shows "I (snd (sendEventPort P i t b mc dest w))" "I (sendGeneralPort P i t b mc dest w)"
  using assms by (simp_all add: sendEventPort_def sendGeneralPort_def Let_def split_beta)

lemma I_port_timestamps [simp]:
  assumes "I w"
  shows "I (snd (snd (port_getTxTimestamp P i s m l w)))" "I (snd (snd (snd (port_getRxTimestamp P i s m l c w))))"
  using assms by (simp_all add: port_getTxTimestamp_def port_getRxTimestamp_def Let_def split_beta)

lemma I_tx_retry [simp]: "I (snd (snd r)) \<Longrightarrow> I (snd (snd (tx_retry n P i s m r)))"
  by (induction n arbitrary: r) simp_all

lemma I_rx_retry [simp]: "I (snd (snd (snd r))) \<Longrightarrow> I (snd (snd (snd (rx_retry n P i s m r))))"
  by (induction n arbitrary: r) simp_all

lemma I_getTxTimestamp [simp]: "I w \<Longrightarrow> I (snd (snd (getTxTimestamp P i sp m w)))"
  by (simp add: getTxTimestamp_def Let_def split_beta)

lemma I_or_crash: "I w \<Longrightarrow> (\<And>a w. I w \<Longrightarrow> I (f a w)) \<Longrightarrow> I (or_crash x f w)"
  by (simp add: or_crash_def split: option.split)

lemma I_test_status [simp]:
  assumes "I w" and "active i"
  shows "I (testStatus_sendPort P i w)" "I (send_test_status P i w)"
  using assms by (simp_all add: testStatus_sendPort_def send_test_status_def Let_def split_beta I_or_crash)

lemma I_syncDone [simp]:
  assumes "I w" and "active i"
  shows "I (avb_sync P i w)" "I (syncDone P i w)"
  using assms by (simp_all add: avb_sync_def syncDone_def Let_def)

end

text \<open>Predicates that are also kept when a port becomes slave and when its sync interval is started, and
  those that are kept as well when it becomes master.\<close>

locale slave_predicate = world_predicate +
  assumes I_startSync: "I w \<Longrightarrow> active i \<Longrightarrow> I (startSyncIntervalTimer P i t w)"
    and I_slave: "I w \<Longrightarrow> active i \<Longrightarrow> I (becomeSlave P i b w)"
begin

declare I_startSync [simp] I_slave [simp]

end

locale role_predicate = slave_predicate +
  assumes I_master: "I w \<Longrightarrow> active i \<Longrightarrow> I (becomeMaster P i b w)"
begin

declare I_master [simp]

end

lemma wf_system_role [simp]:
  assumes "wf_system P S w"
  shows "wf_system P S (deleteEventTimerLocked P i e w)"
    "wf_system P S (upd_port i (port_state_update (\<lambda>_. PTP_MASTER)) w)"
    "wf_system P S (upd_port i (port_state_update (\<lambda>_. PTP_SLAVE)) w)"
  using assms by (simp_all add: wf_system_def deleteEventTimerLocked_def wf_deleteEventTimer)

lemma wf_system_startSync: "wf_system P S w \<Longrightarrow> i \<in> S \<Longrightarrow> wf_system P S (startSyncIntervalTimer P i t w)"
  by (simp add: startSyncIntervalTimer_def)

interpretation wfw: role_predicate P "\<lambda>i. i \<in> S" "wf_system P S" for P S
  by unfold_locales (simp_all add: becomeSlave_def becomeMaster_def Let_def wf_system_startSync)

section \<open>Properties\<close>

text \<open>The \<open>k\<close>-th request for the departure timestamp; the last one says so.\<close>

definition tx_attempt :: "platform \<Rightarrow> PortIdentity \<Rightarrow> PTPMessageId \<Rightarrow> world \<Rightarrow> nat \<Rightarrow> int \<times> Timestamp" where
  "tx_attempt P src mid w k = hw_txtimestamp P (ncalls w + k) src mid (k = TX_TIMEOUT_ITER)"

definition first_success :: "(nat \<Rightarrow> int \<times> Timestamp) \<Rightarrow> nat \<Rightarrow> nat option" where
  "first_success h k = find (\<lambda>j. fst (h j) = GPTP_EC_SUCCESS) [k..<Suc TX_TIMEOUT_ITER]"

lemma funpow_tick [simp]:
  "ncalls ((tick ^^ n) w) = ncalls w + n" "ports ((tick ^^ n) w) = ports w" "sent ((tick ^^ n) w) = sent w"
  by (induction n) simp_all

lemma tx_retry_first:
  assumes "hw_timestamper (ports w i)" and "k + n = TX_TIMEOUT_ITER" and h: "h = tx_attempt P src mid w"
  shows "tx_retry n P i src mid (fst (h k), snd (h k), (tick ^^ Suc k) w) =
    (let j = (case first_success h k of Some j \<Rightarrow> j | None \<Rightarrow> TX_TIMEOUT_ITER) in (fst (h j), snd (h j), (tick ^^ Suc j) w))"
  using assms(2)
proof (induction n arbitrary: k)
  case 0
  then show ?case by (simp add: first_success_def)
next
  case (Suc n)
  then have k: "[k..<Suc TX_TIMEOUT_ITER] = k # [Suc k..<Suc TX_TIMEOUT_ITER]" by (simp add: upt_rec)
  show ?case
  proof (cases "fst (h k) = GPTP_EC_SUCCESS")
    case True
    then show ?thesis by (simp add: first_success_def k del: upt_Suc)
  next
    case False
    have "(Suc k = TX_TIMEOUT_ITER) = (n = 0)" using Suc.prems by auto
    then have "port_getTxTimestamp P i src mid (n = 0) ((tick ^^ Suc k) w) = (fst (h (Suc k)), snd (h (Suc k)), (tick ^^ Suc (Suc k)) w)"
      using assms(1) by (simp add: port_getTxTimestamp_def h tx_attempt_def split_beta)
    then show ?thesis
      using False Suc.IH [of "Suc k"] Suc.prems by (simp add: first_success_def k del: upt_Suc)
  qed
qed

text \<open>C32. The wait for the departure timestamp ends: the timestamper is asked at most once and
  \<open>TX_TIMEOUT_ITER\<close> times again, the last time with the \<open>last\<close> flag. The first timestamp it gives is
  taken, plus the delay of the PHY for the link speed; if there is none the timestamp is invalid.\<close>

theorem getTxTimestamp_attempts:
  assumes "hw_timestamper (ports w i)"
  shows "getTxTimestamp P i speed m w =
    (case first_success (tx_attempt P (sourcePortIdentity m) (getMessageId m) w) 0 of
       Some k \<Rightarrow>
         let t = snd (tx_attempt P (sourcePortIdentity m) (getMessageId m) w k)
         in (True, m\<lparr>msg_timestamp := ts_add t ((getTxPhyDelay (ports w i) speed)\<lparr>ts_version := ts_version t\<rparr>)\<rparr>, (tick ^^ Suc k) w)
     | None \<Rightarrow> (False, m\<lparr>msg_timestamp := INVALID_TIMESTAMP\<rparr>, (tick ^^ Suc TX_TIMEOUT_ITER) w))"
proof -
  let ?h = "tx_attempt P (sourcePortIdentity m) (getMessageId m) w"
  have "port_getTxTimestamp P i (sourcePortIdentity m) (getMessageId m) False w = (fst (?h 0), snd (?h 0), (tick ^^ Suc 0) w)"
    using assms by (auto simp add: port_getTxTimestamp_def tx_attempt_def TX_TIMEOUT_ITER_def split: prod.split)
  moreover have "case first_success ?h 0 of Some k \<Rightarrow> fst (?h k) = GPTP_EC_SUCCESS | None \<Rightarrow> fst (?h TX_TIMEOUT_ITER) \<noteq> GPTP_EC_SUCCESS"
    by (auto simp add: first_success_def find_None_iff find_Some_iff simp del: upt_Suc split: option.split)
  ultimately show ?thesis
    using tx_retry_first [OF assms, of 0 TX_TIMEOUT_ITER ?h P "sourcePortIdentity m" "getMessageId m"]
    by (auto simp add: getTxTimestamp_def Let_def simp del: funpow.simps split: option.split)
qed

text \<open>The address stored for a port identity is found again, the addresses of other identities are
  unchanged, and the map stays sorted.\<close>

theorem identity_map_lookup:
  assumes "smap_inv pi_less wf_pi (identity_map (ports w i))" and "wf_pi d" and "wf_pi d'"
  shows "fst (mapSocketAddr P i d' (addSockAddrMap i d a w)) = (if d' = d then a else fst (mapSocketAddr P i d' w)) \<and>
    (d' = d \<longrightarrow> snd (mapSocketAddr P i d' (addSockAddrMap i d a w)) = addSockAddrMap i d a w) \<and>
    smap_inv pi_less wf_pi (identity_map (ports (addSockAddrMap i d a w) i))"
  using assms
  by (simp add: mapSocketAddr_def addSockAddrMap_def pi_keys.find_assign pi_keys.assign_inv split: option.split)

text \<open>The timers of the two roles. A port that becomes master has one sync interval timer of 16 ms, no
  receipt timers, and, if it is to announce and does not use the automotive profile, one announce interval
  timer of 16 ms. A port that becomes slave has no interval timers and, without the automotive profile, one
  announce receipt timer more than before. All other timers stay.\<close>

theorem role_timers:
  assumes "timers_work P" and "tq_inv (timerq (clk w))"
  shows "pending e (becomeMaster P i annc w) =
      (if e = ANNOUNCE_RECEIPT_TIMEOUT_EXPIRES \<or> e = SYNC_RECEIPT_TIMEOUT_EXPIRES then {#}
       else if e = SYNC_INTERVAL_TIMEOUT_EXPIRES then {#timer i e 16000000#}
       else if e = ANNOUNCE_INTERVAL_TIMEOUT_EXPIRES \<and> annc \<and> \<not> automotive_profile (ports w i) then {#timer i e 16000000#}
       else pending e w) \<and>
    pending e (becomeSlave P i b w) =
      (if e = ANNOUNCE_INTERVAL_TIMEOUT_EXPIRES \<or> e = SYNC_INTERVAL_TIMEOUT_EXPIRES then {#}
       else if e = ANNOUNCE_RECEIPT_TIMEOUT_EXPIRES \<and> \<not> automotive_profile (ports w i)
       then add_mset (timer i e (announce_receipt_wait P (log_mean_announce_interval (ports w i)))) (pending e w)
       else pending e w)"
  using assms
  by (simp add: becomeMaster_def becomeSlave_def Let_def timer_ops timers_workD updateFUPInfo_def newSyntonizationSetPoint_def)

section \<open>Witnesses\<close>

theorem getTxTimestamp_attempts_witness:
  "getTxTimestamp sample_platform 0 1000000 sample_message sample_world =
     (True, sample_message\<lparr>msg_timestamp := ts_add (Timestamp_new 5000 100 0) (Timestamp_new 0 0 0)\<rparr>, tick sample_world)"
proof -
  have "first_success (tx_attempt sample_platform (sourcePortIdentity sample_message) (getMessageId sample_message) sample_world) 0 = Some 0"
    by (simp add: first_success_def tx_attempt_def sample_platform_def upt_rec [of 0])
  then show ?thesis
    by (subst getTxTimestamp_attempts)
      (simp_all add: tx_attempt_def sample_platform_def sample_port_def getTxPhyDelay_def Timestamp_new_def)
qed

theorem identity_map_lookup_witness:
  "fst (mapSocketAddr sample_platform 0 (port_identity sample_port)
     (addSockAddrMap 0 (port_identity sample_port) (local_addr sample_port) sample_world)) = local_addr sample_port"
proof -
  have "wf_pi (port_identity sample_port)" "identity_map (ports sample_world 0) = []"
    by (simp_all add: sample_port_def wf_pi_def wf_cid_def PTP_CLOCK_IDENTITY_LENGTH_def)
  then show ?thesis
    using identity_map_lookup [of sample_world 0 "port_identity sample_port" "port_identity sample_port" sample_platform] by simp
qed

lemma sample_world_tq: "tq_inv (timerq (clk sample_world))"
  using sample_world_wf by (auto simp add: wf_system_def wf_clk_def dest: wf_world_clk)

theorem role_timers_witness:
  "pending SYNC_INTERVAL_TIMEOUT_EXPIRES (becomeMaster sample_platform 0 True sample_world) =
     {#timer 0 SYNC_INTERVAL_TIMEOUT_EXPIRES 16000000#} \<and>
   pending SYNC_INTERVAL_TIMEOUT_EXPIRES (becomeSlave sample_platform 0 True sample_world) = {#}"
  using role_timers [OF sample_platform_wf(2) sample_world_tq, of SYNC_INTERVAL_TIMEOUT_EXPIRES 0 True True] by simp

end
