(* ===== verification/Ptp_Send.thy ===== *)
theory Ptp_Send
  imports Ether_Port
begin

text \<open>
  The constructors of the messages a port creates and their \<open>sendPort\<close> functions
  (\<open>common/ptp_message.cpp\<close>). A \<open>sendPort\<close> lays the message out with the writer of the wire format,
  hands the frame to the port, counts it and, for event messages, asks for the departure timestamp,
  which becomes the timestamp of the message. Fields that a constructor does not set keep the value
  they have in the memory of the new object.
\<close>

section \<open>Constructors\<close>

definition PTPMessageCommon_new :: "platform \<Rightarrow> world \<Rightarrow> PTPMessageCommon" where
  "PTPMessageCommon_new P w =
     (msg_mem P)\<lparr>versionPTP := GPTP_VERSION, versionNetwork := PTP_NETWORK_VERSION,
       domainNumber := domain_number (clk w), flags := PTP_PTPTIMESCALE (replicate 2 0),
       correctionField := 0, gc := False, msg_timestamp := Timestamp_default,
       sourcePortIdentity := (sourcePortIdentity (msg_mem P))\<lparr>clock_id := ClockIdentity_default\<rparr>\<rparr>"

definition PTPMessageSync_new :: "platform \<Rightarrow> nat \<Rightarrow> world \<Rightarrow> PTPMessageSync \<times> world" where
  "PTPMessageSync_new P i w =
     (let (seq, p) = getNextSyncSequenceId (ports w i);
          b = PTPMessageCommon_new P w;
          b = b\<lparr>messageType := SYNC_MESSAGE, sequenceId := seq, control := LEGACY_SYNC,
                 flags := PTP_ASSIST (flags b), logMeanMessageInterval := log_mean_sync_interval p\<rparr>
      in (PTPMessageCommon.extend b (PTPMessageSync.fields getSystemTime), upd_port i (\<lambda>_. p) w))"

definition PTPMessageAnnounce_new :: "platform \<Rightarrow> nat \<Rightarrow> world \<Rightarrow> PTPMessageAnnounce \<times> world" where
  "PTPMessageAnnounce_new P i w =
     (let (seq, p) = getNextAnnounceSequenceId (ports w i);
          c = clk w;
          b = (PTPMessageCommon_new P w)\<lparr>messageType := ANNOUNCE_MESSAGE, sequenceId := seq,
                 control := LEGACY_MESSAGE_OTHER, logMeanMessageInterval := log_mean_announce_interval p\<rparr>
      in (PTPMessageCommon.extend b
            (PTPMessageAnnounce.fields (getIdentityString (grandmaster_clock_identity c)) (clock_quality c)
              (appendClockIdentity (clock_identity c) PathTraceTLV_new) (current_utc_offset c)
              (priority1 c) (priority2 c) 0 (time_source c)),
          upd_port i (\<lambda>_. p) w))"

definition PTPMessageFollowUp_new :: "platform \<Rightarrow> nat \<Rightarrow> world \<Rightarrow> PTPMessageFollowUp" where
  "PTPMessageFollowUp_new P i w =
     (let b = (PTPMessageCommon_new P w)\<lparr>messageType := FOLLOWUP_MESSAGE, control := LEGACY_FOLLOWUP,
                logMeanMessageInterval := log_mean_sync_interval (ports w i)\<rparr>
      in PTPMessageCommon.extend b (PTPMessageFollowUp.fields Timestamp_default FollowUpTLV_new))"

definition PTPMessagePathDelayReq_new :: "platform \<Rightarrow> nat \<Rightarrow> world \<Rightarrow> PTPMessagePathDelayReq \<times> world" where
  "PTPMessagePathDelayReq_new P i w =
     (let (seq, p) = getNextPDelaySequenceId (ports w i);
          b = (PTPMessageCommon_new P w)\<lparr>logMeanMessageInterval := log_min_mean_pdelay_req_interval p,
                control := LEGACY_MESSAGE_OTHER, messageType := PATH_DELAY_REQ_MESSAGE, sequenceId := seq\<rparr>
      in (PTPMessageCommon.extend b (PTPMessagePathDelayReq.fields Timestamp_default), upd_port i (\<lambda>_. p) w))"

definition PTPMessagePathDelayResp_new :: "platform \<Rightarrow> world \<Rightarrow> PTPMessagePathDelayResp" where
  "PTPMessagePathDelayResp_new P w =
     (let b = PTPMessageCommon_new P w;
          b = b\<lparr>logMeanMessageInterval := 0x7F, control := LEGACY_MESSAGE_OTHER,
                 messageType := PATH_DELAY_RESP_MESSAGE, versionPTP := GPTP_VERSION,
                 flags := PTP_ASSIST (flags b)\<rparr>
      in PTPMessageCommon.extend b
           (PTPMessagePathDelayResp.fields
             ((sourcePortIdentity (msg_mem P))\<lparr>clock_id := ClockIdentity_default\<rparr>) Timestamp_default))"

definition PTPMessagePathDelayRespFollowUp_new :: "platform \<Rightarrow> world \<Rightarrow> PTPMessagePathDelayRespFollowUp" where
  "PTPMessagePathDelayRespFollowUp_new P w =
     (let b = (PTPMessageCommon_new P w)\<lparr>logMeanMessageInterval := 0x7F, control := LEGACY_MESSAGE_OTHER,
                messageType := PATH_DELAY_FOLLOWUP_MESSAGE, versionPTP := GPTP_VERSION\<rparr>
      in PTPMessageCommon.extend b
           (PTPMessagePathDelayRespFollowUp.fields Timestamp_default
             ((sourcePortIdentity (msg_mem P))\<lparr>clock_id := ClockIdentity_default\<rparr>)))"

definition PTPMessageSignalling_new :: "platform \<Rightarrow> nat \<Rightarrow> world \<Rightarrow> PTPMessageSignalling \<times> world" where
  "PTPMessageSignalling_new P i w =
     (let (seq, p) = getNextSignalSequenceId (ports w i);
          b = (PTPMessageCommon_new P w)\<lparr>messageType := SIGNALLING_MESSAGE, sequenceId := seq,
                control := LEGACY_MESSAGE_OTHER, logMeanMessageInterval := 0x7F\<rparr>
      in (PTPMessageCommon.extend b (PTPMessageSignalling.fields 0xFF SignallingTLV_new), upd_port i (\<lambda>_. p) w))"

section \<open>Sending\<close>

definition sync_sendPort ::
  "platform \<Rightarrow> nat \<Rightarrow> PTPMessageSync \<Rightarrow> PortIdentity option \<Rightarrow> world \<Rightarrow> bool \<times> PTPMessageSync \<times> world" where
  "sync_sendPort P i m destIdentity w =
     (case build_sync m of
        None \<Rightarrow> (False, m, crash OutOfBounds w)
      | Some (m, buf) \<Rightarrow>
          let (speed, w) = sendEventPort P i PTP_ETHERTYPE buf MCAST_OTHER destIdentity w;
              w = incCounter ieee8021AsPortStatTxSyncCount_update i w
          in getTxTimestamp P i speed m w)"

definition announce_sendPort ::
  "platform \<Rightarrow> nat \<Rightarrow> PTPMessageAnnounce \<Rightarrow> PortIdentity option \<Rightarrow> world \<Rightarrow> world" where
  "announce_sendPort P i m destIdentity w =
     or_crash (build_announce m)
       (\<lambda>(m, buf) w. incCounter ieee8021AsPortStatTxAnnounce_update i
          (sendGeneralPort P i PTP_ETHERTYPE buf MCAST_OTHER destIdentity w)) w"

definition followup_sendPort ::
  "platform \<Rightarrow> nat \<Rightarrow> PTPMessageFollowUp \<Rightarrow> PortIdentity option \<Rightarrow> world \<Rightarrow> world" where
  "followup_sendPort P i m destIdentity w =
     or_crash (build_followup m)
       (\<lambda>(m, buf) w. sendGeneralPort P i PTP_ETHERTYPE buf MCAST_OTHER destIdentity
          (incCounter ieee8021AsPortStatTxFollowUpCount_update i w)) w"

text \<open>The request in two parts: the frame with the link speed it was sent at, and the timestamp. The
  first is missing while peer delay is halted.\<close>

definition pdelay_req_transmit ::
  "platform \<Rightarrow> nat \<Rightarrow> PTPMessagePathDelayReq \<Rightarrow> PortIdentity option \<Rightarrow> world \<Rightarrow>
     (u32 \<times> PTPMessagePathDelayReq) option \<times> world" where
  "pdelay_req_transmit P i m destIdentity w =
     (if pdelay_halted (ports w i) then (None, w)
      else case build_pdelay_req m of
             None \<Rightarrow> (None, crash OutOfBounds w)
           | Some (m, buf) \<Rightarrow>
               let (speed, w) = sendEventPort P i PTP_ETHERTYPE buf MCAST_PDELAY destIdentity w
               in (Some (speed, m), incCounter ieee8021AsPortStatTxPdelayRequest_update i w))"

definition pdelay_req_sendPort ::
  "platform \<Rightarrow> nat \<Rightarrow> PTPMessagePathDelayReq \<Rightarrow> PortIdentity option \<Rightarrow> world \<Rightarrow>
     bool \<times> PTPMessagePathDelayReq \<times> world" where
  "pdelay_req_sendPort P i m destIdentity w =
     (case pdelay_req_transmit P i m destIdentity w of
        (None, w) \<Rightarrow> (False, m, w)
      | (Some (speed, m), w) \<Rightarrow> getTxTimestamp P i speed m w)"

definition pdelay_resp_sendPort ::
  "platform \<Rightarrow> nat \<Rightarrow> PTPMessagePathDelayResp \<Rightarrow> PortIdentity option \<Rightarrow> world \<Rightarrow>
     bool \<times> PTPMessagePathDelayResp \<times> world" where
  "pdelay_resp_sendPort P i m destIdentity w =
     (case build_pdelay_resp m of
        None \<Rightarrow> (False, m, crash OutOfBounds w)
      | Some (m, buf) \<Rightarrow>
          let (speed, w) = sendEventPort P i PTP_ETHERTYPE buf MCAST_PDELAY destIdentity w;
              w = incCounter ieee8021AsPortStatTxPdelayResponse_update i w
          in getTxTimestamp P i speed m w)"

definition pdelay_resp_followup_sendPort ::
  "platform \<Rightarrow> nat \<Rightarrow> PTPMessagePathDelayRespFollowUp \<Rightarrow> PortIdentity option \<Rightarrow> world \<Rightarrow> world" where
  "pdelay_resp_followup_sendPort P i m destIdentity w =
     or_crash (build_pdelay_resp_followup m)
       (\<lambda>(m, buf) w. incCounter ieee8021AsPortStatTxPdelayResponseFollowUp_update i
          (sendGeneralPort P i PTP_ETHERTYPE buf MCAST_PDELAY destIdentity w)) w"

definition signalling_sendPort ::
  "platform \<Rightarrow> nat \<Rightarrow> PTPMessageSignalling \<Rightarrow> PortIdentity option \<Rightarrow> world \<Rightarrow> world" where
  "signalling_sendPort P i m destIdentity w =
     or_crash (build_signalling m)
       (\<lambda>(m, buf) w. sendGeneralPort P i PTP_ETHERTYPE buf MCAST_OTHER destIdentity w) w"

text \<open>A new signalling message with the given intervals, sent at once.\<close>

definition send_signalling :: "platform \<Rightarrow> nat \<Rightarrow> u8 \<Rightarrow> u8 \<Rightarrow> u8 \<Rightarrow> world \<Rightarrow> world" where
  "send_signalling P i link sync ann w =
     (let (m, w) = PTPMessageSignalling_new P i w
      in signalling_sendPort P i (setintervals link sync ann m) None w)"

section \<open>Predicates kept by sending\<close>

context world_predicate
begin

lemma I_message_new [simp]:
  assumes "I w" and "active i"
  shows "I (snd (PTPMessageSync_new P i w))" "I (snd (PTPMessageAnnounce_new P i w))"
    "I (snd (PTPMessagePathDelayReq_new P i w))" "I (snd (PTPMessageSignalling_new P i w))"
  using assms
  by (simp_all add: PTPMessageSync_new_def PTPMessageAnnounce_new_def PTPMessagePathDelayReq_new_def
      PTPMessageSignalling_new_def Let_def split_beta)

lemma I_sendPort_event [simp]:
  assumes "I w" and "active i" and "\<forall>d. dest = Some d \<longrightarrow> wf_pi d"
  shows "I (snd (snd (sync_sendPort P i ms dest w)))" "I (snd (snd (pdelay_resp_sendPort P i mr dest w)))"
  using assms
  by (auto simp add: sync_sendPort_def pdelay_resp_sendPort_def Let_def split_beta split: option.split)

lemma I_pdelay_req_transmit [simp]:
  assumes "I w" and "active i" and "\<forall>d. dest = Some d \<longrightarrow> wf_pi d"
  shows "I (snd (pdelay_req_transmit P i mq dest w))"
  using assms by (simp add: pdelay_req_transmit_def incCounter_def I_request Let_def split_beta split: option.split)

lemma I_sendPort_general [simp]:
  assumes "I w" and "active i" and "\<forall>d. dest = Some d \<longrightarrow> wf_pi d"
  shows "I (announce_sendPort P i ma dest w)" "I (followup_sendPort P i mf dest w)"
    "I (pdelay_resp_followup_sendPort P i mg dest w)" "I (signalling_sendPort P i mx dest w)"
  using assms
  by (simp_all add: announce_sendPort_def followup_sendPort_def pdelay_resp_followup_sendPort_def
      signalling_sendPort_def split_beta I_or_crash)

lemma I_send_signalling [simp]: "I w \<Longrightarrow> active i \<Longrightarrow> I (send_signalling P i l s a w)"
  by (simp add: send_signalling_def Let_def split_beta)

end

end
