(* ===== verification/Ptp_Process.thy ===== *)
theory Ptp_Process
  imports Ptp_Send
begin

text \<open>
  What a port does with a received message: \<open>EtherPort::processMessage\<close> (\<open>common/ether_port.cpp\<close>),
  \<open>buildPTPMessage\<close> with its wait for the arrival timestamp, and the \<open>processMessage\<close> functions of the
  messages (\<open>common/ptp_message.cpp\<close>). Each returns the garbage flag of the message, which tells the
  caller to delete it, and the new world.
\<close>

section \<open>Announce and Sync\<close>

definition announce_processMessage :: "platform \<Rightarrow> nat \<Rightarrow> PTPMessageAnnounce \<Rightarrow> world \<Rightarrow> bool \<times> world" where
  "announce_processMessage P i m w =
     (let w = incCounter ieee8021AsPortStatRxAnnounce_update i w;
          w = deleteEventTimerLocked P i ANNOUNCE_RECEIPT_TIMEOUT_EXPIRES w;
          my_clock_identity = clock_identity (clk w);
          w = (if 255 \<le> stepsRemoved m then w
               else if cid_eq (clock_id (sourcePortIdentity m)) my_clock_identity then w
               else if pt_has my_clock_identity (ann_tlv m) then w
               else addEventTimerLocked P i STATE_CHANGE_EVENT 16000000
                      (upd_port i (qualified_announce_update (\<lambda>_. Some m)) w));
          w = addEventTimerLocked P i ANNOUNCE_RECEIPT_TIMEOUT_EXPIRES
                (receipt_wait P (log_mean_announce_interval (ports w i))) w
      in (gc m, w))"

text \<open>\<open>CHECK_ASSIST_BIT\<close> is not defined. \<open>recoverPort\<close> does nothing.\<close>

definition sync_processMessage :: "platform \<Rightarrow> nat \<Rightarrow> PTPMessageSync \<Rightarrow> world \<Rightarrow> bool \<times> world" where
  "sync_processMessage P i m w =
     (if port_state (ports w i) = PTP_DISABLED \<or> port_state (ports w i) = PTP_FAULTY then (gc m, w)
      else let w = incCounter ieee8021AsPortStatRxSyncCount_update i w
           in (False, upd_port i (last_sync_update (\<lambda>_. Some (m\<lparr>gc := False\<rparr>))) w))"

section \<open>Follow-Up\<close>

text \<open>Signed division by a positive number, towards zero.\<close>

definition sdiv64 :: "u64 \<Rightarrow> int \<Rightarrow> u64" where
  "sdiv64 a b = word_of_int (sgn (sint a) * (\<bar>sint a\<bar> div b))"

text \<open>The rate of the master relative to the local clock that the message and the peer delay give,
  and the correction of the origin timestamp.\<close>

definition followup_rate :: "'a arch_scheme \<Rightarrow> FollowUpTLV \<Rightarrow> fp \<Rightarrow> fp" where
  "followup_rate A tlv peer =
     (let F = fr_fmt A;
          r = fp_div F (fp_of_int F (sint (getRateOffset tlv))) (Fin (2 ^ 41));
          r = fp_add F r (Fin 1)
      in fp_div F r peer)"

definition followup_correction :: "'a arch_scheme \<Rightarrow> u64 \<Rightarrow> fp \<Rightarrow> u64 \<Rightarrow> u64" where
  "followup_correction A delay rate correction_ns =
     (let F = fr_fmt A
      in to_i64 A (fp_add F (fp_mul F (fp_of_int F (uint delay)) rate) (fp_of_int F (sint correction_ns))))"

definition corrected_origin :: "Timestamp \<Rightarrow> u64 \<Rightarrow> Timestamp" where
  "corrected_origin t correction =
     (if 0 < sint correction then TIMESTAMP_ADD_NS t correction else TIMESTAMP_SUB_NS t (- correction))"

text \<open>What a slave does with the measured offset.\<close>

definition slave_update :: "platform \<Rightarrow> nat \<Rightarrow> u64 \<Rightarrow> Timestamp \<Rightarrow> fp \<Rightarrow> Timestamp \<Rightarrow> Timestamp \<Rightarrow> u32 \<Rightarrow> world \<Rightarrow> world" where
  "slave_update P i scalar_offset sync_arrival adjustment system_time device_time device_sync_time_offset w =
     (let w = upd_port i (\<lambda>p. p\<lparr>sync_count := sync_count p + 1\<rparr>) w;
          (local_system_freq_offset, c) = calcLocalSystemClockRateDifference P device_time system_time (clk w);
          w = upd_clk (\<lambda>_. c) w;
          system_time = TIMESTAMP_SUB_NS system_time
            (to_u64 P (fp_div (fr_fmt P) (fp_of_int (fr_fmt P) (uint device_sync_time_offset)) local_system_freq_offset));
          local_system_offset = TIMESTAMP_TO_NS system_time - TIMESTAMP_TO_NS sync_arrival;
          p = ports w i;
          w = setMasterOffset P i scalar_offset sync_arrival adjustment local_system_offset local_system_freq_offset
                (sync_count p) (pdelay_count p) (port_state p) (asCapable p) w;
          w = syncDone P i w
      in startSyncReceiptTimer P i (receipt_wait P (log_mean_sync_interval (ports w i))) w)"

text \<open>\<open>processMessage( port, sync_arrival )\<close>.\<close>

definition followup_process_sync :: "platform \<Rightarrow> nat \<Rightarrow> PTPMessageFollowUp \<Rightarrow> Timestamp \<Rightarrow> world \<Rightarrow> bool \<times> world" where
  "followup_process_sync P i m sync_arrival w =
     (let w = incCounter ieee8021AsPortStatRxFollowUpCount_update i w;
          p = ports w i;
          delay = getLinkDelay p
      in if \<not> getLinkDelay_valid p then (True, w)
         else
      let rate = followup_rate P (fup_tlv m) (peer_rate_offset p);
          correction_ns = sdiv64 (correctionField m) (2 ^ 16)
      in if sint correction_ns < 0 \<and> \<not> allow_negative_correction_field p then (True, w)
         else
      let origin = corrected_origin (preciseOriginTimestamp m) (followup_correction P delay rate correction_ns);
          (adjustment, c) = calcMasterLocalClockRateDifference P origin sync_arrival (clk w);
          w = upd_clk (\<lambda>_. c) w
      in if fp_eq adjustment NEGATIVE_TIME_JUMP then (True, w)
         else
      let scalar_offset = TIMESTAMP_TO_NS sync_arrival - TIMESTAMP_TO_NS origin;
          ((system_time, device_time), w) = getDeviceTime P i w;
          device_sync_time_offset = ucast (TIMESTAMP_TO_NS device_time - TIMESTAMP_TO_NS sync_arrival) :: u32;
          freqChange = to_i32 P (fp_mul (fr_fmt P)
            (fp_sub (fr_fmt P) (fp_div (fr_fmt P) (Fin 1) adjustment) (Fin 1)) (Fin (2 ^ 41)));
          phaseChange = setLSB (scast (getRateOffset (fup_tlv m))) scaledNs_new;
          w = upd_clk (\<lambda>c. c\<lparr>fup_status :=
                setScaledLastGmPhaseChange phaseChange (setScaledLastGmFreqChange freqChange (fup_status c))\<rparr>) w;
          w = (if port_state (ports w i) = PTP_SLAVE
               then slave_update P i scalar_offset sync_arrival adjustment system_time device_time device_sync_time_offset w
               else w);
          w = upd_port i (lastGmTimeBaseIndicator_update (\<lambda>_. getGmTimeBaseIndicator (fup_tlv m))) w
      in (True, w))"

definition followup_processMessage :: "platform \<Rightarrow> nat \<Rightarrow> PTPMessageFollowUp \<Rightarrow> world \<Rightarrow> bool \<times> world" where
  "followup_processMessage P i m w =
     (let w = stopSyncReceiptTimer i w; p = ports w i
      in if port_state p = PTP_DISABLED \<or> port_state p = PTP_FAULTY then (gc m, w)
         else case last_sync p of
           None \<Rightarrow> (gc m, w)
         | Some sync \<Rightarrow>
             let (g, w) =
               (if sequenceId sync \<noteq> sequenceId m \<or> pi_neq (sourcePortIdentity sync) (sourcePortIdentity m)
                then let (below, p) = incWrongSeqIDCounter p;
                         w = upd_port i (\<lambda>_. p) w
                     in if \<not> below
                        then (gc m, upd_port i (wrongSeqIDCounter_update (\<lambda>_. 0)) (becomeMaster P i True w))
                        else (gc m, w)
                else let (version, w) = getTimestampVersion P i w
                     in if uint (ts_version (msg_timestamp sync)) \<noteq> version then (gc m, w)
                        else followup_process_sync P i m (msg_timestamp sync) w)
             in (g, upd_port i (last_sync_update (\<lambda>_. None)) w))"

section \<open>Peer delay\<close>

text \<open>A request is answered with a response and, with the departure time of that, a follow-up. The
  turnaround time that the code computes is only logged.\<close>

definition pdelay_req_processMessage :: "platform \<Rightarrow> nat \<Rightarrow> PTPMessagePathDelayReq \<Rightarrow> world \<Rightarrow> bool \<times> world" where
  "pdelay_req_processMessage P i m w =
     (if port_state (ports w i) = PTP_DISABLED \<or> port_state (ports w i) = PTP_FAULTY then (True, w)
      else
        let w = incCounter ieee8021AsPortStatRxPdelayRequest_update i w;
            resp = (PTPMessagePathDelayResp_new P w)\<lparr>sourcePortIdentity := port_identity (ports w i),
                     sequenceId := sequenceId m, resp_requestingPortIdentity := sourcePortIdentity m,
                     requestReceiptTimestamp := msg_timestamp m\<rparr>;
            (r, resp, w) = pdelay_resp_sendPort P i resp (Some (sourcePortIdentity m)) w;
            resp_fwup = (PTPMessagePathDelayRespFollowUp_new P w)\<lparr>sourcePortIdentity := port_identity (ports w i),
                     sequenceId := sequenceId m, rfup_requestingPortIdentity := sourcePortIdentity m,
                     responseOriginTimestamp := msg_timestamp resp, correctionField := 0\<rparr>
        in (True, pdelay_resp_followup_sendPort P i resp_fwup (Some (sourcePortIdentity m)) w))"

definition MISBEHAVING_TIMEOUT :: u64 where
  "MISBEHAVING_TIMEOUT = 300000000000"

text \<open>A second response to one request, from another port.\<close>

definition verify_duplicate :: "platform \<Rightarrow> nat \<Rightarrow> PTPMessagePathDelayResp \<Rightarrow> PTPMessagePathDelayResp \<Rightarrow> world \<Rightarrow> world" where
  "verify_duplicate P i m old w =
     (let p = ports w i in
      if sequenceId m = sequenceId old
      then
        let w = (if portNumber (sourcePortIdentity m) \<noteq> portNumber (sourcePortIdentity old) \<and>
                    (uint (last_invalid_seqid p) + 1 = uint (sequenceId m) \<or> duplicate_resp_counter p = 0)
                 then let (reached, p) = incrementDuplicateRespCounter p;
                          w = upd_port i (\<lambda>_. p) w
                      in if reached
                         then addEventTimerLocked P i PDELAY_RESP_PEER_MISBEHAVING_TIMEOUT_EXPIRES MISBEHAVING_TIMEOUT
                                (stopPDelay P i w)
                         else w
                 else upd_port i (duplicate_resp_counter_update (\<lambda>_. 0)) w)
        in upd_port i (last_invalid_seqid_update (\<lambda>_. sequenceId m)) w
      else upd_port i (duplicate_resp_counter_update (\<lambda>_. 0)) w)"

definition pdelay_resp_processMessage :: "platform \<Rightarrow> nat \<Rightarrow> PTPMessagePathDelayResp \<Rightarrow> world \<Rightarrow> bool \<times> world" where
  "pdelay_resp_processMessage P i m w =
     (if port_state (ports w i) = PTP_DISABLED \<or> port_state (ports w i) = PTP_FAULTY then (gc m, w)
      else
        let w = incCounter ieee8021AsPortStatRxPdelayResponse_update i w
        in if \<not> trylock_pdelay_rx P (ncalls w) then (gc m, tick w)
           else
             let w = tick w;
                 w = (case last_pdelay_resp (ports w i) of
                        None \<Rightarrow> w | Some old \<Rightarrow> verify_duplicate P i m old w)
             in (False, upd_port i (last_pdelay_resp_update (\<lambda>_. Some (m\<lparr>gc := False\<rparr>))) w))"

text \<open>The difference of two timestamps in nanoseconds, in 64-bit arithmetic.\<close>

definition ts_diff :: "Timestamp \<Rightarrow> Timestamp \<Rightarrow> u64" where
  "ts_diff a b =
     push_bit 32 (ucast (seconds_ms a) - ucast (seconds_ms b)) * 1000000000 +
     (ucast (seconds_ls a) - ucast (seconds_ls b)) * 1000000000 +
     (ucast (nanoseconds a) - ucast (nanoseconds b))"

text \<open>The turn-around time at the peer, in local time while the rate ratio is plausible, and the delay
  of the link.\<close>

definition adjusted_turn_around :: "'a arch_scheme \<Rightarrow> fp \<Rightarrow> u64 \<Rightarrow> u64" where
  "adjusted_turn_around A rate turn_around =
     (if fp_lt (fround DOUBLE (998 / 1000)) rate \<and> fp_lt rate (fround DOUBLE (1002 / 1000))
      then to_i64 A (fp_mul (fr_fmt A) (fp_of_int (fr_fmt A) (uint turn_around)) rate)
      else turn_around)"

definition measured_link_delay :: "'a arch_scheme \<Rightarrow> fp \<Rightarrow> Timestamp \<Rightarrow> Timestamp \<Rightarrow> Timestamp \<Rightarrow> Timestamp \<Rightarrow> u64" where
  "measured_link_delay A rate t1 t2 t3 t4 =
     sdiv64 (ts_diff t4 t1 - adjusted_turn_around A rate (ts_diff t3 t2)) 2"

text \<open>The peer rate ratio, which is kept only within 250 ppm.\<close>

definition peer_rate :: "'a arch_scheme \<Rightarrow> Timestamp \<Rightarrow> Timestamp \<Rightarrow> u64 \<Rightarrow> EtherPort \<Rightarrow> fp" where
  "peer_rate A request_tx remote_req_rx link_delay p =
     (let mine_elapsed = TIMESTAMP_TO_NS request_tx - TIMESTAMP_TO_NS (peer_offset_ts_mine p);
          theirs_elapsed = TIMESTAMP_TO_NS remote_req_rx - TIMESTAMP_TO_NS (peer_offset_ts_theirs p);
          theirs_elapsed = theirs_elapsed - getLinkDelay p;
          theirs_elapsed = theirs_elapsed + (if sint link_delay < 0 then 0 else link_delay)
      in fp_div (fr_fmt A) (fp_of_int (fr_fmt A) (uint mine_elapsed)) (fp_of_int (fr_fmt A) (uint theirs_elapsed)))"

definition update_peer_rate :: "'a arch_scheme \<Rightarrow> Timestamp \<Rightarrow> Timestamp \<Rightarrow> u64 \<Rightarrow> EtherPort \<Rightarrow> EtherPort" where
  "update_peer_rate A request_tx remote_req_rx link_delay p =
     (if peer_offset_init p
      then let rate_offset = peer_rate A request_tx remote_req_rx link_delay p
           in if fp_lt rate_offset (ppm_ratio A 250) \<and> fp_lt (ppm_ratio A (- 250)) rate_offset
              then p\<lparr>peer_rate_offset := rate_offset\<rparr> else p
      else p)"

text \<open>The part of the follow-up that measures: \<open>t1\<close> and \<open>t4\<close> are local times, \<open>t2\<close> and \<open>t3\<close> those of the
  peer.\<close>

definition pdelay_measure :: "'a arch_scheme \<Rightarrow> Timestamp \<Rightarrow> Timestamp \<Rightarrow> Timestamp \<Rightarrow> Timestamp \<Rightarrow> EtherPort \<Rightarrow> EtherPort" where
  "pdelay_measure A t1 t2 t3 t4 p =
     (let p = p\<lparr>pdelay_count := pdelay_count p + 1\<rparr>;
          link_delay = measured_link_delay A (peer_rate_offset p) t1 t2 t3 t4;
          p = update_peer_rate A t1 t2 link_delay p;
          (in_range, p) = setLinkDelay link_delay p;
          p = (if automotive_profile p then p else setAsCapable in_range p)
      in setPeerOffset t1 t2 p)"

text \<open>The comparison of clock identities is made on two identities that have not been filled in yet.\<close>

definition pdelay_fup_matches ::
  "PTPMessagePathDelayReq \<Rightarrow> PTPMessagePathDelayResp \<Rightarrow> PTPMessagePathDelayRespFollowUp \<Rightarrow> bool" where
  "pdelay_fup_matches req resp m \<longleftrightarrow>
     sequenceId req = sequenceId m \<and> sequenceId resp = sequenceId m \<and>
     \<not> cid_neq ClockIdentity_default ClockIdentity_default \<and>
     portNumber (resp_requestingPortIdentity resp) = portNumber (rfup_requestingPortIdentity m) \<and>
     \<not> pi_neq (sourcePortIdentity m) (sourcePortIdentity resp)"

definition pdelay_fup_processMessage :: "platform \<Rightarrow> nat \<Rightarrow> PTPMessagePathDelayRespFollowUp \<Rightarrow> world \<Rightarrow> bool \<times> world" where
  "pdelay_fup_processMessage P i m w =
     (if port_state (ports w i) = PTP_DISABLED \<or> port_state (ports w i) = PTP_FAULTY then (gc m, w)
      else
        let w = incCounter ieee8021AsPortStatRxPdelayResponseFollowUp_update i w
        in if \<not> trylock_pdelay_rx P (ncalls w) then (gc m, tick w)
           else
             let w = tick w;
                 finish = upd_port i (last_pdelay_resp_update (\<lambda>_. None))
             in case (last_pdelay_req (ports w i), last_pdelay_resp (ports w i)) of
                  (Some req, Some resp) \<Rightarrow>
                    if \<not> pdelay_fup_matches req resp m then (True, finish w)
                    else
                      let w = deleteEventTimerLocked P i PDELAY_RESP_RECEIPT_TIMEOUT_EXPIRES w;
                          t1 = msg_timestamp req
                      in if nanoseconds t1 = nanoseconds INVALID_TIMESTAMP then (True, finish w)
                         else if nanoseconds t1 = nanoseconds PDELAY_PENDING_TIMESTAMP
                         then (gc m, addEventTimerLocked P i PDELAY_DEFERRED_PROCESSING 1000000
                                       (upd_port i (last_pdelay_resp_fwup_update (\<lambda>_. Some m)) w))
                         else if ts_version t1 \<noteq> ts_version (msg_timestamp resp) then (True, finish w)
                         else (True, finish (upd_port i
                                (pdelay_measure P t1 (requestReceiptTimestamp resp) (responseOriginTimestamp m)
                                   (msg_timestamp resp)) w))
                | _ \<Rightarrow> (True, finish w))"

section \<open>Signalling\<close>

definition signalled_wait :: "'a arch_scheme \<Rightarrow> u8 \<Rightarrow> u64" where
  "signalled_wait A interval = max (interval_i64 A interval) EVENT_TIMER_GRANULARITY"

text \<open>One of the three intervals: \<open>initial\<close> is what the initial value requests, \<open>set'\<close> any other interval.
  The requests to stop and not to change do nothing.\<close>

definition signalled :: "u8 \<Rightarrow> (world \<Rightarrow> world) \<Rightarrow> (world \<Rightarrow> world) \<Rightarrow> world \<Rightarrow> world" where
  "signalled interval initial set' w =
     (if interval = sigMsgInterval_Initial then initial w
      else if interval = sigMsgInterval_NoSend then w
      else if interval = sigMsgInterval_NoChange then w
      else set' w)"

definition signalling_processMessage :: "platform \<Rightarrow> nat \<Rightarrow> PTPMessageSignalling \<Rightarrow> world \<Rightarrow> bool \<times> world" where
  "signalling_processMessage P i m w =
     (let start_pdelay = (\<lambda>w. startPDelayIntervalTimer P i (signalled_wait P (log_min_mean_pdelay_req_interval (ports w i))) w);
          start_sync = (\<lambda>w. startSyncIntervalTimer P i (signalled_wait P (log_mean_sync_interval (ports w i))) w);
          start_announce = (\<lambda>w. startAnnounceIntervalTimer P i (signalled_wait P (log_mean_announce_interval (ports w i))) w);
          link = linkDelayInterval (sig_tlv m);
          sync = timeSyncInterval (sig_tlv m);
          ann = announceInterval (sig_tlv m);
          w = signalled link (\<lambda>w. start_pdelay (upd_port i resetInitPDelayInterval w))
                (\<lambda>w. start_pdelay (upd_port i (log_min_mean_pdelay_req_interval_update (\<lambda>_. link)) w)) w;
          w = signalled sync (\<lambda>w. start_sync (upd_port i resetInitSyncInterval w))
                (\<lambda>w. start_sync (upd_port i (log_mean_sync_interval_update (\<lambda>_. sync)) w)) w;
          w = (if \<not> automotive_profile (ports w i)
               then signalled ann (\<lambda>w. w)
                      (\<lambda>w. start_announce (upd_port i (log_mean_announce_interval_update (\<lambda>_. ann)) w)) w
               else w)
      in (gc m, w))"

section \<open>Reception\<close>

text \<open>\<open>buildPTPMessage\<close> on the receive buffer of 128 octets, of which \<open>size\<close> have been filled.\<close>

definition buildPTPMessage ::
  "platform \<Rightarrow> nat \<Rightarrow> octets \<Rightarrow> int \<Rightarrow> LinkLayerAddress \<Rightarrow> world \<Rightarrow> (build_error + PTPMessage) \<times> world" where
  "buildPTPMessage P i buf sz remote w =
     (case do { t \<leftarrow> get 0 1 buf; src \<leftarrow> rx_sourcePortIdentity buf; seq \<leftarrow> rx_sequenceId buf; Some (hd t, src, seq) } of
        None \<Rightarrow> (Inl OverRead, crash OutOfBounds w)
      | Some (tspec_msg_t, src, seq) \<Rightarrow>
          let mt = tspec_msg_t AND 0xF;
              transportSpecific = drop_bit 4 tspec_msg_t AND 0x0F;
              mid = \<lparr>id_messageType = mt, id_sequenceId = seq\<rparr>;
              event = (drop_bit 3 mt = 0);
              (ts_good, timestamp, cnt, w) =
                (if event then rx_retry 5 P i src mid (port_getRxTimestamp P i src mid False 0 w)
                 else (GPTP_EC_SUCCESS, Timestamp_new 0 0 0, 0, w))
          in if ts_good \<noteq> GPTP_EC_SUCCESS then (Inl NoTimestamp, w)
             else if transportSpecific \<noteq> 1 then (Inl BadTransport, w)
             else case parse_message (msg_mem P) buf sz mt src seq timestamp cnt of
                    Inl e \<Rightarrow>
                      (Inl e, if e = OverRead then crash OutOfBounds w
                              else if e = Unsupported
                              then incCounter ieee8021AsPortStatRxPTPPacketDiscard_update i w else w)
                  | Inr m \<Rightarrow> (Inr m, if event then addSockAddrMap i src remote w else w))"

text \<open>The dispatch of \<open>processMessage\<close>, with the arrival time of event messages corrected by the PHY.\<close>

definition rx_compensate :: "EtherPort \<Rightarrow> u32 \<Rightarrow> 'a PTPMessageCommon_scheme \<Rightarrow> 'a PTPMessageCommon_scheme" where
  "rx_compensate p speed m =
     (if isEvent m
      then let phy_compensation = (getRxPhyDelay p speed)\<lparr>ts_version := ts_version (msg_timestamp m)\<rparr>
           in m\<lparr>msg_timestamp := ts_sub (msg_timestamp m) phy_compensation\<rparr>
      else m)"

primrec msg_process :: "platform \<Rightarrow> nat \<Rightarrow> u32 \<Rightarrow> PTPMessage \<Rightarrow> world \<Rightarrow> bool \<times> world" where
  "msg_process P i speed (MsgAnnounce m) w = announce_processMessage P i (rx_compensate (ports w i) speed m) w"
| "msg_process P i speed (MsgSync m) w = sync_processMessage P i (rx_compensate (ports w i) speed m) w"
| "msg_process P i speed (MsgFollowUp m) w = followup_processMessage P i (rx_compensate (ports w i) speed m) w"
| "msg_process P i speed (MsgPathDelayReq m) w = pdelay_req_processMessage P i (rx_compensate (ports w i) speed m) w"
| "msg_process P i speed (MsgPathDelayResp m) w = pdelay_resp_processMessage P i (rx_compensate (ports w i) speed m) w"
| "msg_process P i speed (MsgPathDelayRespFollowUp m) w = pdelay_fup_processMessage P i (rx_compensate (ports w i) speed m) w"
| "msg_process P i speed (MsgSignalling m) w = signalling_processMessage P i (rx_compensate (ports w i) speed m) w"

definition port_processMessage :: "platform \<Rightarrow> nat \<Rightarrow> octets \<Rightarrow> int \<Rightarrow> LinkLayerAddress \<Rightarrow> u32 \<Rightarrow> world \<Rightarrow> world" where
  "port_processMessage P i buf sz remote speed w =
     (case buildPTPMessage P i buf sz remote w of
        (Inl e, w) \<Rightarrow> w
      | (Inr m, w) \<Rightarrow> snd (msg_process P i speed m w))"

section \<open>Well-formed messages\<close>

text \<open>The identity of the sender and the sequence number of a message of any class.\<close>

definition msg_source :: "PTPMessage \<Rightarrow> PortIdentity" where
  "msg_source m =
     (case m of
        MsgAnnounce x \<Rightarrow> sourcePortIdentity x | MsgSync x \<Rightarrow> sourcePortIdentity x | MsgFollowUp x \<Rightarrow> sourcePortIdentity x
      | MsgPathDelayReq x \<Rightarrow> sourcePortIdentity x | MsgPathDelayResp x \<Rightarrow> sourcePortIdentity x
      | MsgPathDelayRespFollowUp x \<Rightarrow> sourcePortIdentity x | MsgSignalling x \<Rightarrow> sourcePortIdentity x)"

definition msg_sequence :: "PTPMessage \<Rightarrow> u16" where
  "msg_sequence m =
     (case m of
        MsgAnnounce x \<Rightarrow> sequenceId x | MsgSync x \<Rightarrow> sequenceId x | MsgFollowUp x \<Rightarrow> sequenceId x
      | MsgPathDelayReq x \<Rightarrow> sequenceId x | MsgPathDelayResp x \<Rightarrow> sequenceId x
      | MsgPathDelayRespFollowUp x \<Rightarrow> sequenceId x | MsgSignalling x \<Rightarrow> sequenceId x)"

text \<open>What the handlers rely on, and that \<open>buildPTPMessage\<close> gives it: every identity in the message has eight octets.\<close>

definition wf_message :: "PTPMessage \<Rightarrow> bool" where
  "wf_message m \<longleftrightarrow>
     wf_pi (msg_source m) \<and>
     (case m of
        MsgAnnounce a \<Rightarrow> wf_ann a \<and> list_all wf_cid (identityList (ann_tlv a))
      | MsgPathDelayResp r \<Rightarrow> wf_pi (resp_requestingPortIdentity r)
      | MsgPathDelayRespFollowUp f \<Rightarrow> wf_pi (rfup_requestingPortIdentity f)
      | _ \<Rightarrow> True)"

lemma copy_header_source:
  "copy_common_header b buf src seq ts cnt m = Some m' \<Longrightarrow> sourcePortIdentity m' = src \<and> sequenceId m' = seq"
  by (auto simp add: copy_common_header_def split: bind_splits)

lemma copy_header_ann:
  "copy_common_header b buf src seq ts cnt m = Some m' \<Longrightarrow> wf_ann m' = wf_ann m \<and> ann_tlv m' = ann_tlv m"
  by (auto simp add: copy_common_header_def wf_ann_def split: bind_splits)

lemma copy_header_resp:
  "copy_common_header b buf src seq ts cnt m = Some m' \<Longrightarrow> resp_requestingPortIdentity m' = resp_requestingPortIdentity m"
  by (auto simp add: copy_common_header_def split: bind_splits)

lemma copy_header_rfup:
  "copy_common_header b buf src seq ts cnt m = Some m' \<Longrightarrow> rfup_requestingPortIdentity m' = rfup_requestingPortIdentity m"
  by (auto simp add: copy_common_header_def split: bind_splits)

lemma parse_identities_wf:
  "parse_identities n off buf t = Some t' \<Longrightarrow> list_all wf_cid (identityList t) \<Longrightarrow> list_all wf_cid (identityList t')"
  by (induction n off buf t rule: parse_identities.induct)
    (auto simp add: wf_cid_def cid_set_def dest!: get_length split: bind_splits)

lemma parse_announce_wf:
  "parse_announce blank buf sz = Some (m, b) \<Longrightarrow> wf_ann m \<and> list_all wf_cid (identityList (ann_tlv m))"
  by (auto simp add: parse_announce_def parseClockIdentity_def wf_ann_def PathTraceTLV_new_def PTPMessageCommon.defs
      PTPMessageAnnounce.defs Let_def dest!: get_length intro: parse_identities_wf split: bind_splits if_splits)

lemma get_portIdentity_wf: "get_portIdentity off buf = Some p \<Longrightarrow> wf_pi p"
  by (auto simp add: get_portIdentity_def PortIdentity_wire_def wf_pi_def wf_cid_def cid_set_def
      dest!: get_length split: bind_splits)

lemma parse_resp_wf: "parse_pdelay_resp blank buf = Some m \<Longrightarrow> wf_pi (resp_requestingPortIdentity m)"
  by (auto simp add: parse_pdelay_resp_def PTPMessageCommon.defs PTPMessagePathDelayResp.defs
      intro: get_portIdentity_wf split: bind_splits)

lemma parse_rfup_wf: "parse_pdelay_resp_followup blank buf = Some m \<Longrightarrow> wf_pi (rfup_requestingPortIdentity m)"
  by (auto simp add: parse_pdelay_resp_followup_def PTPMessageCommon.defs PTPMessagePathDelayRespFollowUp.defs
      intro: get_portIdentity_wf split: bind_splits)

lemma read_or_fail_Inr: "read_or_fail f x = Inr m \<longleftrightarrow> (\<exists>a. x = Some a \<and> m = f a)"
  by (cases x) (auto simp add: read_or_fail_def)

lemma parse_message_source:
  assumes "parse_message blank buf sz mt src seq ts cnt = Inr m"
  shows "msg_source m = src" and "msg_sequence m = seq"
  using assms
  by (auto simp add: parse_message_def msg_source_def msg_sequence_def read_or_fail_Inr
      dest: copy_header_source split: if_splits bind_splits)

lemma parse_message_wf:
  assumes "parse_message blank buf sz mt src seq ts cnt = Inr m" and "wf_pi src"
  shows "wf_message m"
proof -
  have "case m of
      MsgAnnounce a \<Rightarrow> wf_ann a \<and> list_all wf_cid (identityList (ann_tlv a))
    | MsgPathDelayResp r \<Rightarrow> wf_pi (resp_requestingPortIdentity r)
    | MsgPathDelayRespFollowUp f \<Rightarrow> wf_pi (rfup_requestingPortIdentity f)
    | _ \<Rightarrow> True"
    using assms(1)
    by (auto simp add: parse_message_def read_or_fail_Inr copy_header_ann copy_header_resp copy_header_rfup
        dest: parse_announce_wf parse_resp_wf parse_rfup_wf split: if_splits bind_splits)
  then show ?thesis using parse_message_source(1) [OF assms(1)] assms(2) by (simp add: wf_message_def)
qed

lemma rx_source_wf: "rx_sourcePortIdentity buf = Some src \<Longrightarrow> wf_pi src"
  by (auto simp add: rx_sourcePortIdentity_def PortIdentity_wire_def wf_pi_def wf_cid_def cid_set_def
      dest!: get_length split: bind_splits)

lemma buildPTPMessage_wf: "fst (buildPTPMessage P i buf sz remote w) = Inr m \<Longrightarrow> wf_message m"
  by (auto simp add: buildPTPMessage_def Let_def split_beta intro: parse_message_wf [OF _ rx_source_wf]
      split: option.splits bind_splits sum.splits if_splits)

lemma rx_compensate_fields [simp]:
  "wf_ann (rx_compensate p s a) = wf_ann a" "sourcePortIdentity (rx_compensate p s m) = sourcePortIdentity m"
  "sequenceId (rx_compensate p s m) = sequenceId m" "gc (rx_compensate p s m) = gc m"
  by (simp_all add: rx_compensate_def wf_ann_def Let_def)

section \<open>Predicates kept by processing\<close>

lemma wf_update_peer_rate [simp]: "wf_port A p \<Longrightarrow> wf_port A (update_peer_rate A t t' d p)"
  unfolding update_peer_rate_def Let_def by (simp add: rate_ok_def)

lemma wf_pdelay_measure [simp]: "wf_port A p \<Longrightarrow> wf_port A (pdelay_measure A t1 t2 t3 t4 p)"
  by (simp add: pdelay_measure_def Let_def split_beta)

lemma port_state_pdelay_measure [simp]: "port_state (pdelay_measure A t1 t2 t3 t4 p) = port_state p"
  by (simp add: pdelay_measure_def update_peer_rate_def Let_def split_beta)

lemma pdelay_halted_pdelay_measure [simp]: "pdelay_halted (pdelay_measure A t1 t2 t3 t4 p) = pdelay_halted p"
  by (simp add: pdelay_measure_def update_peer_rate_def Let_def split_beta)

lemma tx_requests_pdelay_measure [simp]: "tx_requests (pdelay_measure A t1 t2 t3 t4 p) = tx_requests p"
  by (simp add: pdelay_measure_def update_peer_rate_def Let_def split_beta)

lemma sigMsgInterval_NoChange_octet: "sigMsgInterval_NoChange = 0x80"
  by (simp add: sigMsgInterval_NoChange_def)

context world_predicate
begin

lemma I_announce_process [simp]: "I w \<Longrightarrow> active i \<Longrightarrow> wf_ann m \<Longrightarrow> I (snd (announce_processMessage P i m w))"
  by (simp add: announce_processMessage_def Let_def)

lemma I_sync_process [simp]: "I w \<Longrightarrow> active i \<Longrightarrow> I (snd (sync_processMessage P i m w))"
  by (simp add: sync_processMessage_def Let_def)

lemma I_slave_update [simp]: "I w \<Longrightarrow> active i \<Longrightarrow> fp_below 68 f \<Longrightarrow> I (slave_update P i d t f st dt o' w)"
  by (simp add: slave_update_def Let_def split_beta)

lemma I_followup_process_sync [simp]:
  assumes "I w" and "active i"
  shows "I (snd (followup_process_sync P i m t w))"
  unfolding followup_process_sync_def Let_def using assms I_wf [OF assms(1)]
  by (simp add: split_beta calcMaster_below)

lemma I_pdelay_req_process [simp]:
  "I w \<Longrightarrow> active i \<Longrightarrow> wf_pi (sourcePortIdentity m) \<Longrightarrow> I (snd (pdelay_req_processMessage P i m w))"
  by (simp add: pdelay_req_processMessage_def Let_def split_beta)

lemma I_verify_duplicate [simp]: "I w \<Longrightarrow> active i \<Longrightarrow> I (verify_duplicate P i m old w)"
  by (simp add: verify_duplicate_def Let_def split_beta)

lemma I_pdelay_resp_process [simp]: "I w \<Longrightarrow> active i \<Longrightarrow> I (snd (pdelay_resp_processMessage P i m w))"
  by (simp add: pdelay_resp_processMessage_def Let_def split: option.split)

lemma I_pdelay_fup_process [simp]: "I w \<Longrightarrow> active i \<Longrightarrow> I (snd (pdelay_fup_processMessage P i m w))"
  by (simp add: pdelay_fup_processMessage_def Let_def split: option.split)

lemma I_signalled:
  "I w \<Longrightarrow> (I w \<Longrightarrow> I (f w)) \<Longrightarrow> (n \<noteq> sigMsgInterval_NoChange \<Longrightarrow> I w \<Longrightarrow> I (g w)) \<Longrightarrow> I (signalled n f g w)"
  by (simp add: signalled_def)

lemma I_build [simp]: "I w \<Longrightarrow> active i \<Longrightarrow> I (snd (buildPTPMessage P i buf sz remote w))"
  by (auto simp add: buildPTPMessage_def Let_def split_beta dest: rx_source_wf
      split: option.splits bind_splits sum.splits if_splits)

end

context slave_predicate
begin

lemma I_signalling_process [simp]: "I w \<Longrightarrow> active i \<Longrightarrow> I (snd (signalling_processMessage P i m w))"
  unfolding signalling_processMessage_def Let_def
  by (auto intro!: I_signalled simp add: sigMsgInterval_NoChange_octet)

end

context role_predicate
begin

lemma I_followup_process [simp]: "I w \<Longrightarrow> active i \<Longrightarrow> I (snd (followup_processMessage P i m w))"
  by (simp add: followup_processMessage_def Let_def split_beta split: option.split)

lemma I_msg_process [simp]:
  "I w \<Longrightarrow> active i \<Longrightarrow> wf_message m \<Longrightarrow> I (snd (msg_process P i s m w))"
  by (cases m) (simp_all add: wf_message_def msg_source_def)

lemma I_port_processMessage [simp]:
  assumes "I w" and "active i"
  shows "I (port_processMessage P i buf sz remote s w)"
proof -
  obtain r w' where b: "buildPTPMessage P i buf sz remote w = (r, w')" by fastforce
  then have "I w'" using I_build [OF assms, of buf sz remote] by simp
  moreover have "wf_message m" if "r = Inr m" for m
    using b that by (intro buildPTPMessage_wf [of P i buf sz remote w]) simp
  ultimately show ?thesis
    using assms(2) b by (auto simp add: port_processMessage_def split: sum.split)
qed

end

section \<open>Measured link delay\<close>

lemma ts_diff_ns: "ts_diff a b = word_of_int (ts_ns a - ts_ns b)"
  unfolding ts_diff_def ts_ns_def
  by (simp add: push_bit_eq_mult algebra_simps)

lemma plausible_rate:
  assumes "\<bar>r - 1\<bar> \<le> 1 / 1000"
  shows "fp_lt (fround DOUBLE (998 / 1000)) (Fin r)" "fp_lt (Fin r) (fround DOUBLE (1002 / 1000))"
proof -
  have "fp_lt (fround DOUBLE (998 / 1000)) (Fin (999 / 1000))" "fp_lt (Fin (1001 / 1000)) (fround DOUBLE (1002 / 1000))"
    by code_simp+
  moreover have "999 / 1000 \<le> r" "r \<le> 1001 / 1000" using assms by linarith+
  ultimately show "fp_lt (fround DOUBLE (998 / 1000)) (Fin r)" "fp_lt (Fin r) (fround DOUBLE (1002 / 1000))"
    by (cases "fround DOUBLE (998 / 1000)"; cases "fround DOUBLE (1002 / 1000)"; simp)+
qed

lemma turn_around_bounds:
  assumes "0 \<le> T" and "T < 2 ^ 40" and "\<bar>r - 1\<bar> \<le> (1 :: rat) / 1000"
  shows "0 \<le> of_int T * r" "of_int T * r \<le> 2199023255552"
proof -
  have r: "0 \<le> r" "r \<le> 2" using assms(3) by linarith+
  have "rat_of_int T < 2 ^ 40" using assms(2) by (metis of_int_less_iff of_int_numeral of_int_power)
  then show "0 \<le> of_int T * r" "of_int T * r \<le> 2199023255552"
    using assms(1) r mult_mono [of "rat_of_int T" "2 ^ 40" r 2] by simp_all
qed

text \<open>The turn-around time in local time, to within two nanoseconds.\<close>

lemma adjusted_turn_around_near:
  assumes "wf_arch A" and "0 \<le> T" and "T < 2 ^ 40" and "\<bar>r - 1\<bar> \<le> 1 / 1000"
  shows "\<bar>of_int (sint (adjusted_turn_around A (Fin r) (word_of_int T))) - of_int T * r\<bar> \<le> 2"
proof -
  let ?F = "fr_fmt A" and ?x = "of_int T * r"
  have F: "wf_fmt ?F" "53 \<le> fprec ?F" using assms(1) by (simp_all add: wf_arch_def)
  have "(2 :: int) ^ 53 \<le> 2 ^ fprec ?F" using F(2) by (intro power_increasing) simp_all
  then have T: "fp_of_int ?F T = Fin (of_int T)" using assms(2,3) by (intro fp_of_int_exact F) simp
  note x = turn_around_bounds [OF assms(2-4)]
  note x(2)
  also have "(2199023255552 :: rat) < pow2 53" by (simp add: pow2_def)
  also have "\<dots> \<le> pow2 (int (fprec ?F))" using F(2) by simp
  finally obtain y where y: "fround ?F ?x = Fin y" "\<bar>y - ?x\<bar> \<le> 1"
    using fround_near [OF F(1), of ?x] x(1) by auto
  have n: "\<bar>of_int (ftrunc y) - y\<bar> < 1" by (rule ftrunc_near)
  have "y \<le> 2199023255553" "- 1 \<le> y" using y(2) x unfolding abs_le_iff by simp_all
  then have "rat_of_int (ftrunc y) \<le> of_int 2199023255554" "of_int (- 2) \<le> rat_of_int (ftrunc y)"
    using n by simp_all
  then have tr: "ftrunc y \<le> 2199023255554" "- 2 \<le> ftrunc y" by (simp_all only: of_int_le_iff)
  have "adjusted_turn_around A (Fin r) (word_of_int T) = word_of_int (ftrunc y)"
    using plausible_rate [OF assms(4)] T y(1) tr assms(2,3)
    by (simp add: adjusted_turn_around_def to_i64_def uint_word_of_int)
  moreover have "sint (word_of_int (ftrunc y) :: u64) = ftrunc y"
    using tr by (simp add: sint_u64)
  ultimately show ?thesis using n y(2) by simp
qed

lemma sdiv64_near: "\<bar>2 * sint (sdiv64 a 2) - sint a\<bar> \<le> 1" "\<bar>sint (sdiv64 a 2)\<bar> \<le> 2 ^ 62"
proof -
  have b: "- (2 ^ 63) \<le> sint a" "sint a < 2 ^ 63" using sint_greater_eq [of a] sint_less [of a] by simp_all
  have "sint (sdiv64 a 2) = sgn (sint a) * (\<bar>sint a\<bar> div 2)"
    unfolding sdiv64_def using b by (intro sint_u64) (auto simp add: sgn_if)
  then show "\<bar>2 * sint (sdiv64 a 2) - sint a\<bar> \<le> 1" "\<bar>sint (sdiv64 a 2)\<bar> \<le> 2 ^ 62"
    using b by (auto simp add: sgn_if abs_le_iff)
qed

lemma measured_link_delay_near:
  assumes "wf_arch A" and "\<bar>r - 1\<bar> \<le> 1 / 1000"
    and "0 \<le> ts_ns t3 - ts_ns t2" and "ts_ns t3 - ts_ns t2 < 2 ^ 40" and "\<bar>ts_ns t4 - ts_ns t1\<bar> < 2 ^ 62"
  shows "\<bar>2 * of_int (sint (measured_link_delay A (Fin r) t1 t2 t3 t4)) -
    (of_int (ts_ns t4 - ts_ns t1) - of_int (ts_ns t3 - ts_ns t2) * r)\<bar> \<le> 3"
proof -
  define T D where "T = ts_ns t3 - ts_ns t2" and "D = ts_ns t4 - ts_ns t1"
  define B where "B = sint (adjusted_turn_around A (Fin r) (word_of_int T))"
  have near: "\<bar>of_int B - of_int T * r\<bar> \<le> 2"
    unfolding B_def by (intro adjusted_turn_around_near assms(1,2)) (simp_all only: T_def assms(3,4))
  have "0 \<le> of_int T * r" "of_int T * r \<le> 2199023255552"
    by (intro turn_around_bounds assms(2); simp only: T_def assms(3,4))+
  then have "rat_of_int B \<le> of_int 2199023255554" "of_int (- 2) \<le> rat_of_int B"
    using near unfolding abs_le_iff by simp_all
  then have B: "B \<le> 2199023255554" "- 2 \<le> B" by (simp_all only: of_int_le_iff)
  have "ts_diff t4 t1 - adjusted_turn_around A (Fin r) (ts_diff t3 t2) = word_of_int (D - B)"
    unfolding ts_diff_ns T_def [symmetric] D_def [symmetric] B_def by simp
  moreover have "sint (word_of_int (D - B) :: u64) = D - B"
    using B assms(5) unfolding D_def [symmetric] by (intro sint_u64) simp_all
  ultimately have "\<bar>2 * sint (measured_link_delay A (Fin r) t1 t2 t3 t4) - (D - B)\<bar> \<le> 1"
    unfolding measured_link_delay_def using sdiv64_near [of "word_of_int (D - B)"] by simp
  then have "\<bar>rat_of_int (2 * sint (measured_link_delay A (Fin r) t1 t2 t3 t4) - (D - B))\<bar> \<le> 1"
    by (metis of_int_1 of_int_abs of_int_le_iff)
  then show ?thesis using near unfolding T_def [symmetric] D_def [symmetric] by simp
qed

lemma pdelay_measure_fields:
  assumes "\<not> automotive_profile p"
  shows "one_way_delay (pdelay_measure A t1 t2 t3 t4 p) = measured_link_delay A (peer_rate_offset p) t1 t2 t3 t4"
    "asCapable (pdelay_measure A t1 t2 t3 t4 p) = fst (setLinkDelay (measured_link_delay A (peer_rate_offset p) t1 t2 t3 t4) p)"
    "pdelay_count (pdelay_measure A t1 t2 t3 t4 p) = pdelay_count p + 1"
    "peer_offset_init (pdelay_measure A t1 t2 t3 t4 p)"
    "peer_offset_ts_mine (pdelay_measure A t1 t2 t3 t4 p) = t1" "peer_offset_ts_theirs (pdelay_measure A t1 t2 t3 t4 p) = t2"
  using assms
  by (simp_all add: pdelay_measure_def setLinkDelay_def setPeerOffset_def setAsCapable_def update_peer_rate_def Let_def)

lemma setLinkDelay_abs:
  assumes "\<bar>sint d\<bar> \<le> 2 ^ 62"
  shows "fst (setLinkDelay d p) \<longleftrightarrow> \<bar>sint d\<bar> \<le> sint (neighbor_prop_delay_thresh p)"
proof -
  have "sint (- d) = - sint d"
    using sint_u64 [of "- sint d"] assms by (simp add: abs_le_iff)
  then show ?thesis by (simp add: setLinkDelay_def Let_def)
qed

text \<open>C7. The peer delay measurement of a port without automotive profile. With a peer rate within 1000 ppm
  and a turn-around time below 2 ^ 40 ns, twice the stored link delay is the round trip time less the
  turn-around time in local time, up to 3 ns for all roundings together. The port is \<open>asCapable\<close> exactly
  when the delay, by its absolute value, does not exceed the threshold; the measurement is counted and its
  two times are kept for the next rate computation.\<close>

theorem pdelay_measure_link_delay:
  assumes "wf_arch A" and "\<not> automotive_profile p" and "peer_rate_offset p = Fin r" and "\<bar>r - 1\<bar> \<le> 1 / 1000"
    and "0 \<le> ts_ns t3 - ts_ns t2" and "ts_ns t3 - ts_ns t2 < 2 ^ 40" and "\<bar>ts_ns t4 - ts_ns t1\<bar> < 2 ^ 62"
    and "p' = pdelay_measure A t1 t2 t3 t4 p"
  shows "\<bar>2 * of_int (sint (one_way_delay p')) -
      (of_int (ts_ns t4 - ts_ns t1) - of_int (ts_ns t3 - ts_ns t2) * r)\<bar> \<le> 3 \<and>
    (asCapable p' \<longleftrightarrow> \<bar>sint (one_way_delay p')\<bar> \<le> sint (neighbor_prop_delay_thresh p)) \<and>
    pdelay_count p' = pdelay_count p + 1 \<and>
    peer_offset_init p' \<and> peer_offset_ts_mine p' = t1 \<and> peer_offset_ts_theirs p' = t2"
proof -
  have "\<bar>sint (measured_link_delay A (peer_rate_offset p) t1 t2 t3 t4)\<bar> \<le> 2 ^ 62"
    unfolding measured_link_delay_def by (rule sdiv64_near)
  then show ?thesis
    unfolding assms(8) pdelay_measure_fields [OF assms(2)]
    using measured_link_delay_near [OF assms(1,4-7)] pdelay_measure_fields(4) [OF assms(2)]
    by (simp only: setLinkDelay_abs assms(3) simp_thms)
qed

section \<open>Properties\<close>

text \<open>An Announce message that a port may follow.\<close>

definition acceptable :: "ClockIdentity \<Rightarrow> PTPMessageAnnounce \<Rightarrow> bool" where
  "acceptable own m \<longleftrightarrow> \<not> 255 \<le> stepsRemoved m \<and> \<not> cid_eq (clock_id (sourcePortIdentity m)) own \<and> \<not> pt_has own (ann_tlv m)"

text \<open>C9. An Announce message is taken over, and a state change event scheduled, exactly when it has
  fewer than 255 steps removed, was not sent by this clock and does not have this clock in its path trace.
  In any case the receipt timeout is restarted as the only one, and neither the state of the port nor the
  timestamper is touched and nothing is sent.\<close>

theorem announce_accepted:
  assumes "timers_work P" and "tq_inv (timerq (clk w))" and "w' = snd (announce_processMessage P i m w)"
  shows "qualified_announce (ports w' i) =
      (if acceptable (clock_identity (clk w)) m then Some m else qualified_announce (ports w i)) \<and>
    pending STATE_CHANGE_EVENT w' =
      (if acceptable (clock_identity (clk w)) m then add_mset (timer i STATE_CHANGE_EVENT 16000000) (pending STATE_CHANGE_EVENT w)
       else pending STATE_CHANGE_EVENT w) \<and>
    pending ANNOUNCE_RECEIPT_TIMEOUT_EXPIRES w' =
      {#timer i ANNOUNCE_RECEIPT_TIMEOUT_EXPIRES (receipt_wait P (log_mean_announce_interval (ports w i)))#} \<and>
    port_state (ports w' i) = port_state (ports w i) \<and> sent w' = sent w \<and> hw_log w' = hw_log w"
  unfolding assms(3) using assms(1,2)
  by (simp add: announce_processMessage_def acceptable_def incCounter_def Let_def del: not_le)

text \<open>What a Sync and a Follow-Up message have to share.\<close>

definition followup_matches :: "PTPMessageSync \<Rightarrow> PTPMessageFollowUp \<Rightarrow> bool" where
  "followup_matches s m \<longleftrightarrow> sequenceId s = sequenceId m \<and> \<not> pi_neq (sourcePortIdentity s) (sourcePortIdentity m)"

text \<open>C10. A Follow-Up message that does not match the stored Sync message never reaches the clock controller:
  no command to the timestamper and no report to clients. The Sync message is dropped and the failure
  counted; when the count reaches the threshold the port becomes master, whatever the priority of the clock
  is, also when \<open>priority1\<close> is 255.\<close>

theorem followup_unmatched:
  assumes "last_sync (ports w i) = Some s" and "\<not> followup_matches s m"
    and "port_state (ports w i) \<noteq> PTP_DISABLED" and "port_state (ports w i) \<noteq> PTP_FAULTY" and "asCapable (ports w i)"
    and "w' = snd (followup_processMessage P i m w)"
  shows "last_sync (ports w' i) = None \<and> hw_log w' = hw_log w \<and> ipc_log w' = ipc_log w \<and>
    (if wrongSeqIDCounter (ports w i) + 1 < sync_receipt_thresh (ports w i)
     then wrongSeqIDCounter (ports w' i) = wrongSeqIDCounter (ports w i) + 1 \<and>
       port_state (ports w' i) = port_state (ports w i)
     else wrongSeqIDCounter (ports w' i) = 0 \<and> port_state (ports w' i) = PTP_MASTER)"
  unfolding assms(6) using assms(1-5)
  by (simp add: followup_processMessage_def followup_matches_def incWrongSeqIDCounter_def becomeMaster_def timer_ops Let_def)

text \<open>The type octet of each kind of message.\<close>

definition msg_kind :: "PTPMessage \<Rightarrow> MessageType" where
  "msg_kind m =
     (case m of
        MsgAnnounce _ \<Rightarrow> ANNOUNCE_MESSAGE | MsgSync _ \<Rightarrow> SYNC_MESSAGE | MsgFollowUp _ \<Rightarrow> FOLLOWUP_MESSAGE
      | MsgPathDelayReq _ \<Rightarrow> PATH_DELAY_REQ_MESSAGE | MsgPathDelayResp _ \<Rightarrow> PATH_DELAY_RESP_MESSAGE
      | MsgPathDelayRespFollowUp _ \<Rightarrow> PATH_DELAY_FOLLOWUP_MESSAGE | MsgSignalling _ \<Rightarrow> SIGNALLING_MESSAGE)"

lemma parse_message_kind: "parse_message blank buf sz mt src seq ts cnt = Inr m \<Longrightarrow> msg_kind m = mt"
  by (auto simp add: parse_message_def msg_kind_def read_or_fail_Inr split: if_splits)

text \<open>Numbers of two octets are big-endian on the wire.\<close>

lemma ntohs_be_val: "length bs = 2 \<Longrightarrow> uint (PLAT_ntohs (of_le bs)) = be_val bs"
  using be_val_htons [of "PLAT_ntohs (of_le bs)"] by (simp add: bytes)

lemma rx_source_frame:
  "rx_sourcePortIdentity buf = Some src \<Longrightarrow>
     cid (clock_id src) = take 8 (drop 20 buf) \<and> uint (portNumber src) = be_val (take 2 (drop 28 buf))"
  by (auto simp add: rx_sourcePortIdentity_def PortIdentity_wire_def cid_set_def get_def ntohs_be_val
      PTP_COMMON_HDR_SOURCE_CLOCK_ID_def PTP_COMMON_HDR_SOURCE_PORT_ID_def PTP_CLOCK_IDENTITY_LENGTH_def split: bind_splits if_splits)

lemma rx_sequence_frame: "rx_sequenceId buf = Some seq \<Longrightarrow> uint seq = be_val (take 2 (drop 30 buf))"
  by (auto simp add: rx_sequenceId_def get_def ntohs_be_val PTP_COMMON_HDR_SEQUENCE_ID_def split: bind_splits if_splits)

text \<open>C12. A message that \<open>buildPTPMessage\<close> returns is of the class that the low four bits of the first octet
  name and comes from a frame whose transport specific bits are 1; its source identity, source port number and sequence
  number are those of octets 20 to 27, 28 and 29, and 30 and 31 of the frame; and every identity in it has eight octets:
  the source of any message, the requesting port of a response and of its follow-up, and the grandmaster and each step
  of the path trace of an Announce message.\<close>

theorem buildPTPMessage_typed:
  assumes "fst (buildPTPMessage P i buf sz remote w) = Inr m"
  shows "msg_kind m = buf ! 0 AND 0xF \<and> drop_bit 4 (buf ! 0) = 1 \<and> wf_message m \<and>
    cid (clock_id (msg_source m)) = take 8 (drop 20 buf) \<and> uint (portNumber (msg_source m)) = be_val (take 2 (drop 28 buf)) \<and>
    uint (msg_sequence m) = be_val (take 2 (drop 30 buf))"
proof -
  obtain t src seq where r: "get 0 1 buf = Some t" "rx_sourcePortIdentity buf = Some src" "rx_sequenceId buf = Some seq"
    using assms by (auto simp add: buildPTPMessage_def split: option.splits bind_splits)
  then have t: "hd t = buf ! 0"
    by (auto simp add: get_def hd_conv_nth neq_Nil_conv Suc_le_length_iff split: if_splits)
  obtain ts cnt where m: "parse_message (msg_mem P) buf sz (buf ! 0 AND 0xF) src seq ts cnt = Inr m"
    and b: "drop_bit 4 (buf ! 0) AND 0x0F = 1"
    using assms r unfolding buildPTPMessage_def
    by (auto simp add: t Let_def split_beta split: sum.splits if_splits)
  have "drop_bit 4 (buf ! 0) AND 0x0F = drop_bit 4 (buf ! 0)"
  proof -
    have "(0x0F :: u8) = mask 4" by (simp add: mask_eq_exp_minus_1)
    then show ?thesis by (simp only: flip: take_bit_eq_mask) (simp add: take_bit_drop_bit take_bit_word_eq_self)
  qed
  then show ?thesis
    using b buildPTPMessage_wf [OF assms] parse_message_kind [OF m] parse_message_source [OF m]
      rx_source_frame [OF r(2)] rx_sequence_frame [OF r(3)] by auto
qed

text \<open>A Signalling message with a sync interval other than the three special values sets the interval and
  leaves exactly one sync interval timer, whose time is at least the granularity of the timers; it does
  not change the state of the port.\<close>

theorem signalling_starts_timers:
  assumes "timers_work P" and "tq_inv (timerq (clk w))"
    and "w' = snd (signalling_processMessage P i m w)"
    and "timeSyncInterval (sig_tlv m) \<notin> {sigMsgInterval_Initial, sigMsgInterval_NoSend, sigMsgInterval_NoChange}"
  shows "log_mean_sync_interval (ports w' i) = timeSyncInterval (sig_tlv m) \<and>
    pending SYNC_INTERVAL_TIMEOUT_EXPIRES w' =
      {#timer i SYNC_INTERVAL_TIMEOUT_EXPIRES (signalled_wait P (timeSyncInterval (sig_tlv m)))#} \<and>
    EVENT_TIMER_GRANULARITY \<le> signalled_wait P (timeSyncInterval (sig_tlv m)) \<and>
    port_state (ports w' i) = port_state (ports w i)"
  unfolding assms(3) using assms(1,2,4)
  by (simp add: signalling_processMessage_def signalled_def signalled_wait_def timer_ops resetInitPDelayInterval_def timers_workD Let_def)

text \<open>The third response in a row from another port than the stored response to the same request: the peer delay mechanism is halted and
  its interval timer is gone, a timer of five minutes is added.\<close>

lemma duplicate_responses_stop:
  assumes "timers_work P" and "tq_inv (timerq (clk w))" and "trylock_pdelay_rx P (ncalls w)"
    and "port_state (ports w i) \<in> {PTP_INITIALIZING, PTP_MASTER, PTP_SLAVE}"
    and "last_pdelay_resp (ports w i) = Some old" and "sequenceId old = sequenceId m"
    and "portNumber (sourcePortIdentity m) \<noteq> portNumber (sourcePortIdentity old)"
    and "duplicate_resp_counter (ports w i) = 2" and "uint (last_invalid_seqid (ports w i)) + 1 = uint (sequenceId m)"
    and "w' = snd (pdelay_resp_processMessage P i m w)"
  shows "pdelay_halted (ports w' i) \<and> \<not> pdelay_started (ports w' i) \<and>
    pending PDELAY_INTERVAL_TIMEOUT_EXPIRES w' = {#} \<and>
    pending PDELAY_RESP_PEER_MISBEHAVING_TIMEOUT_EXPIRES w' =
      add_mset (timer i PDELAY_RESP_PEER_MISBEHAVING_TIMEOUT_EXPIRES MISBEHAVING_TIMEOUT)
        (pending PDELAY_RESP_PEER_MISBEHAVING_TIMEOUT_EXPIRES w) \<and>
    tx_requests (ports w' i) = tx_requests (ports w i) \<and> fault w' = fault w \<and> port_list (clk w') = port_list (clk w)"
proof -
  have *: "w' = upd_port i (last_pdelay_resp_update (\<lambda>_. Some (m\<lparr>gc := False\<rparr>)))
      (upd_port i (last_invalid_seqid_update (\<lambda>_. sequenceId m))
        (addEventTimerLocked P i PDELAY_RESP_PEER_MISBEHAVING_TIMEOUT_EXPIRES MISBEHAVING_TIMEOUT
          (stopPDelay P i (upd_port i (\<lambda>_. snd (incrementDuplicateRespCounter (ports (incCounter ieee8021AsPortStatRxPdelayResponse_update i w) i)))
            (tick (incCounter ieee8021AsPortStatRxPdelayResponse_update i w))))))"
    using assms
    by (auto simp add: pdelay_resp_processMessage_def verify_duplicate_def incrementDuplicateRespCounter_def
        DUPLICATE_RESP_THRESH_def incCounter_def Let_def)
  have h: "pdelay_halted (ports w' i)" "\<not> pdelay_started (ports w' i)"
    unfolding * by (simp_all add: stopPDelay_def)
  moreover have "pending PDELAY_INTERVAL_TIMEOUT_EXPIRES w' = {#}"
    "pending PDELAY_RESP_PEER_MISBEHAVING_TIMEOUT_EXPIRES w' =
      add_mset (timer i PDELAY_RESP_PEER_MISBEHAVING_TIMEOUT_EXPIRES MISBEHAVING_TIMEOUT)
        (pending PDELAY_RESP_PEER_MISBEHAVING_TIMEOUT_EXPIRES w)"
    unfolding * using assms(1,2) by (simp_all add: stopPDelay_def incCounter_def)
  moreover have "tx_requests (ports w' i) = tx_requests (ports w i)" "fault w' = fault w" "port_list (clk w') = port_list (clk w)"
    unfolding * by (simp_all add: stopPDelay_def incCounter_def)
  ultimately show ?thesis by blast
qed

section \<open>Witnesses\<close>

theorem pdelay_measure_link_delay_witness:
  "\<bar>2 * of_int (sint (one_way_delay (pdelay_measure sample_platform (Timestamp_new 1000 5 0) (Timestamp_new 700 9 0)
      (Timestamp_new 2700 9 0) (Timestamp_new 4000 5 0) sample_port))) - (1000 :: rat)\<bar> \<le> 3 \<and>
   pdelay_count (pdelay_measure sample_platform (Timestamp_new 1000 5 0) (Timestamp_new 700 9 0)
      (Timestamp_new 2700 9 0) (Timestamp_new 4000 5 0) sample_port) = pdelay_count sample_port + 1"
proof -
  have "ts_ns (Timestamp_new 1000 5 0) = 5000001000" "ts_ns (Timestamp_new 700 9 0) = 9000000700"
    "ts_ns (Timestamp_new 2700 9 0) = 9000002700" "ts_ns (Timestamp_new 4000 5 0) = 5000004000"
    by code_simp+
  moreover have "\<not> automotive_profile sample_port" "peer_rate_offset sample_port = Fin 1"
    "neighbor_prop_delay_thresh sample_port = 800"
    by (simp_all add: sample_port_def)
  ultimately show ?thesis
    using pdelay_measure_link_delay [OF sample_platform_wf(1), of sample_port 1 "Timestamp_new 2700 9 0"
      "Timestamp_new 700 9 0" "Timestamp_new 4000 5 0" "Timestamp_new 1000 5 0"] by simp
qed

definition sample_sync :: PTPMessageSync where
  "sample_sync = PTPMessageCommon.extend sample_message (PTPMessageSync.fields (Timestamp_new 0 0 0))"

definition sample_followup :: PTPMessageFollowUp where
  "sample_followup = PTPMessageCommon.extend (sample_message\<lparr>messageType := FOLLOWUP_MESSAGE, sequenceId := 1\<rparr>)
     (PTPMessageFollowUp.fields (Timestamp_new 500 20 0) FollowUpTLV_new)"

definition sample_signalling :: PTPMessageSignalling where
  "sample_signalling = setintervals sigMsgInterval_NoChange (- 3) sigMsgInterval_NoChange
     (PTPMessageCommon.extend (sample_message\<lparr>messageType := SIGNALLING_MESSAGE\<rparr>)
       (PTPMessageSignalling.fields 0xFF SignallingTLV_new))"

definition sample_resp :: PTPMessagePathDelayResp where
  "sample_resp = PTPMessageCommon.extend (sample_message\<lparr>messageType := PATH_DELAY_RESP_MESSAGE, sequenceId := 7\<rparr>)
     (PTPMessagePathDelayResp.fields (sourcePortIdentity sample_message) (Timestamp_new 500 20 0))"

lemmas sample_message_defs = sample_sync_def sample_followup_def sample_signalling_def sample_resp_def sample_message_def
  PTPMessageCommon.defs PTPMessageSync.defs PTPMessageFollowUp.defs PTPMessageSignalling.defs PTPMessagePathDelayResp.defs

theorem announce_accepted_witness:
  "qualified_announce (ports (snd (announce_processMessage sample_platform 0 (sample_ann\<lparr>stepsRemoved := 255\<rparr>) sample_world)) 0) = None"
  using announce_accepted [OF sample_platform_wf(2) sample_world_tq refl, of 0 "sample_ann\<lparr>stepsRemoved := 255\<rparr>"]
  by (simp add: acceptable_def sample_port_def)

theorem followup_unmatched_witness:
  "port_state (ports (snd (followup_processMessage sample_platform 0 sample_followup
     (upd_port 0 (\<lambda>p. p\<lparr>last_sync := Some sample_sync, wrongSeqIDCounter := 7\<rparr>)
       (upd_clk (priority1_update (\<lambda>_. 255)) sample_world)))) 0) = PTP_MASTER"
  using followup_unmatched [of "upd_port 0 (\<lambda>p. p\<lparr>last_sync := Some sample_sync, wrongSeqIDCounter := 7\<rparr>)
      (upd_clk (priority1_update (\<lambda>_. 255)) sample_world)" 0 sample_sync sample_followup _ sample_platform]
  by (simp add: followup_matches_def sample_message_defs sample_port_def)

theorem signalling_starts_timers_witness:
  "pending SYNC_INTERVAL_TIMEOUT_EXPIRES (snd (signalling_processMessage sample_platform 0 sample_signalling sample_world)) =
     {#timer 0 SYNC_INTERVAL_TIMEOUT_EXPIRES (signalled_wait sample_platform (- 3))#}"
  using signalling_starts_timers [OF sample_platform_wf(2) sample_world_tq refl, of sample_signalling 0]
  by (simp add: sample_message_defs setintervals_def sigMsgInterval_Initial_def sigMsgInterval_NoSend_def sigMsgInterval_NoChange_def)

definition sample_frame :: octets where
  "sample_frame = [0x12, 2, 0, 54] @ replicate 16 0 @ [1, 2, 3, 4, 5, 6, 7, 8, 0, 9, 1, 2] @ replicate 96 0"

lemma sample_frame_built:
  "\<exists>m. fst (buildPTPMessage sample_platform 0 sample_frame 54 (local_addr sample_port) sample_world) = Inr m"
proof -
  have "\<not> (case fst (buildPTPMessage sample_platform 0 sample_frame 54 (local_addr sample_port) sample_world) of Inl e \<Rightarrow> True | Inr m \<Rightarrow> False)"
    by code_simp
  then show ?thesis by (simp split: sum.splits)
qed

theorem buildPTPMessage_typed_witness:
  "\<exists>m. fst (buildPTPMessage sample_platform 0 sample_frame 54 (local_addr sample_port) sample_world) = Inr m \<and>
     msg_kind m = PATH_DELAY_REQ_MESSAGE \<and> cid (clock_id (msg_source m)) = [1, 2, 3, 4, 5, 6, 7, 8] \<and>
     uint (portNumber (msg_source m)) = 9 \<and> uint (msg_sequence m) = 258"
proof -
  obtain m where m: "fst (buildPTPMessage sample_platform 0 sample_frame 54 (local_addr sample_port) sample_world) = Inr m"
    using sample_frame_built by blast
  moreover have "sample_frame ! 0 AND 0xF = PATH_DELAY_REQ_MESSAGE" by (simp add: sample_frame_def PATH_DELAY_REQ_MESSAGE_def)
  moreover have "take 8 (drop 20 sample_frame) = [1, 2, 3, 4, 5, 6, 7, 8]" "be_val (take 2 (drop 28 sample_frame)) = 9"
    "be_val (take 2 (drop 30 sample_frame)) = 258" by (simp_all add: sample_frame_def)
  ultimately show ?thesis using buildPTPMessage_typed [OF m] by simp
qed

end
