(* ===== verification/Port_Events.thy ===== *)
theory Port_Events
  imports Ptp_Process
begin

text \<open>
  The events of a port: the default actions of \<open>CommonPort::processEvent\<close> with the best master clock
  selection (\<open>common/common_port.cpp\<close>), those of \<open>EtherPort::_processEvent\<close> and the listening thread
  \<open>openPort\<close> (\<open>common/ether_port.cpp\<close>), and the delivery of a timer (\<open>timerq_handler\<close> of
  \<open>common/ieee1588clock.cpp\<close>). Every handler returns whether it handled the event, and the new world.
\<close>

section \<open>Best master clock selection\<close>

definition recommendState :: "platform \<Rightarrow> nat \<Rightarrow> PortState \<Rightarrow> bool \<Rightarrow> world \<Rightarrow> world" where
  "recommendState P i state changed_external_master w =
     (let (reset_sync, w) =
        (if state = PTP_MASTER
         then if port_state (ports w i) \<noteq> PTP_MASTER
              then (True, becomeMaster P i True (upd_port i (port_state_update (\<lambda>_. PTP_MASTER)) w))
              else (False, w)
         else if state = PTP_SLAVE
         then if port_state (ports w i) \<noteq> PTP_SLAVE
              then (True, becomeSlave P i True w)
              else if changed_external_master
              then (True, upd_clk (\<lambda>c. updateFUPInfo (newSyntonizationSetPoint c)) w)
              else (False, w)
         else (False, w))
      in if reset_sync then upd_port i (sync_count_update (\<lambda>_. 0)) w else w)"

text \<open>A pointer to an announce message is the number of the port whose \<open>qualified_announce\<close> it is.\<close>

definition calculateERBest :: "world \<Rightarrow> nat \<Rightarrow> nat option" where
  "calculateERBest w k = (case qualified_announce (ports w k) of None \<Rightarrow> None | Some _ \<Rightarrow> Some k)"

definition ebest_message :: "world \<Rightarrow> nat option \<Rightarrow> PTPMessageAnnounce option" where
  "ebest_message w EBest = (case EBest of None \<Rightarrow> None | Some k \<Rightarrow> qualified_announce (ports w k))"

definition port_inactive :: "world \<Rightarrow> nat \<Rightarrow> bool" where
  "port_inactive w k \<longleftrightarrow> port_state (ports w k) = PTP_DISABLED \<or> port_state (ports w k) = PTP_FAULTY"

text \<open>The bodies of the two loops, on the best announce message so far.\<close>

definition find_ebest :: "world \<Rightarrow> nat \<Rightarrow> nat option \<Rightarrow> nat option" where
  "find_ebest w k EBest =
     (if port_inactive w k then EBest
      else case ebest_message w EBest of
             None \<Rightarrow> calculateERBest w k
           | Some b \<Rightarrow>
               (case qualified_announce (ports w k) of
                  None \<Rightarrow> EBest
                | Some a \<Rightarrow> if ann_isBetterThan a b then calculateERBest w k else EBest))"

definition assign_role :: "platform \<Rightarrow> bool \<Rightarrow> nat \<Rightarrow> nat option \<times> world \<Rightarrow> nat option \<times> world" where
  "assign_role P changed_external_master k s =
     (case s of (EBest, w) \<Rightarrow>
        if port_inactive w k then (EBest, w)
        else if clock_isBetterThan (clk w) (ebest_message w EBest)
        then (None, recommendState P k PTP_MASTER changed_external_master w)
        else if EBest = calculateERBest w k
        then let w = recommendState P k PTP_SLAVE changed_external_master w
             in (EBest, case ebest_message w EBest of None \<Rightarrow> w | Some m \<Rightarrow> upd_clk (grandmaster_announced m) w)
        else (EBest, recommendState P k PTP_MASTER changed_external_master w))"

definition processStateChange :: "platform \<Rightarrow> world \<Rightarrow> world" where
  "processStateChange P w =
     (if priority1 (clk w) = 255 then w
      else
        let n = unat (number_ports (clk w)); ps = port_list (clk w)
        in case port_loop n 0 ps (find_ebest w) None of
             None \<Rightarrow> crash OutOfBounds w
           | Some EBest \<Rightarrow>
               (case ebest_message w EBest of
                  None \<Rightarrow> w
                | Some best \<Rightarrow>
                    let changed = (memcmp (grandmasterIdentity best) (getIdentityString (LastEBestIdentity (clk w))) \<noteq> 0);
                        w = (if changed
                             then upd_clk (LastEBestIdentity_update (\<lambda>_. cid_set (grandmasterIdentity best))) w else w);
                        w = (if clock_isBetterThan (clk w) (Some best) then upd_clk grandmaster_self w else w)
                    in case port_loop n 0 ps (assign_role P changed) (EBest, w) of
                         None \<Rightarrow> crash OutOfBounds w
                       | Some (_, w) \<Rightarrow> w))"

definition processSyncAnnounceTimeout :: "platform \<Rightarrow> nat \<Rightarrow> Event \<Rightarrow> world \<Rightarrow> world" where
  "processSyncAnnounceTimeout P i e w =
     (if priority1 (clk w) = 255 then w
      else
        let w = (if e = ANNOUNCE_RECEIPT_TIMEOUT_EXPIRES
                 then addEventTimerLocked P i ANNOUNCE_RECEIPT_TIMEOUT_EXPIRES
                        (announce_receipt_wait P (log_mean_announce_interval (ports w i))) w
                 else startSyncReceiptTimer P i (receipt_wait P (log_mean_sync_interval (ports w i))) w)
        in if port_state (ports w i) = PTP_MASTER then w
           else
             let w = upd_clk grandmaster_self w;
                 w = upd_port i (port_state_update (\<lambda>_. PTP_MASTER)) w;
                 ((system_time, device_time), w) = getDeviceTime P i w;
                 w = upd_clk (\<lambda>c. snd (calcLocalSystemClockRateDifference P device_time system_time c)) w;
                 w = upd_port i (qualified_announce_update (\<lambda>_. None)) w;
                 w = addEventTimerLocked P i SYNC_INTERVAL_TIMEOUT_EXPIRES 16000000 w
             in startAnnounce P i w)"

section \<open>Events of the Ethernet port\<close>

definition setStationState :: "nat \<Rightarrow> StationState_t \<Rightarrow> world \<Rightarrow> world" where
  "setStationState i st w = upd_port i (stationState_update (\<lambda>_. st)) w"

definition haltPdelay :: "bool \<Rightarrow> EtherPort \<Rightarrow> EtherPort" where
  "haltPdelay state p = p\<lparr>pdelay_halted := state\<rparr>"

text \<open>The initial signalling message and the receipt timer of a station that is not grandmaster.\<close>

definition initial_signalling :: "platform \<Rightarrow> nat \<Rightarrow> world \<Rightarrow> world" where
  "initial_signalling P i w =
     (if isGM (ports w i) then w
      else let w = send_signalling P i sigMsgInterval_NoSend (log_mean_sync_interval (ports w i)) sigMsgInterval_NoSend w
           in startSyncReceiptTimer P i (receipt_wait P (log_mean_sync_interval (ports w i))) w)"

definition event_powerup :: "platform \<Rightarrow> nat \<Rightarrow> world \<Rightarrow> bool \<times> world" where
  "event_powerup P i w =
     (let p = ports w i;
          w = (if automotive_profile p \<or> port_state p \<noteq> PTP_SLAVE \<and> port_state p \<noteq> PTP_MASTER
               then startPDelay P i w else w)
      in if \<not> thread_started P (ncalls w) then (False, tick w)
         else
      let w = tick w
      in if \<not> thread_started P (ncalls w) then (False, tick w)
         else
      let w = tick w
      in (True,
          if automotive_profile (ports w i)
          then initial_signalling P i (send_test_status P i (setStationState i STATION_STATE_ETHERNET_READY w))
          else w))"

text \<open>The reaction to a role that has been configured or is kept, shared by power-up and link-up.\<close>

definition resume_role :: "platform \<Rightarrow> nat \<Rightarrow> world \<Rightarrow> world" where
  "resume_role P i w =
     (if priority1 (clk w) = 255 \<or> port_state (ports w i) = PTP_SLAVE then becomeSlave P i True w
      else if port_state (ports w i) = PTP_MASTER then becomeMaster P i True w
      else addEventTimerLocked P i ANNOUNCE_RECEIPT_TIMEOUT_EXPIRES
             (announce_receipt_wait_d P (log_mean_announce_interval (ports w i))) w)"

definition automotive_linkup :: "platform \<Rightarrow> nat \<Rightarrow> world \<Rightarrow> world" where
  "automotive_linkup P i w =
     (let w = upd_port i (setAsCapable True) w;
          w = setStationState i STATION_STATE_ETHERNET_READY w;
          w = send_test_status P i w;
          w = upd_port i resetInitSyncInterval w;
          w = upd_port i (log_mean_announce_interval_update (\<lambda>_. 0)) w;
          w = upd_port i resetInitPDelayInterval w;
          w = initial_signalling P i w
      in upd_port i (\<lambda>p. p\<lparr>pdelay_count := 0, sync_count := 0, avbSyncState := (if isGM p then 1 else 2),
                           linkUpCount := (if testMode p then linkUpCount p + 1 else linkUpCount p)\<rparr>) w)"

definition event_linkup :: "platform \<Rightarrow> nat \<Rightarrow> world \<Rightarrow> bool \<times> world" where
  "event_linkup P i w =
     (let w = upd_port i (haltPdelay False) w;
          w = startPDelay P i w;
          w = resume_role P i w;
          w = (if automotive_profile (ports w i) then automotive_linkup P i w else w)
      in (True, timestamper_reset i w))"

definition event_linkdown :: "platform \<Rightarrow> nat \<Rightarrow> world \<Rightarrow> bool \<times> world" where
  "event_linkdown P i w =
     (let w = stopPDelay P i w;
          w = (if automotive_profile (ports w i) then w else upd_port i (setAsCapable False) w)
      in (True, if testMode (ports w i) then upd_port i (\<lambda>p. p\<lparr>linkDownCount := linkDownCount p + 1\<rparr>) w else w))"

definition event_receipt_timeout :: "platform \<Rightarrow> nat \<Rightarrow> Event \<Rightarrow> world \<Rightarrow> bool \<times> world" where
  "event_receipt_timeout P i e w =
     (if \<not> automotive_profile (ports w i) then (False, w)
      else (True, if e = SYNC_RECEIPT_TIMEOUT_EXPIRES
                  then startSyncReceiptTimer P i (receipt_wait P (log_mean_sync_interval (ports w i))) w else w))"

text \<open>The pdelay interval in three parts, between which the listening thread may run. The request is
  stored, with the pending timestamp, before it is sent; the port keeps a pointer to it, so what
  \<open>sendPort\<close> writes into the message shows there.\<close>

definition pdelay_interval_send ::
  "platform \<Rightarrow> nat \<Rightarrow> world \<Rightarrow> (u32 \<times> PTPMessagePathDelayReq) option \<times> world" where
  "pdelay_interval_send P i w =
     (let (m, w) = PTPMessagePathDelayReq_new P i w;
          m = m\<lparr>sourcePortIdentity := port_identity (ports w i), msg_timestamp := PDELAY_PENDING_TIMESTAMP\<rparr>;
          w = upd_port i (last_pdelay_req_update (\<lambda>_. Some m)) w;
          (r, w) = pdelay_req_transmit P i m None w
      in (r, case r of None \<Rightarrow> w | Some (speed, m) \<Rightarrow> upd_port i (last_pdelay_req_update (\<lambda>_. Some m)) w))"

definition pdelay_interval_timestamp ::
  "platform \<Rightarrow> nat \<Rightarrow> (u32 \<times> PTPMessagePathDelayReq) option \<Rightarrow> world \<Rightarrow> world" where
  "pdelay_interval_timestamp P i r w =
     (case r of
        None \<Rightarrow> w
      | Some (speed, m) \<Rightarrow>
          let (ok, m, w) = getTxTimestamp P i speed m w
          in upd_port i (last_pdelay_req_update (\<lambda>_. Some m)) w)"

definition pdelay_timeout :: "'a arch_scheme \<Rightarrow> u8 \<Rightarrow> u64" where
  "pdelay_timeout A interval =
     (let timeout = 3 * interval_i64 A interval
      in if sint EVENT_TIMER_GRANULARITY < sint timeout then timeout else EVENT_TIMER_GRANULARITY)"

definition pdelay_wait :: "'a arch_scheme \<Rightarrow> u8 \<Rightarrow> u64" where
  "pdelay_wait A interval =
     (let wait = interval_i64 A interval
      in if sint EVENT_TIMER_GRANULARITY < sint wait then wait else EVENT_TIMER_GRANULARITY)"

definition pdelay_interval_restart :: "platform \<Rightarrow> nat \<Rightarrow> world \<Rightarrow> world" where
  "pdelay_interval_restart P i w =
     (let w = addEventTimerLocked P i PDELAY_RESP_RECEIPT_TIMEOUT_EXPIRES
                (pdelay_timeout P (log_min_mean_pdelay_req_interval (ports w i))) w
      in startPDelayIntervalTimer P i (pdelay_wait P (log_min_mean_pdelay_req_interval (ports w i))) w)"

definition event_pdelay_interval :: "platform \<Rightarrow> nat \<Rightarrow> world \<Rightarrow> bool \<times> world" where
  "event_pdelay_interval P i w =
     (let (r, w) = pdelay_interval_send P i w
      in (False, pdelay_interval_restart P i (pdelay_interval_timestamp P i r w)))"

definition event_sync_interval :: "platform \<Rightarrow> nat \<Rightarrow> world \<Rightarrow> bool \<times> world" where
  "event_sync_interval P i w =
     (let (m, w) = PTPMessageSync_new P i w;
          m = m\<lparr>sourcePortIdentity := port_identity (ports w i)\<rparr>;
          (tx_succeed, m, w) = sync_sendPort P i m None w;
          w = (if automotive_profile (ports w i) \<and> port_state (ports w i) = PTP_MASTER then avb_sync P i w else w);
          w = (if tx_succeed
               then let f = PTPMessageFollowUp_new P i w;
                        f = f\<lparr>fup_tlv := fup_info (clk w), sourcePortIdentity := port_identity (ports w i),
                              sequenceId := sequenceId m, preciseOriginTimestamp := msg_timestamp m\<rparr>
                    in followup_sendPort P i f None w
               else w)
      in (False, w))"

text \<open>A follow-up whose processing was deferred; without one the process is aborted. The lock is
  recursive and held by this thread, so the \<open>tryPDelayRxLock\<close> in the message is left to the platform
  as for a message from the network.\<close>

definition event_pdelay_deferred :: "platform \<Rightarrow> nat \<Rightarrow> world \<Rightarrow> bool \<times> world" where
  "event_pdelay_deferred P i w =
     (case last_pdelay_resp_fwup (ports w i) of
        None \<Rightarrow> (False, crash Aborted w)
      | Some m \<Rightarrow>
          let (g, w) = pdelay_fup_processMessage P i m w
          in (False, if g then upd_port i (last_pdelay_resp_fwup_update (\<lambda>_. None)) w else w))"

definition event_pdelay_resp_timeout :: "nat \<Rightarrow> world \<Rightarrow> bool \<times> world" where
  "event_pdelay_resp_timeout i w =
     (let w = (if automotive_profile (ports w i) then w else upd_port i (setAsCapable False) w)
      in (False, upd_port i (pdelay_count_update (\<lambda>_. 0)) w))"

definition event_misbehaving_timeout :: "platform \<Rightarrow> nat \<Rightarrow> world \<Rightarrow> bool \<times> world" where
  "event_misbehaving_timeout P i w =
     (let w = upd_port i (haltPdelay False) w
      in (False, if port_state (ports w i) \<noteq> PTP_SLAVE \<and> port_state (ports w i) \<noteq> PTP_MASTER
                 then startPDelay P i w else w))"

definition event_sync_rate :: "platform \<Rightarrow> nat \<Rightarrow> world \<Rightarrow> bool \<times> world" where
  "event_sync_rate P i w =
     (let w = upd_port i (sync_rate_interval_timer_started_update (\<lambda>_. False)) w;
          p = ports w i;
          sendSignalMessage =
            (log_mean_sync_interval p \<noteq> operLogSyncInterval p \<or>
             log_min_mean_pdelay_req_interval p \<noteq> operLogPdelayReqInterval p);
          w = upd_port i (\<lambda>p. p\<lparr>log_mean_sync_interval := operLogSyncInterval p,
                                log_min_mean_pdelay_req_interval := operLogPdelayReqInterval p\<rparr>) w;
          p = ports w i
      in (False,
          if sendSignalMessage \<and> \<not> isGM p
          then let w = (if automotive_profile p
                        then send_signalling P i sigMsgInterval_NoChange (log_mean_sync_interval p) sigMsgInterval_NoChange w
                        else send_signalling P i (log_min_mean_pdelay_req_interval p) (log_mean_sync_interval p)
                               sigMsgInterval_NoChange w)
               in startSyncReceiptTimer P i (receipt_wait P (log_mean_sync_interval (ports w i))) w
          else w))"

definition ether_processEvent :: "platform \<Rightarrow> nat \<Rightarrow> Event \<Rightarrow> world \<Rightarrow> bool \<times> world" where
  "ether_processEvent P i e w =
     (case e of
        POWERUP \<Rightarrow> event_powerup P i w
      | INITIALIZE \<Rightarrow> event_powerup P i w
      | STATE_CHANGE_EVENT \<Rightarrow> (automotive_profile (ports w i), w)
      | LINKUP \<Rightarrow> event_linkup P i w
      | LINKDOWN \<Rightarrow> event_linkdown P i w
      | ANNOUNCE_RECEIPT_TIMEOUT_EXPIRES \<Rightarrow> event_receipt_timeout P i e w
      | SYNC_RECEIPT_TIMEOUT_EXPIRES \<Rightarrow> event_receipt_timeout P i e w
      | PDELAY_INTERVAL_TIMEOUT_EXPIRES \<Rightarrow> event_pdelay_interval P i w
      | SYNC_INTERVAL_TIMEOUT_EXPIRES \<Rightarrow> event_sync_interval P i w
      | FAULT_DETECTED \<Rightarrow> (False, if automotive_profile (ports w i) then w else upd_port i (setAsCapable False) w)
      | PDELAY_DEFERRED_PROCESSING \<Rightarrow> event_pdelay_deferred P i w
      | PDELAY_RESP_RECEIPT_TIMEOUT_EXPIRES \<Rightarrow> event_pdelay_resp_timeout i w
      | PDELAY_RESP_PEER_MISBEHAVING_TIMEOUT_EXPIRES \<Rightarrow> event_misbehaving_timeout P i w
      | SYNC_RATE_INTERVAL_TIMEOUT_EXPIRED \<Rightarrow> event_sync_rate P i w
      | _ \<Rightarrow> (False, w))"

section \<open>Events of the port\<close>

definition event_announce_interval :: "platform \<Rightarrow> nat \<Rightarrow> world \<Rightarrow> bool \<times> world" where
  "event_announce_interval P i w =
     (let w = (if asCapable (ports w i)
               then let (m, w) = PTPMessageAnnounce_new P i w
                    in announce_sendPort P i (m\<lparr>sourcePortIdentity := port_identity (ports w i)\<rparr>) None w
               else w)
      in (True, startAnnounceIntervalTimer P i (interval_u64 P (log_mean_announce_interval (ports w i))) w))"

text \<open>The end of a sync interval: the offset of the device clock from the system clock is reported.\<close>

definition sync_interval_report :: "platform \<Rightarrow> nat \<Rightarrow> world \<Rightarrow> world" where
  "sync_interval_report P i w =
     (let ((system_time, device_time), w) = getDeviceTime P i w;
          local_system_offset = TIMESTAMP_TO_NS system_time - TIMESTAMP_TO_NS device_time;
          (lsfo, c) = calcLocalSystemClockRateDifference P device_time system_time (clk w);
          w = upd_clk (\<lambda>_. c) w;
          p = ports w i
      in setMasterOffset P i 0 device_time (Fin 1) local_system_offset lsfo
           (sync_count p) (pdelay_count p) (port_state p) (asCapable p) w)"

definition processEvent :: "platform \<Rightarrow> nat \<Rightarrow> Event \<Rightarrow> world \<Rightarrow> bool \<times> world" where
  "processEvent P i e w =
     (case e of
        POWERUP \<Rightarrow> ether_processEvent P i e (resume_role P i w)
      | INITIALIZE \<Rightarrow> ether_processEvent P i e (resume_role P i w)
      | STATE_CHANGE_EVENT \<Rightarrow>
          let (r, w) = ether_processEvent P i e w
          in if r then (r, w) else (True, processStateChange P w)
      | ANNOUNCE_RECEIPT_TIMEOUT_EXPIRES \<Rightarrow>
          let (r, w) = ether_processEvent P i e (incCounter ieee8021AsPortStatAnnounceReceiptTimeouts_update i w)
          in if r then (r, w) else (True, processSyncAnnounceTimeout P i e w)
      | SYNC_RECEIPT_TIMEOUT_EXPIRES \<Rightarrow>
          let (r, w) = ether_processEvent P i e (incCounter ieee8021AsPortStatRxSyncReceiptTimeouts_update i w)
          in if r then (r, w) else (True, processSyncAnnounceTimeout P i e w)
      | ANNOUNCE_INTERVAL_TIMEOUT_EXPIRES \<Rightarrow> event_announce_interval P i w
      | SYNC_INTERVAL_TIMEOUT_EXPIRES \<Rightarrow>
          let (r, w) = (if asCapable (ports w i) then ether_processEvent P i e w else (True, w));
              w = sync_interval_report P i w;
              w = syncDone P i w
          in (r, startSyncIntervalTimer P i (interval_u64 P (log_mean_sync_interval (ports w i))) w)
      | _ \<Rightarrow> ether_processEvent P i e w)"

section \<open>Threads\<close>

definition timerq_handler :: "platform \<Rightarrow> event_descriptor_t \<Rightarrow> world \<Rightarrow> world" where
  "timerq_handler P d w = snd (processEvent P (ed_port d) (ed_event d) w)"

text \<open>What the listening thread gets from \<open>recv\<close>, and its loop on the frames that arrive. It ends after
  a fatal error, or when the thread is told to stop.\<close>

record received =
  rx_result :: net_result
  rx_remote :: LinkLayerAddress
  rx_buf :: octets
  rx_length :: int
  rx_link_speed :: u32

primrec listen :: "platform \<Rightarrow> nat \<Rightarrow> received list \<Rightarrow> world \<Rightarrow> world" where
  "listen P i [] w = w"
| "listen P i (r # rs) w =
     (if \<not> listening_thread_running (ports w i) then w
      else case rx_result r of
             net_succeed \<Rightarrow>
               listen P i rs (port_processMessage P i (rx_buf r) (rx_length r) (rx_remote r) (rx_link_speed r) w)
           | net_fatal \<Rightarrow> snd (processEvent P i FAULT_DETECTED w)
           | net_trfail \<Rightarrow> listen P i rs w)"

definition openPort :: "platform \<Rightarrow> nat \<Rightarrow> received list \<Rightarrow> world \<Rightarrow> world" where
  "openPort P i rs w = listen P i rs (upd_port i (listening_thread_running_update (\<lambda>_. True)) w)"

text \<open>The messages of the netlink socket (\<open>x_readEvent\<close> of \<open>linux/src/linux_hal_common.cpp\<close>): a link
  message carries the index of its interface and the flag \<open>IFF_RUNNING\<close>.\<close>

datatype nlmsg = NLMSG_DONE | NLMSG_ERROR | RTM_NEWLINK int bool | NLMSG_OTHER

definition link_change :: "platform \<Rightarrow> nat \<Rightarrow> bool \<Rightarrow> world \<Rightarrow> world" where
  "link_change P i up w =
     (if up \<noteq> linkUp (ports w i)
      then snd (processEvent P i (if up then LINKUP else LINKDOWN) (upd_port i (linkUp_update (\<lambda>_. up)) w))
      else w)"

fun x_readEvent :: "platform \<Rightarrow> nat \<Rightarrow> int \<Rightarrow> nlmsg list \<Rightarrow> world \<Rightarrow> world" where
  "x_readEvent P i index [] w = w"
| "x_readEvent P i index (NLMSG_DONE # ms) w = w"
| "x_readEvent P i index (NLMSG_ERROR # ms) w = w"
| "x_readEvent P i index (NLMSG_OTHER # ms) w = x_readEvent P i index ms w"
| "x_readEvent P i index (RTM_NEWLINK n up # ms) w =
     x_readEvent P i index ms (if n = index then link_change P i up w else w)"

section \<open>Predicates kept by the events\<close>

lemma haltPdelay_simps [simp]:
  "port_state (haltPdelay b p) = port_state p" "wf_port A (haltPdelay b p) = wf_port A p" "pdelay_halted (haltPdelay b p) = b"
  "tx_requests (haltPdelay b p) = tx_requests p"
  by (simp_all add: haltPdelay_def)

definition ends_halt :: "Event \<Rightarrow> bool" where
  "ends_halt e \<longleftrightarrow> e = LINKUP \<or> e = PDELAY_RESP_PEER_MISBEHAVING_TIMEOUT_EXPIRES"

context world_predicate
begin

lemma I_initial_signalling [simp]: "I w \<Longrightarrow> active i \<Longrightarrow> I (initial_signalling P i w)"
  by (simp add: initial_signalling_def Let_def)

lemma I_setStationState [simp]: "I w \<Longrightarrow> active i \<Longrightarrow> I (setStationState i s w)"
  by (simp add: setStationState_def)

lemma I_event_powerup [simp]: "I w \<Longrightarrow> active i \<Longrightarrow> I (snd (event_powerup P i w))"
  by (simp add: event_powerup_def Let_def)

lemma I_automotive_linkup [simp]: "I w \<Longrightarrow> active i \<Longrightarrow> I (automotive_linkup P i w)"
  by (simp add: automotive_linkup_def Let_def)

lemma I_event_linkdown [simp]: "I w \<Longrightarrow> active i \<Longrightarrow> I (snd (event_linkdown P i w))"
  by (simp add: event_linkdown_def Let_def)

lemma I_pdelay_interval [simp]:
  assumes "I w" and "active i"
  shows "I (snd (pdelay_interval_send P i w))" "I (pdelay_interval_timestamp P i r w)" "I (pdelay_interval_restart P i w)"
  using assms
  by (simp_all add: pdelay_interval_send_def pdelay_interval_timestamp_def pdelay_interval_restart_def Let_def split_beta
      split: option.split)

lemma I_event_sync_interval [simp]: "I w \<Longrightarrow> active i \<Longrightarrow> I (snd (event_sync_interval P i w))"
  by (simp add: event_sync_interval_def Let_def split_beta)

lemma I_event_pdelay_deferred [simp]: "I w \<Longrightarrow> active i \<Longrightarrow> I (snd (event_pdelay_deferred P i w))"
  by (simp add: event_pdelay_deferred_def Let_def split_beta split: option.split)

lemma I_event_sync_rate [simp]: "I w \<Longrightarrow> active i \<Longrightarrow> I (snd (event_sync_rate P i w))"
  by (simp add: event_sync_rate_def Let_def wf_port_def)

lemma I_event_announce_interval [simp]: "I w \<Longrightarrow> active i \<Longrightarrow> I (snd (event_announce_interval P i w))"
  by (simp add: event_announce_interval_def Let_def split_beta)

lemma I_sync_interval_report [simp]: "I w \<Longrightarrow> active i \<Longrightarrow> I (sync_interval_report P i w)"
  by (simp add: sync_interval_report_def Let_def split_beta one_below)

end

text \<open>A predicate for all events needs three facts about changes of the role: on power-up and link-up, by
  the best master selection, and on a receipt timeout, which sets the state and starts the timers
  itself.\<close>

locale event_predicate = slave_predicate +
  assumes I_resume: "I w \<Longrightarrow> active i \<Longrightarrow> I (resume_role P i w)"
    and I_selection: "I w \<Longrightarrow> I (processStateChange P w)"
    and I_timeout: "I w \<Longrightarrow> active i \<Longrightarrow> I (processSyncAnnounceTimeout P i e w)"
begin

declare I_resume [simp] I_selection [simp] I_timeout [simp]

text \<open>The events that do not end a halt of the peer delay mechanism.\<close>

lemma I_ether_quiet [simp]: "I w \<Longrightarrow> active i \<Longrightarrow> \<not> ends_halt e \<Longrightarrow> I (snd (ether_processEvent P i e w))"
  by (cases e) (simp_all add: ends_halt_def ether_processEvent_def event_receipt_timeout_def event_pdelay_interval_def
      event_pdelay_resp_timeout_def Let_def split_beta)

lemma I_quiet: "I w \<Longrightarrow> active i \<Longrightarrow> \<not> ends_halt e \<Longrightarrow> I (snd (processEvent P i e w))"
  by (cases e) (simp_all add: ends_halt_def processEvent_def Let_def split_beta)

lemma I_readEvent_quiet: "I w \<Longrightarrow> active i \<Longrightarrow> RTM_NEWLINK n True \<notin> set ms \<Longrightarrow> I (x_readEvent P i n ms w)"
proof (induction ms arbitrary: w)
  case (Cons m ms)
  then show ?case by (cases m) (auto simp add: link_change_def I_quiet ends_halt_def)
qed simp

end

text \<open>A predicate that is also kept when a halt ends is kept by all events.\<close>

locale any_event_predicate = event_predicate +
  assumes I_unhalt: "I w \<Longrightarrow> active i \<Longrightarrow> I (upd_port i (haltPdelay False) w)"
begin

declare I_unhalt [simp]

lemma I_event_linkup [simp]: "I w \<Longrightarrow> active i \<Longrightarrow> I (snd (event_linkup P i w))"
  by (simp add: event_linkup_def Let_def)

lemma I_ether_processEvent [simp]:
  assumes "I w" and "active i"
  shows "I (snd (ether_processEvent P i e w))"
proof (cases "ends_halt e")
  case True
  then show ?thesis using assms by (auto simp add: ends_halt_def ether_processEvent_def event_misbehaving_timeout_def Let_def)
qed (simp add: assms)

lemma I_processEvent [simp]:
  assumes "I w" and "active i"
  shows "I (snd (processEvent P i e w))"
proof (cases "ends_halt e")
  case True
  then show ?thesis using assms by (auto simp add: ends_halt_def processEvent_def)
qed (simp add: assms I_quiet)

lemma I_link_change [simp]: "I w \<Longrightarrow> active i \<Longrightarrow> I (link_change P i up w)"
  by (simp add: link_change_def)

lemma I_x_readEvent [simp]: "I w \<Longrightarrow> active i \<Longrightarrow> I (x_readEvent P i n ms w)"
proof (induction ms arbitrary: w)
  case (Cons m ms)
  then show ?case by (cases m) simp_all
qed simp

end

text \<open>A predicate that is kept when a port becomes master has the first two.\<close>

locale daemon_predicate = role_predicate +
  assumes I_new_master: "I w \<Longrightarrow> active i \<Longrightarrow> I (processSyncAnnounceTimeout P i e w)"
begin

lemma I_recommendState [simp]: "I w \<Longrightarrow> active i \<Longrightarrow> I (recommendState P i st b w)"
  using I_master [of w i True] by (simp add: recommendState_def Let_def becomeMaster_idem)

lemma I_assign_roles:
  assumes "I w"
  shows "I (processStateChange P w)"
proof -
  have "I (snd (assign_role P b k s))" if "active k" "I (snd s)" for b k s
    using that by (simp add: assign_role_def Let_def split_beta split: option.split)
  then have "I (snd s')" if "port_loop n 0 (port_list (clk w)) (assign_role P b) s = Some s'" "I (snd s)" for n b s s'
    using I_port_loop [of _ _ _ _ _ _ snd, OF that] I_active [OF assms] by blast
  then show ?thesis
    using assms by (auto simp add: processStateChange_def Let_def split: option.split)
qed

end

sublocale daemon_predicate \<subseteq> ev: event_predicate
  by unfold_locales (simp_all add: resume_role_def I_assign_roles I_new_master)

context daemon_predicate
begin

lemma I_listen [simp]: "I w \<Longrightarrow> active i \<Longrightarrow> I (listen P i rs w)"
  by (induction rs arbitrary: w) (simp_all add: ev.I_quiet ends_halt_def split: net_result.split)

end

interpretation wfw: daemon_predicate P "\<lambda>i. i \<in> S" "wf_system P S" for P S
  by unfold_locales (simp add: processSyncAnnounceTimeout_def Let_def split_beta)

interpretation wfw: any_event_predicate P "\<lambda>i. i \<in> S" "wf_system P S" for P S
  by unfold_locales (simp add: wf_system_def)

section \<open>Slave only\<close>

text \<open>With \<open>priority1\<close> 255 no event makes a port master.\<close>

definition slave_only :: "platform \<Rightarrow> nat set \<Rightarrow> world \<Rightarrow> bool" where
  "slave_only P S w \<longleftrightarrow>
     wf_system P S w \<and> priority1 (clk w) = 255 \<and> (\<forall>k \<in> S. port_state (ports w k) \<noteq> PTP_MASTER)"

lemma becomeSlave_effect:
  "priority1 (clk (becomeSlave P i b w)) = priority1 (clk w)"
  "ports (becomeSlave P i b w) = (ports w)(i := (ports w i)\<lparr>port_state := PTP_SLAVE\<rparr>)"
  by (simp_all add: becomeSlave_def Let_def newSyntonizationSetPoint_def updateFUPInfo_def fun_eq_iff)

lemma becomeMaster_effect:
  "priority1 (clk (becomeMaster P i b w)) = priority1 (clk w)" "fault (becomeMaster P i b w) = fault w"
  "ports (becomeMaster P i b w) = (ports w)(i := (ports w i)\<lparr>port_state := PTP_MASTER\<rparr>)"
  by (simp_all add: becomeMaster_def Let_def updateFUPInfo_def timer_ops fun_eq_iff)

lemma slave_only_becomeSlave: "slave_only P S w \<Longrightarrow> i \<in> S \<Longrightarrow> slave_only P S (becomeSlave P i b w)"
  by (simp add: slave_only_def becomeSlave_effect)

interpretation so: slave_predicate P "\<lambda>i. i \<in> S" "slave_only P S" for P S
proof unfold_locales
  fix w f fs cs n h hs g u e t i b
  assume w: "slave_only P S w"
  show "wf_arch P \<and> wf_world P {i. i \<in> S} w" using w by (simp add: slave_only_def wf_system_def)
  show "slave_only P S (tick w)" "slave_only P S (crash f w)" "slave_only P S (w\<lparr>sent := fs\<rparr>)"
    "slave_only P S (w\<lparr>ipc_log := cs\<rparr>)" "slave_only P S (w\<lparr>ap_sequenceId := n\<rparr>)"
    using w by (simp_all add: slave_only_def)
  show "command_ok h \<Longrightarrow> hs = hw_log w \<Longrightarrow> slave_only P S (w\<lparr>hw_log := h # hs\<rparr>)"
    using w by (simp add: slave_only_def)
  show "i \<in> S \<Longrightarrow> port_state (g (ports w i)) = port_state (ports w i) \<Longrightarrow>
      pdelay_halted (ports w i) \<longrightarrow> pdelay_halted (g (ports w i)) \<Longrightarrow> tx_requests (g (ports w i)) = tx_requests (ports w i) \<Longrightarrow>
      wf_port P (ports w i) \<longrightarrow> wf_port P (g (ports w i)) \<Longrightarrow> slave_only P S (upd_port i g w)"
    using w by (simp add: slave_only_def)
  show "i \<in> S \<Longrightarrow> \<not> pdelay_halted (ports w i) \<Longrightarrow>
      slave_only P S (upd_port i (\<lambda>p. p\<lparr>counters := ieee8021AsPortStatTxPdelayRequest_update (\<lambda>n. n + 1) (counters p)\<rparr>) w)"
    using w wfw.I_request [of P S w i] by (simp add: slave_only_def)
  show "slave_only P S (upd_clk u w)"
    if "clk_frame (u (clk w)) = clk_frame (clk w)" "wf_clk {i. i \<in> S} (clk w) \<longrightarrow> wf_clk {i. i \<in> S} (u (clk w))"
    using w that wfw.I_clk [of P S w u] by (simp add: slave_only_def clk_frame_def)
  show "i \<in> S \<Longrightarrow> slave_only P S (addEventTimer P i e t w)" "i \<in> S \<Longrightarrow> e \<noteq> SYNC_INTERVAL_TIMEOUT_EXPIRES \<Longrightarrow>
      slave_only P S (deleteEventTimer i e w)" "i \<in> S \<Longrightarrow> slave_only P S (startSyncIntervalTimer P i t w)"
    using w by (simp_all add: slave_only_def startSyncIntervalTimer_def)
  show "i \<in> S \<Longrightarrow> slave_only P S (becomeSlave P i b w)"
    using w by (rule slave_only_becomeSlave)
qed

interpretation so: any_event_predicate P "\<lambda>i. i \<in> S" "slave_only P S" for P S
proof unfold_locales
  fix w i e
  assume w: "slave_only P S w"
  then have "priority1 (clk w) = 255" by (simp add: slave_only_def)
  then show "i \<in> S \<Longrightarrow> slave_only P S (resume_role P i w)" "slave_only P S (processStateChange P w)"
    "i \<in> S \<Longrightarrow> slave_only P S (processSyncAnnounceTimeout P i e w)"
    using w by (simp_all add: resume_role_def processStateChange_def processSyncAnnounceTimeout_def)
  show "i \<in> S \<Longrightarrow> slave_only P S (upd_port i (haltPdelay False) w)"
    using w by (simp add: slave_only_def)
qed

section \<open>Selection of the best master\<close>

text \<open>The abstract selection: the better of the own clock and the announced grandmaster, and the role
  that follows from it.\<close>

type_synonym rank = "u8 \<times> u8 \<times> u8 \<times> u16 \<times> u8 \<times> int"

definition own_rank :: "IEEE1588Clock \<Rightarrow> rank" where
  "own_rank c = priority_rank (priority1 c) (clock_quality c) (priority2 c) (cid (clock_identity c))"

definition gm_rank :: "IEEE1588Clock \<Rightarrow> rank" where
  "gm_rank c = priority_rank (grandmaster_priority1 c) (grandmaster_clock_quality c) (grandmaster_priority2 c)
     (cid (grandmaster_clock_identity c))"

definition announced_rank :: "PTPMessageAnnounce \<Rightarrow> rank" where
  "announced_rank m = priority_rank (grandmasterPriority1 m) (grandmasterClockQuality m) (grandmasterPriority2 m)
     (grandmasterIdentity m)"

definition bmca_select :: "rank \<Rightarrow> rank option \<Rightarrow> PortState \<times> rank \<Rightarrow> PortState \<times> rank" where
  "bmca_select own best s =
     (case best of None \<Rightarrow> s | Some a \<Rightarrow> if own < a then (PTP_MASTER, own) else (PTP_SLAVE, a))"

definition bmca_abs :: "nat \<Rightarrow> world \<Rightarrow> PortState \<times> rank" where
  "bmca_abs k w = (port_state (ports w k), gm_rank (clk w))"

lemma rank_timers [simp]:
  "gm_rank (clk (addEventTimerLocked P i e t w)) = gm_rank (clk w)"
  "gm_rank (clk (deleteEventTimerLocked P i e w)) = gm_rank (clk w)"
  "gm_rank (clk (deleteEventTimer i e w)) = gm_rank (clk w)"
  by (simp_all add: gm_rank_def addEventTimer_def deleteEventTimer_def addEventTimerLocked_def deleteEventTimerLocked_def
      Let_def split_beta)

lemma rank_clk [simp]:
  "gm_rank (updateFUPInfo c) = gm_rank c" "gm_rank (newSyntonizationSetPoint c) = gm_rank c"
  "grandmaster_clock_identity (updateFUPInfo c) = grandmaster_clock_identity c"
  "grandmaster_clock_identity (newSyntonizationSetPoint c) = grandmaster_clock_identity c"
  "gm_rank (LastEBestIdentity_update f c) = gm_rank c" "own_rank (LastEBestIdentity_update f c) = own_rank c"
  by (simp_all add: gm_rank_def own_rank_def updateFUPInfo_def newSyntonizationSetPoint_def Let_def)

lemma setGrandmaster_cid:
  "wf_cid d \<Longrightarrow> wf_cid (grandmaster_clock_identity c) \<Longrightarrow> grandmaster_clock_identity (setGrandmasterClockIdentity d c) = d"
  using cid_eq_iff [of d "grandmaster_clock_identity c"]
  by (auto simp add: setGrandmasterClockIdentity_def cid_neq_def cid_eq_def)

lemma setGrandmaster_sel [simp]:
  "priority1 (setGrandmasterClockIdentity d c) = priority1 c" "priority2 (setGrandmasterClockIdentity d c) = priority2 c"
  "clock_quality (setGrandmasterClockIdentity d c) = clock_quality c"
  "clock_identity (setGrandmasterClockIdentity d c) = clock_identity c"
  by (simp_all add: setGrandmasterClockIdentity_def)

lemma rank_grandmaster:
  assumes "wf_cid (grandmaster_clock_identity c)"
  shows "wf_cid (clock_identity c) \<Longrightarrow> gm_rank (grandmaster_self c) = own_rank c"
    "wf_ann m \<Longrightarrow> gm_rank (grandmaster_announced m c) = announced_rank m"
  using assms
  by (simp_all add: gm_rank_def own_rank_def announced_rank_def grandmaster_self_def grandmaster_announced_def
      setGrandmaster_cid wf_ann_def wf_cid_def cid_set_def Let_def)

lemma own_rank_self [simp]: "own_rank (grandmaster_self c) = own_rank c" "clock_identity (grandmaster_self c) = clock_identity c"
  by (simp_all add: own_rank_def grandmaster_self_def Let_def)

lemma clock_better_rank:
  "wf_cid (clock_identity c) \<Longrightarrow> wf_ann m \<Longrightarrow> clock_isBetterThan c (Some m) \<longleftrightarrow> own_rank c < announced_rank m"
  by (simp add: clock_isBetterThan_def clock_vector_def announce_vector_def getIdentityString_def own_rank_def announced_rank_def
      memcmp_priority wf_ann_def wf_cid_def)

lemma recommendState_effect:
  assumes "s = PTP_MASTER \<or> s = PTP_SLAVE"
  shows "port_state (ports (recommendState P k s ch w) k) = s" "gm_rank (clk (recommendState P k s ch w)) = gm_rank (clk w)"
    "qualified_announce (ports (recommendState P k s ch w) k) = qualified_announce (ports w k)"
    "grandmaster_clock_identity (clk (recommendState P k s ch w)) = grandmaster_clock_identity (clk w)"
    "fault (recommendState P k s ch w) = fault w"
  using assms
  by (auto simp add: recommendState_def Let_def becomeMaster_def becomeSlave_def timer_ops)

text \<open>C4. On a clock with one active port the best master selection of \<open>processStateChange\<close> implements the abstract
  one: without an announced grandmaster nothing changes; otherwise the port becomes master, with the own clock
  as grandmaster, if the own clock ranks before the announced one, and slave of the announced one if not.
  The selection does not fail.\<close>

theorem processStateChange_refines:
  assumes "skip_null (port_list (clk w)) 0 = Some (j, k)" and "number_ports (clk w) = 1" and "priority1 (clk w) \<noteq> 255"
    and "\<not> port_inactive w k" and "wf_cid (clock_identity (clk w))"
    and "wf_cid (grandmaster_clock_identity (clk w))"
    and "\<And>m. qualified_announce (ports w k) = Some m \<Longrightarrow> wf_ann m"
  shows "bmca_abs k (processStateChange P w) =
    bmca_select (own_rank (clk w)) (map_option announced_rank (qualified_announce (ports w k))) (bmca_abs k w) \<and>
    fault (processStateChange P w) = fault w"
proof (cases "qualified_announce (ports w k)")
  case None
  then have "find_ebest w k None = None"
    using assms(4) by (simp add: find_ebest_def ebest_message_def calculateERBest_def)
  then have "processStateChange P w = w"
    using assms(1,2) by (simp add: processStateChange_def port_loop_first ebest_message_def)
  then show ?thesis using None by (simp add: bmca_select_def)
next
  case (Some m)
  then have "find_ebest w k None = Some k"
    using assms(4) by (simp add: find_ebest_def ebest_message_def calculateERBest_def)
  moreover define ch u where "ch = (memcmp (grandmasterIdentity m) (getIdentityString (LastEBestIdentity (clk w))) \<noteq> 0)"
    and "u = (if ch then upd_clk (LastEBestIdentity_update (\<lambda>_. cid_set (grandmasterIdentity m))) w else w)"
  moreover have u: "port_inactive u k = port_inactive w k" "qualified_announce (ports u k) = Some m" "fault u = fault w"
    "own_rank (clk u) = own_rank (clk w)" "wf_cid (clock_identity (clk u))" "wf_cid (grandmaster_clock_identity (clk u))"
    using Some assms(5,6) by (simp_all add: u_def port_inactive_def)
  ultimately have *: "processStateChange P w =
      snd (assign_role P ch k (Some k, if clock_isBetterThan (clk u) (Some m) then upd_clk grandmaster_self u else u))"
    using assms(1-3) Some
    by (simp add: processStateChange_def port_loop_first ebest_message_def Let_def split_beta flip: ch_def)
  have m: "wf_ann m" using assms(7) Some by simp
  note better = clock_better_rank [OF u(5) m] clock_better_rank [of "grandmaster_self (clk u)", OF _ m]
  show ?thesis
  proof (cases "own_rank (clk w) < announced_rank m")
    case True
    then have "processStateChange P w = recommendState P k PTP_MASTER ch (upd_clk grandmaster_self u)"
      unfolding * using assms(4) u better by (simp add: assign_role_def ebest_message_def port_inactive_def)
    then show ?thesis
      using True u Some by (simp add: bmca_abs_def bmca_select_def recommendState_effect rank_grandmaster)
  next
    case False
    then have "processStateChange P w =
        upd_clk (grandmaster_announced m) (recommendState P k PTP_SLAVE ch u)"
      unfolding * using assms(4) u better
      by (simp add: assign_role_def ebest_message_def calculateERBest_def recommendState_effect)
    then show ?thesis
      using False u Some m by (simp add: bmca_abs_def bmca_select_def recommendState_effect rank_grandmaster)
  qed
qed

section \<open>Sequences of events\<close>

text \<open>A sequence of events, each with the port it is for.\<close>

definition processEvents :: "platform \<Rightarrow> (nat \<times> Event) list \<Rightarrow> world \<Rightarrow> world" where
  "processEvents P es w = fold (\<lambda>(i, e) w. snd (processEvent P i e w)) es w"

text \<open>C5. With \<open>priority1\<close> 255 a port that is not master does not become master by any sequence of events,
  timeouts, state changes and link changes included.\<close>

theorem slave_only_events:
  assumes "wf_system P S w" and "priority1 (clk w) = 255" and "\<And>k. k \<in> S \<Longrightarrow> port_state (ports w k) \<noteq> PTP_MASTER"
    and "fst ` set es \<subseteq> S" and "k \<in> S"
  shows "port_state (ports (processEvents P es w) k) \<noteq> PTP_MASTER \<and> priority1 (clk (processEvents P es w)) = 255"
proof -
  have "slave_only P S w" using assms(1-3) by (simp add: slave_only_def)
  with assms(4) have "slave_only P S (processEvents P es w)"
    by (induction es arbitrary: w) (auto simp add: processEvents_def)
  with assms(5) show ?thesis by (simp add: slave_only_def)
qed

text \<open>A follow-up that arrives while the departure time of the request is still pending.\<close>

definition deferred :: "PTPMessagePathDelayRespFollowUp \<Rightarrow> EtherPort \<Rightarrow> bool" where
  "deferred m p \<longleftrightarrow>
     (\<exists>req resp. last_pdelay_req p = Some req \<and> last_pdelay_resp p = Some resp \<and> pdelay_fup_matches req resp m \<and>
        nanoseconds (msg_timestamp req) = nanoseconds PDELAY_PENDING_TIMESTAMP)"

lemma pending_not_invalid: "nanoseconds PDELAY_PENDING_TIMESTAMP \<noteq> nanoseconds INVALID_TIMESTAMP"
  by (simp add: PDELAY_PENDING_TIMESTAMP_def INVALID_TIMESTAMP_def Timestamp_new_def)

lemma pdelay_fup_deferred:
  assumes "deferred m (ports w i)" and "port_state (ports w i) \<in> {PTP_INITIALIZING, PTP_MASTER, PTP_SLAVE}"
    and "trylock_pdelay_rx P (ncalls w)"
  shows "pdelay_fup_processMessage P i m w =
    (gc m, addEventTimerLocked P i PDELAY_DEFERRED_PROCESSING 1000000
       (upd_port i (last_pdelay_resp_fwup_update (\<lambda>_. Some m))
          (deleteEventTimerLocked P i PDELAY_RESP_RECEIPT_TIMEOUT_EXPIRES
            (tick (incCounter ieee8021AsPortStatRxPdelayResponseFollowUp_update i w)))))"
  using assms pending_not_invalid
  by (auto simp add: pdelay_fup_processMessage_def deferred_def incCounter_def Let_def)

lemma pdelay_fup_complete:
  assumes "last_pdelay_req (ports w i) = Some req" and "nanoseconds (msg_timestamp req) \<noteq> nanoseconds PDELAY_PENDING_TIMESTAMP"
    and "port_state (ports w i) \<in> {PTP_INITIALIZING, PTP_MASTER, PTP_SLAVE}" and "trylock_pdelay_rx P (ncalls w)"
  shows "fst (pdelay_fup_processMessage P i m w)" "fault (snd (pdelay_fup_processMessage P i m w)) = fault w"
  using assms
  by (auto simp add: pdelay_fup_processMessage_def incCounter_def Let_def split: option.split)

text \<open>C8. Two follow-ups that match the current request and arrive before its departure timestamp is known arm
  two timers for deferred processing. When the timestamp is known the first of them processes and deletes the
  stored follow-up; the second one finds none and aborts the process.\<close>

theorem deferred_twice_aborts:
  assumes "timers_work P" and "\<And>n. trylock_pdelay_rx P n" and "tq_inv (timerq (clk w))" 
    and "port_state (ports w i) \<in> {PTP_INITIALIZING, PTP_MASTER, PTP_SLAVE}"
    and "deferred m (ports w i)" and "fault w = None"
    and "w1 = snd (pdelay_fup_processMessage P i m w)" and "w2 = snd (pdelay_fup_processMessage P i m w1)"
    and "w3 = upd_port i (last_pdelay_req_update (map_option (\<lambda>r. r\<lparr>msg_timestamp := t\<rparr>))) w2"
    and "nanoseconds t \<noteq> nanoseconds PDELAY_PENDING_TIMESTAMP"
    and "w4 = snd (processEvent P i PDELAY_DEFERRED_PROCESSING w3)"
    and "w5 = snd (processEvent P i PDELAY_DEFERRED_PROCESSING w4)"
  shows "size (pending PDELAY_DEFERRED_PROCESSING w2) = size (pending PDELAY_DEFERRED_PROCESSING w) + 2 \<and>
    fault w4 = None \<and> fault w5 = Some Aborted"
proof -
  let ?p = "\<lambda>w. ports w i"
  note lemma1 = pdelay_fup_deferred [OF assms(5,4,2)]
  have w1: "last_pdelay_req (?p w1) = last_pdelay_req (?p w)" "last_pdelay_resp (?p w1) = last_pdelay_resp (?p w)"
    "port_state (?p w1) = port_state (?p w)" "fault w1 = None" "tq_inv (timerq (clk w1))"
    "size (pending PDELAY_DEFERRED_PROCESSING w1) = size (pending PDELAY_DEFERRED_PROCESSING w) + 1"
    unfolding assms(7) lemma1 using assms(1,3,6) by (simp_all add: incCounter_def)
  have d1: "deferred m (?p w1)" using assms(5) w1 by (simp add: deferred_def)
  have s1: "port_state (?p w1) \<in> {PTP_INITIALIZING, PTP_MASTER, PTP_SLAVE}" using assms(4) w1 by simp
  note lemma2 = pdelay_fup_deferred [OF d1 s1 assms(2)]
  have w2: "last_pdelay_req (?p w2) = last_pdelay_req (?p w)" "last_pdelay_resp_fwup (?p w2) = Some m"
    "port_state (?p w2) = port_state (?p w)" "fault w2 = None"
    "size (pending PDELAY_DEFERRED_PROCESSING w2) = size (pending PDELAY_DEFERRED_PROCESSING w) + 2"
    unfolding assms(8) lemma2 using assms(1) w1 by (simp_all add: incCounter_def)
  obtain req where "last_pdelay_req (?p w) = Some req" using assms(5) by (auto simp add: deferred_def)
  then have "last_pdelay_req (?p w3) = Some (req\<lparr>msg_timestamp := t\<rparr>)" "last_pdelay_resp_fwup (?p w3) = Some m"
    "port_state (?p w3) \<in> {PTP_INITIALIZING, PTP_MASTER, PTP_SLAVE}" "fault w3 = None"
    unfolding assms(9) using w2 assms(4) by simp_all
  then have "fault w4 = None" "last_pdelay_resp_fwup (?p w4) = None"
    unfolding assms(11) using pdelay_fup_complete [of w3 i "req\<lparr>msg_timestamp := t\<rparr>" P m] assms(2,10)
    by (simp_all add: processEvent_def ether_processEvent_def event_pdelay_deferred_def split_beta Let_def)
  then have "fault w5 = Some Aborted"
    unfolding assms(12) by (simp add: processEvent_def ether_processEvent_def event_pdelay_deferred_def)
  with \<open>fault w4 = None\<close> w2(5) show ?thesis by simp
qed

section \<open>Witnesses\<close>

theorem processStateChange_refines_witness:
  "port_state (ports (processStateChange sample_platform
     (upd_port 0 (qualified_announce_update (\<lambda>_. Some (sample_ann\<lparr>grandmasterPriority1 := 1\<rparr>))) sample_world)) 0) = PTP_SLAVE"
proof -
  let ?m = "sample_ann\<lparr>grandmasterPriority1 := 1\<rparr>"
  let ?w = "upd_port 0 (qualified_announce_update (\<lambda>_. Some ?m)) sample_world"
  have c: "wf_cid (clock_identity (clk sample_world))" "wf_cid (grandmaster_clock_identity (clk sample_world))"
    by (simp_all add: sample_world_def sample_clock_def IEEE1588Clock_new_def wf_cid_def ClockIdentity_default_def)
  have "own_rank (clk sample_world) < announced_rank ?m \<longleftrightarrow> False"
    by (simp add: own_rank_def announced_rank_def priority_rank_def less_prod_simp word_le_def)
  moreover have "\<not> port_inactive ?w 0" "wf_ann ?m"
    using sample_ann_wf by (simp_all add: port_inactive_def sample_port_def wf_ann_def)
  ultimately show ?thesis
    using processStateChange_refines [of ?w 0 0 sample_platform] c sample_first_port
    by (simp add: bmca_select_def bmca_abs_def)
qed

theorem slave_only_events_witness:
  "port_state (ports (processEvents sample_platform [(0, LINKUP), (0, ANNOUNCE_RECEIPT_TIMEOUT_EXPIRES)]
     (upd_clk (priority1_update (\<lambda>_. 255)) sample_world)) 0) \<noteq> PTP_MASTER"
proof -
  have "wf_system sample_platform {0} (upd_clk (priority1_update (\<lambda>_. 255)) sample_world)"
    using sample_world_wf by (auto simp add: wf_system_def wf_world_def wf_clk_def ppm_ok_def)
  then show ?thesis
    using slave_only_events [of sample_platform "{0}" "upd_clk (priority1_update (\<lambda>_. 255)) sample_world"
        "[(0, LINKUP), (0, ANNOUNCE_RECEIPT_TIMEOUT_EXPIRES)]" 0] by (simp add: sample_port_def)
qed

definition sample_req :: PTPMessagePathDelayReq where
  "sample_req = PTPMessageCommon.extend (sample_message\<lparr>messageType := PATH_DELAY_REQ_MESSAGE, sequenceId := 7,
       msg_timestamp := PDELAY_PENDING_TIMESTAMP\<rparr>) (PTPMessagePathDelayReq.fields Timestamp_default)"

definition sample_resp_followup :: PTPMessagePathDelayRespFollowUp where
  "sample_resp_followup = PTPMessageCommon.extend (sample_message\<lparr>messageType := PATH_DELAY_FOLLOWUP_MESSAGE, sequenceId := 7\<rparr>)
     (PTPMessagePathDelayRespFollowUp.fields (Timestamp_new 900 20 0) (sourcePortIdentity sample_message))"

theorem deferred_twice_aborts_witness:
  "\<exists>w. fault w = None \<and> fault (snd (processEvent sample_platform 0 PDELAY_DEFERRED_PROCESSING w)) = Some Aborted"
proof -
  let ?w = "upd_port 0 (\<lambda>p. p\<lparr>last_pdelay_req := Some sample_req, last_pdelay_resp := Some sample_resp\<rparr>) sample_world"
  have "memcmp bs bs = 0" for bs using memcmp_be_val [of bs bs] by simp
  then have "deferred sample_resp_followup (ports ?w 0)"
    by (simp add: deferred_def pdelay_fup_matches_def sample_req_def sample_resp_followup_def sample_message_defs
        PTPMessagePathDelayReq.defs PTPMessagePathDelayRespFollowUp.defs cid_neq_def cid_eq_def pi_neq_def)
  moreover have "tq_inv (timerq (clk ?w))" "port_state (ports ?w 0) \<in> {PTP_INITIALIZING, PTP_MASTER, PTP_SLAVE}" "fault ?w = None"
    using sample_world_tq by (simp_all add: sample_port_def)
  moreover have "trylock_pdelay_rx sample_platform n" for n by (simp add: sample_platform_def)
  moreover have "nanoseconds Timestamp_default \<noteq> nanoseconds PDELAY_PENDING_TIMESTAMP"
    by (simp add: Timestamp_default_def Timestamp_new_def PDELAY_PENDING_TIMESTAMP_def)
  ultimately show ?thesis
    using deferred_twice_aborts [OF sample_platform_wf(2), of ?w 0 sample_resp_followup _ _ _ Timestamp_default] by blast
qed

end
