(* ===== verification/Daemon.thy ===== *)
theory Daemon
  imports Port_Events
begin

text \<open>
  The daemon as a whole (\<open>linux/src/daemon_cl.cpp\<close>): its start with the options of the command line,
  and its threads as a transition system. A state is the world together with the peer delay request
  whose departure timestamp the timer thread is waiting for; while it waits, the listening thread and
  the link watcher run. All other handlers are steps of their own. A world with a fault has no step. The main results: every
  state is well-formed, a master keeps its sync timer, and a halt of the peer delay mechanism lasts until one of the two events that end it.
\<close>

section \<open>Start\<close>

text \<open>The options that \<open>main\<close> has read, the contents of the restore file among them.\<close>

record daemon_options =
  opt_syntonize :: bool
  opt_priority1 :: u8
  opt_ipc :: bool
  opt_port_state :: "PortState option"
  opt_portInit :: PortInit_t
  opt_restore :: "octets option"

definition override_portstate :: "daemon_options \<Rightarrow> PortState option" where
  "override_portstate opts =
     (let portInit = opt_portInit opts
      in if init_automotive_profile portInit then Some (if init_isGM portInit then PTP_MASTER else PTP_SLAVE)
         else opt_port_state opts)"

text \<open>The clock and the port take their state from the same buffer, one after the other.\<close>

definition restore_clock :: "'a arch_scheme \<Rightarrow> octets option \<Rightarrow> IEEE1588Clock \<Rightarrow> octets option \<times> IEEE1588Clock" where
  "restore_clock A data c =
     (case data of
        None \<Rightarrow> (None, c)
      | Some buf \<Rightarrow>
          let (ok, rest, cnt, c) = clock_restoreSerializedState A buf (int (length buf)) c
          in (if ok then Some rest else None, c))"

definition restore_port :: "'a arch_scheme \<Rightarrow> octets option \<Rightarrow> EtherPort \<Rightarrow> EtherPort" where
  "restore_port A data p =
     (case data of
        None \<Rightarrow> p
      | Some buf \<Rightarrow> case port_restoreSerializedState A buf (int (length buf)) p of (ok, rest, cnt, p) \<Rightarrow> p)"

text \<open>From the creation of the clock to the power-up event of the port, which is at address 0. The world
  given is the memory before: only its clock and its port matter. Without a network interface the
  daemon exits.\<close>

definition daemon_start :: "platform \<Rightarrow> daemon_options \<Rightarrow> world \<Rightarrow> bool \<times> world" where
  "daemon_start P opts w =
     (let (data, c) = restore_clock P (opt_restore opts)
            (IEEE1588Clock_new (clk w) False (opt_syntonize opts) (opt_priority1 opts) (opt_ipc opts));
          w = w\<lparr>clk := c\<rparr>;
          w = EtherPort_new ((opt_portInit opts)\<lparr>init_index := 1, init_timestamper := True\<rparr>) 0 w;
          (ok, w) = init_port P 0 w
      in if \<not> ok then (False, w)
         else
           let w = upd_port 0 (restore_port P data) w;
               w = (case override_portstate opts of
                      None \<Rightarrow> w | Some s \<Rightarrow> upd_port 0 (port_state_update (\<lambda>_. s)) w)
           in (True, snd (processEvent P 0 POWERUP w)))"

section \<open>Threads\<close>

type_synonym daemon = "world \<times> (nat \<times> (u32 \<times> PTPMessagePathDelayReq) option) option"

text \<open>The signal thread on a timer: the entry is removed, then its handler runs.\<close>

definition timer_fires :: "int \<Rightarrow> world \<Rightarrow> (event_descriptor_t \<times> world) option" where
  "timer_fires k w =
     (case LinuxTimerQueueHandler k (timerq (clk w)) of
        None \<Rightarrow> None
      | Some (a, q) \<Rightarrow> Some (inner_arg a, upd_clk (timerq_update (\<lambda>_. q)) w))"

inductive daemon_step :: "platform \<Rightarrow> daemon \<Rightarrow> daemon \<Rightarrow> bool" for P :: platform where
  Timer: "fault w = None \<Longrightarrow> timer_fires k w = Some (d, w') \<Longrightarrow> ed_event d \<noteq> PDELAY_INTERVAL_TIMEOUT_EXPIRES \<Longrightarrow>
    daemon_step P (w, None) (timerq_handler P d w', None)"
| PDelay_sent: "fault w = None \<Longrightarrow> timer_fires k w = Some (d, w') \<Longrightarrow> ed_event d = PDELAY_INTERVAL_TIMEOUT_EXPIRES \<Longrightarrow>
    pdelay_interval_send P (ed_port d) w' = (r, w'') \<Longrightarrow> daemon_step P (w, None) (w'', Some (ed_port d, r))"
| PDelay_timestamped: "fault w = None \<Longrightarrow>
    daemon_step P (w, Some (i, r)) (pdelay_interval_restart P i (pdelay_interval_timestamp P i r w), None)"
| Frame: "fault w = None \<Longrightarrow> Some i \<in> set (port_list (clk w)) \<Longrightarrow> daemon_step P (w, s) (listen P i [r] w, s)"
| Link: "fault w = None \<Longrightarrow> Some i \<in> set (port_list (clk w)) \<Longrightarrow> daemon_step P (w, s) (x_readEvent P i n ms w, s)"

inductive daemon_reaches :: "platform \<Rightarrow> daemon \<Rightarrow> daemon \<Rightarrow> bool" for P :: platform and s :: daemon where
  Start: "daemon_reaches P s s"
| Step: "daemon_reaches P s t \<Longrightarrow> daemon_step P t u \<Longrightarrow> daemon_reaches P s u"

inductive_cases daemon_stepE: "daemon_step P s t"

text \<open>A request in flight belongs to a known port.\<close>

definition flight_ok :: "nat set \<Rightarrow> daemon \<Rightarrow> bool" where
  "flight_ok S s \<longleftrightarrow> (\<forall>i r. snd s = Some (i, r) \<longrightarrow> i \<in> S)"

section \<open>Well-formed worlds stay well-formed\<close>

lemma timer_fires_clk:
  assumes "timer_fires k w = Some (d, w')" and "tq_inv (timerq (clk w))"
  shows "\<exists>a q. inner_arg a = d \<and> w' = upd_clk (timerq_update (\<lambda>_. q)) w \<and> tq_inv q \<and>
    tq_pending (timerq (clk w)) = add_mset a (tq_pending q)"
  using assms ltq.deliver_valid [OF assms(2)] ltq.deliver_pending [OF assms(2)]
  by (fastforce simp add: timer_fires_def split: option.splits)

lemma wf_timer_fires:
  assumes "timer_fires k w = Some (d, w')" and "wf_system P S w"
  shows "wf_system P S w' \<and> ed_port d \<in> S"
proof -
  have c: "wf_clk S (clk w)" using assms(2) by (auto simp add: wf_system_def dest: wf_world_clk)
  then obtain a q where q: "inner_arg a = d" "w' = upd_clk (timerq_update (\<lambda>_. q)) w" "tq_inv q"
    "tq_pending (timerq (clk w)) = add_mset a (tq_pending q)"
    using timer_fires_clk [OF assms(1)] by (auto simp add: wf_clk_def)
  then have "\<forall>b \<in># tq_pending q. timer_ok S b" "timer_ok S a" using c by (simp_all add: wf_clk_def)
  then show ?thesis
    using q c assms(2) by (auto simp add: wf_system_def timer_ok_def intro!: wf_upd_clk wf_clk_timerq)
qed

lemma wf_step:
  assumes "daemon_step P s t" and "wf_system P S (fst s)" and "flight_ok S s"
  shows "wf_system P S (fst t) \<and> flight_ok S t"
  using assms
proof (induction rule: daemon_step.induct)
  case (Timer w k d w')
  then show ?case
    using wf_timer_fires [of k w d w' P S] by (simp add: timerq_handler_def flight_ok_def)
next
  case (PDelay_sent w k d w' r w'')
  then show ?case
    using wf_timer_fires [of k w d w' P S] wfw.I_pdelay_interval(1) [of P S w' "ed_port d"] by (simp add: flight_ok_def)
next
  case (Frame w i s r)
  then show ?case by (simp add: flight_ok_def wfw.I_active del: listen.simps)
qed (auto simp add: flight_ok_def wfw.I_active)

lemma wf_reaches:
  "daemon_reaches P s t \<Longrightarrow> wf_system P S (fst s) \<Longrightarrow> flight_ok S s \<Longrightarrow> wf_system P S (fst t) \<and> flight_ok S t"
  by (induction rule: daemon_reaches.induct) (auto dest: wf_step)

text \<open>The start gives a well-formed world.\<close>

lemma valid_interval_octet: "v \<noteq> 0x80 \<Longrightarrow> d \<noteq> 0x80 \<Longrightarrow> valid_interval v d \<noteq> 0x80"
  by (simp add: valid_interval_def)

lemma EtherPort_fields_sel:
  "port_state (EtherPort_fields I p) = port_state p" "identity_map (EtherPort_fields I p) = []"
  "qualified_announce (EtherPort_fields I p) = qualified_announce p"
  "peer_rate_offset (EtherPort_fields I p) = peer_rate_offset p"
  "automotive_profile (EtherPort_fields I p) = automotive_profile p"
  "operLogSyncInterval (EtherPort_fields I p) = valid_interval (init_operLogSyncInterval I) 0"
  "initialLogSyncInterval (EtherPort_fields I p) =
     valid_interval (initialLogSyncInterval p) (if automotive_profile p then - 5 else - 3)"
  by (simp_all add: EtherPort_fields_def Let_def setAsCapable_def resetInitPDelayInterval_def)

definition start_ok :: "daemon_options \<Rightarrow> world \<Rightarrow> bool" where
  "start_ok opts w \<longleftrightarrow>
     opt_restore opts = None \<and> opt_port_state opts \<in> {None, Some PTP_MASTER, Some PTP_SLAVE} \<and>
     init_initialLogSyncInterval (opt_portInit opts) \<noteq> 0x80 \<and> init_operLogSyncInterval (opt_portInit opts) \<noteq> 0x80 \<and>
     port_list (clk w) = replicate MAX_PORTS None \<and> hw_log w = []"

lemma clock_new_wf: "wf_clk S (IEEE1588Clock_new m f s p ipc)"
  by (simp add: wf_clk_def IEEE1588Clock_new_def tq_pending_def createOSTimerQueue_def tq_inv_def ppm_ok_def
      LOWER_FREQ_LIMIT_def UPPER_FREQ_LIMIT_def wf_cid_def ClockIdentity_default_def)

lemma daemon_start_powerup:
  assumes "wf_arch P" and "start_ok opts w" and "daemon_start P opts w = (True, w')"
  shows "\<exists>v. wf_system P {0} v \<and> w' = snd (processEvent P 0 POWERUP v) \<and> priority1 (clk v) = opt_priority1 opts \<and>
    fault v = fault w \<and> automotive_profile (ports v 0) = init_automotive_profile (opt_portInit opts) \<and>
    (\<forall>s. override_portstate opts = Some s \<longrightarrow> port_state (ports v 0) = s)"
proof -
  let ?I = "(opt_portInit opts)\<lparr>init_index := 1, init_timestamper := True\<rparr>"
  let ?c = "IEEE1588Clock_new (clk w) False (opt_syntonize opts) (opt_priority1 opts) (opt_ipc opts)"
  let ?w = "EtherPort_new ?I 0 (w\<lparr>clk := ?c\<rparr>)"
  let ?p = "EtherPort_fields ?I (CommonPort_fields ?I (ports w 0))"
  have r: "opt_restore opts = None" using assms(2) by (simp add: start_ok_def)
  have p: "ports ?w 0 = ?p" "clk ?w = ?c\<lparr>port_list := (port_list (clk w))[0 := Some 0], number_ports := 1\<rparr>" "hw_log ?w = []" "fault ?w = fault w"
    using assms(2)
    by (simp_all add: EtherPort_new_def CommonPort_new_def registerPort_def MAX_PORTS_def Let_def IEEE1588Clock_new_def start_ok_def)
  obtain w1 where w1: "init_port P 0 ?w = (True, w1)"
    using assms(3) by (auto simp add: daemon_start_def restore_clock_def r Let_def split: prod.splits if_splits)
  then obtain a where "w1 = upd_port 0 (\<lambda>p. p\<lparr>port_identity := \<lparr>clock_id = cid_set_address a, portNumber = ifindex p\<rparr>\<rparr>)
      (upd_clk (clock_identity_update (\<lambda>_. cid_set_address a)) (upd_port 0 (local_addr_update (\<lambda>_. a))
        (tick (upd_port 0 (\<lambda>p. p\<lparr>log_mean_sync_interval := initialLogSyncInterval p\<rparr>) ?w))))"
    by (auto simp add: init_port_def Let_def split: option.splits)
  then have c1: "clk w1 = (clk ?w)\<lparr>clock_identity := cid_set_address a\<rparr>" and h1: "hw_log w1 = []" "fault w1 = fault w"
    and a1: "automotive_profile (ports w1 0) = init_automotive_profile (opt_portInit opts)"
    and p1: "wf_port P (ports w1 0) \<longleftrightarrow> wf_port P (?p\<lparr>log_mean_sync_interval := initialLogSyncInterval ?p\<rparr>)"
    by (simp_all add: p wf_port_def EtherPort_fields_sel CommonPort_fields_def)
  have "set (port_list (clk w1)) \<subseteq> insert (Some 0) (set (replicate MAX_PORTS None))"
    using assms(2) set_update_subset_insert [of "port_list (clk w)" 0] by (simp add: c1 p start_ok_def)
  moreover have "wf_clk {0} (clk w1)"
    using clock_new_wf [of "{0}"] by (simp add: c1 p wf_clk_def ppm_ok_def wf_cid_def cid_set_address_def Let_def)
  moreover have "wf_port P (ports w1 0)"
    using assms(2) unfolding p1
    by (simp add: wf_port_def EtherPort_fields_sel CommonPort_fields_def start_ok_def rate_ok_def
        valid_interval_octet)
  ultimately have "wf_system P {0} w1"
    using assms(1) h1 by (auto simp add: wf_system_def wf_world_def split: if_splits)
  then have "wf_system P {0} (upd_port 0 (restore_port P None) w1)"
    by (simp add: restore_port_def)
  moreover define v where "v = (case override_portstate opts of None \<Rightarrow> upd_port 0 (restore_port P None) w1
      | Some s \<Rightarrow> upd_port 0 (port_state_update (\<lambda>_. s)) (upd_port 0 (restore_port P None) w1))"
  ultimately have "wf_system P {0} v"
    using assms(2) by (auto simp add: override_portstate_def Let_def start_ok_def)
  moreover have "w' = snd (processEvent P 0 POWERUP v)"
    using assms(3) w1 by (simp add: daemon_start_def restore_clock_def r Let_def v_def)
  moreover have "priority1 (clk v) = opt_priority1 opts"
  proof -
    have "priority1 (clk v) = priority1 (clk w1)" by (simp add: v_def split: option.split)
    also have "\<dots> = priority1 ?c" unfolding c1 p by simp
    finally show ?thesis by (simp add: IEEE1588Clock_new_def)
  qed
  moreover have "automotive_profile (ports v 0) = init_automotive_profile (opt_portInit opts)"
    by (simp add: v_def restore_port_def a1 split: option.split)
  moreover have "fault v = fault w" by (simp add: v_def h1 split: option.split)
  moreover have "override_portstate opts = Some s \<longrightarrow> port_state (ports v 0) = s" for s
    by (simp add: v_def)
  ultimately show ?thesis by blast
qed

lemma daemon_start_wf:
  "wf_arch P \<Longrightarrow> start_ok opts w \<Longrightarrow> daemon_start P opts w = (True, w') \<Longrightarrow> wf_system P {0} w'"
  using daemon_start_powerup [of P opts w w'] by auto

section \<open>A master keeps its sync timer\<close>

definition master_live :: "platform \<Rightarrow> nat \<Rightarrow> world \<Rightarrow> bool" where
  "master_live P i w \<longleftrightarrow> timers_work P \<and> wf_system P {i} w \<and>
     (port_state (ports w i) = PTP_MASTER \<longrightarrow> pending SYNC_INTERVAL_TIMEOUT_EXPIRES w \<noteq> {#})"

lemma wf_system_tq: "wf_system P S w \<Longrightarrow> tq_inv (timerq (clk w))"
  by (auto simp add: wf_system_def wf_clk_def dest: wf_world_clk)

lemma startSync_pending:
  "timers_work P \<Longrightarrow> tq_inv (timerq (clk w)) \<Longrightarrow>
     pending SYNC_INTERVAL_TIMEOUT_EXPIRES (startSyncIntervalTimer P i t w) = {#timer i SYNC_INTERVAL_TIMEOUT_EXPIRES t#}"
  by (simp add: startSyncIntervalTimer_def timers_workD)

lemma clk_frame_timerq: "clk_frame c = clk_frame c' \<Longrightarrow> timerq c = timerq c'"
  by (simp add: clk_frame_def)

lemma pending_logs [simp]:
  "pending e (w\<lparr>sent := fs\<rparr>) = pending e w" "pending e (w\<lparr>ipc_log := cs\<rparr>) = pending e w"
  "pending e (w\<lparr>ap_sequenceId := n\<rparr>) = pending e w" "pending e (w\<lparr>hw_log := hs\<rparr>) = pending e w"
  by (simp_all add: pending_def)

interpretation live: world_predicate P "\<lambda>k. k = i" "master_live P i" for P i
proof unfold_locales
  fix w f fs cs n h hs g u e t j
  assume w: "master_live P i w"
  show "wf_arch P \<and> wf_world P (Collect (\<lambda>k. k = i)) w" using w by (simp add: master_live_def wf_system_def)
  show "master_live P i (tick w)" "master_live P i (crash f w)" "master_live P i (w\<lparr>sent := fs\<rparr>)"
    "master_live P i (w\<lparr>ipc_log := cs\<rparr>)" "master_live P i (w\<lparr>ap_sequenceId := n\<rparr>)"
    using w by (simp_all add: master_live_def)
  show "command_ok h \<Longrightarrow> hs = hw_log w \<Longrightarrow> master_live P i (w\<lparr>hw_log := h # hs\<rparr>)"
    using w by (simp add: master_live_def)
  show "j = i \<Longrightarrow> port_state (g (ports w j)) = port_state (ports w j) \<Longrightarrow>
      pdelay_halted (ports w j) \<longrightarrow> pdelay_halted (g (ports w j)) \<Longrightarrow> tx_requests (g (ports w j)) = tx_requests (ports w j) \<Longrightarrow>
      wf_port P (ports w j) \<longrightarrow> wf_port P (g (ports w j)) \<Longrightarrow> master_live P i (upd_port j g w)"
    using w by (simp add: master_live_def)
  show "j = i \<Longrightarrow> \<not> pdelay_halted (ports w j) \<Longrightarrow>
      master_live P i (upd_port j (\<lambda>p. p\<lparr>counters := ieee8021AsPortStatTxPdelayRequest_update (\<lambda>n. n + 1) (counters p)\<rparr>) w)"
    using w wfw.I_request [of P "{i}" w j] by (simp add: master_live_def)
  show "master_live P i (upd_clk u w)"
    if "clk_frame (u (clk w)) = clk_frame (clk w)"
      "wf_clk (Collect (\<lambda>k. k = i)) (clk w) \<longrightarrow> wf_clk (Collect (\<lambda>k. k = i)) (u (clk w))"
    using w that wfw.I_clk [of P "{i}" w u] clk_frame_timerq [OF that(1)] by (simp add: master_live_def)
  show "j = i \<Longrightarrow> master_live P i (addEventTimer P j e t w)"
    using w pending_add_subset [of w SYNC_INTERVAL_TIMEOUT_EXPIRES P j e t] by (auto simp add: master_live_def wf_system_tq)
  show "j = i \<Longrightarrow> e \<noteq> SYNC_INTERVAL_TIMEOUT_EXPIRES \<Longrightarrow> master_live P i (deleteEventTimer j e w)"
    using w by (simp add: master_live_def)
qed

lemma live_startSync: "timers_work P \<Longrightarrow> wf_system P {i} w \<Longrightarrow> master_live P i (startSyncIntervalTimer P i t w)"
  by (simp add: master_live_def startSync_pending wf_system_tq)

lemma live_roles:
  assumes "timers_work P" and "wf_system P {i} w"
  shows "master_live P i (becomeMaster P i b w)" "master_live P i (becomeSlave P i b w)"
    "port_state (ports w i) \<noteq> PTP_MASTER \<Longrightarrow> master_live P i w"
proof -
  show "master_live P i (becomeMaster P i b w)"
    using assms by (simp add: becomeMaster_def Let_def live_startSync)
  show "master_live P i (becomeSlave P i b w)"
    using assms by (simp add: master_live_def becomeSlave_def Let_def)
  show "port_state (ports w i) \<noteq> PTP_MASTER \<Longrightarrow> master_live P i w"
    using assms by (simp add: master_live_def)
qed

interpretation live: daemon_predicate P "\<lambda>k. k = i" "master_live P i" for P i
proof unfold_locales
  fix w t b e j
  assume w: "master_live P i w" "j = i"
  then have wf: "timers_work P" "wf_system P {i} w" by (simp_all add: master_live_def)
  show "master_live P i (startSyncIntervalTimer P j t w)"
    using wf w by (simp add: live_startSync)
  show "master_live P i (becomeSlave P j b w)"
    using wf w by (simp add: live_roles)
  show "master_live P i (becomeMaster P j b w)"
    using wf w by (simp add: live_roles)
  have *: "master_live P i (addEventTimerLocked P i SYNC_INTERVAL_TIMEOUT_EXPIRES 16000000 v)" if "wf_system P {i} v" for v
    using wf that by (simp add: master_live_def wf_system_tq)
  show "master_live P i (processSyncAnnounceTimeout P j e w)"
    using wf w by (simp add: processSyncAnnounceTimeout_def Let_def split_beta *)
qed

interpretation live: any_event_predicate P "\<lambda>k. k = i" "master_live P i" for P i
  by unfold_locales (simp add: master_live_def)

lemma live_resume_role: "timers_work P \<Longrightarrow> wf_system P {i} w \<Longrightarrow> master_live P i (resume_role P i w)"
  by (simp add: resume_role_def live_roles)

lemma live_start:
  assumes "wf_arch P" and "timers_work P" and "start_ok opts w" and "daemon_start P opts w = (True, w')"
  shows "master_live P 0 w'"
proof -
  obtain v where "wf_system P {0} v" "w' = snd (processEvent P 0 POWERUP v)"
    using daemon_start_powerup [OF assms(1,3,4)] by blast
  then show ?thesis using assms(2) by (simp add: processEvent_def live_resume_role)
qed

lemma live_timer_fires:
  assumes "timer_fires k w = Some (d, w')" and "master_live P i w"
  shows "ed_port d = i \<and> wf_system P {i} w' \<and> (ed_event d \<noteq> SYNC_INTERVAL_TIMEOUT_EXPIRES \<longrightarrow> master_live P i w')"
proof -
  have wf: "wf_system P {i} w" using assms(2) by (simp add: master_live_def)
  then obtain a q where q: "inner_arg a = d" "w' = upd_clk (timerq_update (\<lambda>_. q)) w"
    "tq_pending (timerq (clk w)) = add_mset a (tq_pending q)"
    using timer_fires_clk [OF assms(1)] wf_system_tq by blast
  moreover have "timer_ok {i} a"
    using wf q(3) by (auto simp add: wf_system_def wf_clk_def dest: wf_world_clk)
  ultimately have "ed_event d \<noteq> SYNC_INTERVAL_TIMEOUT_EXPIRES \<Longrightarrow>
      pending SYNC_INTERVAL_TIMEOUT_EXPIRES w' = pending SYNC_INTERVAL_TIMEOUT_EXPIRES w"
    by (auto simp add: pending_def timer_ok_def)
  then show ?thesis
    using wf_timer_fires [OF assms(1) wf] assms(2) q(2) unfolding master_live_def by auto
qed

lemma live_sync_interval:
  "timers_work P \<Longrightarrow> wf_system P {i} w \<Longrightarrow> master_live P i (snd (processEvent P i SYNC_INTERVAL_TIMEOUT_EXPIRES w))"
  by (simp add: processEvent_def Let_def split_beta live_startSync)

lemma live_step:
  assumes "daemon_step P s t" and "master_live P i (fst s)" and "flight_ok {i} s"
  shows "master_live P i (fst t) \<and> flight_ok {i} t"
  using assms
proof (induction rule: daemon_step.induct)
  case (Timer w k d w')
  then show ?case
    using live_timer_fires [of k w d w' P i] live_sync_interval [of P i w']
    by (cases "ed_event d = SYNC_INTERVAL_TIMEOUT_EXPIRES") (auto simp add: timerq_handler_def flight_ok_def master_live_def [of P i w])
next
  case (PDelay_sent w k d w' r w'')
  then have "ed_port d = i" "master_live P i w'" using live_timer_fires [of k w d w' P i] by simp_all
  then have "master_live P i (snd (pdelay_interval_send P (ed_port d) w'))" by simp
  then show ?case using PDelay_sent \<open>ed_port d = i\<close> by (simp add: flight_ok_def)
next
  case (Frame w i' s r)
  then show ?case using live.I_active [of P i w i'] by (simp add: flight_ok_def del: listen.simps)
next
  case (Link w i' s n ms)
  then show ?case using live.I_active [of P i w i'] by (simp add: flight_ok_def)
qed (auto simp add: flight_ok_def)

lemma live_reaches:
  "daemon_reaches P s t \<Longrightarrow> master_live P i (fst s) \<Longrightarrow> flight_ok {i} s \<Longrightarrow> master_live P i (fst t) \<and> flight_ok {i} t"
  by (induction rule: daemon_reaches.induct) (auto dest: live_step)

lemma live_fires:
  assumes "master_live P i u" and "port_state (ports u i) = PTP_MASTER"
  shows "\<exists>k d u'. timer_fires k u = Some (d, u') \<and> ed_event d = SYNC_INTERVAL_TIMEOUT_EXPIRES \<and> ed_port d = i"
proof -
  have wf: "wf_clk {i} (clk u)" and "pending SYNC_INTERVAL_TIMEOUT_EXPIRES u \<noteq> {#}"
    using assms by (auto simp add: master_live_def wf_system_def dest: wf_world_clk)
  then obtain a where "a \<in># pending SYNC_INTERVAL_TIMEOUT_EXPIRES u" by (auto dest: multiset_nonemptyE)
  then have a: "a \<in># tq_pending (timerq (clk u))" "tq_type a = SYNC_INTERVAL_TIMEOUT_EXPIRES"
    by (simp_all add: pending_def)
  then have "ed_event (inner_arg a) = SYNC_INTERVAL_TIMEOUT_EXPIRES" "ed_port (inner_arg a) = i"
    using wf by (auto simp add: wf_clk_def timer_ok_def)
  moreover obtain k q where "LinuxTimerQueueHandler k (timerq (clk u)) = Some (a, q)"
    using ltq.deliver_some [OF _ a(1)] wf by (auto simp add: wf_clk_def)
  ultimately show ?thesis
    by (intro exI [of _ k] exI [of _ "inner_arg a"] exI [of _ "upd_clk (timerq_update (\<lambda>_. q)) u"])
      (simp add: timer_fires_def)
qed

section \<open>A halt of the peer delay mechanism\<close>

text \<open>Port \<open>i\<close> is halted and has transmitted \<open>n\<close> requests.\<close>

definition halted :: "platform \<Rightarrow> nat \<Rightarrow> u32 \<Rightarrow> world \<Rightarrow> bool" where
  "halted P i n w \<longleftrightarrow> wf_system P {i} w \<and> pdelay_halted (ports w i) \<and> tx_requests (ports w i) = n"

text \<open>The steps of the daemon that do not end a halt: no timer with an event that ends it, no message that the link is up.\<close>

inductive quiet_step :: "platform \<Rightarrow> daemon \<Rightarrow> daemon \<Rightarrow> bool" for P :: platform where
  Timer: "fault w = None \<Longrightarrow> timer_fires k w = Some (d, w') \<Longrightarrow> ed_event d \<noteq> PDELAY_INTERVAL_TIMEOUT_EXPIRES \<Longrightarrow>
    \<not> ends_halt (ed_event d) \<Longrightarrow> quiet_step P (w, None) (timerq_handler P d w', None)"
| PDelay_sent: "fault w = None \<Longrightarrow> timer_fires k w = Some (d, w') \<Longrightarrow> ed_event d = PDELAY_INTERVAL_TIMEOUT_EXPIRES \<Longrightarrow>
    pdelay_interval_send P (ed_port d) w' = (r, w'') \<Longrightarrow> quiet_step P (w, None) (w'', Some (ed_port d, r))"
| PDelay_timestamped: "fault w = None \<Longrightarrow>
    quiet_step P (w, Some (i, r)) (pdelay_interval_restart P i (pdelay_interval_timestamp P i r w), None)"
| Frame: "fault w = None \<Longrightarrow> Some i \<in> set (port_list (clk w)) \<Longrightarrow> quiet_step P (w, s) (listen P i [r] w, s)"
| Link: "fault w = None \<Longrightarrow> Some i \<in> set (port_list (clk w)) \<Longrightarrow> RTM_NEWLINK n True \<notin> set ms \<Longrightarrow>
    quiet_step P (w, s) (x_readEvent P i n ms w, s)"

inductive quiet_reaches :: "platform \<Rightarrow> daemon \<Rightarrow> daemon \<Rightarrow> bool" for P :: platform and s :: daemon where
  Start: "quiet_reaches P s s"
| Step: "quiet_reaches P s t \<Longrightarrow> quiet_step P t u \<Longrightarrow> quiet_reaches P s u"

text \<open>Every other step is one of the two kinds that end a halt.\<close>

lemma daemon_step_quiet:
  assumes "daemon_step P s t"
  shows "quiet_step P s t \<or>
    (\<exists>k d w'. timer_fires k (fst s) = Some (d, w') \<and> ends_halt (ed_event d) \<and> fst t = timerq_handler P d w') \<or>
    (\<exists>i n ms. RTM_NEWLINK n True \<in> set ms \<and> fst t = x_readEvent P i n ms (fst s))"
  using assms
proof (cases rule: daemon_step.cases)
  case (Timer w k d w')
  then show ?thesis using quiet_step.Timer [OF Timer(3-5)] by auto
next
  case (Link w i sa n ms)
  have "\<exists>i n ms. RTM_NEWLINK n True \<in> set ms \<and> fst t = x_readEvent P i n ms (fst s)" if "RTM_NEWLINK n True \<in> set ms"
    using that Link(1,2) by (intro exI [of _ i] exI [of _ n] exI [of _ ms]) simp
  then show ?thesis using quiet_step.Link [OF Link(3,4), of n ms P sa] Link(1,2) by blast
qed (blast intro: quiet_step.intros)+

lemma quiet_daemon_step: "quiet_step P s t \<Longrightarrow> daemon_step P s t"
  by (induction rule: quiet_step.induct) (blast intro: daemon_step.intros)+

lemma pdelay_halted_roles [simp]:
  "ports (startSyncIntervalTimer P i t w) = ports w"
  "pdelay_halted (ports (becomeSlave P i b w) k) = pdelay_halted (ports w k)"
  "pdelay_halted (ports (becomeMaster P i b w) k) = pdelay_halted (ports w k)"
  "tx_requests (ports (becomeSlave P i b w) k) = tx_requests (ports w k)"
  "tx_requests (ports (becomeMaster P i b w) k) = tx_requests (ports w k)"
  by (simp_all add: becomeSlave_effect becomeMaster_effect timer_ops)

lemma getDeviceTime_ports [simp]: "ports (snd (getDeviceTime P i w)) = ports w"
  by (simp add: getDeviceTime_def Let_def split_beta)

lemma processSyncAnnounceTimeout_halted [simp]:
  "pdelay_halted (ports (processSyncAnnounceTimeout P i e w) k) = pdelay_halted (ports w k)"
  "tx_requests (ports (processSyncAnnounceTimeout P i e w) k) = tx_requests (ports w k)"
  by (simp_all add: processSyncAnnounceTimeout_def timer_ops Let_def split_beta upd_port_def)

interpretation hp: daemon_predicate P "\<lambda>k. k = i" "halted P i n" for P i n
proof unfold_locales
  fix w f fs cs m h hs g u e t j b
  assume w: "halted P i n w"
  then have wf: "wf_system P {i} w" by (simp add: halted_def)
  show "wf_arch P \<and> wf_world P (Collect (\<lambda>k. k = i)) w" using wf by (simp add: wf_system_def)
  show "halted P i n (tick w)" "halted P i n (crash f w)" "halted P i n (w\<lparr>sent := fs\<rparr>)"
    "halted P i n (w\<lparr>ipc_log := cs\<rparr>)" "halted P i n (w\<lparr>ap_sequenceId := m\<rparr>)"
    using w by (simp_all add: halted_def)
  show "command_ok h \<Longrightarrow> hs = hw_log w \<Longrightarrow> halted P i n (w\<lparr>hw_log := h # hs\<rparr>)"
    using w by (simp add: halted_def)
  show "j = i \<Longrightarrow> port_state (g (ports w j)) = port_state (ports w j) \<Longrightarrow>
      pdelay_halted (ports w j) \<longrightarrow> pdelay_halted (g (ports w j)) \<Longrightarrow> tx_requests (g (ports w j)) = tx_requests (ports w j) \<Longrightarrow>
      wf_port P (ports w j) \<longrightarrow> wf_port P (g (ports w j)) \<Longrightarrow> halted P i n (upd_port j g w)"
    using w by (simp add: halted_def)
  show "j = i \<Longrightarrow> \<not> pdelay_halted (ports w j) \<Longrightarrow>
      halted P i n (upd_port j (\<lambda>p. p\<lparr>counters := ieee8021AsPortStatTxPdelayRequest_update (\<lambda>n. n + 1) (counters p)\<rparr>) w)"
    using w by (simp add: halted_def)
  show "halted P i n (upd_clk u w)"
    if "clk_frame (u (clk w)) = clk_frame (clk w)"
      "wf_clk (Collect (\<lambda>k. k = i)) (clk w) \<longrightarrow> wf_clk (Collect (\<lambda>k. k = i)) (u (clk w))"
    using w that wfw.I_clk [of P "{i}" w u] by (simp add: halted_def)
  show "j = i \<Longrightarrow> halted P i n (addEventTimer P j e t w)"
    "j = i \<Longrightarrow> e \<noteq> SYNC_INTERVAL_TIMEOUT_EXPIRES \<Longrightarrow> halted P i n (deleteEventTimer j e w)"
    "j = i \<Longrightarrow> halted P i n (startSyncIntervalTimer P j t w)" "j = i \<Longrightarrow> halted P i n (becomeSlave P j b w)"
    "j = i \<Longrightarrow> halted P i n (becomeMaster P j b w)" "j = i \<Longrightarrow> halted P i n (processSyncAnnounceTimeout P j e w)"
    using w by (simp_all add: halted_def)
qed

lemma halted_timer_fires:
  assumes "timer_fires k w = Some (d, w')" and "halted P i n w"
  shows "halted P i n w' \<and> ed_port d = i"
proof -
  have wf: "wf_system P {i} w" using assms(2) by (simp add: halted_def)
  obtain q where "w' = upd_clk (timerq_update (\<lambda>_. q)) w"
    using timer_fires_clk [OF assms(1) wf_system_tq [OF wf]] by blast
  then show ?thesis using wf_timer_fires [OF assms(1) wf] assms(2) by (simp add: halted_def)
qed

lemma halted_step:
  assumes "quiet_step P s t" and "halted P i n (fst s)" and "flight_ok {i} s"
  shows "halted P i n (fst t) \<and> flight_ok {i} t"
  using assms
proof (induction rule: quiet_step.induct)
  case (Timer w k d w')
  then have "halted P i n w'" "ed_port d = i" using halted_timer_fires [of k w d w' P i n] by auto
  then show ?case using Timer hp.ev.I_quiet [of P i n w' i] by (simp add: timerq_handler_def flight_ok_def)
next
  case (PDelay_sent w k d w' r w'')
  then have d: "halted P i n w'" "ed_port d = i" using halted_timer_fires [of k w d w' P i n] by auto
  then have "halted P i n (snd (pdelay_interval_send P (ed_port d) w'))" by simp
  then show ?case using d(2) unfolding PDelay_sent.hyps(4) by (simp add: flight_ok_def)
next
  case (PDelay_timestamped w j r)
  then show ?case by (auto simp add: flight_ok_def)
next
  case (Frame w j s r)
  then show ?case using hp.I_active [of P i n w j] by (simp add: flight_ok_def del: listen.simps)
next
  case (Link w j m ms s)
  then show ?case using hp.I_active [of P i n w j] hp.ev.I_readEvent_quiet [of P i n w i m ms] by (simp add: flight_ok_def)
qed

lemma quiet_reaches_halted:
  "quiet_reaches P s t \<Longrightarrow> halted P i n (fst s) \<Longrightarrow> flight_ok {i} s \<Longrightarrow> halted P i n (fst t) \<and> flight_ok {i} t"
  by (induction rule: quiet_reaches.induct) (auto dest: halted_step)

lemma halted_sends_nothing:
  "pdelay_halted (ports w i) \<Longrightarrow> fst (pdelay_interval_send P i w) = None \<and> sent (snd (pdelay_interval_send P i w)) = sent w"
  by (simp add: pdelay_interval_send_def pdelay_req_transmit_def PTPMessagePathDelayReq_new_def Let_def split_beta)

text \<open>C11. The third response in a row that comes from another port than the stored response to the same request halts the
  peer delay mechanism: the interval timer is gone, and a timer of five minutes is added that ends the halt. After any number of steps
  of the daemon, by timers, frames, link changes and late timestamps, none of which is a link-up or a timer of a misbehaving
  peer, the port is still halted, it has transmitted no further request, and when its interval timer fires again the
  send does nothing. (An older timer of a misbehaving peer that is still pending, or a link-up, ends the halt earlier.)\<close>

theorem duplicate_responses_halt:
  assumes "timers_work P" and "wf_system P {i} w" and "trylock_pdelay_rx P (ncalls w)"
    and "last_pdelay_resp (ports w i) = Some old" and "sequenceId old = sequenceId m"
    and "portNumber (sourcePortIdentity m) \<noteq> portNumber (sourcePortIdentity old)"
    and "duplicate_resp_counter (ports w i) = 2" and "uint (last_invalid_seqid (ports w i)) + 1 = uint (sequenceId m)"
    and "w' = snd (pdelay_resp_processMessage P i m w)"
    and "quiet_reaches P (w', s) (u, s')" and "flight_ok {i} (w', s)"
  shows "pending PDELAY_INTERVAL_TIMEOUT_EXPIRES w' = {#} \<and>
    pending PDELAY_RESP_PEER_MISBEHAVING_TIMEOUT_EXPIRES w' =
      add_mset (timer i PDELAY_RESP_PEER_MISBEHAVING_TIMEOUT_EXPIRES MISBEHAVING_TIMEOUT)
        (pending PDELAY_RESP_PEER_MISBEHAVING_TIMEOUT_EXPIRES w) \<and>
    pdelay_halted (ports u i) \<and> tx_requests (ports u i) = tx_requests (ports w i) \<and>
    fst (pdelay_interval_send P i u) = None \<and> sent (snd (pdelay_interval_send P i u)) = sent u"
proof -
  have p: "port_state (ports w i) \<in> {PTP_INITIALIZING, PTP_MASTER, PTP_SLAVE}" "tq_inv (timerq (clk w))"
    using assms(2) wf_system_tq [OF assms(2)] by (auto simp add: wf_system_def wf_world_def wf_port_def)
  note stop = duplicate_responses_stop [OF assms(1) p(2) assms(3) p(1) assms(4-9)]
  have "wf_system P {i} w'" using assms(2) by (simp add: assms(9))
  then have "halted P i (tx_requests (ports w i)) w'" using stop by (simp add: halted_def)
  then have "halted P i (tx_requests (ports w i)) u" using quiet_reaches_halted [OF assms(10) _ assms(11)] by simp
  then show ?thesis using stop halted_sends_nothing [of u i P] by (simp add: halted_def)
qed

text \<open>What ends the halt: the next timer of a misbehaving peer; it starts the mechanism again unless the port is master or slave.\<close>

lemma misbehaving_timeout_ends_halt:
  assumes "w' = snd (processEvent P i PDELAY_RESP_PEER_MISBEHAVING_TIMEOUT_EXPIRES w)"
  shows "\<not> pdelay_halted (ports w' i)"
    and "port_state (ports w i) \<notin> {PTP_SLAVE, PTP_MASTER} \<Longrightarrow> \<not> automotive_profile (ports w i) \<Longrightarrow> pdelay_started (ports w' i)"
  unfolding assms
  by (simp_all add: processEvent_def ether_processEvent_def event_misbehaving_timeout_def startPDelay_def haltPdelay_def timer_ops Let_def)

section \<open>A start as master\<close>

lemma daemon_start_ok:
  assumes "\<And>n. \<exists>a. net_build P n = Some a"
  shows "fst (daemon_start P opts w)"
proof -
  have "fst (init_port P 0 v)" for v
    using assms [of "ncalls v"] by (auto simp add: init_port_def Let_def)
  then show ?thesis by (simp add: daemon_start_def Let_def split_beta)
qed

lemma powerup_master:
  assumes "port_state (ports v i) = PTP_MASTER" and "\<not> automotive_profile (ports v i)" and "priority1 (clk v) \<noteq> 255"
  shows "port_state (ports (snd (processEvent P i POWERUP v)) i) = PTP_MASTER \<and> fault (snd (processEvent P i POWERUP v)) = fault v"
  using assms
  by (simp add: processEvent_def ether_processEvent_def event_powerup_def resume_role_def becomeMaster_effect Let_def)

definition sample_options :: daemon_options where
  "sample_options =
     \<lparr>opt_syntonize = True, opt_priority1 = 248, opt_ipc = True, opt_port_state = Some PTP_MASTER,
      opt_portInit = \<lparr>init_index = 1, init_timestamper = True, init_automotive_profile = False, init_isGM = False,
        init_testMode = False, init_linkUp = True, init_initialLogSyncInterval = - 3,
        init_initialLogPdelayReqInterval = 0, init_operLogPdelayReqInterval = 0, init_operLogSyncInterval = 0,
        init_phy_delay = (\<lambda>_. None), init_syncReceiptThreshold = 8, init_neighborPropDelayThreshold = 800,
        init_allowNegativeCorrField = False\<rparr>,
      opt_restore = None\<rparr>"

text \<open>Memory before the start: no port is registered.\<close>

definition sample_memory :: world where
  "sample_memory = sample_world\<lparr>clk := (clk sample_world)\<lparr>port_list := replicate MAX_PORTS None\<rparr>\<rparr>"

definition sample_start :: world where
  "sample_start = snd (daemon_start sample_platform sample_options sample_memory)"

lemma sample_start_ok: "start_ok sample_options sample_memory"
  by (simp add: start_ok_def sample_options_def sample_memory_def)

lemma sample_start: "daemon_start sample_platform sample_options sample_memory = (True, sample_start)"
  using daemon_start_ok [of sample_platform sample_options sample_memory]
  by (simp add: sample_start_def sample_platform_def prod_eq_iff)

lemma sample_start_master: "port_state (ports sample_start 0) = PTP_MASTER" "fault sample_start = None"
proof -
  have "override_portstate sample_options = Some PTP_MASTER" "opt_priority1 sample_options \<noteq> 255"
    "\<not> init_automotive_profile (opt_portInit sample_options)"
    by (simp_all add: override_portstate_def sample_options_def)
  moreover have "fault sample_memory = None" by (simp add: sample_memory_def)
  ultimately have "port_state (ports sample_start 0) = PTP_MASTER \<and> fault sample_start = None"
    using daemon_start_powerup [OF sample_platform_wf(1) sample_start_ok sample_start]
    by (metis powerup_master)
  then show "port_state (ports sample_start 0) = PTP_MASTER" "fault sample_start = None" by simp_all
qed

lemma sample_start_step:
  "\<exists>d u'. ed_event d = SYNC_INTERVAL_TIMEOUT_EXPIRES \<and>
     daemon_reaches sample_platform (sample_start, None) (timerq_handler sample_platform d u', None)"
proof -
  have "master_live sample_platform 0 sample_start"
    using live_start [OF sample_platform_wf sample_start_ok sample_start] .
  then obtain k d u' where f: "timer_fires k sample_start = Some (d, u')" "ed_event d = SYNC_INTERVAL_TIMEOUT_EXPIRES"
    using live_fires [OF _ sample_start_master(1)] by blast
  then show ?thesis
    using daemon_reaches.Step [OF daemon_reaches.Start daemon_step.Timer [OF sample_start_master(2) f(1)]] by fastforce
qed

text \<open>The third duplicate response on a port that is well-formed, and then a link-down, which does not end the halt.\<close>

definition sample_halting :: world where
  "sample_halting = upd_port 0 (\<lambda>p. p\<lparr>last_pdelay_resp := Some sample_resp, duplicate_resp_counter := 2, last_invalid_seqid := 6\<rparr>) sample_world"

theorem duplicate_responses_halt_witness:
  "\<exists>w' u. w' = snd (pdelay_resp_processMessage sample_platform 0
       (sample_resp\<lparr>sourcePortIdentity := (sourcePortIdentity sample_resp)\<lparr>portNumber := 2\<rparr>\<rparr>) sample_halting) \<and>
     quiet_reaches sample_platform (w', None) (u, None) \<and> u = x_readEvent sample_platform 0 5 [RTM_NEWLINK 5 False] w' \<and>
     pdelay_halted (ports u 0) \<and> tx_requests (ports u 0) = tx_requests (ports sample_halting 0)"
proof -
  let ?m = "sample_resp\<lparr>sourcePortIdentity := (sourcePortIdentity sample_resp)\<lparr>portNumber := 2\<rparr>\<rparr>"
  define w' where "w' = snd (pdelay_resp_processMessage sample_platform 0 ?m sample_halting)"
  define u where "u = x_readEvent sample_platform 0 5 [RTM_NEWLINK 5 False] w'"
  have wf: "wf_system sample_platform {0} sample_halting"
    unfolding sample_halting_def by (rule wfw.I_port [OF sample_world_wf]) (simp_all add: wf_port_def)
  have h: "trylock_pdelay_rx sample_platform (ncalls sample_halting)" "last_pdelay_resp (ports sample_halting 0) = Some sample_resp"
    "sequenceId sample_resp = sequenceId ?m" "portNumber (sourcePortIdentity ?m) \<noteq> portNumber (sourcePortIdentity sample_resp)"
    "duplicate_resp_counter (ports sample_halting 0) = 2"
    "uint (last_invalid_seqid (ports sample_halting 0)) + 1 = uint (sequenceId ?m)"
    by (simp_all add: sample_halting_def sample_message_defs sample_port_def sample_platform_def)
  have "port_state (ports sample_halting 0) \<in> {PTP_INITIALIZING, PTP_MASTER, PTP_SLAVE}"
    by (simp add: sample_halting_def sample_port_def)
  then have f: "fault w' = None" "Some 0 \<in> set (port_list (clk w'))"
    using duplicate_responses_stop [OF sample_platform_wf(2) wf_system_tq [OF wf] h(1) _ h(2-6) w'_def]
    by (simp_all add: sample_halting_def sample_port_list)
  have "quiet_step sample_platform (w', None) (u, None)"
    unfolding u_def by (rule quiet_step.Link) (simp_all add: f)
  then have r: "quiet_reaches sample_platform (w', None) (u, None)" by (rule quiet_reaches.Step [OF quiet_reaches.Start])
  have "flight_ok {0} (w', None)" by (simp add: flight_ok_def)
  from duplicate_responses_halt [OF sample_platform_wf(2) wf h w'_def r this]
  show ?thesis using r u_def w'_def by blast
qed

end
