(* ===== verification/Ini_Config.thy ===== *)
theory Ini_Config
  imports Common_Port
begin

text \<open>
  The configuration file: the line parser (\<open>common/ini.c\<close>) with the handler it is given as a parameter, as
  in the code, and the handler of the daemon (\<open>common/gptp_cfg.cpp\<close>) with the functions of the C library
  that it calls. A C string is a \<open>string\<close> without NUL characters; a pointer into a string is the rest of
  the string from there on, and a NUL written at a pointer leaves the part before it. A file is the
  string of its characters. The main results: a file written in the documented form is read as the
  sequence of its items, whatever the handler, and the return value is the first line whose item the
  handler refuses; the values that the handler of the daemon takes from a decimal numeral; the names
  of the link speeds.
\<close>

section \<open>The C library\<close>

definition NUL :: char where
  "NUL = CHR 0x00"

definition newline :: char where
  "newline = CHR 0x0A"

definition isspace :: "char \<Rightarrow> bool" where
  "isspace c \<longleftrightarrow> c = CHR '' '' \<or> c = CHR 0x09 \<or> c = newline \<or> c = CHR 0x0B \<or> c = CHR 0x0C \<or> c = CHR 0x0D"

definition tolower :: "char \<Rightarrow> char" where
  "tolower c = (if 65 \<le> (of_char c :: nat) \<and> (of_char c :: nat) \<le> 90 then char_of ((of_char c :: nat) + 32) else c)"

definition strcasecmp_eq :: "string \<Rightarrow> string \<Rightarrow> bool" where
  "strcasecmp_eq s t \<longleftrightarrow> List.map tolower s = List.map tolower t"

text \<open>\<open>fgets\<close> with room for \<open>n\<close> characters: up to and including the end of the line. It returns NULL at
  the end of the file.\<close>

fun fgets_chars :: "nat \<Rightarrow> string \<Rightarrow> string \<times> string" where
  "fgets_chars 0 s = ([], s)"
| "fgets_chars (Suc n) [] = ([], [])"
| "fgets_chars (Suc n) (c # s) =
     (if c = newline then ([c], s) else let (a, b) = fgets_chars n s in (c # a, b))"

definition fgets :: "nat \<Rightarrow> string \<Rightarrow> (string \<times> string) option" where
  "fgets n file = (if file = [] then None else Some (fgets_chars (n - 1) file))"

text \<open>The string that starts at a buffer ends at the first NUL.\<close>

definition c_str :: "string \<Rightarrow> string" where
  "c_str s = takeWhile (\<lambda>c. c \<noteq> NUL) s"

text \<open>\<open>strtoul\<close> with base 0 or 10 on a platform with a 64 bit \<open>long\<close>: the value, the rest of the string
  and whether \<open>errno\<close> is set to \<open>ERANGE\<close>. Without a digit the rest is the whole string.\<close>

definition digit_val :: "char \<Rightarrow> nat" where
  "digit_val c =
     (let n = of_char c
      in if 48 \<le> n \<and> n \<le> 57 then n - 48 else if 97 \<le> n \<and> n \<le> 122 then n - 87
         else if 65 \<le> n \<and> n \<le> 90 then n - 55 else 36)"

fun digits :: "nat \<Rightarrow> nat \<Rightarrow> string \<Rightarrow> nat \<times> string" where
  "digits b n [] = (n, [])"
| "digits b n (c # s) = (if digit_val c < b then digits b (n * b + digit_val c) s else (n, c # s))"

fun sign_prefix :: "string \<Rightarrow> bool \<times> string" where
  "sign_prefix (c # s) = (if c = CHR ''-'' then (True, s) else if c = CHR ''+'' then (False, s) else (False, c # s))"
| "sign_prefix [] = (False, [])"

fun base_prefix :: "nat \<Rightarrow> string \<Rightarrow> nat \<times> string" where
  "base_prefix b (c # x # d # s) =
     (if b = 0 \<and> c = CHR ''0'' \<and> (x = CHR ''x'' \<or> x = CHR ''X'') \<and> digit_val d < 16 then (16, d # s)
      else if b = 0 then (if c = CHR ''0'' then 8 else 10, c # x # d # s) else (b, c # x # d # s))"
| "base_prefix b (c # s) = (if b = 0 then (if c = CHR ''0'' then 8 else 10) else b, c # s)"
| "base_prefix b [] = (b, [])"

fun starts_with_digit :: "nat \<Rightarrow> string \<Rightarrow> bool" where
  "starts_with_digit b (c # s) = (digit_val c < b)"
| "starts_with_digit b [] = False"

definition strtoul :: "string \<Rightarrow> nat \<Rightarrow> u64 \<times> string \<times> bool" where
  "strtoul s b =
     (let (neg, t) = sign_prefix (dropWhile isspace s);
          (b, t) = base_prefix b t
      in if \<not> starts_with_digit b t then (0, s, False)
         else let (n, rest) = digits b 0 t
              in if 2 ^ 64 \<le> n then (- 1, rest, True)
                 else (if neg then - of_nat n else of_nat n, rest, False))"

section \<open>The line parser\<close>

definition MAX_SECTION :: nat where
  "MAX_SECTION = 50"

definition MAX_NAME :: nat where
  "MAX_NAME = 50"

definition INI_MAX_LINE :: nat where
  "INI_MAX_LINE = 200"

definition rstrip :: "string \<Rightarrow> string" where
  "rstrip s = rev (dropWhile isspace (rev s))"

fun lskip :: "string \<Rightarrow> string" where
  "lskip [] = []"
| "lskip (c # s) = (if isspace c then lskip s else c # s)"

text \<open>The characters before the pointer returned, and the string at it. The first argument is
  \<open>was_whitespace\<close>.\<close>

fun find_char_or_comment :: "bool \<Rightarrow> char \<Rightarrow> string \<Rightarrow> string \<times> string" where
  "find_char_or_comment was_whitespace c [] = ([], [])"
| "find_char_or_comment was_whitespace c (x # s) =
     (if x = c \<or> was_whitespace \<and> x = CHR '';'' then ([], x # s)
      else let (a, b) = find_char_or_comment (isspace x) c s in (x # a, b))"

definition strncpy0 :: "string \<Rightarrow> nat \<Rightarrow> string" where
  "strncpy0 src n = take (n - 1) src"

text \<open>\<open>*s == c\<close>.\<close>

fun at_char :: "char \<Rightarrow> string \<Rightarrow> bool" where
  "at_char c (x # s) = (x = c)"
| "at_char c [] = False"

record 'u ini_state =
  ini_section :: string
  prev_name :: string
  lineno :: nat
  ini_error :: nat
  ini_user :: 'u

text \<open>The call of the handler, which returns 0 when it refuses an item.\<close>

definition ini_call ::
  "('u \<Rightarrow> string \<Rightarrow> string \<Rightarrow> string \<Rightarrow> bool \<times> 'u) \<Rightarrow> string \<Rightarrow> string \<Rightarrow> 'u ini_state \<Rightarrow> 'u ini_state" where
  "ini_call handler name value st =
     (let (ok, u) = handler (ini_user st) (ini_section st) name value
      in st\<lparr>ini_user := u, ini_error := (if \<not> ok \<and> ini_error st = 0 then lineno st else ini_error st)\<rparr>)"

definition ini_fail :: "'u ini_state \<Rightarrow> 'u ini_state" where
  "ini_fail st = st\<lparr>ini_error := (if ini_error st = 0 then lineno st else ini_error st)\<rparr>"

definition BOM :: string where
  "BOM = [CHR 0xEF, CHR 0xBB, CHR 0xBF]"

text \<open>A section line, and a line \<open>name = value\<close>.\<close>

definition ini_section_line :: "string \<Rightarrow> 'u ini_state \<Rightarrow> 'u ini_state" where
  "ini_section_line start st =
     (let (name, end) = find_char_or_comment False CHR '']'' (tl start)
      in if at_char CHR '']'' end then st\<lparr>ini_section := strncpy0 name MAX_SECTION, prev_name := []\<rparr>
         else ini_fail st)"

definition ini_pair_line ::
  "('u \<Rightarrow> string \<Rightarrow> string \<Rightarrow> string \<Rightarrow> bool \<times> 'u) \<Rightarrow> string \<Rightarrow> 'u ini_state \<Rightarrow> 'u ini_state" where
  "ini_pair_line handler start st =
     (let (before, end) = find_char_or_comment False CHR ''='' start;
          (before, end) = (if at_char CHR ''='' end then (before, end)
                           else find_char_or_comment False CHR '':'' start)
      in if at_char CHR ''='' end \<or> at_char CHR '':'' end
         then let name = rstrip before;
                  value = rstrip (fst (find_char_or_comment False NUL (lskip (tl end))))
              in ini_call handler name value (st\<lparr>prev_name := strncpy0 name MAX_NAME\<rparr>)
         else ini_fail st)"

text \<open>The body of the loop on the characters that \<open>fgets\<close> has put into \<open>line\<close>. The start of the text is
  behind the start of the buffer when a byte order mark or white space has been skipped.\<close>

definition ini_line ::
  "('u \<Rightarrow> string \<Rightarrow> string \<Rightarrow> string \<Rightarrow> bool \<times> 'u) \<Rightarrow> string \<Rightarrow> 'u ini_state \<Rightarrow> 'u ini_state" where
  "ini_line handler line st =
     (let st = st\<lparr>lineno := lineno st + 1\<rparr>;
          buf = c_str line;
          bom = (lineno st = 1 \<and> take 3 buf = BOM);
          text = rstrip (if bom then drop 3 buf else buf);
          start = lskip text
      in if at_char CHR '';'' start \<or> at_char CHR ''#'' start then st
         else if prev_name st \<noteq> [] \<and> start \<noteq> [] \<and> (bom \<or> start \<noteq> text)
         then ini_call handler (prev_name st) start st
         else if at_char CHR ''['' start then ini_section_line start st
         else if start \<noteq> [] then ini_pair_line handler start st
         else st)"

lemma fgets_chars_length: "length (snd (fgets_chars n s)) \<le> length s"
  by (induction n s rule: fgets_chars.induct) (auto simp add: split_beta)

lemma fgets_chars_progress: "0 < n \<Longrightarrow> s \<noteq> [] \<Longrightarrow> length (snd (fgets_chars n s)) < length s"
  using fgets_chars_length [of "n - 1" "tl s"] by (cases n; cases s) (auto simp add: split_beta)

lemma fgets_shorter: "fgets INI_MAX_LINE file = Some (line, rest) \<Longrightarrow> length rest < length file"
  using fgets_chars_progress [of 199 "file"] by (auto simp add: fgets_def INI_MAX_LINE_def split: if_splits)

function ini_lines ::
  "('u \<Rightarrow> string \<Rightarrow> string \<Rightarrow> string \<Rightarrow> bool \<times> 'u) \<Rightarrow> string \<Rightarrow> 'u ini_state \<Rightarrow> 'u ini_state" where
  "ini_lines handler file st =
     (case fgets INI_MAX_LINE file of
        None \<Rightarrow> st
      | Some (line, rest) \<Rightarrow> ini_lines handler rest (ini_line handler line st))"
  by pat_completeness auto

termination ini_lines
  by (relation "measure (\<lambda>(h, file, st). length file)") (auto dest: fgets_shorter)

declare ini_lines.simps [simp del]

definition ini_parse_file ::
  "('u \<Rightarrow> string \<Rightarrow> string \<Rightarrow> string \<Rightarrow> bool \<times> 'u) \<Rightarrow> string \<Rightarrow> 'u \<Rightarrow> nat \<times> 'u" where
  "ini_parse_file handler file user =
     (let st = ini_lines handler file
                 \<lparr>ini_section = [], prev_name = [], lineno = 0, ini_error = 0, ini_user = user\<rparr>
      in (ini_error st, ini_user st))"

text \<open>A file that cannot be opened is \<open>None\<close>.\<close>

definition ini_parse ::
  "('u \<Rightarrow> string \<Rightarrow> string \<Rightarrow> string \<Rightarrow> bool \<times> 'u) \<Rightarrow> string option \<Rightarrow> 'u \<Rightarrow> int \<times> 'u" where
  "ini_parse handler file user =
     (case file of
        None \<Rightarrow> (- 1, user)
      | Some f \<Rightarrow> let (error, user) = ini_parse_file handler f user in (int error, user))"

section \<open>The handler of the daemon\<close>

definition LINKSPEED_10G :: u32 where
  "LINKSPEED_10G = 10000000"

definition LINKSPEED_2_5G :: u32 where
  "LINKSPEED_2_5G = 2500000"

definition LINKSPEED_1G :: u32 where
  "LINKSPEED_1G = 1000000"

definition LINKSPEED_100MB :: u32 where
  "LINKSPEED_100MB = 100000"

definition speed_name_map :: "(u32 \<times> string) list" where
  "speed_name_map =
     [(LINKSPEED_10G, ''LINKSPEED_10G''), (LINKSPEED_2_5G, ''LINKSPEED_2_5G''), (LINKSPEED_1G, ''LINKSPEED_1G''),
      (LINKSPEED_100MB, ''LINKSPEED_100MB''), (INVALID_LINKSPEED, ''INVALID_LINKSPEED'')]"

fun find_speed :: "u32 \<Rightarrow> (u32 \<times> string) list \<Rightarrow> string option" where
  "find_speed speed ((s, n) # iter) =
     (if s = INVALID_LINKSPEED then None else if s = speed then Some n else find_speed speed iter)"
| "find_speed speed [] = None"

definition findNameBySpeed :: "u32 \<Rightarrow> string option" where
  "findNameBySpeed speed = find_speed speed speed_name_map"

text \<open>The speed, and the string at \<open>*end\<close>.\<close>

fun find_name :: "string \<Rightarrow> (u32 \<times> string) list \<Rightarrow> u32 \<times> string" where
  "find_name name ((s, n) # iter) =
     (if s = INVALID_LINKSPEED then (s, name)
      else if take (length n) name = n then (s, drop (length n) name)
      else find_name name iter)"
| "find_name name [] = (INVALID_LINKSPEED, name)"

definition findSpeedByName :: "string \<Rightarrow> u32 \<times> string" where
  "findSpeedByName name = find_name name speed_name_map"

record gptp_cfg_t =
  cfg_priority1 :: u8
  cfg_announceReceiptTimeout :: u32
  cfg_syncReceiptTimeout :: u32
  cfg_syncReceiptThresh :: u32
  cfg_neighborPropDelayThresh :: u64
  cfg_seqIdAsCapableThresh :: u32
  cfg_lostPdelayRespThresh :: u16
  cfg_port_state :: PortState
  cfg_allowNegativeCorrField :: bool
  cfg_ifname :: string
  cfg_phy_delay :: "u32 \<Rightarrow> phy_delay_spec_t option"

text \<open>\<open>map[speed]\<close> creates a missing entry with the default constructor of \<open>phy_delay_spec_t\<close>, which sets
  neither delay: the first argument is the memory of the new entry.\<close>

definition phy_delay_at ::
  "phy_delay_spec_t \<Rightarrow> u32 \<Rightarrow> (phy_delay_spec_t \<Rightarrow> phy_delay_spec_t) \<Rightarrow> (u32 \<Rightarrow> phy_delay_spec_t option) \<Rightarrow>
     u32 \<Rightarrow> phy_delay_spec_t option" where
  "phy_delay_at mem speed f m =
     m(speed \<mapsto> f (case m speed of None \<Rightarrow> mem | Some d \<Rightarrow> d))"

definition set_delay :: "u16 \<Rightarrow> u16 \<Rightarrow> phy_delay_spec_t \<Rightarrow> phy_delay_spec_t" where
  "set_delay tx rx d = d\<lparr>tx_delay := tx, rx_delay := rx\<rparr>"

definition parseMatch :: "string \<Rightarrow> string \<Rightarrow> bool" where
  "parseMatch s1 s2 \<longleftrightarrow> strcasecmp_eq s1 s2"

text \<open>An item with one number: its value must be used up without overflow.\<close>

definition cfg_number :: "string \<Rightarrow> (u64 \<Rightarrow> gptp_cfg_t \<Rightarrow> gptp_cfg_t) \<Rightarrow> gptp_cfg_t \<Rightarrow> bool \<times> gptp_cfg_t" where
  "cfg_number value upd cfg =
     (case strtoul value 10 of (n, pEnd, erange) \<Rightarrow>
        if pEnd = [] \<and> \<not> erange then (True, upd n cfg) else (False, cfg))"

definition cfg_phy_delay_item :: "phy_delay_spec_t \<Rightarrow> string \<Rightarrow> gptp_cfg_t \<Rightarrow> bool \<times> gptp_cfg_t" where
  "cfg_phy_delay_item mem value cfg =
     (let (speed, c_pEnd) = findSpeedByName value;
          (speed, c_pEnd, e0) =
            (if speed = INVALID_LINKSPEED
             then case strtoul value 10 of (n, pEnd, e) \<Rightarrow> (ucast n, pEnd, e)
             else (speed, c_pEnd, False));
          (ph_tx_dly, pEnd, e1) = strtoul c_pEnd 10;
          (ph_rx_dly, pEnd, e2) = strtoul pEnd 10
      in if pEnd = [] \<and> \<not> e0 \<and> \<not> e1 \<and> \<not> e2
         then (True, cfg\<lparr>cfg_phy_delay :=
                 phy_delay_at mem speed (set_delay (ucast ph_tx_dly) (ucast ph_rx_dly)) (cfg_phy_delay cfg)\<rparr>)
         else (False, cfg))"

definition iniCallBack ::
  "phy_delay_spec_t \<Rightarrow> gptp_cfg_t \<Rightarrow> string \<Rightarrow> string \<Rightarrow> string \<Rightarrow> bool \<times> gptp_cfg_t" where
  "iniCallBack mem cfg section name value =
     (if parseMatch section ''ptp'' then
        (if parseMatch name ''priority1''
         then cfg_number value (\<lambda>n. cfg_priority1_update (\<lambda>_. ucast n)) cfg
         else (False, cfg))
      else if parseMatch section ''port'' then
        (if parseMatch name ''announceReceiptTimeout''
         then cfg_number value (\<lambda>n. cfg_announceReceiptTimeout_update (\<lambda>_. ucast n)) cfg
         else if parseMatch name ''syncReceiptTimeout''
         then cfg_number value (\<lambda>n. cfg_syncReceiptTimeout_update (\<lambda>_. ucast n)) cfg
         else if parseMatch name ''neighborPropDelayThresh''
         then cfg_number value (\<lambda>n. cfg_neighborPropDelayThresh_update (\<lambda>_. n)) cfg
         else if parseMatch name ''syncReceiptThresh''
         then cfg_number value (\<lambda>n. cfg_syncReceiptThresh_update (\<lambda>_. ucast n)) cfg
         else if parseMatch name ''seqIdAsCapableThresh''
         then cfg_number value (\<lambda>n. cfg_seqIdAsCapableThresh_update (\<lambda>_. ucast n)) cfg
         else if parseMatch name ''lostPdelayRespThresh''
         then cfg_number value (\<lambda>n. cfg_lostPdelayRespThresh_update (\<lambda>_. ucast n)) cfg
         else if parseMatch name ''allowNegativeCorrectionField''
         then (case cfg_number value (\<lambda>n. cfg_allowNegativeCorrField_update (\<lambda>_. (ucast n :: u32) = 1)) cfg of
                 (ok, cfg') \<Rightarrow>
                   if ok \<and> ((ucast (fst (strtoul value 10)) :: u32) = 0 \<or> (ucast (fst (strtoul value 10)) :: u32) = 1)
                   then (True, cfg') else (False, cfg))
         else (False, cfg))
      else if parseMatch section ''eth'' then
        (if parseMatch name ''phy_delay_gb_tx''
         then cfg_number value (\<lambda>n. cfg_phy_delay_update (phy_delay_at mem LINKSPEED_1G (tx_delay_update (\<lambda>_. ucast n)))) cfg
         else if parseMatch name ''phy_delay_gb_rx''
         then cfg_number value (\<lambda>n. cfg_phy_delay_update (phy_delay_at mem LINKSPEED_1G (rx_delay_update (\<lambda>_. ucast n)))) cfg
         else if parseMatch name ''phy_delay_mb_tx''
         then cfg_number value (\<lambda>n. cfg_phy_delay_update (phy_delay_at mem LINKSPEED_100MB (tx_delay_update (\<lambda>_. ucast n)))) cfg
         else if parseMatch name ''phy_delay_mb_rx''
         then cfg_number value (\<lambda>n. cfg_phy_delay_update (phy_delay_at mem LINKSPEED_100MB (rx_delay_update (\<lambda>_. ucast n)))) cfg
         else if parseMatch name ''phy_delay'' then cfg_phy_delay_item mem value cfg
         else (False, cfg))
      else (False, cfg))"

text \<open>The constructor: only the members of class type of the configuration are initialised, the others
  are what the memory held.\<close>

definition GptpIniParser :: "phy_delay_spec_t \<Rightarrow> gptp_cfg_t \<Rightarrow> string option \<Rightarrow> int \<times> gptp_cfg_t" where
  "GptpIniParser mem cfg file =
     ini_parse (iniCallBack mem) file (cfg\<lparr>cfg_ifname := [], cfg_phy_delay := (\<lambda>_. None)\<rparr>)"

section \<open>Strings\<close>

lemma lskip_dropWhile: "lskip s = dropWhile isspace s"
  by (induction s) simp_all

lemma isspace_simps [simp]: "isspace newline" "isspace CHR '' ''"
  by (simp_all add: isspace_def)

text \<open>A string that neither starts nor ends with white space.\<close>

definition trimmed :: "string \<Rightarrow> bool" where
  "trimmed s \<longleftrightarrow> (s \<noteq> [] \<longrightarrow> \<not> isspace (hd s) \<and> \<not> isspace (last s))"

lemma lskip_trimmed [simp]: "trimmed s \<Longrightarrow> lskip s = s"
  by (cases s) (simp_all add: trimmed_def)

lemma rstrip_trimmed [simp]: "trimmed s \<Longrightarrow> rstrip s = s"
  by (cases s rule: rev_cases) (simp_all add: trimmed_def rstrip_def)

lemma rstrip_space [simp]: "isspace c \<Longrightarrow> rstrip (s @ [c]) = rstrip s"
  by (simp add: rstrip_def)

lemma c_str_id [simp]: "NUL \<notin> set s \<Longrightarrow> c_str s = s"
  by (auto simp add: c_str_def takeWhile_eq_all_conv)

lemma fgets_line: "newline \<notin> set s \<Longrightarrow> length s < n \<Longrightarrow> fgets_chars n (s @ newline # rest) = (s @ [newline], rest)"
proof (induction s arbitrary: n)
  case Nil
  then show ?case by (cases n) simp_all
next
  case (Cons c s)
  then show ?case by (cases n) auto
qed

lemma find_char_or_comment_found:
  "c \<notin> set s \<Longrightarrow> CHR '';'' \<notin> set s \<Longrightarrow> find_char_or_comment ws c (s @ c # rest) = (s, c # rest)"
  by (induction s arbitrary: ws) auto

lemma find_char_or_comment_end:
  "c \<notin> set s \<Longrightarrow> CHR '';'' \<notin> set s \<Longrightarrow> find_char_or_comment ws c s = (s, [])"
  by (induction s arbitrary: ws) auto

section \<open>Files in the documented form\<close>

text \<open>The items of a file, one on each line, and the characters of the line.\<close>

datatype ini_item = Blank | Comment string | Section string | Pair string string

fun item_line :: "ini_item \<Rightarrow> string" where
  "item_line Blank = []"
| "item_line (Comment c) = CHR ''#'' # c"
| "item_line (Section s) = CHR ''['' # s @ '']''"
| "item_line (Pair n v) = n @ '' = '' @ v"

definition render :: "ini_item list \<Rightarrow> string" where
  "render items = concat (List.map (\<lambda>x. item_line x @ [newline]) items)"

text \<open>Names are words; a value or a section name is a text in which no character has a meaning for the
  parser. A comment is any text on one line.\<close>

definition text_char :: "char \<Rightarrow> bool" where
  "text_char c \<longleftrightarrow> c \<noteq> newline \<and> c \<noteq> NUL \<and> c \<noteq> CHR 0xEF"

definition plain_char :: "char \<Rightarrow> bool" where
  "plain_char c \<longleftrightarrow> text_char c \<and> c \<noteq> CHR ''='' \<and> c \<noteq> CHR '';'' \<and> c \<noteq> CHR '']'' \<and> c \<noteq> CHR ''[''  \<and> c \<noteq> CHR ''#''"

fun wf_item :: "ini_item \<Rightarrow> bool" where
  "wf_item Blank = True"
| "wf_item (Comment c) = (list_all text_char c \<and> length c < 198)"
| "wf_item (Section s) = (list_all plain_char s \<and> length s < 50)"
| "wf_item (Pair n v) = (n \<noteq> [] \<and> v \<noteq> [] \<and> trimmed n \<and> trimmed v \<and> list_all plain_char n \<and> list_all plain_char v \<and>
     length n + length v < 196)"

text \<open>The meaning of a sequence of items from a line number on: the handler is called on every pair with
  the section it is in, and the first line with a pair that it refuses is the error.\<close>

fun run_items ::
  "('u \<Rightarrow> string \<Rightarrow> string \<Rightarrow> string \<Rightarrow> bool \<times> 'u) \<Rightarrow> ini_item list \<Rightarrow> string \<Rightarrow> nat \<Rightarrow> nat \<times> 'u \<Rightarrow> nat \<times> 'u" where
  "run_items h [] sec n r = r"
| "run_items h (Section s # items) sec n r = run_items h items s (Suc n) r"
| "run_items h (Pair k v # items) sec n (e, u) =
     (let (ok, u) = h u sec k v in run_items h items sec (Suc n) (if \<not> ok \<and> e = 0 then n else e, u))"
| "run_items h (Blank # items) sec n r = run_items h items sec (Suc n) r"
| "run_items h (Comment c # items) sec n r = run_items h items sec (Suc n) r"

lemma rstrip_Cons: "\<not> isspace c \<Longrightarrow> rstrip (c # s) = c # rstrip s"
  by (auto simp add: rstrip_def dropWhile_append)

lemma text_line:
  assumes "list_all text_char s"
  shows "c_str (s @ [newline]) = s @ [newline]" and "take 3 (s @ [newline]) \<noteq> BOM" and "newline \<notin> set s"
proof -
  have s: "x \<noteq> newline \<and> x \<noteq> NUL \<and> x \<noteq> CHR 0xEF" if "x \<in> set s" for x
    using assms that by (auto simp add: list_all_iff text_char_def)
  then show "c_str (s @ [newline]) = s @ [newline]" by (intro c_str_id) (auto simp add: newline_def NUL_def)
  show "newline \<notin> set s" using s by auto
  show "take 3 (s @ [newline]) \<noteq> BOM" using s by (cases s) (auto simp add: BOM_def newline_def)
qed

lemma trimmed_text: "trimmed s \<Longrightarrow> rstrip (s @ [newline]) = s"
  by simp

lemma ini_line_comment:
  assumes "list_all text_char c"
  shows "ini_line h ((CHR ''#'' # c) @ [newline]) st = st\<lparr>lineno := lineno st + 1\<rparr>"
proof -
  have "list_all text_char (CHR ''#'' # c)" using assms by (simp add: text_char_def newline_def NUL_def)
  moreover have "\<not> isspace CHR ''#''" by (simp add: isspace_def newline_def)
  ultimately show ?thesis
    using text_line [of "CHR ''#'' # c"] rstrip_Cons [of "CHR ''#''" "c @ [newline]"] by (simp add: ini_line_def Let_def)
qed

lemma ini_line_blank: "ini_line h [newline] st = st\<lparr>lineno := lineno st + 1\<rparr>"
  using text_line [of "[]"] trimmed_text [of "[]"] by (simp add: ini_line_def Let_def trimmed_def)

lemma ini_line_text:
  assumes "list_all text_char s" and "trimmed s" and "s \<noteq> []" and "hd s \<noteq> CHR '';''" and "hd s \<noteq> CHR ''#''"
  shows "ini_line h (s @ [newline]) st =
    (if hd s = CHR ''['' then ini_section_line s (st\<lparr>lineno := lineno st + 1\<rparr>)
     else ini_pair_line h s (st\<lparr>lineno := lineno st + 1\<rparr>))"
proof -
  have "\<not> at_char CHR '';'' s" "\<not> at_char CHR ''#'' s" "at_char CHR ''['' s \<longleftrightarrow> hd s = CHR ''[''"
    using assms(3-5) by (cases s; simp)+
  then show ?thesis
    using text_line [OF assms(1)] trimmed_text [OF assms(2)] assms(2,3) by (simp add: ini_line_def Let_def)
qed

lemma plain_text: "list_all plain_char s \<Longrightarrow> list_all text_char s"
  by (auto simp add: list_all_iff plain_char_def)

lemma plain_chars:
  assumes "list_all plain_char s"
  shows "CHR ''='' \<notin> set s" "CHR '';'' \<notin> set s" "CHR '']'' \<notin> set s" "CHR ''['' \<notin> set s" "CHR ''#'' \<notin> set s"
    "NUL \<notin> set s"
  using assms by (auto simp add: list_all_iff plain_char_def text_char_def)

lemma ini_line_section:
  assumes "wf_item (Section s)"
  shows "ini_line h (item_line (Section s) @ [newline]) st =
    st\<lparr>lineno := lineno st + 1, ini_section := s, prev_name := []\<rparr>"
proof -
  let ?l = "CHR ''['' # s @ '']''"
  have "list_all text_char ?l" "trimmed ?l"
    using assms plain_text [of s] by (auto simp add: text_char_def newline_def NUL_def trimmed_def isspace_def)
  then have "ini_line h (?l @ [newline]) st = ini_section_line ?l (st\<lparr>lineno := lineno st + 1\<rparr>)"
    using ini_line_text [of ?l h st] by simp
  then show ?thesis
    using assms find_char_or_comment_found [of "CHR '']''" s False "[]"] plain_chars [of s]
    by (simp add: ini_section_line_def strncpy0_def MAX_SECTION_def)
qed

lemma ini_line_pair:
  assumes "wf_item (Pair n v)"
  shows "ini_line h (item_line (Pair n v) @ [newline]) st =
    ini_call h n v (st\<lparr>lineno := lineno st + 1, prev_name := take 49 n\<rparr>)"
proof -
  let ?l = "n @ '' = '' @ v"
  have c: "list_all text_char ?l" using assms plain_text [of n] plain_text [of v] by (simp add: text_char_def newline_def NUL_def)
  have h: "hd n \<noteq> CHR '';''" "hd n \<noteq> CHR ''#''" "hd n \<noteq> CHR ''[''"
    using plain_chars(2,4,5) [of n] assms by (cases n; auto)+
  have "find_char_or_comment False CHR ''='' ((n @ '' '') @ CHR ''='' # w) = (n @ '' '', CHR ''='' # w)" for w
    using plain_chars(1,2) [of n] assms by (intro find_char_or_comment_found) auto
  then have f: "find_char_or_comment False CHR ''='' (n @ '' ='' @ w) = (n @ '' '', CHR ''='' # w)" for w
    by simp
  have v: "rstrip (fst (find_char_or_comment False NUL v)) = v"
    using plain_chars(2,6) [of v] assms by (simp add: find_char_or_comment_end)
  have sp: "lskip (CHR '' '' # v) = v" using assms by simp
  have "trimmed ?l" using assms by (auto simp add: trimmed_def)
  then have "ini_line h (?l @ [newline]) st = ini_pair_line h ?l (st\<lparr>lineno := lineno st + 1\<rparr>)"
    using ini_line_text [of ?l h st] c h assms by simp
  then show ?thesis
    using f [of "CHR '' '' # v"] v sp assms by (simp add: ini_pair_line_def Let_def strncpy0_def MAX_NAME_def)
qed

lemma wf_item_line: "wf_item x \<Longrightarrow> newline \<notin> set (item_line x) \<and> length (item_line x) < 199"
  by (cases x) (auto simp add: list_all_iff plain_char_def text_char_def newline_def)

lemma ini_lines_render:
  "list_all wf_item items \<Longrightarrow>
     (let st' = ini_lines h (render items) st in (ini_error st', ini_user st')) =
       run_items h items (ini_section st) (Suc (lineno st)) (ini_error st, ini_user st)"
proof (induction items arbitrary: st)
  case Nil
  then show ?case by (simp add: render_def ini_lines.simps fgets_def)
next
  case (Cons x items)
  have "fgets INI_MAX_LINE (render (x # items)) = Some (item_line x @ [newline], render items)"
    using fgets_line [of "item_line x" 199 "render items"] wf_item_line [of x] Cons.prems
    by (simp add: fgets_def INI_MAX_LINE_def render_def)
  then have "ini_lines h (render (x # items)) st = ini_lines h (render items) (ini_line h (item_line x @ [newline]) st)"
    by (simp add: ini_lines.simps [of h "render (x # items)"])
  then show ?case
    using Cons ini_line_section [of _ h st] ini_line_pair [of _ _ h st] ini_line_comment [of _ h st] ini_line_blank [of h st]
    by (cases x) (simp_all add: ini_call_def split_beta)
qed

text \<open>C26. A file in the documented form is read as the sequence of its items: whatever the handler, it is
  called once for each pair, in the order of the file and with the section, the name and the value that
  are written there, and the return value is 0 or the number of the first line whose pair it refused.\<close>

theorem ini_parse_file_items:
  assumes "list_all wf_item items"
  shows "ini_parse_file h (render items) u = run_items h items [] 1 (0, u)"
  using ini_lines_render [OF assms, of h] by (simp add: ini_parse_file_def Let_def)

section \<open>Numbers\<close>

text \<open>The decimal numeral of a number.\<close>

fun decimal :: "nat \<Rightarrow> string" where
  "decimal n = (if n < 10 then [char_of (48 + n)] else decimal (n div 10) @ [char_of (48 + n mod 10)])"

declare decimal.simps [simp del]

lemma digit_val_char [simp]: "d < 10 \<Longrightarrow> digit_val (char_of (48 + d)) = d"
  by (simp add: digit_val_def)

lemma digits_append:
  "list_all (\<lambda>c. digit_val c < b) s \<Longrightarrow> digits b n (s @ t) = digits b (fst (digits b n s)) t"
  by (induction s arbitrary: n) simp_all

lemma decimal_digits: "list_all (\<lambda>c. digit_val c < 10) (decimal n)"
proof (induction n rule: decimal.induct)
  case (1 n)
  then show ?case by (subst decimal.simps) simp
qed

lemma digits_decimal: "digits 10 0 (decimal n) = (n, [])"
proof (induction n rule: decimal.induct)
  case (1 n)
  show ?case
  proof (cases "n < 10")
    case True
    then show ?thesis by (subst decimal.simps) simp
  next
    case False
    then have "digits 10 0 (decimal n) = digits 10 (n div 10) [char_of (48 + n mod 10)]"
      using 1 digits_append [OF decimal_digits, of 0 "n div 10"] by (subst decimal.simps) simp
    then show ?thesis by simp
  qed
qed

lemma digits_decimal_rest:
  "\<not> starts_with_digit 10 t \<Longrightarrow> digits 10 0 (decimal n @ t) = (n, t)"
  using digits_append [OF decimal_digits, of 0 n t] by (cases t) (simp_all add: digits_decimal)

lemma decimal_nonempty [simp]: "decimal n \<noteq> []"
  by (subst decimal.simps) simp

lemma digit_not_space: "digit_val c < 10 \<Longrightarrow> \<not> isspace c \<and> c \<noteq> CHR ''-'' \<and> c \<noteq> CHR ''+'' \<and> c \<noteq> CHR ''L''"
  by (auto simp add: digit_val_def isspace_def newline_def Let_def)

lemma decimal_head:
  obtains c s where "decimal n = c # s" and "digit_val c < 10"
  using decimal_digits [of n] by (cases "decimal n") auto

lemma base_prefix_10 [simp]: "base_prefix 10 s = (10, s)"
  by (cases "(10 :: nat, s)" rule: base_prefix.cases) auto

lemma strtoul_decimal:
  assumes "n < 2 ^ 64" and "\<not> starts_with_digit 10 t" and "list_all isspace ws"
  shows "strtoul (ws @ decimal n @ t) 10 = (of_nat n, t, False)"
proof -
  obtain c s where d: "decimal n = c # s" "digit_val c < 10" by (rule decimal_head)
  then have "dropWhile isspace (ws @ decimal n @ t) = decimal n @ t"
    using assms(3) digit_not_space by (subst dropWhile_append2) (auto simp add: list_all_iff)
  moreover have "sign_prefix (decimal n @ t) = (False, decimal n @ t)" "starts_with_digit 10 (decimal n @ t)"
    using d digit_not_space by auto
  ultimately show ?thesis
    using assms(1) digits_decimal_rest [OF assms(2)] by (simp add: strtoul_def)
qed

lemma strtoul_decimal_only [simp]: "n < 2 ^ 64 \<Longrightarrow> strtoul (decimal n) 10 = (of_nat n, [], False)"
  using strtoul_decimal [of n "[]" "[]"] by simp

lemma cfg_number_decimal: "n < 2 ^ 64 \<Longrightarrow> cfg_number (decimal n) upd cfg = (True, upd (of_nat n) cfg)"
  by (simp add: cfg_number_def)

lemma ucast_of_nat [simp]:
  "ucast (of_nat n :: u64) = (of_nat n :: u32)" "ucast (of_nat n :: u64) = (of_nat n :: u16)"
  "ucast (of_nat n :: u64) = (of_nat n :: u8)"
  by (simp_all add: unsigned_of_nat word_of_nat_eq_iff take_bit_take_bit)

text \<open>The three numbers of a \<open>phy_delay\<close> item; the link speed may be given by its name.\<close>

lemma strtoul_delays:
  assumes "t < 2 ^ 64" and "r < 2 ^ 64"
  shows "strtoul (CHR '' '' # decimal t @ CHR '' '' # decimal r) 10 = (of_nat t, CHR '' '' # decimal r, False)"
    and "strtoul (CHR '' '' # decimal r) 10 = (of_nat r, [], False)"
  using strtoul_decimal [of t "CHR '' '' # decimal r" "'' ''"] strtoul_decimal [of r "[]" "'' ''"] assms
  by (simp_all add: digit_val_def)

lemma findSpeedByName_decimal: "findSpeedByName (decimal n @ s) = (INVALID_LINKSPEED, decimal n @ s)"
proof -
  obtain c t where d: "decimal n = c # t" "digit_val c < 10" by (rule decimal_head)
  then have "c \<noteq> CHR ''L''" using digit_not_space by auto
  then show ?thesis using d(1) by (simp add: findSpeedByName_def speed_name_map_def)
qed

lemma phy_delay_item_numeric:
  assumes "s < 2 ^ 64" and "t < 2 ^ 64" and "r < 2 ^ 64"
  shows "cfg_phy_delay_item mem (decimal s @ '' '' @ decimal t @ '' '' @ decimal r) cfg =
    (True, cfg\<lparr>cfg_phy_delay := phy_delay_at mem (of_nat s) (set_delay (of_nat t) (of_nat r)) (cfg_phy_delay cfg)\<rparr>)"
  using strtoul_decimal [of s "'' '' @ decimal t @ '' '' @ decimal r" "[]"] strtoul_delays [OF assms(2,3)] assms(1)
    findSpeedByName_decimal [of s "'' '' @ decimal t @ '' '' @ decimal r"]
  by (simp add: cfg_phy_delay_item_def digit_val_def)

lemma set_delay_eq: "set_delay t r x = \<lparr>tx_delay = t, rx_delay = r\<rparr>"
  by (cases x) (simp add: set_delay_def)

lemma speed_name:
  assumes "findNameBySpeed speed = Some name"
  shows "findSpeedByName (name @ s) = (speed, s) \<and> speed \<noteq> INVALID_LINKSPEED"
  using assms
  by (auto simp add: findNameBySpeed_def findSpeedByName_def speed_name_map_def LINKSPEED_10G_def LINKSPEED_2_5G_def
      LINKSPEED_1G_def LINKSPEED_100MB_def INVALID_LINKSPEED_def split: if_splits)

lemma phy_delay_item_named:
  assumes "findNameBySpeed speed = Some name" and "t < 2 ^ 64" and "r < 2 ^ 64"
  shows "cfg_phy_delay_item mem (name @ '' '' @ decimal t @ '' '' @ decimal r) cfg =
    (True, cfg\<lparr>cfg_phy_delay := phy_delay_at mem speed (set_delay (of_nat t) (of_nat r)) (cfg_phy_delay cfg)\<rparr>)"
  using strtoul_delays [OF assms(2,3)] speed_name [OF assms(1), of "'' '' @ decimal t @ '' '' @ decimal r"]
  by (simp add: cfg_phy_delay_item_def)

section \<open>The configuration of the daemon\<close>

text \<open>The documented items with the values of a configuration.\<close>

definition phy_delay_items :: "(u32 \<times> u16 \<times> u16) list \<Rightarrow> ini_item list" where
  "phy_delay_items ds =
     List.map (\<lambda>(s, t, r). Pair ''phy_delay'' (decimal (unat s) @ '' '' @ decimal (unat t) @ '' '' @ decimal (unat r))) ds"

definition config_items :: "gptp_cfg_t \<Rightarrow> (u32 \<times> u16 \<times> u16) list \<Rightarrow> ini_item list" where
  "config_items cfg ds =
     [Section ''ptp'', Pair ''priority1'' (decimal (unat (cfg_priority1 cfg))), Blank,
      Section ''port'', Pair ''announceReceiptTimeout'' (decimal (unat (cfg_announceReceiptTimeout cfg))),
      Pair ''syncReceiptTimeout'' (decimal (unat (cfg_syncReceiptTimeout cfg))),
      Pair ''neighborPropDelayThresh'' (decimal (unat (cfg_neighborPropDelayThresh cfg))),
      Pair ''syncReceiptThresh'' (decimal (unat (cfg_syncReceiptThresh cfg))),
      Pair ''seqIdAsCapableThresh'' (decimal (unat (cfg_seqIdAsCapableThresh cfg))),
      Pair ''lostPdelayRespThresh'' (decimal (unat (cfg_lostPdelayRespThresh cfg))),
      Pair ''allowNegativeCorrectionField'' (decimal (of_bool (cfg_allowNegativeCorrField cfg))), Blank,
      Section ''eth''] @ phy_delay_items ds"

definition delay_entry ::
  "u32 \<times> u16 \<times> u16 \<Rightarrow> (u32 \<Rightarrow> phy_delay_spec_t option) \<Rightarrow> u32 \<Rightarrow> phy_delay_spec_t option" where
  "delay_entry d m = (case d of (s, t, r) \<Rightarrow> m(s \<mapsto> \<lparr>tx_delay = t, rx_delay = r\<rparr>))"

definition delay_map :: "(u32 \<times> u16 \<times> u16) list \<Rightarrow> u32 \<Rightarrow> phy_delay_spec_t option" where
  "delay_map ds = fold delay_entry ds (\<lambda>_. None)"

lemma iniCallBack_ptp: "iniCallBack mem cfg ''ptp'' ''priority1'' v = cfg_number v (\<lambda>n. cfg_priority1_update (\<lambda>_. ucast n)) cfg"
  by (simp add: iniCallBack_def parseMatch_def strcasecmp_eq_def)

lemma section_match: "\<not> parseMatch ''port'' ''ptp''" "parseMatch ''port'' ''port''" "\<not> parseMatch ''eth'' ''ptp''"
    "\<not> parseMatch ''eth'' ''port''" "parseMatch ''eth'' ''eth''"
  by (simp_all add: parseMatch_def strcasecmp_eq_def tolower_def)

lemma parseMatch_length: "length s \<noteq> length t \<Longrightarrow> \<not> parseMatch s t"
  by (auto simp add: parseMatch_def strcasecmp_eq_def dest: map_eq_imp_length_eq)

lemma parseMatch_refl: "parseMatch s s"
  by (simp add: parseMatch_def strcasecmp_eq_def)

lemma name_match:
  "\<not> parseMatch ''lostPdelayRespThresh'' ''seqIdAsCapableThresh''"
  by (simp add: parseMatch_def strcasecmp_eq_def tolower_def)

lemma iniCallBack_port:
  "iniCallBack mem cfg ''port'' ''announceReceiptTimeout'' v = cfg_number v (\<lambda>n. cfg_announceReceiptTimeout_update (\<lambda>_. ucast n)) cfg"
  "iniCallBack mem cfg ''port'' ''syncReceiptTimeout'' v = cfg_number v (\<lambda>n. cfg_syncReceiptTimeout_update (\<lambda>_. ucast n)) cfg"
  "iniCallBack mem cfg ''port'' ''neighborPropDelayThresh'' v = cfg_number v (\<lambda>n. cfg_neighborPropDelayThresh_update (\<lambda>_. n)) cfg"
  "iniCallBack mem cfg ''port'' ''syncReceiptThresh'' v = cfg_number v (\<lambda>n. cfg_syncReceiptThresh_update (\<lambda>_. ucast n)) cfg"
  "iniCallBack mem cfg ''port'' ''seqIdAsCapableThresh'' v = cfg_number v (\<lambda>n. cfg_seqIdAsCapableThresh_update (\<lambda>_. ucast n)) cfg"
  "iniCallBack mem cfg ''port'' ''lostPdelayRespThresh'' v = cfg_number v (\<lambda>n. cfg_lostPdelayRespThresh_update (\<lambda>_. ucast n)) cfg"
  by (simp_all add: iniCallBack_def section_match parseMatch_length parseMatch_refl name_match)

lemma iniCallBack_negative:
  "iniCallBack mem cfg ''port'' ''allowNegativeCorrectionField'' (decimal (of_bool b)) =
     (True, cfg\<lparr>cfg_allowNegativeCorrField := b\<rparr>)"
  by (simp add: iniCallBack_def section_match parseMatch_length parseMatch_refl cfg_number_def)

lemma iniCallBack_eth: "iniCallBack mem cfg ''eth'' ''phy_delay'' v = cfg_phy_delay_item mem v cfg"
  by (simp add: iniCallBack_def section_match parseMatch_length parseMatch_refl)

lemmas iniCallBack_items = iniCallBack_ptp iniCallBack_port iniCallBack_negative iniCallBack_eth

lemma digit_plain: "digit_val c < 10 \<Longrightarrow> plain_char c"
  by (auto simp add: digit_val_def plain_char_def text_char_def newline_def NUL_def Let_def)

lemma decimal_plain [simp]: "list_all plain_char (decimal n)"
  using decimal_digits [of n] digit_plain by (auto simp add: list_all_iff)

lemma decimal_ends: "\<not> isspace (hd (decimal n))" "\<not> isspace (last (decimal n))"
  using decimal_digits [of n] digit_not_space hd_in_set [of "decimal n"] last_in_set [of "decimal n"]
  by (auto simp add: list_all_iff)

lemma decimal_trimmed [simp]: "trimmed (decimal n)"
  by (simp add: trimmed_def decimal_ends)

lemma decimal_length: "n < 10 ^ k \<Longrightarrow> 0 < k \<Longrightarrow> length (decimal n) \<le> k"
proof (induction k arbitrary: n)
  case (Suc k)
  show ?case
  proof (cases "n < 10")
    case True
    then show ?thesis by (subst decimal.simps) simp
  next
    case False
    moreover have "n div 10 < 10 ^ k" using Suc.prems(1) by (simp add: less_mult_imp_div_less mult.commute)
    moreover have "0 < k" using Suc.prems(1) False by (cases k) auto
    ultimately have "length (decimal (n div 10)) \<le> k" using Suc.IH by blast
    then show ?thesis using False by (subst decimal.simps) simp
  qed
qed simp

lemma decimal_word_length: "length (decimal (unat (x :: 'a :: len word))) \<le> 20" if "LENGTH('a) \<le> 64"
proof -
  have "unat x < 2 ^ 64" using unsigned_less [of x, where ?'a = nat] that power_increasing [of "LENGTH('a)" 64 "2 :: nat"] by linarith
  then show ?thesis by (intro decimal_length) simp_all
qed

lemma decimal_u [simp]:
  "length (decimal (unat (a :: u8))) \<le> 20" "length (decimal (unat (b :: u16))) \<le> 20"
  "length (decimal (unat (c :: u32))) \<le> 20" "length (decimal (unat (d :: u64))) \<le> 20" "length (decimal (of_bool e)) \<le> 20"
  by (simp_all add: decimal_word_length decimal_length)

lemma unat_small [simp]:
  "unat (a :: u8) < 18446744073709551616" "unat (b :: u16) < 18446744073709551616"
  "unat (c :: u32) < 18446744073709551616" "unat (d :: u64) < 18446744073709551616"
  using unsigned_less [of a, where ?'a = nat] unsigned_less [of b, where ?'a = nat]
    unsigned_less [of c, where ?'a = nat] unsigned_less [of d, where ?'a = nat] by simp_all

lemma ucast_up_down [simp]:
  "ucast (ucast (a :: u8) :: u64) = a" "ucast (ucast (b :: u16) :: u64) = b" "ucast (ucast (c :: u32) :: u64) = c"
  using ucast_of_nat(3) [of "unat a"] ucast_of_nat(2) [of "unat b"] ucast_of_nat(1) [of "unat c"] by simp_all

lemma decimal_bit [simp]: "length (decimal 0) \<le> 20" "length (decimal (Suc 0)) \<le> 20"
  by (simp_all add: decimal_length)

lemma pair_wf:
  assumes "n \<noteq> []" and "trimmed n" and "list_all plain_char n" and "length n < 40" and "length (decimal k) \<le> 20"
  shows "wf_item (Pair n (decimal k))"
  using assms by simp

lemma phy_delay_items_wf: "list_all wf_item (phy_delay_items ds)"
proof -
  have "length (decimal (unat s)) + (length (decimal (unat t)) + length (decimal (unat r))) < 185"
    for s :: u32 and t r :: u16
    using decimal_u(3) [of s] decimal_u(2) [of t] decimal_u(2) [of r] by linarith
  then have "wf_item (Pair ''phy_delay'' (decimal (unat s) @ '' '' @ decimal (unat t) @ '' '' @ decimal (unat r)))"
    for s :: u32 and t r :: u16
    by (simp add: trimmed_def decimal_ends plain_char_def text_char_def newline_def NUL_def)
      (simp add: isspace_def newline_def)
  then show ?thesis by (auto simp add: phy_delay_items_def list_all_iff split_beta)
qed

lemma config_items_wf: "list_all wf_item (config_items cfg ds)"
  unfolding config_items_def list_all_append
  by (auto simp add: phy_delay_items_wf trimmed_def plain_char_def text_char_def newline_def NUL_def isspace_def
      simp del: wf_item.simps(4) intro!: pair_wf) 

lemma run_phy_delay_items:
  "run_items (iniCallBack mem) (phy_delay_items ds) ''eth'' n (0, cfg) =
     (0, cfg\<lparr>cfg_phy_delay := fold delay_entry ds (cfg_phy_delay cfg)\<rparr>)"
proof (induction ds arbitrary: n cfg)
  case (Cons d ds)
  obtain s t r where d: "d = (s, t, r)" by (cases d)
  show ?case
    using Cons phy_delay_item_numeric [of "unat s" "unat t" "unat r" mem cfg]
    by (simp add: d phy_delay_items_def iniCallBack_items phy_delay_at_def delay_entry_def set_delay_eq)
qed (simp add: phy_delay_items_def)

text \<open>The configuration that is written into a file with the documented items is the one that the
  daemon reads: without an error, and every value within its type is taken over exactly; nothing of what
  the memory of the parser held before is left in these items.\<close>

lemma GptpIniParser_config:
  "GptpIniParser mem cfg0 (Some (render (config_items cfg ds))) =
     (0, cfg0\<lparr>cfg_priority1 := cfg_priority1 cfg, cfg_announceReceiptTimeout := cfg_announceReceiptTimeout cfg,
        cfg_syncReceiptTimeout := cfg_syncReceiptTimeout cfg, cfg_syncReceiptThresh := cfg_syncReceiptThresh cfg,
        cfg_neighborPropDelayThresh := cfg_neighborPropDelayThresh cfg,
        cfg_seqIdAsCapableThresh := cfg_seqIdAsCapableThresh cfg,
        cfg_lostPdelayRespThresh := cfg_lostPdelayRespThresh cfg,
        cfg_allowNegativeCorrField := cfg_allowNegativeCorrField cfg, cfg_ifname := [],
        cfg_phy_delay := delay_map ds\<rparr>)"
proof -
  let ?u = "cfg0\<lparr>cfg_ifname := [], cfg_phy_delay := (\<lambda>_. None)\<rparr>"
  have "ini_parse_file (iniCallBack mem) (render (config_items cfg ds)) ?u =
    run_items (iniCallBack mem) (config_items cfg ds) [] 1 (0, ?u)"
    using ini_lines_render [OF config_items_wf, of "iniCallBack mem"] by (simp add: ini_parse_file_def Let_def)
  also have "run_items (iniCallBack mem) (config_items cfg ds) [] 1 (0, ?u) =
    (0, ?u\<lparr>cfg_priority1 := cfg_priority1 cfg, cfg_announceReceiptTimeout := cfg_announceReceiptTimeout cfg,
        cfg_syncReceiptTimeout := cfg_syncReceiptTimeout cfg, cfg_syncReceiptThresh := cfg_syncReceiptThresh cfg,
        cfg_neighborPropDelayThresh := cfg_neighborPropDelayThresh cfg,
        cfg_seqIdAsCapableThresh := cfg_seqIdAsCapableThresh cfg,
        cfg_lostPdelayRespThresh := cfg_lostPdelayRespThresh cfg,
        cfg_allowNegativeCorrField := cfg_allowNegativeCorrField cfg, cfg_phy_delay := delay_map ds\<rparr>)"
    by (simp add: config_items_def iniCallBack_items cfg_number_decimal run_phy_delay_items delay_map_def)
  finally show ?thesis by (simp add: GptpIniParser_def ini_parse_def)
qed

section \<open>The configuration file of the distribution\<close>

text \<open>The lines of \<open>gptp_cfg.ini\<close>.\<close>

definition gptp_cfg_ini :: "ini_item list" where
  \<open>gptp_cfg_ini =
     [Blank,
      Section ''ptp'',
      Blank,
      Comment '' Priority1 value'',
      Comment '' It can assume values between 0 and 255.'',
      Comment '' The lower the number, the higher the priority for the BMCA.'',
      Pair ''priority1'' ''248'',
      Blank,
      Section ''port'',
      Blank,
      Comment '' TODO'',
      Pair ''announceReceiptTimeout'' ''3'',
      Blank,
      Comment '' TODO'',
      Pair ''syncReceiptTimeout'' ''3'',
      Blank,
      Comment '' Neighbor propagation delay threshold in nanoseconds'',
      Comment '' The default pdelay threshold for various hardware link types is specified in'',
      Comment '' IEEE Std 802.1AS-Cor1-2013 Table 11-0 "Value of neighborPropDelayThresh for'',
      Comment '' various links, in clause 11.2.2. It needs to be configurable because a'',
      Comment '' user may be using a converter to fibre and the software wont know until the'',
      Comment '' administrator changes it.'',
      Pair ''neighborPropDelayThresh'' ''800'',
      Blank,
      Comment '' Sync Receipt Threshold'',
      Comment '' This value defines the number of syncs with wrong seqID that will trigger'',
      Comment '' the ptp slave to become master (it will start announcing)'',
      Comment '' Normally sync messages are sent every 125ms, so setting it to 8 will allow'',
      Comment '' up to 1 second of wrong messages before switching'',
      Pair ''syncReceiptThresh'' ''8'',
      Blank,
      Comment '' Permission flag for processing SyncFollowUp messages with'',
      Comment '' negative correction field, 0 = forbidden, 1 = permitted.'',
      Pair ''allowNegativeCorrectionField'' ''0'',
      Blank,
      Section ''eth'',
      Blank,
      Comment '' Older deprecated format'',
      Comment '' PHY delay GB TX in nanoseconds'',
      Comment '' The default for I210 is 184'',
      Comment ''phy_delay_gb_tx = 184'',
      Blank,
      Comment '' Older deprecated format'',
      Comment '' PHY delay GB RX in nanoseconds'',
      Comment '' The default for I210 is 184'',
      Comment ''phy_delay_gb_rx = 382'',
      Blank,
      Comment '' Older deprecated format'',
      Comment '' PHY delay 100 MB TX in nanoseconds'',
      Comment '' The default for I210 is 1044'',
      Comment ''phy_delay_mb_tx = 1044'',
      Blank,
      Comment '' Older deprecated format'',
      Comment '' PHY delay 100 MB RX in nanoseconds'',
      Comment '' The default for I210 is 2133'',
      Comment ''phy_delay_mb_rx = 2133'',
      Blank,
      Comment '' Newer flexible format'',
      Comment '' PHY delay GB RX/TX in nanoseconds'',
      Comment '' Link speed may be specified numerically or by name'',
      Comment ''phy_delay = 1000000 184 382'',
      Pair ''phy_delay'' ''LINKSPEED_1G 184 382'',
      Blank,
      Comment '' PHY delay 100 MB RX/TX in nanoseconds'',
      Pair ''phy_delay'' ''LINKSPEED_100MB 1044 2133'',
      Blank]\<close>

lemma gptp_cfg_ini_wf: "list_all wf_item gptp_cfg_ini"
  by code_simp

lemma gptp_cfg_ini_values:
  "decimal 248 = ''248''" "decimal 3 = ''3''" "decimal 800 = ''800''" "decimal 8 = ''8''" "decimal (of_bool False) = ''0''"
  "decimal 184 = ''184''" "decimal 382 = ''382''" "decimal 1044 = ''1044''" "decimal 2133 = ''2133''"
  by code_simp+

lemma link_speed_names:
  "findNameBySpeed LINKSPEED_1G = Some ''LINKSPEED_1G''" "findNameBySpeed LINKSPEED_100MB = Some ''LINKSPEED_100MB''"
  by code_simp+

lemma gptp_cfg_ini_delays:
  "cfg_phy_delay_item mem ''LINKSPEED_1G 184 382'' cfg =
     (True, cfg\<lparr>cfg_phy_delay := phy_delay_at mem LINKSPEED_1G (set_delay 184 382) (cfg_phy_delay cfg)\<rparr>)"
  "cfg_phy_delay_item mem ''LINKSPEED_100MB 1044 2133'' cfg =
     (True, cfg\<lparr>cfg_phy_delay := phy_delay_at mem LINKSPEED_100MB (set_delay 1044 2133) (cfg_phy_delay cfg)\<rparr>)"
  using phy_delay_item_named [OF link_speed_names(1), of 184 382 mem cfg]
    phy_delay_item_named [OF link_speed_names(2), of 1044 2133 mem cfg]
  by (simp_all add: gptp_cfg_ini_values)

lemma gptp_cfg_ini_numbers:
  "cfg_number ''248'' u cfg = (True, u 248 cfg)" "cfg_number ''3'' u cfg = (True, u 3 cfg)"
  "cfg_number ''800'' u cfg = (True, u 800 cfg)" "cfg_number ''8'' u cfg = (True, u 8 cfg)"
  using cfg_number_decimal [of 248 u cfg] cfg_number_decimal [of 3 u cfg] cfg_number_decimal [of 800 u cfg]
    cfg_number_decimal [of 8 u cfg]
  by (simp_all add: gptp_cfg_ini_values)

text \<open>The configuration file of the distribution is read without an error, as the values that it
  documents: the thresholds, the receipt timeouts and the delays of the two link speeds.\<close>

lemma gptp_cfg_ini_read:
  "GptpIniParser mem cfg (Some (render gptp_cfg_ini)) =
     (0, cfg\<lparr>cfg_priority1 := 248, cfg_announceReceiptTimeout := 3, cfg_syncReceiptTimeout := 3,
        cfg_neighborPropDelayThresh := 800, cfg_syncReceiptThresh := 8, cfg_allowNegativeCorrField := False,
        cfg_ifname := [],
        cfg_phy_delay := [LINKSPEED_1G \<mapsto> \<lparr>tx_delay = 184, rx_delay = 382\<rparr>,
          LINKSPEED_100MB \<mapsto> \<lparr>tx_delay = 1044, rx_delay = 2133\<rparr>]\<rparr>)"
proof -
  have "ini_parse_file (iniCallBack mem) (render gptp_cfg_ini) u = run_items (iniCallBack mem) gptp_cfg_ini [] 1 (0, u)" for u
    using ini_lines_render [OF gptp_cfg_ini_wf, of "iniCallBack mem"] by (simp add: ini_parse_file_def Let_def)
  moreover have "run_items (iniCallBack mem) gptp_cfg_ini [] 1 (0, u) =
    (0, u\<lparr>cfg_priority1 := 248, cfg_announceReceiptTimeout := 3, cfg_syncReceiptTimeout := 3,
        cfg_neighborPropDelayThresh := 800, cfg_syncReceiptThresh := 8, cfg_allowNegativeCorrField := False,
        cfg_phy_delay := (cfg_phy_delay u)(LINKSPEED_1G \<mapsto> \<lparr>tx_delay = 184, rx_delay = 382\<rparr>,
          LINKSPEED_100MB \<mapsto> \<lparr>tx_delay = 1044, rx_delay = 2133\<rparr>)\<rparr>)" for u
    using iniCallBack_negative [of mem _ False, unfolded gptp_cfg_ini_values(5)]
    by (simp add: gptp_cfg_ini_def iniCallBack_ptp iniCallBack_port iniCallBack_eth gptp_cfg_ini_numbers
        gptp_cfg_ini_delays phy_delay_at_def set_delay_eq gptp_cfg_ini_values)
  ultimately show ?thesis by (simp add: GptpIniParser_def ini_parse_def)
qed

section \<open>Values out of range\<close>

text \<open>A numeral beyond the range of its item is accepted and reduced to the width of the item.\<close>

lemma priority1_wraps:
  "iniCallBack mem cfg ''ptp'' ''priority1'' (decimal n) = (True, cfg\<lparr>cfg_priority1 := of_nat n\<rparr>)" if "n < 2 ^ 64"
  using that by (simp add: iniCallBack_ptp cfg_number_decimal)

section \<open>Witnesses\<close>

theorem ini_parse_file_items_witness:
  "ini_parse_file (\<lambda>u s n v. (v \<noteq> ''x'', u @ [(s, n, v)]))
     (render [Section ''ptp'', Pair ''priority1'' ''248'', Comment '' none'', Blank, Section ''eth'', Pair ''speed'' ''x'']) [] =
   (6, [(''ptp'', ''priority1'', ''248''), (''eth'', ''speed'', ''x'')])"
proof -
  have "list_all wf_item
    [Section ''ptp'', Pair ''priority1'' ''248'', Comment '' none'', Blank, Section ''eth'', Pair ''speed'' ''x'']"
    by code_simp
  from ini_parse_file_items [OF this, of "\<lambda>u s n v. (v \<noteq> ''x'', u @ [(s, n, v)])" "[]"] show ?thesis by simp
qed

end
