(* ===== verification/Persist_File.thy ===== *)
theory Persist_File
  imports Common_Port
begin

text \<open>
  The storage of the state between two runs of the daemon (\<open>linux/src/linux_hal_persist_file.cpp\<close> and the
  callback \<open>gPTPPersistWriteCB\<close> of \<open>linux/src/daemon_cl.cpp\<close>). The file is mapped into memory, so that it
  and the buffer are the same octets; whether a system call succeeds is an argument. A write outside
  the buffer, to an address that is not mapped or behind the end of the file, is a fault. The main
  results: what is saved is restored at the next start; and when the mapping fails, saving the state of a
  port faults, because the callback takes the number of missing octets for the number of octets left.
\<close>

section \<open>The mapped file\<close>

text \<open>Whether the file is open and whether it is mapped, that is, whether \<open>persistFD\<close> and \<open>restoredata\<close> differ
  from -1.\<close>

record LinuxGPTPPersistFile =
  persistFD :: bool
  restoredata :: bool
  storedDataLength :: nat
  memoryDataLength :: nat
  writeCB :: bool

definition makeLinuxGPTPPersistFile :: LinuxGPTPPersistFile where
  "makeLinuxGPTPPersistFile =
     \<lparr>persistFD = False, restoredata = False, storedDataLength = 0, memoryDataLength = 0, writeCB = False\<rparr>"

definition initStorage :: "bool \<Rightarrow> LinuxGPTPPersistFile \<Rightarrow> bool \<times> LinuxGPTPPersistFile" where
  "initStorage opened p = (opened, p\<lparr>persistFD := opened\<rparr>)"

text \<open>The size of the buffer is passed as a 32 bit number.\<close>

definition readStorage ::
  "bool \<Rightarrow> bool \<Rightarrow> octets \<Rightarrow> LinuxGPTPPersistFile \<Rightarrow> octets option \<times> LinuxGPTPPersistFile" where
  "readStorage stat_ok map_ok file p =
     (if \<not> persistFD p then (None, p)
      else if \<not> stat_ok then (None, p\<lparr>storedDataLength := 0\<rparr>)
      else
        let p = p\<lparr>storedDataLength := length file\<rparr>
        in if length file = 0 then (None, p)
           else if \<not> map_ok then (None, p\<lparr>restoredata := False\<rparr>)
           else (Some (take (length file mod 2 ^ 32) file), p\<lparr>restoredata := True\<rparr>))"

definition setWriteSize :: "nat \<Rightarrow> LinuxGPTPPersistFile \<Rightarrow> LinuxGPTPPersistFile" where
  "setWriteSize n p = p\<lparr>memoryDataLength := n mod 2 ^ 32\<rparr>"

definition registerWriteCB :: "LinuxGPTPPersistFile \<Rightarrow> LinuxGPTPPersistFile" where
  "registerWriteCB p = p\<lparr>writeCB := True\<rparr>"

definition ftruncate :: "nat \<Rightarrow> octets \<Rightarrow> octets" where
  "ftruncate n file = take n file @ replicate (n - length file) 0"

text \<open>The file is extended and mapped again when the data do not fit. The callback is given the buffer also
  when this fails. Its result is whether it faulted, and the octets of the file.\<close>

definition extendStorage ::
  "bool \<Rightarrow> bool \<Rightarrow> octets \<Rightarrow> LinuxGPTPPersistFile \<Rightarrow> bool \<times> octets \<times> LinuxGPTPPersistFile" where
  "extendStorage trunc_ok map_ok file p =
     (if memoryDataLength p > storedDataLength p
      then
        let file = (if persistFD p \<and> trunc_ok then ftruncate (memoryDataLength p) file else file)
        in if persistFD p \<and> map_ok
           then (True, file, p\<lparr>restoredata := True, storedDataLength := memoryDataLength p\<rparr>)
           else (False, file, p\<lparr>restoredata := False\<rparr>)
      else (False, file, p))"

definition triggerWriteStorage ::
  "bool \<Rightarrow> bool \<Rightarrow> (bool \<Rightarrow> nat \<Rightarrow> octets \<Rightarrow> bool \<times> octets) \<Rightarrow> octets \<Rightarrow> LinuxGPTPPersistFile \<Rightarrow>
     bool \<times> bool \<times> octets \<times> LinuxGPTPPersistFile" where
  "triggerWriteStorage trunc_ok map_ok cb file p =
     (let (result, file, p) = extendStorage trunc_ok map_ok file p
      in if \<not> writeCB p then (False, result, file, p)
         else let (faulted, file) = cb (restoredata p) (storedDataLength p mod 2 ^ 32) file
              in (faulted, result, file, p))"

section \<open>The callback\<close>

text \<open>A \<open>memcpy\<close> to the buffer at an offset; nothing is accessed when there is nothing to copy.\<close>

definition write_at :: "bool \<Rightarrow> int \<Rightarrow> octets \<Rightarrow> bool \<times> octets \<Rightarrow> bool \<times> octets" where
  "write_at mapped off bs r =
     (case r of (faulted, buf) \<Rightarrow>
        if bs = [] then (faulted, buf)
        else if faulted \<or> \<not> mapped \<or> off < 0 then (True, buf)
        else case put (nat off) bs buf of None \<Rightarrow> (True, buf) | Some b \<Rightarrow> (False, b))"

definition gPTPPersistWriteCB ::
  "'a arch_scheme \<Rightarrow> IEEE1588Clock \<Rightarrow> EtherPort \<Rightarrow> bool \<Rightarrow> nat \<Rightarrow> octets \<Rightarrow> bool \<times> octets" where
  "gPTPPersistWriteCB A c p mapped bufSize buf =
     (let (ret, clock_data, restoredatacount) = clock_serializeState A c (Some (int bufSize));
          r = write_at mapped 0 clock_data (False, buf);
          off = int bufSize - restoredatacount;
          (ret, port_data, restoredatacount) = port_serializeState A p (Some restoredatacount)
      in write_at mapped off port_data r)"

text \<open>The number of octets that \<open>main\<close> asks for.\<close>

definition persist_size :: "'a arch_scheme \<Rightarrow> IEEE1588Clock \<Rightarrow> EtherPort \<Rightarrow> nat" where
  "persist_size A c p =
     nat (snd (snd (clock_serializeState A c None)) + snd (snd (port_serializeState A p None)))"

section \<open>What is saved is restored\<close>

definition clock_saved :: "'a arch_scheme \<Rightarrow> IEEE1588Clock \<Rightarrow> bool" where
  "clock_saved A c \<longleftrightarrow>
     fr_saved A (master_local_freq_offset c) \<and> fr_saved A (local_system_freq_offset c) \<and> wf_cid (LastEBestIdentity c)"

definition clock_octets :: "'a arch_scheme \<Rightarrow> IEEE1588Clock \<Rightarrow> octets" where
  "clock_octets A c =
     fr_bytes A (master_local_freq_offset c) @ fr_bytes A (local_system_freq_offset c) @ cid (LastEBestIdentity c)"

definition port_octets :: "'a arch_scheme \<Rightarrow> EtherPort \<Rightarrow> octets" where
  "port_octets A p =
     bool_bytes (asCapable p) @ le_bytes 4 (PortState_val (port_state p)) @ le_bytes 8 (one_way_delay p) @
       fr_bytes A (peer_rate_offset p)"

lemma clock_octets_length: "clock_saved A c \<Longrightarrow> length (clock_octets A c) = 2 * fr_size A + 8"
  by (simp add: clock_saved_def clock_octets_def fr_saved_def wf_cid_def PTP_CLOCK_IDENTITY_LENGTH_def)

lemma port_octets_length: "fr_saved A (peer_rate_offset p) \<Longrightarrow> length (port_octets A p) = 13 + fr_size A"
  by (simp add: port_octets_def fr_saved_def bool_bytes_def)

lemma persist_size_eq: "persist_size A c p = 3 * fr_size A + 21"
  by (simp add: persist_size_def clock_serializeState_def port_serializeState_def PTP_CLOCK_IDENTITY_LENGTH_def)

lemma clock_serializeState_enough:
  assumes "clock_saved A c" and "int (2 * fr_size A + 8) \<le> n"
  shows "clock_serializeState A c (Some n) = (True, clock_octets A c, n - int (2 * fr_size A + 8))"
  using assms
  by (simp add: clock_serializeState_def clock_saved_def clock_octets_def fr_saved_def wf_cid_def PTP_CLOCK_IDENTITY_LENGTH_def)

lemma port_serializeState_enough:
  assumes "fr_saved A (peer_rate_offset p)" and "port_state p = PTP_MASTER \<or> port_state p = PTP_SLAVE"
    and "int (13 + fr_size A) \<le> n"
  shows "port_serializeState A p (Some n) = (True, port_octets A p, n - int (13 + fr_size A))"
  using assms
  by (auto simp add: port_serializeState_def port_octets_def fr_saved_def bool_bytes_def simp del: PortState_val.simps)

lemma write_at_prefix:
  "length pre + length bs \<le> length buf \<Longrightarrow> take (length pre) buf = pre \<Longrightarrow>
     write_at True (int (length pre)) bs (False, buf) = (False, pre @ bs @ drop (length pre + length bs) buf)"
  by (auto simp add: write_at_def put_def wr_in_range) (metis append_take_drop_id)

lemma callback_writes:
  assumes "clock_saved A c" and "fr_saved A (peer_rate_offset p)" and "port_state p = PTP_MASTER \<or> port_state p = PTP_SLAVE"
    and "persist_size A c p \<le> n" and "n \<le> length buf"
  shows "gPTPPersistWriteCB A c p True n buf =
    (False, clock_octets A c @ port_octets A p @ drop (persist_size A c p) buf)"
proof -
  let ?c = "clock_octets A c" and ?p = "port_octets A p"
  have l: "length ?c = 2 * fr_size A + 8" "length ?p = 13 + fr_size A"
    using assms(1,2) by (simp_all add: clock_octets_length port_octets_length)
  have s: "clock_serializeState A c (Some (int n)) = (True, ?c, int n - int (length ?c))"
    "port_serializeState A p (Some (int n - int (length ?c))) = (True, ?p, int n - int (length ?c) - int (length ?p))"
    using assms l clock_serializeState_enough [OF assms(1), of "int n"]
      port_serializeState_enough [OF assms(2,3), of "int n - int (length ?c)"]
    by (simp_all add: persist_size_eq)
  have "write_at True 0 ?c (False, buf) = (False, ?c @ drop (length ?c) buf)"
    using write_at_prefix [of "[]" ?c buf] assms(4,5) l by (simp add: persist_size_eq)
  moreover have "write_at True (int (length ?c)) ?p (False, ?c @ drop (length ?c) buf) =
      (False, ?c @ ?p @ drop (length ?c + length ?p) buf)"
    using write_at_prefix [of ?c ?p "?c @ drop (length ?c) buf"] assms(4,5) l by (simp add: persist_size_eq add.commute)
  moreover have "length ?c + length ?p = persist_size A c p" using l by (simp add: persist_size_eq)
  ultimately show ?thesis using s by (simp add: gPTPPersistWriteCB_def)
qed

lemma clock_restore_octets:
  assumes "clock_saved A c"
  shows "clock_restoreSerializedState A (clock_octets A c @ rest) (int (length (clock_octets A c @ rest))) c' =
    (True, rest, int (length rest), c'\<lparr>master_local_freq_offset := master_local_freq_offset c,
      local_system_freq_offset := local_system_freq_offset c, LastEBestIdentity := LastEBestIdentity c\<rparr>)"
  using assms
  by (cases "LastEBestIdentity c")
    (simp add: clock_restoreSerializedState_def clock_saved_def clock_octets_def fr_saved_def wf_cid_def)

lemma port_restore_octets:
  assumes "fr_saved A (peer_rate_offset p)"
  shows "port_restoreSerializedState A (port_octets A p @ rest) (int (length (port_octets A p @ rest))) p' =
    (True, rest, int (length rest), p'\<lparr>asCapable := asCapable p, port_state := port_state p,
      one_way_delay := one_way_delay p, peer_rate_offset := peer_rate_offset p\<rparr>)"
  using assms
  by (simp add: port_restoreSerializedState_def port_octets_def fr_saved_def bool_bytes_def PortState_of_val_inverse
      del: PortState_val.simps)

text \<open>A storage as \<open>main\<close> prepares it: open, with the size of the data set and the callback registered.\<close>

definition storage_ready :: "nat \<Rightarrow> octets \<Rightarrow> LinuxGPTPPersistFile \<Rightarrow> bool" where
  "storage_ready n file p \<longleftrightarrow>
     persistFD p \<and> writeCB p \<and> memoryDataLength p = n \<and> storedDataLength p = length file \<and>
     (restoredata p \<or> file = []) \<and> length file < 2 ^ 32"

lemma trigger_writes:
  assumes "clock_saved A c" and "fr_saved A (peer_rate_offset p)" and "port_state p = PTP_MASTER \<or> port_state p = PTP_SLAVE"
    and "storage_ready (persist_size A c p) file s" and "persist_size A c p < 2 ^ 32"
    and "triggerWriteStorage True True (gPTPPersistWriteCB A c p) file s = (faulted, result, file', s')"
  shows "\<not> faulted" and "\<exists>rest. file' = clock_octets A c @ port_octets A p @ rest"
    and "storage_ready (persist_size A c p) file' s'"
proof -
  let ?n = "persist_size A c p"
  obtain r buf t where e: "extendStorage True True file s = (r, buf, t)" by (metis prod_cases3)
  have n: "0 < ?n" by (simp add: persist_size_eq)
  have t: "?n \<le> storedDataLength t" "storedDataLength t = length buf" "restoredata t" "writeCB t" "length buf < 2 ^ 32"
    "persistFD t" "memoryDataLength t = ?n"
    using e assms(4,5) n by (auto simp add: extendStorage_def storage_ready_def ftruncate_def split: if_splits)
  then have w: "gPTPPersistWriteCB A c p True (storedDataLength t mod 2 ^ 32) buf =
      (False, clock_octets A c @ port_octets A p @ drop ?n buf)"
    using callback_writes [OF assms(1-3), of "length buf" buf] by simp
  then have f: "\<not> faulted" "file' = clock_octets A c @ port_octets A p @ drop ?n buf" "s' = t"
    using assms(6) e t by (simp_all add: triggerWriteStorage_def)
  then show "\<not> faulted" "\<exists>rest. file' = clock_octets A c @ port_octets A p @ rest" by auto
  have "length (clock_octets A c) + length (port_octets A p) = ?n"
    using assms(1,2) by (simp add: clock_octets_length port_octets_length persist_size_eq)
  then have "length file' = length buf" using f(2) t(1,2) by simp
  then show "storage_ready ?n file' s'" using t f(3) by (simp add: storage_ready_def)
qed

section \<open>Saving without a mapping\<close>

text \<open>When the file cannot be mapped, because it could not be opened or because the mapping fails,
  saving the state of a port that is master or slave faults: with nothing stored the clock reports the
  octets it is missing, and the callback takes this number as the space that is left, so that the state of the
  port is copied to an address before the invalid pointer.\<close>

theorem persist_unmapped_faults:
  assumes "clock_saved A c" and "fr_saved A (peer_rate_offset p)" and "port_state p = PTP_MASTER \<or> port_state p = PTP_SLAVE"
    and "5 < fr_size A" and "writeCB s" and "storedDataLength s < memoryDataLength s" and "\<not> (persistFD s \<and> map_ok)"
    and "storedDataLength s = 0"
  shows "fst (triggerWriteStorage trunc_ok map_ok (gPTPPersistWriteCB A c p) file s)"
proof -
  have c: "clock_serializeState A c (Some 0) = (False, [], int (2 * fr_size A + 8))"
    using assms(1,4)
    by (simp add: clock_serializeState_def clock_saved_def fr_saved_def wf_cid_def PTP_CLOCK_IDENTITY_LENGTH_def)
  have "port_octets A p \<noteq> []" by (simp add: port_octets_def bool_bytes_def)
  then have "fst (gPTPPersistWriteCB A c p m 0 buf)" for m buf
    using c port_serializeState_enough [OF assms(2,3), of "int (2 * fr_size A + 8)"] assms(4)
    by (simp add: gPTPPersistWriteCB_def write_at_def)
  then show ?thesis
    using assms(5-8) by (auto simp add: triggerWriteStorage_def extendStorage_def Let_def split_beta)
qed

section \<open>Witnesses\<close>

lemma sample_saved:
  "clock_saved sample_arch sample_clock" "fr_saved sample_arch (peer_rate_offset sample_port)"
  "port_state sample_port = PTP_SLAVE"
  using sample_arch_wf(2) sample_clock_facts by (simp_all add: clock_saved_def sample_port_def)

text \<open>A storage whose file could not be opened.\<close>

definition sample_storage :: "bool \<Rightarrow> LinuxGPTPPersistFile" where
  "sample_storage opened =
     registerWriteCB (setWriteSize (persist_size sample_arch sample_clock sample_port)
       (snd (initStorage opened makeLinuxGPTPPersistFile)))"

theorem persist_unmapped_faults_witness:
  "fst (triggerWriteStorage True True (gPTPPersistWriteCB sample_arch sample_clock sample_port) [] (sample_storage False))"
proof -
  have "fr_size sample_arch = 16" by (simp add: sample_arch_def)
  then show ?thesis
    using persist_unmapped_faults [OF sample_saved(1,2), of "sample_storage False" True True "[]"] sample_saved(3)
    by (simp add: sample_storage_def registerWriteCB_def setWriteSize_def initStorage_def makeLinuxGPTPPersistFile_def
        persist_size_eq)
qed

end
