(* ===== verification/Command_Line.thy ===== *)
theory Command_Line
  imports Daemon Ini_Config Persist_File
begin

text \<open>
  The function \<open>main\<close> of the daemon (\<open>linux/src/daemon_cl.cpp\<close>): the arguments of the command line, the
  configuration file, the restored state, the start of the daemon and the signals that it waits for. The
  options that result are those that \<open>daemon_start\<close> takes. The main results: a recognised command line
  ends with options or with an exit status, and what the options are; the configuration file decides the
  thresholds but not the priority; the state that a running daemon saves is the one with which the next
  one starts.
\<close>

section \<open>Arguments\<close>

text \<open>\<open>atoi\<close> is \<open>strtol\<close> with base 10, which saturates at 64 bits, reduced to the 32 bits of an \<open>int\<close>.\<close>

definition atoi :: "string \<Rightarrow> u32" where
  "atoi s =
     (let (neg, t) = sign_prefix (dropWhile isspace s);
          n = int (fst (digits 10 0 t));
          v = (if neg then - n else n)
      in word_of_int (max (- (2 ^ 63)) (min (2 ^ 63 - 1) v)))"

text \<open>The tokens that repeated calls of \<open>strtok\<close> with the separator return, and what the first call leaves of the string: it
  writes a NUL behind the first token.\<close>

fun tokens :: "string \<Rightarrow> string \<Rightarrow> string list" where
  "tokens token [] = (if token = [] then [] else [token])"
| "tokens token (c # s) =
     (if c = CHR '','' then (if token = [] then tokens [] s else token # tokens [] s) else tokens (token @ [c]) s)"

definition after_strtok :: "string \<Rightarrow> string" where
  "after_strtok s =
     takeWhile (\<lambda>c. c = CHR '','') s @ takeWhile (\<lambda>c. c \<noteq> CHR '','') (dropWhile (\<lambda>c. c = CHR '','') s)"

text \<open>The local variables that the arguments set.\<close>

record cl_state =
  cl_syntonize :: bool
  cl_pps :: bool
  cl_priority1 :: u8
  cl_override_portstate :: bool
  cl_port_state :: PortState
  cl_persist :: "string option"
  cl_ipc_arg :: "string option"
  cl_use_config_file :: bool
  cl_config_file_path :: string
  cl_phy_delay :: "u32 \<Rightarrow> phy_delay_spec_t option"
  cl_input_delay :: bool
  cl_portInit :: PortInit_t

definition main_init :: cl_state where
  "main_init =
     \<lparr>cl_syntonize = False, cl_pps = False, cl_priority1 = 248, cl_override_portstate = False,
      cl_port_state = PTP_SLAVE, cl_persist = None, cl_ipc_arg = None, cl_use_config_file = False,
      cl_config_file_path = [], cl_phy_delay = (\<lambda>_. None), cl_input_delay = False,
      cl_portInit =
        \<lparr>init_index = 0, init_timestamper = False, init_automotive_profile = False, init_isGM = False,
         init_testMode = False, init_linkUp = False, init_initialLogSyncInterval = LOG2_INTERVAL_INVALID,
         init_initialLogPdelayReqInterval = LOG2_INTERVAL_INVALID,
         init_operLogPdelayReqInterval = LOG2_INTERVAL_INVALID,
         init_operLogSyncInterval = LOG2_INTERVAL_INVALID, init_phy_delay = (\<lambda>_. None),
         init_syncReceiptThreshold = 5, init_neighborPropDelayThreshold = 800,
         init_allowNegativeCorrField = False\<rparr>\<rparr>"

text \<open>One round of the loop: it goes on with the variables and the arguments left, \<open>main\<close> returns, or an access
  to a null pointer or behind the end of an array ends the process.\<close>

datatype cl_step = Next cl_state "string list" | Return int | Crash

definition set_portInit :: "(PortInit_t \<Rightarrow> PortInit_t) \<Rightarrow> cl_state \<Rightarrow> cl_state" where
  "set_portInit f st = st\<lparr>cl_portInit := f (cl_portInit st)\<rparr>"

text \<open>The option that sets the delays. Without an argument the first call of \<open>strtok\<close> has no string; a
  later one finds no further token.\<close>

definition delay_option :: "phy_delay_spec_t \<Rightarrow> cl_state \<Rightarrow> string list \<Rightarrow> cl_step" where
  "delay_option mem st rest =
     (case rest of
        [] \<Rightarrow> if cl_input_delay st then Return 0 else Crash
      | a # args \<Rightarrow>
          (case List.map atoi (tokens [] a) of
             [d0, d1, d2, d3] \<Rightarrow>
               Next (st\<lparr>cl_input_delay := True,
                        cl_phy_delay := phy_delay_at mem LINKSPEED_100MB (set_delay (ucast d2) (ucast d3))
                          (phy_delay_at mem LINKSPEED_1G (set_delay (ucast d0) (ucast d1)) (cl_phy_delay st))\<rparr>)
                 (after_strtok a # args)
           | _ \<Rightarrow> Return 0))"

text \<open>The options with an interval skip their argument, which must be there.\<close>

definition interval_option :: "(u8 \<Rightarrow> PortInit_t \<Rightarrow> PortInit_t) \<Rightarrow> cl_state \<Rightarrow> string list \<Rightarrow> cl_step" where
  "interval_option upd st rest =
     (case rest of [] \<Rightarrow> Crash | a # args \<Rightarrow> Next (set_portInit (upd (ucast (atoi a))) st) args)"

definition priority_option :: "cl_state \<Rightarrow> string list \<Rightarrow> cl_step" where
  "priority_option st rest =
     (case rest of
        [] \<Rightarrow> Next st []
      | a # args \<Rightarrow>
          let tmp = fst (strtoul a 0)
          in Next (if tmp = 0 then st else st\<lparr>cl_priority1 := ucast tmp\<rparr>) args)"

text \<open>The path of the configuration file is copied into an array of 512 characters. Its argument, and the one
  of the restore file, are looked at again as arguments of their own.\<close>

definition config_option :: "cl_state \<Rightarrow> string list \<Rightarrow> cl_step" where
  "config_option st rest =
     (case rest of
        [] \<Rightarrow> Next st []
      | a # args \<Rightarrow>
          if 512 \<le> length a then Crash
          else Next (st\<lparr>cl_use_config_file := True, cl_config_file_path := a\<rparr>) rest)"

definition process_arg :: "phy_delay_spec_t \<Rightarrow> cl_state \<Rightarrow> string \<Rightarrow> string list \<Rightarrow> cl_step" where
  "process_arg mem st a rest =
     (if \<not> at_char CHR ''-'' a then Next st rest
      else if a = ''-S'' then Next (st\<lparr>cl_syntonize := True\<rparr>) rest
      else if a = ''-T'' then Next (st\<lparr>cl_override_portstate := True, cl_port_state := PTP_MASTER\<rparr>) rest
      else if a = ''-L'' then Next (st\<lparr>cl_override_portstate := True, cl_port_state := PTP_SLAVE\<rparr>) rest
      else if a = ''-M'' then Next (if rest = [] then st else st\<lparr>cl_persist := Some (hd rest)\<rparr>) rest
      else if a = ''-G'' then Next (if rest = [] then st else st\<lparr>cl_ipc_arg := Some (hd rest)\<rparr>) (tl rest)
      else if a = ''-P'' then Next (st\<lparr>cl_pps := True\<rparr>) rest
      else if a = ''-H'' then Return 0
      else if a = ''-R'' then priority_option st rest
      else if a = ''-D'' then delay_option mem st rest
      else if a = ''-V'' then Next (set_portInit (init_automotive_profile_update (\<lambda>_. True)) st) rest
      else if a = ''-GM'' then Next (set_portInit (init_isGM_update (\<lambda>_. True)) st) rest
      else if a = ''-E'' then Next (set_portInit (init_testMode_update (\<lambda>_. True)) st) rest
      else if a = ''-N'' then Next (set_portInit (init_allowNegativeCorrField_update (\<lambda>_. True)) st) rest
      else if a = ''-INITSYNC'' then interval_option (\<lambda>v. init_initialLogSyncInterval_update (\<lambda>_. v)) st rest
      else if a = ''-OPERSYNC'' then interval_option (\<lambda>v. init_operLogSyncInterval_update (\<lambda>_. v)) st rest
      else if a = ''-INITPDELAY'' then interval_option (\<lambda>v. init_initialLogPdelayReqInterval_update (\<lambda>_. v)) st rest
      else if a = ''-OPERPDELAY'' then interval_option (\<lambda>v. init_operLogPdelayReqInterval_update (\<lambda>_. v)) st rest
      else if a = ''-F'' then config_option st rest
      else Next st rest)"

lemma process_arg_rest: "process_arg mem st a rest = Next st' rest' \<Longrightarrow> length rest' \<le> length rest"
  by (auto simp add: process_arg_def priority_option_def delay_option_def interval_option_def config_option_def Let_def
      split: if_splits list.splits)

function parse_args :: "phy_delay_spec_t \<Rightarrow> cl_state \<Rightarrow> string list \<Rightarrow> cl_step" where
  "parse_args mem st [] = Next st []"
| "parse_args mem st (a # rest) =
     (case process_arg mem st a rest of
        Next st rest \<Rightarrow> parse_args mem st rest
      | r \<Rightarrow> r)"
  by pat_completeness auto

termination parse_args
  by (relation "measure (\<lambda>(mem, st, args). length args)") (auto dest: process_arg_rest)

text \<open>The arguments with the name of the program and of the interface.\<close>

definition main_args :: "phy_delay_spec_t \<Rightarrow> string list \<Rightarrow> cl_step" where
  "main_args mem argv = (if length argv < 2 then Return (- 1) else parse_args mem main_init (drop 2 argv))"

section \<open>Options\<close>

text \<open>The delays of the I210 when none are given.\<close>

definition default_delays :: "phy_delay_spec_t \<Rightarrow> cl_state \<Rightarrow> cl_state" where
  "default_delays mem st =
     (if cl_input_delay st then st
      else st\<lparr>cl_phy_delay := phy_delay_at mem LINKSPEED_100MB (set_delay 1044 2133)
               (phy_delay_at mem LINKSPEED_1G (set_delay 184 382) (cl_phy_delay st))\<rparr>)"

text \<open>The configuration file; the first two arguments are the memory of a new entry and of the parser.\<close>

definition merge_config :: "phy_delay_spec_t \<Rightarrow> gptp_cfg_t \<Rightarrow> (string \<Rightarrow> string option) \<Rightarrow> cl_state \<Rightarrow> cl_state" where
  "merge_config mem cfg files st =
     (if \<not> cl_use_config_file st then st
      else
        let (error, cfg) = GptpIniParser mem cfg (files (cl_config_file_path st))
        in if error < 0 then st
           else
             let st = set_portInit (\<lambda>I. I\<lparr>init_neighborPropDelayThreshold := cfg_neighborPropDelayThresh cfg,
                        init_syncReceiptThreshold := cfg_syncReceiptThresh cfg\<rparr>) st;
                 st = (if cl_input_delay st then st else st\<lparr>cl_phy_delay := cfg_phy_delay cfg\<rparr>)
             in set_portInit (init_allowNegativeCorrField_update (\<lambda>_. cfg_allowNegativeCorrField cfg)) st)"

text \<open>The options of the daemon. The port refers to the map of the delays, which the configuration file
  may replace after the reference has been taken. Whether the shared memory could be set up and what the
  restore file held are arguments.\<close>

definition cl_options ::
  "phy_delay_spec_t \<Rightarrow> gptp_cfg_t \<Rightarrow> (string \<Rightarrow> string option) \<Rightarrow> bool \<Rightarrow> octets option \<Rightarrow> cl_state \<Rightarrow> daemon_options" where
  "cl_options mem cfg files ipc restore st =
     (let st = merge_config mem cfg files (default_delays mem st)
      in \<lparr>opt_syntonize = cl_syntonize st, opt_priority1 = cl_priority1 st, opt_ipc = ipc,
          opt_port_state = (if cl_override_portstate st then Some (cl_port_state st) else None),
          opt_portInit = (cl_portInit st)\<lparr>init_phy_delay := cl_phy_delay st\<rparr>, opt_restore = restore\<rparr>)"

text \<open>The restore file is opened and read before the start; the size of the data and the callback are
  set afterwards.\<close>

definition persist_open :: "bool \<Rightarrow> bool \<Rightarrow> bool \<Rightarrow> octets \<Rightarrow> octets option \<times> LinuxGPTPPersistFile" where
  "persist_open opened stat_ok map_ok file =
     readStorage stat_ok map_ok file (snd (initStorage opened makeLinuxGPTPPersistFile))"

definition persist_configure :: "'a arch_scheme \<Rightarrow> world \<Rightarrow> LinuxGPTPPersistFile \<Rightarrow> LinuxGPTPPersistFile" where
  "persist_configure A w s = registerWriteCB (setWriteSize (persist_size A (clk w) (ports w 0)) s)"

text \<open>From the arguments to the running daemon: the exit status (none after a crash), or the world after the start and
  the storage.\<close>

definition daemon_main ::
  "platform \<Rightarrow> phy_delay_spec_t \<Rightarrow> gptp_cfg_t \<Rightarrow> (string \<Rightarrow> string option) \<Rightarrow> bool \<Rightarrow> octets option \<times> LinuxGPTPPersistFile \<Rightarrow>
     world \<Rightarrow> string list \<Rightarrow> int option + world \<times> LinuxGPTPPersistFile option" where
  "daemon_main P mem cfg files ipc stored w argv =
     (case main_args mem argv of
        Return n \<Rightarrow> Inl (Some n)
      | Crash \<Rightarrow> Inl None
      | Next st args \<Rightarrow>
          let restore = (if cl_persist st = None then None else fst stored);
              (ok, w) = daemon_start P (cl_options mem cfg files ipc restore st) w
          in if \<not> ok then Inl (Some (- 1))
             else Inr (w, if cl_persist st = None then None else Some (persist_configure P w (snd stored))))"

text \<open>The signals that \<open>main\<close> waits for: whether it goes on to wait, whether saving the state has faulted, and the
  storage with its file.\<close>

datatype signal = SIGINT | SIGTERM | SIGHUP | SIGUSR2

definition main_signal ::
  "platform \<Rightarrow> bool \<Rightarrow> bool \<Rightarrow> signal \<Rightarrow> world \<Rightarrow> (LinuxGPTPPersistFile \<times> octets) option \<Rightarrow>
     bool \<times> bool \<times> (LinuxGPTPPersistFile \<times> octets) option" where
  "main_signal P trunc_ok map_ok sig w s =
     (let (faulted, s) =
        (case s of
           Some (p, file) \<Rightarrow>
             if sig = SIGHUP \<and> (port_state (ports w 0) = PTP_MASTER \<or> port_state (ports w 0) = PTP_SLAVE)
             then case triggerWriteStorage trunc_ok map_ok (gPTPPersistWriteCB P (clk w) (ports w 0)) file p of
                    (faulted, result, file, p) \<Rightarrow> (faulted, Some (p, file))
             else (False, s)
         | None \<Rightarrow> (False, s))
      in (sig = SIGHUP \<or> sig = SIGUSR2, faulted, s))"

section \<open>Numbers and lists\<close>

lemma digits_only: "digits 10 0 (decimal n) = (n, [])"
  by (rule digits_decimal)

lemma decimal_sign: "sign_prefix (decimal n) = (False, decimal n)" "dropWhile isspace (decimal n) = decimal n"
  using decimal_digits [of n] digit_not_space by (cases "decimal n"; auto)+

lemma atoi_decimal: "n < 2 ^ 63 \<Longrightarrow> atoi (decimal n) = of_nat n"
  by (simp add: atoi_def decimal_sign digits_only)

lemma atoi_negative: "n < 2 ^ 63 \<Longrightarrow> atoi (CHR ''-'' # decimal n) = word_of_int (- int n)"
  by (simp add: atoi_def digits_only isspace_def newline_def)

lemma decimal_first: "0 < n \<Longrightarrow> hd (decimal n) \<noteq> CHR ''0''"
proof (induction n rule: decimal.induct)
  case (1 n)
  show ?case
  proof (cases "n < 10")
    case True
    have "char_of (48 + n) \<noteq> CHR ''0''"
    proof
      assume "char_of (48 + n) = CHR ''0''"
      then have "digit_val (char_of (48 + n)) = digit_val CHR ''0''" by simp
      then show False using digit_val_char [OF True] 1(2) by (simp add: digit_val_def)
    qed
    then show ?thesis using True by (subst decimal.simps) simp
  next
    case False
    then have "hd (decimal (n div 10)) \<noteq> CHR ''0''" using 1(1) by simp
    then show ?thesis using False by (subst decimal.simps) simp
  qed
qed

lemma strtoul_prefix:
  assumes "0 < n" and "n < 2 ^ 64"
  shows "strtoul (decimal n) 0 = (of_nat n, [], False)"
proof -
  obtain c s where d: "decimal n = c # s" "digit_val c < 10" by (rule decimal_head)
  then have sd: "starts_with_digit 10 (decimal n)" by simp
  have "c \<noteq> CHR ''0''" using decimal_first [OF assms(1)] d(1) by simp
  then have "base_prefix 0 (decimal n) = (10, decimal n)"
    unfolding d(1) by (cases "(0 :: nat, c # s)" rule: base_prefix.cases) auto
  then show ?thesis
    using assms(2) sd by (simp add: strtoul_def decimal_sign digits_only)
qed

lemma decimal_no_comma: "CHR '','' \<notin> set (decimal n)"
  using decimal_digits [of n] by (auto simp add: list_all_iff digit_val_def)

lemma tokens_step: "CHR '','' \<notin> set s \<Longrightarrow> t @ s \<noteq> [] \<Longrightarrow> tokens t (s @ CHR '','' # r) = (t @ s) # tokens [] r"
  by (induction s arbitrary: t) auto

lemma tokens_last: "CHR '','' \<notin> set s \<Longrightarrow> t @ s \<noteq> [] \<Longrightarrow> tokens t s = [t @ s]"
  by (induction s arbitrary: t) auto

lemma after_strtok_first:
  assumes "CHR '','' \<notin> set s" and "s \<noteq> []"
  shows "after_strtok (s @ CHR '','' # r) = s"
proof -
  have "takeWhile (\<lambda>c. c \<noteq> CHR '','') s = s" using assms(1) by (auto simp add: takeWhile_eq_all_conv)
  then show ?thesis using assms by (cases s) (auto simp add: after_strtok_def takeWhile_append2)
qed

section \<open>Command lines in the documented form\<close>

datatype cl_opt =
  OptS | OptT | OptL | OptP | OptV | OptGM | OptE | OptN
| OptM string | OptG string | OptF string | OptR nat | OptD u16 u16 u16 u16
| OptInitSync u8 | OptOperSync u8 | OptInitPdelay u8 | OptOperPdelay u8

definition signed_decimal :: "u8 \<Rightarrow> string" where
  "signed_decimal v = (if sint v < 0 then CHR ''-'' # decimal (nat (- sint v)) else decimal (nat (sint v)))"

fun opt_args :: "cl_opt \<Rightarrow> string list" where
  "opt_args OptS = [''-S'']" | "opt_args OptT = [''-T'']" | "opt_args OptL = [''-L'']" | "opt_args OptP = [''-P'']"
| "opt_args OptV = [''-V'']" | "opt_args OptGM = [''-GM'']" | "opt_args OptE = [''-E'']" | "opt_args OptN = [''-N'']"
| "opt_args (OptM f) = [''-M'', f]" | "opt_args (OptG g) = [''-G'', g]" | "opt_args (OptF f) = [''-F'', f]"
| "opt_args (OptR n) = [''-R'', decimal n]"
| "opt_args (OptD a b c d) =
     [''-D'', decimal (unat a) @ '','' @ decimal (unat b) @ '','' @ decimal (unat c) @ '','' @ decimal (unat d)]"
| "opt_args (OptInitSync v) = [''-INITSYNC'', signed_decimal v]"
| "opt_args (OptOperSync v) = [''-OPERSYNC'', signed_decimal v]"
| "opt_args (OptInitPdelay v) = [''-INITPDELAY'', signed_decimal v]"
| "opt_args (OptOperPdelay v) = [''-OPERPDELAY'', signed_decimal v]"

text \<open>The names of files are not themselves options, and a priority is from 1 to 255.\<close>

fun wf_opt :: "cl_opt \<Rightarrow> bool" where
  "wf_opt (OptM f) = (\<not> at_char CHR ''-'' f)"
| "wf_opt (OptF f) = (\<not> at_char CHR ''-'' f \<and> length f < 512)"
| "wf_opt (OptR n) = (0 < n \<and> n < 256)"
| "wf_opt _ = True"

text \<open>The documented meaning of the options.\<close>

fun opt_effect :: "cl_opt \<Rightarrow> cl_state \<Rightarrow> cl_state" where
  "opt_effect OptS st = st\<lparr>cl_syntonize := True\<rparr>"
| "opt_effect OptT st = st\<lparr>cl_override_portstate := True, cl_port_state := PTP_MASTER\<rparr>"
| "opt_effect OptL st = st\<lparr>cl_override_portstate := True, cl_port_state := PTP_SLAVE\<rparr>"
| "opt_effect OptP st = st\<lparr>cl_pps := True\<rparr>"
| "opt_effect OptV st = set_portInit (init_automotive_profile_update (\<lambda>_. True)) st"
| "opt_effect OptGM st = set_portInit (init_isGM_update (\<lambda>_. True)) st"
| "opt_effect OptE st = set_portInit (init_testMode_update (\<lambda>_. True)) st"
| "opt_effect OptN st = set_portInit (init_allowNegativeCorrField_update (\<lambda>_. True)) st"
| "opt_effect (OptM f) st = st\<lparr>cl_persist := Some f\<rparr>"
| "opt_effect (OptG g) st = st\<lparr>cl_ipc_arg := Some g\<rparr>"
| "opt_effect (OptF f) st = st\<lparr>cl_use_config_file := True, cl_config_file_path := f\<rparr>"
| "opt_effect (OptR n) st = st\<lparr>cl_priority1 := of_nat n\<rparr>"
| "opt_effect (OptD a b c d) st =
     st\<lparr>cl_input_delay := True,
        cl_phy_delay := (cl_phy_delay st)(LINKSPEED_1G \<mapsto> \<lparr>tx_delay = a, rx_delay = b\<rparr>,
          LINKSPEED_100MB \<mapsto> \<lparr>tx_delay = c, rx_delay = d\<rparr>)\<rparr>"
| "opt_effect (OptInitSync v) st = set_portInit (init_initialLogSyncInterval_update (\<lambda>_. v)) st"
| "opt_effect (OptOperSync v) st = set_portInit (init_operLogSyncInterval_update (\<lambda>_. v)) st"
| "opt_effect (OptInitPdelay v) st = set_portInit (init_initialLogPdelayReqInterval_update (\<lambda>_. v)) st"
| "opt_effect (OptOperPdelay v) st = set_portInit (init_operLogPdelayReqInterval_update (\<lambda>_. v)) st"

lemma ucast_of_int: "ucast (word_of_int k :: u32) = (word_of_int k :: u8)"
  by (simp add: unsigned_of_int word_of_int_eq_iff take_bit_take_bit)

lemma atoi_signed: "ucast (atoi (signed_decimal v)) = v"
proof -
  have b: "- 128 \<le> sint v" "sint v < 128" using sint_range_size [of v] by (simp_all add: word_size)
  have "atoi (signed_decimal v) = word_of_int (sint v)"
  proof (cases "sint v < 0")
    case True
    then show ?thesis using True b atoi_negative [of "nat (- sint v)"] by (simp add: signed_decimal_def)
  next
    case False
    then show ?thesis using b atoi_decimal [of "nat (sint v)"] by (simp add: signed_decimal_def)
  qed
  then show ?thesis using ucast_of_int [of "sint v"] by simp
qed

lemma ucast_u16: "ucast (ucast (x :: u16) :: u32) = x"
  by (rule bit_word_eqI) (simp add: bit_simps)

lemma delay_tokens:
  "tokens [] (decimal a @ CHR '','' # decimal b @ CHR '','' # decimal c @ CHR '','' # decimal d) =
     [decimal a, decimal b, decimal c, decimal d]"
  by (simp add: tokens_step tokens_last decimal_no_comma)

lemma delay_after: "after_strtok (decimal a @ CHR '','' # s) = decimal a"
  by (simp add: after_strtok_first decimal_no_comma)

lemma decimal_not_option: "\<not> at_char CHR ''-'' (decimal n)"
  using decimal_digits [of n] digit_not_space by (cases "decimal n") auto

lemma parse_option:
  assumes "wf_opt x"
  shows "parse_args mem st (opt_args x @ rest) = parse_args mem (opt_effect x st) rest"
proof (cases x)
  case (OptR n)
  then show ?thesis
    using assms strtoul_prefix [of n] by (auto simp add: process_arg_def priority_option_def Let_def word_of_nat_eq_0_iff)
next
  case (OptD a b c d)
  have "atoi (decimal (unat (x :: u16))) = ucast x" for x
    using atoi_decimal [of "unat x"] unsigned_less [of x, where ?'a = nat] by simp
  then show ?thesis
    using OptD by (simp add: process_arg_def delay_option_def delay_tokens delay_after decimal_not_option phy_delay_at_def set_delay_eq ucast_u16)
next
  case (OptM f)
  then show ?thesis using assms by (simp add: process_arg_def)
next
  case (OptF f)
  then show ?thesis using assms by (simp add: process_arg_def config_option_def)
qed (simp_all add: process_arg_def interval_option_def atoi_signed)

text \<open>C27. A command line in the documented form is processed to its end without a crash, and each of its options
  has its documented effect, in the order in which they are given.\<close>

theorem parse_args_options:
  assumes "list_all wf_opt opts"
  shows "parse_args mem st (concat (List.map opt_args opts)) = Next (fold opt_effect opts st) []"
  using assms by (induction opts arbitrary: st) (simp_all add: parse_option)

section \<open>The configuration file\<close>

text \<open>With a configuration file in the documented form the port gets the thresholds, the delays and
  the permission of the file, in place of those of the command line unless the delays were given there; the
  priority of the clock stays the one of the command line, whatever the file says.\<close>

theorem config_file_options:
  assumes "cl_use_config_file st" and "files (cl_config_file_path st) = Some (render (config_items cfg ds))"
  shows "cl_options mem cfg0 files ipc restore st =
    \<lparr>opt_syntonize = cl_syntonize st, opt_priority1 = cl_priority1 st, opt_ipc = ipc,
     opt_port_state = (if cl_override_portstate st then Some (cl_port_state st) else None),
     opt_portInit = (cl_portInit st)\<lparr>init_neighborPropDelayThreshold := cfg_neighborPropDelayThresh cfg,
       init_syncReceiptThreshold := cfg_syncReceiptThresh cfg,
       init_allowNegativeCorrField := cfg_allowNegativeCorrField cfg,
       init_phy_delay := (if cl_input_delay st then cl_phy_delay st else delay_map ds)\<rparr>,
     opt_restore = restore\<rparr>"
  using assms
  by (simp add: cl_options_def merge_config_def default_delays_def GptpIniParser_config set_portInit_def)

section \<open>The state of the next run\<close>

lemma storage_configured:
  assumes "persist_open True True True file = (data, s)" and "length file < 2 ^ 32"
    and "persist_size A (clk w) (ports w 0) < 2 ^ 32"
  shows "storage_ready (persist_size A (clk w) (ports w 0)) file (persist_configure A w s)"
  using assms
  by (auto simp add: persist_open_def readStorage_def initStorage_def makeLinuxGPTPPersistFile_def storage_ready_def
      persist_configure_def registerWriteCB_def setWriteSize_def Let_def split: if_splits)

lemma restore_saved:
  assumes "clock_saved A c" and "fr_saved A (peer_rate_offset p)"
  shows "restore_clock A (Some (clock_octets A c @ port_octets A p @ rest)) c' =
      (Some (port_octets A p @ rest), c'\<lparr>master_local_freq_offset := master_local_freq_offset c,
        local_system_freq_offset := local_system_freq_offset c, LastEBestIdentity := LastEBestIdentity c\<rparr>)"
    and "restore_port A (Some (port_octets A p @ rest)) p' =
      p'\<lparr>asCapable := asCapable p, port_state := port_state p, one_way_delay := one_way_delay p,
        peer_rate_offset := peer_rate_offset p\<rparr>"
  using clock_restore_octets [OF assms(1), of "port_octets A p @ rest" c'] port_restore_octets [OF assms(2), of rest p']
  by (simp_all add: restore_clock_def restore_port_def)

text \<open>C6. The state that a daemon saves is the state in which the next one starts: when the signal to save arrives
  while the port is master or slave, and the file could be opened and mapped, nothing faults, the
  daemon goes on, and the start that reads the file restores the rates and the last grandmaster of the clock and the
  role, the link delay, the rate and the capability of the port, however long the file was before.\<close>

theorem persist_restart:
  assumes "clock_saved P (clk u)" and "fr_saved P (peer_rate_offset (ports u 0))"
    and "port_state (ports u 0) = PTP_MASTER \<or> port_state (ports u 0) = PTP_SLAVE"
    and "persist_open True True True file = (data, s)" and "length file < 2 ^ 32" and "fr_size P < 2 ^ 30"
    and "main_signal P True True SIGHUP u (Some (persist_configure P u s, file)) = (go, faulted, Some (s', file'))"
    and "persist_open True True True file' = (data', s'')"
  shows "go \<and> \<not> faulted \<and>
    (\<exists>rest. restore_clock P data' c =
        (Some rest, c\<lparr>master_local_freq_offset := master_local_freq_offset (clk u),
          local_system_freq_offset := local_system_freq_offset (clk u), LastEBestIdentity := LastEBestIdentity (clk u)\<rparr>) \<and>
      restore_port P (Some rest) p =
        p\<lparr>asCapable := asCapable (ports u 0), port_state := port_state (ports u 0),
          one_way_delay := one_way_delay (ports u 0), peer_rate_offset := peer_rate_offset (ports u 0)\<rparr>)"
proof -
  let ?c = "clk u" and ?p = "ports u 0"
  have n: "persist_size P ?c ?p < 2 ^ 32" using assms(6) by (simp add: persist_size_eq)
  obtain r where t: "triggerWriteStorage True True (gPTPPersistWriteCB P ?c ?p) file (persist_configure P u s) =
      (faulted, r, file', s')" and go
    using assms(3,7) by (auto simp add: main_signal_def split: prod.splits)
  note w = trigger_writes [OF assms(1-3) storage_configured [OF assms(4,5) n] n t]
  then obtain rest where f: "file' = clock_octets P ?c @ port_octets P ?p @ rest" by blast
  moreover have "clock_octets P ?c \<noteq> []" using clock_octets_length [OF assms(1)] by auto
  ultimately have "data' = Some (clock_octets P ?c @ port_octets P ?p @ rest)"
    using assms(8) w(3)
    by (auto simp add: persist_open_def readStorage_def initStorage_def makeLinuxGPTPPersistFile_def storage_ready_def Let_def)
  then show ?thesis using w(1) \<open>go\<close> restore_saved [OF assms(1,2), of rest] by auto
qed

section \<open>Witnesses\<close>

definition sample_delay :: phy_delay_spec_t where
  "sample_delay = \<lparr>tx_delay = 0, rx_delay = 0\<rparr>"

definition sample_config :: gptp_cfg_t where
  "sample_config =
     \<lparr>cfg_priority1 = 100, cfg_announceReceiptTimeout = 3, cfg_syncReceiptTimeout = 3, cfg_syncReceiptThresh = 8,
      cfg_neighborPropDelayThresh = 900, cfg_seqIdAsCapableThresh = 2, cfg_lostPdelayRespThresh = 3,
      cfg_port_state = PTP_INITIALIZING, cfg_allowNegativeCorrField = True, cfg_ifname = [], cfg_phy_delay = (\<lambda>_. None)\<rparr>"

theorem parse_args_options_witness:
  "parse_args sample_delay main_init [''-S'', ''-R'', ''255'', ''-M'', ''state''] =
     Next (main_init\<lparr>cl_syntonize := True, cl_priority1 := 255, cl_persist := Some ''state''\<rparr>) []"
proof -
  have "decimal 255 = ''255''" by code_simp
  then show ?thesis
    using parse_args_options [of "[OptS, OptR 255, OptM ''state'']" sample_delay main_init] by simp
qed

theorem config_file_options_witness:
  "let opts = cl_options sample_delay sample_config (\<lambda>_. Some (render (config_items sample_config [(1000000, 184, 382)])))
                True None (main_init\<lparr>cl_use_config_file := True\<rparr>)
   in opt_priority1 opts = 248 \<and> init_neighborPropDelayThreshold (opt_portInit opts) = 900 \<and>
      init_phy_delay (opt_portInit opts) 1000000 = Some \<lparr>tx_delay = 184, rx_delay = 382\<rparr>"
proof -
  have "cl_use_config_file (main_init\<lparr>cl_use_config_file := True\<rparr>)" by simp
  from config_file_options [OF this refl, where mem = sample_delay and ?cfg0.0 = sample_config and ipc = True and restore = None]
  show ?thesis by (simp add: main_init_def sample_config_def delay_map_def delay_entry_def)
qed

theorem persist_restart_witness:
  "\<exists>s' file' data' s'' rest.
     main_signal sample_platform True True SIGHUP sample_world
       (Some (persist_configure sample_platform sample_world (snd (persist_open True True True [])), [])) =
         (True, False, Some (s', file')) \<and>
     persist_open True True True file' = (data', s'') \<and>
     port_state (restore_port sample_platform (Some rest) (sample_port\<lparr>port_state := PTP_INITIALIZING\<rparr>)) = PTP_SLAVE"
proof -
  let ?s = "snd (persist_open True True True [])"
  let ?m = "main_signal sample_platform True True SIGHUP sample_world (Some (persist_configure sample_platform sample_world ?s, []))"
  have c: "clk sample_world = sample_clock\<lparr>port_list := port_list (clk sample_world), number_ports := 1\<rparr>"
    by (simp add: sample_world_def)
  have saved: "clock_saved sample_platform (clk sample_world)" "fr_saved sample_platform (peer_rate_offset (ports sample_world 0))"
    by (subst c, simp_all add: clock_saved_def fr_saved_def sample_platform_def sample_clock_facts sample_port_def)
  obtain go faulted s' file' where m: "?m = (go, faulted, Some (s', file'))"
    by (cases ?m) (auto simp add: main_signal_def split: prod.splits if_splits)
  obtain data' s'' where o: "persist_open True True True file' = (data', s'')" by (cases "persist_open True True True file'")
  have e: "persist_open True True True [] = (fst (persist_open True True True []), ?s)" by simp
  have z: "fr_size sample_platform < 2 ^ 30" by (simp add: sample_platform_def)
  obtain rest where r: "go" "\<not> faulted"
    "restore_port sample_platform (Some rest) (sample_port\<lparr>port_state := PTP_INITIALIZING\<rparr>) = sample_port\<lparr>port_state := PTP_SLAVE\<rparr>"
    using persist_restart [OF saved _ e _ z m o, of sample_clock "sample_port\<lparr>port_state := PTP_INITIALIZING\<rparr>"]
      sample_saved(3) by auto
  then have "port_state (restore_port sample_platform (Some rest) (sample_port\<lparr>port_state := PTP_INITIALIZING\<rparr>)) = PTP_SLAVE"
    by simp
  with m o r(1,2) show ?thesis by auto
qed

end
