(* ===== verification/Ticketing_Lock.thy ===== *)
theory Ticketing_Lock
  imports Gptp_Prelude
begin

text \<open>
  The lock of a network interface (\<open>TicketingLock\<close>) and the condition on which the start of a thread waits
  (\<open>LinuxCondition\<close>), both of \<open>linux/src/linux_hal_common.cpp\<close>. Each body runs under a mutex of its own and is one step;
  waiting on the POSIX condition gives the mutex up and is a state of the thread. The
  tickets are octets, so that they wrap around. The mutexes and conditions of POSIX are taken to work without error. The main
  results: with at most 256 threads the lock serves in the order of arrival, one thread at a time, and wakes the next one; and a
  signal is not lost between the two parts of a wait.
\<close>

section \<open>The lock\<close>

record TicketingLock =
  cond_ticket_issue :: u8
  cond_ticket_serving :: u8

definition TicketingLock_init :: TicketingLock where
  "TicketingLock_init = \<lparr>cond_ticket_issue = 0, cond_ticket_serving = 0\<rparr>"

text \<open>\<open>lock(NULL)\<close> up to the first test of the loop: the ticket taken.\<close>

definition take_ticket :: "TicketingLock \<Rightarrow> u8 \<times> TicketingLock" where
  "take_ticket l = (cond_ticket_issue l, l\<lparr>cond_ticket_issue := cond_ticket_issue l + 1\<rparr>)"

text \<open>The test of the loop, also after each return of \<open>pthread_cond_wait\<close>.\<close>

definition served :: "u8 \<Rightarrow> TicketingLock \<Rightarrow> bool" where
  "served ticket l \<longleftrightarrow> ticket = cond_ticket_serving l"

text \<open>\<open>lock(&got)\<close>, which does not wait: the ticket is given back when it is not served.\<close>

definition try_lock :: "TicketingLock \<Rightarrow> bool \<times> TicketingLock" where
  "try_lock l =
     (let (ticket, l) = take_ticket l
      in if served ticket l then (True, l)
         else (False, l\<lparr>cond_ticket_issue := cond_ticket_issue l - 1\<rparr>))"

definition unlock :: "TicketingLock \<Rightarrow> TicketingLock" where
  "unlock l = l\<lparr>cond_ticket_serving := cond_ticket_serving l + 1\<rparr>"

text \<open>The threads that use the lock. A thread that has to wait sleeps in \<open>pthread_cond_wait\<close>; it is woken by the broadcast of
  an unlocking thread, or by itself, and then tests its ticket again.\<close>

datatype lock_state = Idle | Asleep u8 | Awake u8 | Holding

definition broadcast :: "(nat \<Rightarrow> lock_state) \<Rightarrow> nat \<Rightarrow> lock_state" where
  "broadcast th = (\<lambda>t. case th t of Asleep k \<Rightarrow> Awake k | s \<Rightarrow> s)"

text \<open>What an observer sees: a thread arrives when it takes a ticket it keeps, it acquires the lock when its call returns
  with it, and it releases it.\<close>

datatype lock_event = Arrive nat | Acquire nat | Release nat

type_synonym lock_system = "TicketingLock \<times> (nat \<Rightarrow> lock_state)"

inductive lock_step :: "nat set \<Rightarrow> lock_system \<Rightarrow> lock_event list \<Rightarrow> lock_system \<Rightarrow> bool" for T :: "nat set" where
  Lock_Free: "t \<in> T \<Longrightarrow> th t = Idle \<Longrightarrow> take_ticket l = (k, l') \<Longrightarrow> served k l' \<Longrightarrow>
    lock_step T (l, th) [Arrive t, Acquire t] (l', th(t := Holding))"
| Lock_Wait: "t \<in> T \<Longrightarrow> th t = Idle \<Longrightarrow> take_ticket l = (k, l') \<Longrightarrow> \<not> served k l' \<Longrightarrow>
    lock_step T (l, th) [Arrive t] (l', th(t := Asleep k))"
| Try_Got: "t \<in> T \<Longrightarrow> th t = Idle \<Longrightarrow> try_lock l = (True, l') \<Longrightarrow>
    lock_step T (l, th) [Arrive t, Acquire t] (l', th(t := Holding))"
| Try_Not: "t \<in> T \<Longrightarrow> th t = Idle \<Longrightarrow> try_lock l = (False, l') \<Longrightarrow> lock_step T (l, th) [] (l', th)"
| Wake: "t \<in> T \<Longrightarrow> th t = Asleep k \<Longrightarrow> lock_step T (l, th) [] (l, th(t := Awake k))"
| Test_Served: "t \<in> T \<Longrightarrow> th t = Awake k \<Longrightarrow> served k l \<Longrightarrow> lock_step T (l, th) [Acquire t] (l, th(t := Holding))"
| Test_Not: "t \<in> T \<Longrightarrow> th t = Awake k \<Longrightarrow> \<not> served k l \<Longrightarrow> lock_step T (l, th) [] (l, th(t := Asleep k))"
| Unlock: "t \<in> T \<Longrightarrow> th t = Holding \<Longrightarrow> lock_step T (l, th) [Release t] (unlock l, broadcast (th(t := Idle)))"

inductive lock_run :: "nat set \<Rightarrow> lock_event list \<Rightarrow> lock_system \<Rightarrow> bool" for T :: "nat set" where
  Init: "lock_run T [] (TicketingLock_init, \<lambda>_. Idle)"
| Step: "lock_run T tr s \<Longrightarrow> lock_step T s es s' \<Longrightarrow> lock_run T (tr @ es) s'"

section \<open>The order of arrival\<close>

text \<open>The threads of a log, in the order of their arrivals, acquisitions and releases.\<close>

definition arrivals :: "lock_event list \<Rightarrow> nat list" where
  "arrivals tr = concat (map (\<lambda>e. case e of Arrive t \<Rightarrow> [t] | _ \<Rightarrow> []) tr)"

definition acquisitions :: "lock_event list \<Rightarrow> nat list" where
  "acquisitions tr = concat (map (\<lambda>e. case e of Acquire t \<Rightarrow> [t] | _ \<Rightarrow> []) tr)"

definition releases :: "lock_event list \<Rightarrow> nat list" where
  "releases tr = concat (map (\<lambda>e. case e of Release t \<Rightarrow> [t] | _ \<Rightarrow> []) tr)"

lemmas log_defs = arrivals_def acquisitions_def releases_def

text \<open>The queue of the threads that have arrived and not left. Their tickets are consecutive from the one that is served; only the
  first thread can hold the lock, and it does not sleep.\<close>

definition has_ticket :: "u8 \<Rightarrow> lock_state \<Rightarrow> bool" where
  "has_ticket k s \<longleftrightarrow> s = Asleep k \<or> s = Awake k"

definition implements :: "nat set \<Rightarrow> nat list \<Rightarrow> lock_system \<Rightarrow> bool" where
  "implements T q s \<longleftrightarrow>
     (case s of (l, th) \<Rightarrow>
        distinct q \<and> (\<forall>t. t \<in> set q \<longleftrightarrow> th t \<noteq> Idle) \<and> set q \<subseteq> T \<and>
        cond_ticket_issue l = cond_ticket_serving l + of_nat (length q) \<and>
        (\<forall>i < length q. has_ticket (cond_ticket_serving l + of_nat i) (th (q ! i)) \<or> i = 0 \<and> th (q ! i) = Holding) \<and>
        (q \<noteq> [] \<longrightarrow> (\<forall>k. th (hd q) \<noteq> Asleep k)))"

text \<open>The log of a run with the queue \<open>q\<close>: the threads that arrived are those that have left and then the queue, and those
  that acquired the lock are those that have left and then the holder.\<close>

definition in_order :: "lock_event list \<Rightarrow> nat list \<Rightarrow> (nat \<Rightarrow> lock_state) \<Rightarrow> bool" where
  "in_order tr q th \<longleftrightarrow>
     arrivals tr = releases tr @ q \<and> acquisitions tr = releases tr @ filter (\<lambda>t. th t = Holding) q"

lemma u8_small: "i < 256 \<Longrightarrow> j < 256 \<Longrightarrow> (of_nat i :: u8) = of_nat j \<longleftrightarrow> i = j"
  by (simp add: word_of_nat_eq_iff take_bit_eq_mod)

lemma u8_zero: "i < 256 \<Longrightarrow> (of_nat i :: u8) = 0 \<longleftrightarrow> i = 0"
  using u8_small [of i 0] by simp

lemma queue_length:
  assumes "implements T q (l, th)" and "finite T" and "card T \<le> 256"
  shows "length q \<le> 256" and "t \<in> T \<Longrightarrow> th t = Idle \<Longrightarrow> t \<notin> set q \<and> length q < 256"
proof -
  have q: "distinct q" "set q = {t. th t \<noteq> Idle}" "set q \<subseteq> T" using assms(1) by (auto simp add: implements_def)
  show "length q \<le> 256" using card_mono [OF assms(2) q(3)] assms(3) distinct_card [OF q(1)] by simp
  show "t \<notin> set q \<and> length q < 256" if "t \<in> T" "th t = Idle"
  proof -
    have "set q \<subset> T" using that q(2,3) by blast
    then have "card (set q) < card T" by (rule psubset_card_mono [OF assms(2)])
    then show ?thesis using assms(3) distinct_card [OF q(1)] that(2) q(2) by auto
  qed
qed

lemma free_iff_empty:
  assumes "implements T q (l, th)" and "length q < 256"
  shows "cond_ticket_issue l = cond_ticket_serving l \<longleftrightarrow> q = []"
  using assms u8_zero [of "length q"] by (auto simp add: implements_def)

lemma implements_join:
  assumes "implements T q (l, th)" and "t \<in> T" and "th t = Idle" and "length q < 256"
  shows "implements T (q @ [t])
    (l\<lparr>cond_ticket_issue := cond_ticket_issue l + 1\<rparr>,
     th(t := if cond_ticket_issue l = cond_ticket_serving l then Holding else Asleep (cond_ticket_issue l)))"
proof -
  have t: "t \<notin> set q" using assms(1,3) by (auto simp add: implements_def)
  then have n: "q ! i \<noteq> t" if "i < length q" for i using that nth_mem by blast
  have h: "hd q \<noteq> t" if "q \<noteq> []" using t that hd_in_set by blast
  show ?thesis
    using assms t n h free_iff_empty [OF assms(1,4)]
    by (auto simp add: implements_def nth_append less_Suc_eq hd_append has_ticket_def)
qed

lemma implements_first:
  assumes "implements T q (l, th)" and "length q \<le> 256" and "has_ticket (cond_ticket_serving l) (th t) \<or> th t = Holding"
  shows "\<exists>r. q = t # r"
proof -
  have "t \<in> set q" using assms(1,3) by (auto simp add: implements_def has_ticket_def)
  then obtain i where i: "i < length q" "q ! i = t" by (auto simp add: in_set_conv_nth)
  then have "has_ticket (cond_ticket_serving l + of_nat i) (th t) \<or> i = 0" using assms(1) by (auto simp add: implements_def)
  then have "i = 0" using assms(2,3) i(1) u8_zero [of i] by (auto simp add: has_ticket_def)
  then show ?thesis using i by (cases q) auto
qed

lemma broadcast_simps [simp]:
  "broadcast th t = Holding \<longleftrightarrow> th t = Holding" "broadcast th t = Idle \<longleftrightarrow> th t = Idle" "broadcast th t \<noteq> Asleep k"
  "has_ticket k (broadcast th t) \<longleftrightarrow> has_ticket k (th t)"
  by (auto simp add: broadcast_def has_ticket_def split: lock_state.splits)

lemma implements_tail:
  "implements T (t # r) (l, th) \<Longrightarrow> i < length r \<Longrightarrow> has_ticket (cond_ticket_serving l + of_nat (Suc i)) (th (r ! i))"
  by (auto simp add: implements_def dest!: spec [of _ "Suc i"])

lemma tail_not_holding: "implements T (t # r) (l, th) \<Longrightarrow> x \<in> set r \<Longrightarrow> th x \<noteq> Holding"
  by (auto simp add: in_set_conv_nth has_ticket_def dest!: implements_tail)

lemma implements_state:
  assumes "implements T q (l, th)" and "has_ticket k (th t)" and "has_ticket k s" and "q \<noteq> [] \<Longrightarrow> hd q = t \<Longrightarrow> s \<noteq> Asleep k"
  shows "implements T q (l, th(t := s))"
  using assms by (auto simp add: implements_def has_ticket_def)

lemma implements_acquire:
  assumes "implements T (t # r) (l, th)"
  shows "implements T (t # r) (l, th(t := Holding))"
proof -
  have n: "r ! i \<noteq> t" if "i < length r" for i
    using assms that nth_mem [OF that] by (auto simp add: implements_def)
  then show ?thesis
    using assms by (auto simp add: implements_def nth_Cons split: nat.splits)
qed

lemma implements_leave:
  assumes "implements T (t # r) (l, th)" and "th t = Holding"
  shows "implements T r (unlock l, broadcast (th(t := Idle)))"
proof -
  have t: "t \<notin> set r" using assms(1) by (simp add: implements_def)
  then have n: "r ! i \<noteq> t" if "i < length r" for i using that nth_mem by blast
  show ?thesis
    using assms t n implements_tail [OF assms(1)] by (auto simp add: implements_def unlock_def algebra_simps)
qed

text \<open>Each step keeps the queue and the log in agreement.\<close>

lemma in_order_arrive:
  assumes "in_order tr q th" and "t \<notin> set q"
  shows "in_order (tr @ [Arrive t]) (q @ [t]) (th(t := Asleep k))"
    and "q = [] \<Longrightarrow> in_order (tr @ [Arrive t, Acquire t]) (q @ [t]) (th(t := Holding))"
proof -
  have "filter (\<lambda>x. (th(t := Asleep k)) x = Holding) (q @ [t]) = filter (\<lambda>x. th x = Holding) q"
    using assms(2) by (auto intro: filter_cong)
  then show "in_order (tr @ [Arrive t]) (q @ [t]) (th(t := Asleep k))"
    using assms(1) unfolding in_order_def by (simp add: log_defs del: fun_upd_apply filter_append)
  show "in_order (tr @ [Arrive t, Acquire t]) (q @ [t]) (th(t := Holding))" if "q = []"
    using assms that by (simp add: in_order_def log_defs)
qed

lemma in_order_state: "in_order tr q th \<Longrightarrow> has_ticket k (th t) \<Longrightarrow> has_ticket k s \<Longrightarrow> in_order tr q (th(t := s))"
  by (auto simp add: in_order_def has_ticket_def intro!: filter_cong)

lemma in_order_acquire:
  assumes "in_order tr (t # r) th" and "implements T (t # r) (l, th)" and "has_ticket k (th t)"
  shows "in_order (tr @ [Acquire t]) (t # r) (th(t := Holding))"
proof -
  have "filter (\<lambda>x. th x = Holding) r = []" "filter (\<lambda>x. x \<noteq> t \<longrightarrow> th x = Holding) r = []"
    using tail_not_holding [OF assms(2)] assms(2) by (auto simp add: filter_empty_conv implements_def)
  then show ?thesis using assms by (auto simp add: in_order_def log_defs has_ticket_def)
qed

lemma in_order_leave:
  assumes "in_order tr (t # r) th" and "implements T (t # r) (l, th)" and "th t = Holding"
  shows "in_order (tr @ [Release t]) r (broadcast (th(t := Idle)))"
proof -
  have "filter (\<lambda>x. th x = Holding) r = []" "filter (\<lambda>x. broadcast (th(t := Idle)) x = Holding) r = []"
    using tail_not_holding [OF assms(2)] by (auto simp add: filter_empty_conv)
  then show ?thesis using assms by (simp add: in_order_def log_defs)
qed

lemma lock_refines:
  assumes "lock_step T s es s'" and "implements T q s" and "in_order tr q (snd s)" and "finite T" and "card T \<le> 256"
  shows "\<exists>q'. implements T q' s' \<and> in_order (tr @ es) q' (snd s')"
  using assms(1-3)
proof (cases rule: lock_step.cases)
  case (Lock_Free t th l k l')
  then have "t \<notin> set q" "length q < 256" using queue_length(2) [OF _ assms(4,5)] assms(2) by auto
  then show ?thesis
    using Lock_Free assms(2,3) implements_join [of T q l th t] free_iff_empty [of T q l th] in_order_arrive(2) [of tr q th t]
    by (intro exI [of _ "q @ [t]"]) (auto simp add: take_ticket_def served_def)
next
  case (Lock_Wait t th l k l')
  then have "t \<notin> set q" "length q < 256" using queue_length(2) [OF _ assms(4,5)] assms(2) by auto
  then show ?thesis
    using Lock_Wait assms(2,3) implements_join [of T q l th t] in_order_arrive(1) [of tr q th t k]
    by (intro exI [of _ "q @ [t]"]) (auto simp add: take_ticket_def served_def)
next
  case (Try_Got t th l l')
  then have "t \<notin> set q" "length q < 256" using queue_length(2) [OF _ assms(4,5)] assms(2) by auto
  then show ?thesis
    using Try_Got assms(2,3) implements_join [of T q l th t] free_iff_empty [of T q l th] in_order_arrive(2) [of tr q th t]
    by (intro exI [of _ "q @ [t]"]) (auto simp add: try_lock_def take_ticket_def served_def split: if_splits)
next
  case (Try_Not t th l l')
  then show ?thesis
    using assms(2,3) by (intro exI [of _ q]) (auto simp add: try_lock_def take_ticket_def served_def split: if_splits)
next
  case (Wake t th k l)
  then show ?thesis
    using assms(2,3) implements_state [of T q l th k t "Awake k"] in_order_state [of tr q th k t "Awake k"]
    by (intro exI [of _ q]) (auto simp add: has_ticket_def)
next
  case (Test_Served t th k l)
  then have "length q \<le> 256" using queue_length(1) [OF _ assms(4,5)] assms(2) by auto
  then obtain r where "q = t # r"
    using Test_Served assms(2) implements_first [of T q l th t] by (auto simp add: has_ticket_def served_def)
  then show ?thesis
    using Test_Served assms(2,3) implements_acquire [of T t r l th] in_order_acquire [of tr t r th T l k]
    by (intro exI [of _ q]) (auto simp add: has_ticket_def)
next
  case (Test_Not t th k l)
  have "hd q \<noteq> t" if "q \<noteq> []"
    using assms(2) Test_Not that by (cases q) (auto simp add: implements_def has_ticket_def served_def)
  then show ?thesis
    using Test_Not assms(2,3) implements_state [of T q l th k t "Asleep k"] in_order_state [of tr q th k t "Asleep k"]
    by (intro exI [of _ q]) (auto simp add: has_ticket_def)
next
  case (Unlock t th l)
  then have "length q \<le> 256" using queue_length(1) [OF _ assms(4,5)] assms(2) by auto
  then obtain r where "q = t # r" using Unlock assms(2) implements_first [of T q l th t] by auto
  then show ?thesis
    using Unlock assms(2,3) implements_leave [of T t r l th] in_order_leave [of tr t r th T l] by (intro exI [of _ r]) auto
qed

lemma lock_run_queue:
  assumes "lock_run T tr s" and "finite T" and "card T \<le> 256"
  shows "\<exists>q. implements T q s \<and> in_order tr q (snd s)"
  using assms(1)
proof (induction rule: lock_run.induct)
  case Init
  have "implements T [] (TicketingLock_init, \<lambda>_. Idle)" by (simp add: implements_def TicketingLock_init_def)
  moreover have "in_order [] [] (\<lambda>_. Idle)" by (simp add: in_order_def log_defs)
  ultimately show ?case by auto
next
  case (Step tr s es s')
  then show ?case using lock_refines [OF Step(2) _ _ assms(2,3)] by blast
qed

text \<open>C15. With at most 256 threads the lock serves in the order of arrival, one thread at a time, and nobody is left asleep: after
  every run with the log \<open>tr\<close>, and with \<open>q\<close> for the threads that arrived and have not released, in the order of their
  arrival, those that have released are the first that arrived; those that acquired the lock are these and at most
  one more, the first of \<open>q\<close>, which is the holder; \<open>q\<close> has exactly the threads that wait for the lock or hold it; and when the first
  of \<open>q\<close> does not hold the lock yet, it is awake with the ticket that is served, so that its next test succeeds.\<close>

theorem ticket_lock_queue:
  assumes "lock_run T tr (l, th)" and "finite T" and "card T \<le> 256"
  shows "let q = drop (length (releases tr)) (arrivals tr) in
    arrivals tr = releases tr @ q \<and> acquisitions tr = releases tr @ filter (\<lambda>t. th t = Holding) q \<and>
    (\<forall>t. th t = Holding \<longrightarrow> q \<noteq> [] \<and> t = hd q) \<and> set q = {t. th t \<noteq> Idle} \<and>
    (q \<noteq> [] \<longrightarrow> th (hd q) = Holding \<or> th (hd q) = Awake (cond_ticket_serving l))"
proof -
  obtain q where q: "implements T q (l, th)" "in_order tr q th" using lock_run_queue [OF assms] by auto
  then have d: "drop (length (releases tr)) (arrivals tr) = q" by (simp add: in_order_def)
  have n: "length q \<le> 256" using queue_length(1) [OF q(1) assms(2,3)] .
  have "t = hd q \<and> q \<noteq> []" if "th t = Holding" for t using implements_first [OF q(1) n, of t] that by auto
  moreover have "th (hd q) = Holding \<or> th (hd q) = Awake (cond_ticket_serving l)" if "q \<noteq> []"
    using q(1) that by (cases q) (auto simp add: implements_def has_ticket_def)
  moreover have "set q = {t. th t \<noteq> Idle}" using q(1) by (auto simp add: implements_def)
  ultimately show ?thesis using q(2) unfolding d Let_def in_order_def by blast
qed

text \<open>With more threads the tickets of two of them are the same: the thread that comes when 256 tickets
  are out has the ticket that is served.\<close>

lemma ticket_wraps:
  "cond_ticket_issue l = cond_ticket_serving l + of_nat 256 \<Longrightarrow> take_ticket l = (k, l') \<Longrightarrow> served k l'"
  using word_of_nat_eq_0_iff [of 256, where ?'a = 8] by (auto simp add: take_ticket_def served_def simp del: of_nat_numeral)

section \<open>The condition\<close>

text \<open>The mutex is held or free; \<open>wait_prelock\<close> keeps it, \<open>wait\<close> gives it up while the thread sleeps and takes it again.\<close>

record LinuxCondition =
  port_lock :: bool
  wait_count :: int

definition LinuxCondition_init :: LinuxCondition where
  "LinuxCondition_init = \<lparr>port_lock = False, wait_count = 0\<rparr>"

definition wait_prelock :: "LinuxCondition \<Rightarrow> LinuxCondition option" where
  "wait_prelock c = (if port_lock c then None else Some (c\<lparr>port_lock := True, wait_count := wait_count c + 1\<rparr>))"

definition wait_sleep :: "LinuxCondition \<Rightarrow> LinuxCondition" where
  "wait_sleep c = c\<lparr>port_lock := False\<rparr>"

definition wait_return :: "LinuxCondition \<Rightarrow> LinuxCondition option" where
  "wait_return c = (if port_lock c then None else Some (c\<lparr>wait_count := wait_count c - 1\<rparr>))"

text \<open>Whether the sleeping threads are woken up.\<close>

definition cond_signal :: "LinuxCondition \<Rightarrow> (bool \<times> LinuxCondition) option" where
  "cond_signal c = (if port_lock c then None else Some (wait_count c > 0, c))"

text \<open>The start of the listening thread: the port calls \<open>wait_prelock\<close>, starts the thread and calls \<open>wait\<close>; the thread signals first
  of all and then listens. A sleeping thread may also wake up by itself.\<close>

datatype starter = Begin | Prelocked | Started | Sleeping | Woken | Ready

datatype listener = Absent | Opening | Listening

datatype handshake_action = Do_Prelock | Do_Create | Do_Sleep | Wake_Self | Do_Return | Do_Signal

type_synonym handshake = "LinuxCondition \<times> starter \<times> listener"

inductive handshake_step :: "handshake \<Rightarrow> handshake_action \<Rightarrow> handshake \<Rightarrow> bool" where
  Prelock: "wait_prelock c = Some c' \<Longrightarrow> handshake_step (c, Begin, b) Do_Prelock (c', Prelocked, b)"
| Create: "handshake_step (c, Prelocked, Absent) Do_Create (c, Started, Opening)"
| Sleep: "handshake_step (c, Started, b) Do_Sleep (wait_sleep c, Sleeping, b)"
| Spurious: "handshake_step (c, Sleeping, b) Wake_Self (c, Woken, b)"
| Return: "wait_return c = Some c' \<Longrightarrow> handshake_step (c, Woken, b) Do_Return (c', Ready, b)"
| Signal: "cond_signal c = Some (wake, c') \<Longrightarrow>
    handshake_step (c, a, Opening) Do_Signal (c', if wake \<and> a = Sleeping then Woken else a, Listening)"

inductive handshake_run :: "handshake_action list \<Rightarrow> handshake \<Rightarrow> bool" where
  Init: "handshake_run [] (LinuxCondition_init, Begin, Absent)"
| Step: "handshake_run es s \<Longrightarrow> handshake_step s e s' \<Longrightarrow> handshake_run (es @ [e]) s'"

text \<open>The number of steps that are left at most.\<close>

primrec starter_left :: "starter \<Rightarrow> nat" where
  "starter_left Begin = 5" | "starter_left Prelocked = 4" | "starter_left Started = 3" | "starter_left Sleeping = 2"
| "starter_left Woken = 1" | "starter_left Ready = 0"

primrec listener_left :: "listener \<Rightarrow> nat" where
  "listener_left Absent = 2" | "listener_left Opening = 1" | "listener_left Listening = 0"

text \<open>The port holds the mutex from \<open>wait_prelock\<close> until it sleeps, so that the signal comes when it sleeps or has woken up
  by itself; it sleeps only while the signal is still to come.\<close>

fun handshake_inv :: "handshake_action list \<Rightarrow> handshake \<Rightarrow> bool" where
  "handshake_inv es (c, a, b) =
     (port_lock c = (a = Prelocked \<or> a = Started) \<and>
      wait_count c = (if a = Begin \<or> a = Ready then 0 else 1) \<and>
      (b = Absent \<longleftrightarrow> a = Begin \<or> a = Prelocked) \<and> (a = Started \<or> a = Sleeping \<longrightarrow> b = Opening) \<and>
      (Wake_Self \<notin> set es \<and> (a = Woken \<or> a = Ready) \<longrightarrow> b = Listening) \<and>
      length es + starter_left a + listener_left b \<le> 7)"

lemma handshake_inv_step: "handshake_step s e s' \<Longrightarrow> handshake_inv es s \<Longrightarrow> handshake_inv (es @ [e]) s'"
  by (induction rule: handshake_step.induct)
    (auto simp add: wait_prelock_def wait_sleep_def wait_return_def cond_signal_def split: if_splits)

lemma handshake_run_inv: "handshake_run es s \<Longrightarrow> handshake_inv es s"
  by (induction rule: handshake_run.induct) (auto simp add: LinuxCondition_init_def intro: handshake_inv_step)

lemma handshake_enabled:
  assumes "handshake_inv es (c, a, b)" and "(a, b) \<noteq> (Ready, Listening)"
  shows "\<exists>e s'. e \<noteq> Wake_Self \<and> handshake_step (c, a, b) e s'"
proof (cases "port_lock c")
  case True
  then have "a = Prelocked \<and> b = Absent \<or> a = Started" using assms(1) by auto
  then show ?thesis using handshake_step.Create [of c] handshake_step.Sleep [of c b] by auto
next
  case False
  show ?thesis
  proof (cases "b = Opening")
    case True
    then show ?thesis using False handshake_step.Signal [of c "wait_count c > 0" c a] by (auto simp add: cond_signal_def)
  next
    case b: False
    then have "a = Begin \<or> a = Woken" using assms False by (cases b; cases a) auto
    then show ?thesis
      using False handshake_step.Prelock [of c _ b] handshake_step.Return [of c _ b]
      by (auto simp add: wait_prelock_def wait_return_def)
  qed
qed

text \<open>C16. The start of the listening thread completes without the help of a spurious wake-up, and the signal is not lost: after every run
  of port and thread, either the port has returned from its wait and the thread listens, or a step other than a
  wake-up without a signal is possible; no run has more than seven steps; the port never sleeps once the thread has
  signalled; and, unless it woke up by itself, the port has returned from its wait only after the signal.\<close>

theorem handshake_completes:
  assumes "handshake_run es (c, a, b)"
  shows "((a, b) = (Ready, Listening) \<or> (\<exists>e s'. e \<noteq> Wake_Self \<and> handshake_step (c, a, b) e s')) \<and>
    length es \<le> 7 \<and> \<not> (a = Sleeping \<and> b = Listening) \<and> (Wake_Self \<notin> set es \<and> a = Ready \<longrightarrow> b = Listening)"
proof -
  have i: "handshake_inv es (c, a, b)" using handshake_run_inv [OF assms] .
  then have "(a, b) = (Ready, Listening) \<or> (\<exists>e s'. e \<noteq> Wake_Self \<and> handshake_step (c, a, b) e s')"
    using handshake_enabled [of es c a b] by blast
  then show ?thesis using i by auto
qed

section \<open>Witnesses\<close>

text \<open>Two threads: the first holds the lock, the second waits asleep; the first unlocks.\<close>

theorem ticket_lock_queue_witness:
  "\<exists>l th. lock_run {1, 2} [Arrive 1, Acquire 1, Arrive 2, Release 1] (l, th) \<and> th 2 = Awake (cond_ticket_serving l) \<and>
    arrivals [Arrive 1, Acquire 1, Arrive 2, Release 1] = [1, 2] \<and> acquisitions [Arrive 1, Acquire 1, Arrive 2, Release 1] = [1]"
proof -
  let ?l = "\<lambda>i s. \<lparr>cond_ticket_issue = i, cond_ticket_serving = s\<rparr>"
  have "lock_run {1, 2} ([] @ [Arrive 1, Acquire 1]) (?l 1 0, (\<lambda>_. Idle)(1 := Holding))"
    by (rule lock_run.Step [OF lock_run.Init], rule lock_step.Lock_Free) (simp_all add: take_ticket_def TicketingLock_init_def served_def)
  then have "lock_run {1, 2} (([] @ [Arrive 1, Acquire 1]) @ [Arrive 2]) (?l 2 0, ((\<lambda>_. Idle)(1 := Holding))(2 := Asleep 1))"
    by (rule lock_run.Step, intro lock_step.Lock_Wait) (simp_all add: take_ticket_def served_def)
  then have "lock_run {1, 2} ((([] @ [Arrive 1, Acquire 1]) @ [Arrive 2]) @ [Release 1])
      (unlock (?l 2 0), broadcast ((((\<lambda>_. Idle)(1 := Holding))(2 := Asleep 1))(1 := Idle)))"
    by (rule lock_run.Step, intro lock_step.Unlock) simp_all
  then have r: "lock_run {1, 2} [Arrive 1, Acquire 1, Arrive 2, Release 1]
      (unlock (?l 2 0), broadcast ((((\<lambda>_. Idle)(1 := Holding))(2 := Asleep 1))(1 := Idle)))" by simp
  then have "broadcast ((((\<lambda>_. Idle)(1 := Holding))(2 := Asleep 1))(1 := Idle)) 2 = Awake (cond_ticket_serving (unlock (?l 2 0)))"
    using ticket_lock_queue [OF r] by (simp add: log_defs Let_def)
  then show ?thesis using r by (intro exI conjI) (assumption | simp add: log_defs)+
qed

theorem handshake_completes_witness:
  "handshake_run [] (LinuxCondition_init, Begin, Absent) \<and> (\<exists>e s'. e \<noteq> Wake_Self \<and> handshake_step (LinuxCondition_init, Begin, Absent) e s')"
  using handshake_completes [OF handshake_run.Init] handshake_run.Init by simp

end
