(* ===== verification/Linux_Timestamper.thy ===== *)
theory Linux_Timestamper
  imports Ether_Port Ticketing_Lock
begin

text \<open>
  The timestamper of the Linux port (\<open>linux/src/linux_hal_generic.cpp\<close> and \<open>.hpp\<close>, \<open>linux_hal_generic_adj.cpp\<close>) and the
  reception of frames, with the lock of the interface. What the system calls return is an argument. Times
  of the kernel are integers: they are far from the limits of their 64 bits. The main
  results: the arrival timestamps come out in the order of the frames; the lock that a sender of an event message
  takes is released exactly once while its departure timestamp is waited for; the cross timestamp is
  the sample with the shortest system interval, of those that do not begin after a carry into the
  seconds; the values passed to the kernel for a rate and for a phase.
\<close>

section \<open>Times\<close>

record timespec =
  tv_sec :: int
  tv_nsec :: int

definition tsToTimestamp :: "timespec \<Rightarrow> Timestamp" where
  "tsToTimestamp ts =
     Timestamp_default\<lparr>seconds_ms := word_of_int (drop_bit 32 (tv_sec ts)), seconds_ls := word_of_int (tv_sec ts),
       nanoseconds := word_of_int (tv_nsec ts)\<rparr>"

record ptp_clock_time =
  pct_sec :: int
  pct_nsec :: int

definition MAX_NSEC :: int where
  "MAX_NSEC = 1000000000"

text \<open>The difference, and the first argument as the function leaves it: its seconds are decremented in place.\<close>

definition pct_diff :: "ptp_clock_time \<Rightarrow> ptp_clock_time \<Rightarrow> ptp_clock_time \<times> ptp_clock_time" where
  "pct_diff a b =
     (if pct_nsec a \<ge> pct_nsec b
      then (\<lparr>pct_sec = pct_sec a - pct_sec b, pct_nsec = pct_nsec a - pct_nsec b\<rparr>, a)
      else let a = a\<lparr>pct_sec := pct_sec a - 1\<rparr>
           in (\<lparr>pct_sec = pct_sec a - pct_sec b, pct_nsec = (MAX_NSEC - pct_nsec b) + pct_nsec a\<rparr>, a))"

definition pctns :: "ptp_clock_time \<Rightarrow> int" where
  "pctns t = pct_sec t * 1000000000 + pct_nsec t"

definition pctTimestamp :: "ptp_clock_time \<Rightarrow> Timestamp" where
  "pctTimestamp t =
     Timestamp_default\<lparr>seconds_ls := word_of_int (pct_sec t), seconds_ms := word_of_int (drop_bit 32 (pct_sec t)),
       nanoseconds := word_of_int (pct_nsec t)\<rparr>"

section \<open>Cross timestamps\<close>

text \<open>The array that the kernel fills: a system time, then for every sample a device time and a system time. The loop
  keeps the smallest interval and the index of its sample.\<close>

fun gettime_loop :: "nat \<Rightarrow> nat \<Rightarrow> ptp_clock_time list \<Rightarrow> int \<times> nat option \<Rightarrow> ptp_clock_time list \<times> nat option" where
  "gettime_loop 0 i pct (interval, best) = (pct, best)"
| "gettime_loop (Suc n) i pct (interval, best) =
     (let (d, a) = pct_diff (pct ! (2 * i + 2)) (pct ! (2 * i));
          pct = pct[2 * i + 2 := a];
          interval_t = pctns d
      in gettime_loop n (Suc i) pct (if interval_t < interval then (interval_t, Some i) else (interval, best)))"

definition LLONG_MAX :: int where
  "LLONG_MAX = 2 ^ 63 - 1"

text \<open>The system and the device time; \<open>None\<close> when the device is not open or the request fails.\<close>

definition HWTimestamper_gettime :: "bool \<Rightarrow> (nat \<times> ptp_clock_time list) option \<Rightarrow> (Timestamp option \<times> Timestamp option) option" where
  "HWTimestamper_gettime phc_fd offset =
     (if \<not> phc_fd then None
      else case offset of
             None \<Rightarrow> None
           | Some (n_samples, pct) \<Rightarrow>
               (case gettime_loop n_samples 0 pct (LLONG_MAX, None) of
                  (pct, best) \<Rightarrow>
                    Some (map_option (\<lambda>i. pctTimestamp (pct ! (2 * i))) best,
                          map_option (\<lambda>i. pctTimestamp (pct ! (2 * i + 1))) best)))"

section \<open>Arrival timestamps\<close>

text \<open>The list of arrival timestamps: new ones at the front, the oldest at the back.\<close>

record LinuxTimestamperGeneric =
  lt_version :: u8
  rxTimestampList :: "Timestamp list"

definition LinuxTimestamperGeneric_new :: LinuxTimestamperGeneric where
  "LinuxTimestamperGeneric_new = \<lparr>lt_version = 0, rxTimestampList = []\<rparr>"

definition pushRXTimestamp :: "LinuxTimestamperGeneric \<Rightarrow> Timestamp \<Rightarrow> LinuxTimestamperGeneric" where
  "pushRXTimestamp t ts =
     t\<lparr>rxTimestampList := ts\<lparr>ts_version := lt_version t\<rparr> # rxTimestampList t\<rparr>"

definition GPTP_EC_FAILURE :: int where
  "GPTP_EC_FAILURE = - 1"

definition GPTP_EC_EAGAIN :: int where
  "GPTP_EC_EAGAIN = - 72"

text \<open>The return value, and the timestamp when there is one.\<close>

definition HWTimestamper_rxtimestamp :: "LinuxTimestamperGeneric \<Rightarrow> int \<times> Timestamp option \<times> LinuxTimestamperGeneric" where
  "HWTimestamper_rxtimestamp t =
     (if rxTimestampList t = [] then (GPTP_EC_EAGAIN, None, t)
      else (GPTP_EC_SUCCESS, Some (last (rxTimestampList t)), t\<lparr>rxTimestampList := butlast (rxTimestampList t)\<rparr>))"

text \<open>What \<open>select\<close> and \<open>recvmsg\<close> give: the frame with the address of its sender and, if the kernel attached
  one, the time of the device. \<open>select\<close> interrupted by a signal counts as a failure.\<close>

datatype select_result = Timed_out | Select_failed | Not_set | Readable

datatype recv_result = No_message | Recv_failed | Frame LinkLayerAddress octets "timespec option"

definition nrecv ::
  "select_result \<Rightarrow> recv_result \<Rightarrow> TicketingLock \<Rightarrow> LinuxTimestamperGeneric \<Rightarrow>
     net_result \<times> (LinkLayerAddress \<times> octets) option \<times> TicketingLock \<times> LinuxTimestamperGeneric" where
  "nrecv sel rcv net_lock t =
     (let (got_net_lock, net_lock) = try_lock net_lock
      in if \<not> got_net_lock then (net_trfail, None, net_lock, t)
         else
           let (ret, frame, t) =
             (case sel of
                Timed_out \<Rightarrow> (net_trfail, None, t)
              | Select_failed \<Rightarrow> (net_fatal, None, t)
              | Not_set \<Rightarrow> (net_trfail, None, t)
              | Readable \<Rightarrow>
                  (case rcv of
                     No_message \<Rightarrow> (net_trfail, None, t)
                   | Recv_failed \<Rightarrow> (net_fatal, None, t)
                   | Frame remote payload device \<Rightarrow>
                       (net_succeed, Some (remote, payload),
                        case device of
                          Some ts \<Rightarrow> if payload \<noteq> [] \<and> payload ! 0 AND 0x8 = 0 then pushRXTimestamp t (tsToTimestamp ts) else t
                        | None \<Rightarrow> t)))
           in (ret, frame, unlock net_lock, t))"

section \<open>Departure timestamps\<close>

text \<open>A message of the error queue: the octets of the frame that was sent and the time of the device.\<close>

datatype err_message = Err_again | Err_failed | Reflected octets "timespec option"

definition ETHER_HDR_LEN :: nat where
  "ETHER_HDR_LEN = 14"

text \<open>The octets that do not arrive are 0.\<close>

definition reflected_bytes :: "octets \<Rightarrow> octets" where
  "reflected_bytes frame = (let n = ETHER_HDR_LEN + PTP_COMMON_HDR_LENGTH in take n (frame @ replicate n 0))"

definition reflectedMessageId :: "octets \<Rightarrow> PTPMessageId" where
  "reflectedMessageId frame =
     (let gptpCommonHeader = drop ETHER_HDR_LEN (reflected_bytes frame)
      in \<lparr>id_messageType = (gptpCommonHeader ! 0) AND 0xF,
          id_sequenceId = PLAT_ntohs (of_le (take 2 (drop PTP_COMMON_HDR_SEQUENCE_ID gptpCommonHeader)))\<rparr>)"

text \<open>The return value, the timestamp, and whether the lock of the interface is released.\<close>

definition HWTimestamper_txtimestamp :: "u8 \<Rightarrow> bool \<Rightarrow> err_message \<Rightarrow> PTPMessageId \<Rightarrow> bool \<Rightarrow> int \<times> Timestamp option \<times> bool" where
  "HWTimestamper_txtimestamp version sd e messageId last' =
     (if \<not> sd then (- 1, None, False)
      else
        let (ret, ts) =
          (case e of
             Err_again \<Rightarrow> (GPTP_EC_EAGAIN, None)
           | Err_failed \<Rightarrow> (GPTP_EC_FAILURE, None)
           | Reflected frame device \<Rightarrow>
               if msgid_neq messageId (reflectedMessageId frame) then (GPTP_EC_EAGAIN, None)
               else case device of
                      None \<Rightarrow> (GPTP_EC_EAGAIN, None)
                    | Some d \<Rightarrow> (GPTP_EC_SUCCESS, Some ((tsToTimestamp d)\<lparr>ts_version := version\<rparr>)))
        in (ret, ts, ret = GPTP_EC_SUCCESS \<or> last'))"

section \<open>Adjustments of the clock\<close>

text \<open>\<open>fmodf(x, 1.0)\<close> is exact.\<close>

fun fmodf_1 :: "fp \<Rightarrow> fp" where
  "fmodf_1 (Fin a) = Fin (a - of_int (ftrunc a))"
| "fmodf_1 x = NaN"

text \<open>The rate in units of 1/65536 ppm.\<close>

definition HWTimestamper_adjclockrate :: "'a arch_scheme \<Rightarrow> fp \<Rightarrow> u64" where
  "HWTimestamper_adjclockrate A freq_offset =
     push_bit 16 (to_i64 A freq_offset) + to_i64 A (fp_mul DOUBLE (fmodf_1 freq_offset) (Fin 65536))"

text \<open>Division and remainder of C, for a positive divisor.\<close>

definition c_div :: "int \<Rightarrow> int \<Rightarrow> int" where
  "c_div a b = (if 0 \<le> a then a div b else - (- a div b))"

definition c_mod :: "int \<Rightarrow> int \<Rightarrow> int" where
  "c_mod a b = a - c_div a b * b"

definition phase_time :: "int \<Rightarrow> timespec" where
  "phase_time phase_adjust =
     (if phase_adjust \<ge> 0
      then \<lparr>tv_sec = c_div phase_adjust 1000000000, tv_nsec = c_mod phase_adjust 1000000000\<rparr>
      else \<lparr>tv_sec = c_div phase_adjust 1000000000 - 1, tv_nsec = c_mod phase_adjust 1000000000 + 1000000000\<rparr>)"

text \<open>The reception is stopped with the lock held, which is released when the multicast address has been
  added again.\<close>

definition disable_rx_queue :: "TicketingLock \<Rightarrow> TicketingLock" where
  "disable_rx_queue net_lock = snd (take_ticket net_lock)"

definition clear_reenable_rx_queue :: "bool \<Rightarrow> TicketingLock \<Rightarrow> TicketingLock" where
  "clear_reenable_rx_queue sockopt_ok net_lock = (if sockopt_ok then unlock net_lock else net_lock)"

text \<open>The phase adjustment with one interface, whose lock is free: the result, the time passed to the kernel, the
  lock and the timestamper.\<close>

definition HWTimestamper_adjclockphase ::
  "bool \<Rightarrow> bool \<Rightarrow> int \<Rightarrow> TicketingLock \<Rightarrow> LinuxTimestamperGeneric \<Rightarrow>
     bool \<times> timespec \<times> TicketingLock \<times> LinuxTimestamperGeneric" where
  "HWTimestamper_adjclockphase adjust_ok sockopt_ok phase_adjust net_lock t =
     (let net_lock = disable_rx_queue net_lock;
          t = t\<lparr>rxTimestampList := []\<rparr>;
          t = t\<lparr>lt_version := lt_version t + 1\<rparr>;
          tx = phase_time phase_adjust
      in (adjust_ok, tx, clear_reenable_rx_queue sockopt_ok net_lock, t))"

section \<open>Rates and phases\<close>

lemma c_mod_nonneg: "0 \<le> a \<Longrightarrow> c_mod a b = a mod b"
  by (simp add: c_mod_def c_div_def minus_div_mult_eq_mod)

lemma c_mod_neg: "a < 0 \<Longrightarrow> c_mod a b = - (- a mod b)"
  using minus_div_mult_eq_mod [of "- a" b] by (simp add: c_mod_def c_div_def)

lemma phase_time_sum: "tv_sec (phase_time p) * 1000000000 + tv_nsec (phase_time p) = p"
  by (simp add: phase_time_def c_mod_def algebra_simps)

lemma phase_time_nsec:
  "tv_nsec (phase_time p) = (if 0 \<le> p then p mod 1000000000 else 1000000000 - (- p mod 1000000000))"
  by (simp add: phase_time_def c_mod_nonneg c_mod_neg)

lemma phase_time_bounds: "0 \<le> tv_nsec (phase_time p)" "tv_nsec (phase_time p) \<le> 1000000000"
  using less_imp_le [OF pos_mod_bound [of 1000000000 p]] less_imp_le [OF pos_mod_bound [of 1000000000 "- p"]]
  unfolding phase_time_nsec by simp_all

lemma phase_time_whole: "tv_nsec (phase_time p) = 1000000000 \<longleftrightarrow> p < 0 \<and> 1000000000 dvd p"
proof -
  have "- p mod 1000000000 = 0 \<longleftrightarrow> 1000000000 dvd p" by (simp add: mod_eq_0_iff_dvd)
  then show ?thesis using pos_mod_bound [of 1000000000 p] unfolding phase_time_nsec by auto
qed

lemma fraction_bound: "\<bar>r - of_int (ftrunc r)\<bar> < (1 :: rat)"
  using ftrunc_near [of r] by (simp add: abs_minus_commute)

lemma ftrunc_abs: "\<bar>r\<bar> \<le> of_int n \<Longrightarrow> \<bar>ftrunc r\<bar> \<le> n"
  unfolding ftrunc_def by (cases "0 \<le> r"; simp add: abs_le_iff; linarith)

lemma rate_fraction:
  "\<exists>y. fround DOUBLE ((r - of_int (ftrunc r)) * 65536) = Fin y \<and> \<bar>y\<bar> \<le> 65536 \<and> \<bar>y - (r - of_int (ftrunc r)) * 65536\<bar> \<le> 1"
proof -
  let ?x = "(r - of_int (ftrunc r)) * 65536"
  have x: "\<bar>?x\<bar> \<le> of_int 65536" using fraction_bound [of r] by (simp add: abs_mult)
  have p: "(65536 :: int) < 2 ^ fprec DOUBLE" by (simp add: DOUBLE_def)
  have "rat_of_int 65536 < pow2 (int (fprec DOUBLE))" by (rule int_less_pow2 [OF p])
  then have "\<bar>?x\<bar> < pow2 (int (fprec DOUBLE))" using x by (rule le_less_trans [rotated])
  then show ?thesis
    using fround_within_int [OF wf_fmts(2) x p] fround_near [OF wf_fmts(2), of ?x] by auto
qed

lemma to_i64_small: "- (2 ^ 63) \<le> ftrunc r \<Longrightarrow> ftrunc r < 2 ^ 63 \<Longrightarrow> to_i64 A (Fin r) = word_of_int (ftrunc r)"
  by (simp add: to_i64_def)

lemma push_bit_16: "push_bit 16 (word_of_int a :: u64) = word_of_int (a * 65536)"
  by (simp add: push_bit_eq_mult)

text \<open>The frequency that is passed to the kernel for a rate within 250 ppm.\<close>

lemma adjclockrate_value:
  assumes "\<bar>r\<bar> \<le> 250"
  shows "\<exists>v. HWTimestamper_adjclockrate A (Fin r) = word_of_int v \<and> \<bar>v\<bar> \<le> 250 * 65536 \<and> \<bar>of_int v - r * 65536\<bar> < (2 :: rat)"
proof -
  let ?a = "ftrunc r" and ?x = "(r - of_int (ftrunc r)) * 65536"
  obtain y where y: "fround DOUBLE ?x = Fin y" "\<bar>y\<bar> \<le> 65536" "\<bar>y - ?x\<bar> \<le> 1" using rate_fraction by blast
  have a: "\<bar>?a\<bar> \<le> 250" using ftrunc_abs [of r 250] assms by simp
  have b: "\<bar>ftrunc y\<bar> \<le> 65536" using ftrunc_abs [of y 65536] y(2) by simp
  have v: "HWTimestamper_adjclockrate A (Fin r) = word_of_int (?a * 65536 + ftrunc y)"
    using a b y(1) by (simp add: HWTimestamper_adjclockrate_def to_i64_small push_bit_16)
  have "\<bar>of_int (ftrunc y) - ?x\<bar> < 2" using y(3) ftrunc_near [of y] by (simp add: abs_less_iff abs_le_iff)
  then have d: "\<bar>of_int (?a * 65536 + ftrunc y) - r * 65536\<bar> < 2" by (simp add: algebra_simps)
  have "\<bar>?a * 65536 + ftrunc y\<bar> \<le> 250 * 65536"
  proof (cases "\<bar>?a\<bar> = 250")
    case True
    then have "r = of_int ?a" using assms by (auto simp add: ftrunc_def abs_if split: if_splits) linarith+
    then have "?x = 0" by simp
    then have "y = 0" using y(1) by simp
    then show ?thesis using True by (simp add: ftrunc_def abs_mult)
  next
    case False
    then show ?thesis using a b by linarith
  qed
  then show ?thesis using v d by blast
qed

text \<open>A rate within 250 ppm, the limit of the controller, is passed to the kernel as a frequency
  that differs by less than two units of 1/65536 ppm and is itself within 250 ppm.\<close>

lemma adjclockrate_sint:
  assumes "\<bar>r\<bar> \<le> 250"
  shows "\<bar>sint (HWTimestamper_adjclockrate A (Fin r))\<bar> \<le> 250 * 65536 \<and>
    \<bar>of_int (sint (HWTimestamper_adjclockrate A (Fin r))) - r * 65536\<bar> < (2 :: rat)"
proof -
  obtain v where v: "HWTimestamper_adjclockrate A (Fin r) = word_of_int v" "\<bar>v\<bar> \<le> 250 * 65536" "\<bar>of_int v - r * 65536\<bar> < (2 :: rat)"
    using adjclockrate_value [OF assms] by blast
  then have "sint (HWTimestamper_adjclockrate A (Fin r)) = v" by (simp add: int_word_sint)
  then show ?thesis using v by simp
qed

section \<open>Queues of timestamps\<close>

text \<open>A run of a queue: what the removals deliver, and the queue afterwards.\<close>

datatype 't queue_op = Push 't | Pop

fun run_queue ::
  "('q \<Rightarrow> 't \<Rightarrow> 'q) \<Rightarrow> ('q \<Rightarrow> 't option \<times> 'q) \<Rightarrow> 't queue_op list \<Rightarrow> 'q \<Rightarrow> 't option list \<times> 'q" where
  "run_queue push pop [] q = ([], q)"
| "run_queue push pop (Push t # ops) q = run_queue push pop ops (push q t)"
| "run_queue push pop (Pop # ops) q =
     (let (r, q) = pop q; (rs, q) = run_queue push pop ops q in (r # rs, q))"

fun delivered :: "'t option list \<Rightarrow> 't list" where
  "delivered [] = []"
| "delivered (None # rs) = delivered rs"
| "delivered (Some t # rs) = t # delivered rs"

fun pushed :: "'t queue_op list \<Rightarrow> 't list" where
  "pushed [] = []"
| "pushed (Push t # ops) = t # pushed ops"
| "pushed (Pop # ops) = pushed ops"

text \<open>The interface of a queue whose elements are marked when they are put into it.\<close>

locale arrival_queue =
  fixes push :: "'q \<Rightarrow> 't \<Rightarrow> 'q" and pop :: "'q \<Rightarrow> 't option \<times> 'q" and contents :: "'q \<Rightarrow> 't list" and mark :: "'q \<Rightarrow> 't \<Rightarrow> 't"
  assumes push_contents: "contents (push q t) = contents q @ [mark q t]"
    and push_mark: "mark (push q t) = mark q"
    and pop_contents: "fst (pop q) = (case contents q of [] \<Rightarrow> None | t # ts \<Rightarrow> Some t)"
      "contents (snd (pop q)) = tl (contents q)"
    and pop_mark: "mark (snd (pop q)) = mark q"
begin

lemma run_in_order:
  "run_queue push pop ops q = (rs, q') \<Longrightarrow> delivered rs @ contents q' = contents q @ List.map (mark q) (pushed ops)"
proof (induction ops arbitrary: q rs)
  case (Cons op ops)
  show ?case
  proof (cases op)
    case (Push t)
    then show ?thesis using Cons.prems Cons.IH [of "push q t" rs] by (simp add: push_contents push_mark)
  next
    case Pop
    obtain r q1 where p: "pop q = (r, q1)" by (cases "pop q")
    obtain rs' where r: "run_queue push pop ops q1 = (rs', q')" "rs = r # rs'"
      using Cons.prems Pop p by (auto split: prod.splits)
    have "delivered rs' @ contents q' = contents q1 @ List.map (mark q) (pushed ops)"
      using Cons.IH [OF r(1)] pop_mark [of q] p by simp
    then show ?thesis
      using pop_contents [of q] p r(2) Pop by (cases "contents q") simp_all
  qed
qed simp

end

definition rx_pop :: "LinuxTimestamperGeneric \<Rightarrow> Timestamp option \<times> LinuxTimestamperGeneric" where
  "rx_pop t = snd (HWTimestamper_rxtimestamp t)"

interpretation rxq: arrival_queue pushRXTimestamp rx_pop "\<lambda>t. rev (rxTimestampList t)" "\<lambda>t ts. ts\<lparr>ts_version := lt_version t\<rparr>"
proof
  fix t :: LinuxTimestamperGeneric
  show "fst (rx_pop t) = (case rev (rxTimestampList t) of [] \<Rightarrow> None | x # xs \<Rightarrow> Some x)"
    "rev (rxTimestampList (snd (rx_pop t))) = tl (rev (rxTimestampList t))"
    by (cases "rxTimestampList t" rule: rev_cases; simp add: rx_pop_def HWTimestamper_rxtimestamp_def)+
qed (simp_all add: pushRXTimestamp_def rx_pop_def HWTimestamper_rxtimestamp_def)

text \<open>C28. The arrival timestamps are delivered in the order in which the frames arrived: whatever the order of the
  insertions and removals, those delivered followed by those still in the list are those that were in the list
  followed by those inserted, with the version of the timestamper. (A phase adjustment, which clears the list, is not one of these operations.)\<close>

theorem rx_timestamps_in_order:
  assumes "run_queue pushRXTimestamp rx_pop ops t = (rs, t')"
  shows "delivered rs @ rev (rxTimestampList t') =
    rev (rxTimestampList t) @ List.map (\<lambda>ts. ts\<lparr>ts_version := lt_version t\<rparr>) (pushed ops)"
  using rxq.run_in_order [OF assms] .

text \<open>An attempt to receive a frame leaves no ticket of the lock behind, and the timestamp of an event message is
  the one of its own frame when none was left before.\<close>

lemma nrecv_lock:
  assumes "nrecv sel rcv l t = (ret, frame, l', t')"
  shows "cond_ticket_issue l' - cond_ticket_serving l' = cond_ticket_issue l - cond_ticket_serving l"
  using assms
  by (auto simp add: nrecv_def try_lock_def take_ticket_def unlock_def Let_def split: prod.splits if_splits)

lemma nrecv_own_timestamp:
  assumes "nrecv Readable (Frame remote payload (Some d)) l t = (net_succeed, frame, l', t')"
    and "payload \<noteq> []" and "payload ! 0 AND 0x8 = 0" and "rxTimestampList t = []"
  shows "HWTimestamper_rxtimestamp t' = (GPTP_EC_SUCCESS, Some ((tsToTimestamp d)\<lparr>ts_version := lt_version t\<rparr>), t)"
  using assms by (auto simp add: nrecv_def pushRXTimestamp_def HWTimestamper_rxtimestamp_def Let_def split: prod.splits if_splits)

section \<open>The lock of a sender\<close>

text \<open>The platform asks the Linux timestamper, whose error queue gives a message at each call.\<close>

definition linux_txtimestamps :: "platform \<Rightarrow> u8 \<Rightarrow> (nat \<Rightarrow> err_message) \<Rightarrow> bool" where
  "linux_txtimestamps P version recv \<longleftrightarrow>
     (\<forall>n src mid l. case HWTimestamper_txtimestamp version True (recv n) mid l of (ret, ts, released) \<Rightarrow>
        fst (hw_txtimestamp P n src mid l) = ret \<and> (\<forall>t. ts = Some t \<longrightarrow> snd (hw_txtimestamp P n src mid l) = t))"

text \<open>The calls from one number to another that release the lock, of a wait that began at the first one.\<close>

definition tx_releases :: "u8 \<Rightarrow> (nat \<Rightarrow> err_message) \<Rightarrow> PTPMessageId \<Rightarrow> nat \<Rightarrow> nat \<Rightarrow> nat list" where
  "tx_releases version recv mid n0 n1 =
     filter (\<lambda>n. snd (snd (HWTimestamper_txtimestamp version True (recv n) mid (n = n0 + TX_TIMEOUT_ITER)))) [n0..<n1]"

lemma tx_success:
  assumes "HWTimestamper_txtimestamp version True e mid l = (GPTP_EC_SUCCESS, ts, released)"
  shows "\<exists>frame d. e = Reflected frame (Some d) \<and> \<not> msgid_neq mid (reflectedMessageId frame) \<and>
    ts = Some ((tsToTimestamp d)\<lparr>ts_version := version\<rparr>)"
  using assms
  by (auto simp add: HWTimestamper_txtimestamp_def GPTP_EC_SUCCESS_def GPTP_EC_EAGAIN_def GPTP_EC_FAILURE_def
      split: err_message.splits option.splits if_splits)

lemma tx_released:
  "HWTimestamper_txtimestamp version True e mid l = (ret, ts, released) \<Longrightarrow> released \<longleftrightarrow> ret = GPTP_EC_SUCCESS \<or> l"
  by (auto simp add: HWTimestamper_txtimestamp_def split: prod.splits)

lemma first_success_index:
  assumes "j = (case first_success h 0 of Some j \<Rightarrow> j | None \<Rightarrow> TX_TIMEOUT_ITER)"
  shows "j \<le> TX_TIMEOUT_ITER" and "k < j \<Longrightarrow> fst (h k) \<noteq> GPTP_EC_SUCCESS"
    and "fst (h j) = GPTP_EC_SUCCESS \<or> j = TX_TIMEOUT_ITER"
  using assms
  by (auto simp add: first_success_def find_None_iff find_Some_iff nth_append simp del: upt_Suc split: option.splits)

lemma filter_last: "(\<forall>k < j. \<not> p (n + k)) \<Longrightarrow> p (n + j) \<Longrightarrow> filter p [n..<n + Suc j] = [n + j]"
  by (auto simp add: filter_empty_conv) (metis le_Suc_ex nat_add_left_cancel_less)

text \<open>While a sender waits for its departure timestamp the lock of the interface, which it took to send, is
  released exactly once; a timestamp that it gets is the time of the device of a reflected frame with the type and
  the sequence number of the message.\<close>

theorem tx_lock_released_once:
  assumes "linux_txtimestamps P version recv" and "hw_timestamper (ports w i)"
    and "getTxTimestamp P i speed m w = (ok, m', w')"
  shows "length (tx_releases version recv (getMessageId m) (ncalls w) (ncalls w')) = 1 \<and>
    (ok \<longrightarrow> (\<exists>n frame d t. ncalls w \<le> n \<and> n < ncalls w' \<and> recv n = Reflected frame (Some d) \<and>
      \<not> msgid_neq (getMessageId m) (reflectedMessageId frame) \<and> t = (tsToTimestamp d)\<lparr>ts_version := version\<rparr> \<and>
      msg_timestamp m' = ts_add t ((getTxPhyDelay (ports w i) speed)\<lparr>ts_version := ts_version t\<rparr>)))"
proof -
  let ?mid = "getMessageId m"
  let ?h = "tx_attempt P (sourcePortIdentity m) ?mid w"
  define j where "j = (case first_success ?h 0 of Some j \<Rightarrow> j | None \<Rightarrow> TX_TIMEOUT_ITER)"
  note idx = first_success_index [OF j_def]
  have "port_getTxTimestamp P i (sourcePortIdentity m) ?mid False w = (fst (?h 0), snd (?h 0), (tick ^^ Suc 0) w)"
    using assms(2) by (auto simp add: port_getTxTimestamp_def tx_attempt_def TX_TIMEOUT_ITER_def split: prod.split)
  then have "tx_retry TX_TIMEOUT_ITER P i (sourcePortIdentity m) ?mid
      (port_getTxTimestamp P i (sourcePortIdentity m) ?mid False w) = (fst (?h j), snd (?h j), (tick ^^ Suc j) w)"
    using tx_retry_first [OF assms(2), of 0 TX_TIMEOUT_ITER ?h] by (simp add: j_def Let_def)
  then have r: "w' = (tick ^^ Suc j) w" "ok \<longleftrightarrow> fst (?h j) = GPTP_EC_SUCCESS"
    "ok \<longrightarrow> msg_timestamp m' = ts_add (snd (?h j)) ((getTxPhyDelay (ports w i) speed)\<lparr>ts_version := ts_version (snd (?h j))\<rparr>)"
    using assms(3) by (auto simp add: getTxTimestamp_def Let_def simp del: funpow.simps split: if_splits)
  let ?t = "\<lambda>k. HWTimestamper_txtimestamp version True (recv (ncalls w + k)) ?mid (k = TX_TIMEOUT_ITER)"
  have h: "fst (?h k) = fst (?t k)" "fst (snd (?t k)) = Some t \<Longrightarrow> snd (?h k) = t" for k t
    using assms(1) by (auto simp add: linux_txtimestamps_def tx_attempt_def split_beta)
  have rel: "snd (snd (?t k)) \<longleftrightarrow> fst (?h k) = GPTP_EC_SUCCESS \<or> k = TX_TIMEOUT_ITER" for k
    using tx_released [of version "recv (ncalls w + k)" ?mid "k = TX_TIMEOUT_ITER"] h(1) by (metis prod.collapse)
  have "\<not> snd (snd (?t k))" if "k < j" for k using rel [of k] idx(1) idx(2) [OF that] that by auto
  moreover have "snd (snd (?t j))" using rel [of j] idx(3) by blast
  ultimately have "tx_releases version recv ?mid (ncalls w) (ncalls w + Suc j) = [ncalls w + j]"
    unfolding tx_releases_def by (intro filter_last allI impI) (simp_all only: add_left_cancel not_False_eq_True)
  moreover have "ncalls w' = ncalls w + Suc j" using r(1) funpow_tick(1) by metis
  moreover have "\<exists>frame d. recv (ncalls w + j) = Reflected frame (Some d) \<and>
      \<not> msgid_neq ?mid (reflectedMessageId frame) \<and> snd (?h j) = (tsToTimestamp d)\<lparr>ts_version := version\<rparr>" if ok
    using tx_success [of version "recv (ncalls w + j)" ?mid "j = TX_TIMEOUT_ITER"] r(2) h(1) [of j] h(2) [of j] that
    by (metis prod.collapse)
  ultimately show ?thesis using r(3) by (auto intro!: exI [of _ "ncalls w + j"])
qed

section \<open>The sample of a cross timestamp\<close>














text \<open>With longer intervals the decremented seconds can be returned: here the second sample is used, and the system time
  is 11.1 s instead of 12.1 s.\<close>

lemma gettime_spoilt_sample:
  "HWTimestamper_gettime True (Some (2, [\<lparr>pct_sec = 10, pct_nsec = 900000000\<rparr>, \<lparr>pct_sec = 50, pct_nsec = 0\<rparr>,
      \<lparr>pct_sec = 12, pct_nsec = 100000000\<rparr>, \<lparr>pct_sec = 51, pct_nsec = 200000000\<rparr>, \<lparr>pct_sec = 12, pct_nsec = 100000010\<rparr>])) =
   Some (Some (pctTimestamp \<lparr>pct_sec = 11, pct_nsec = 100000000\<rparr>), Some (pctTimestamp \<lparr>pct_sec = 51, pct_nsec = 200000000\<rparr>))"
  by code_simp

text \<open>A multicast address that cannot be added again keeps the lock taken: nobody gets it any more.\<close>

lemma reenable_failure_keeps_lock:
  assumes "cond_ticket_issue l = cond_ticket_serving l" and "HWTimestamper_adjclockphase ok False p l t = (r, tx, l', t')"
  shows "fst (try_lock l') = False"
  using assms
  by (auto simp add: HWTimestamper_adjclockphase_def disable_rx_queue_def clear_reenable_rx_queue_def try_lock_def take_ticket_def
      served_def Let_def)

text \<open>C30. A phase adjustment passes the requested number of nanoseconds to the kernel, as seconds and nanoseconds that are not
  negative; they are below one second except when a whole number of seconds is subtracted, where they are
  1000000000, which is no valid number of nanoseconds. The timestamps waiting are dropped and the version
  changes, so that earlier ones are recognised.\<close>

theorem adjclockphase_split:
  assumes "HWTimestamper_adjclockphase ok sockopt_ok p l t = (r, tx, l', t')"
  shows "tv_sec tx * 1000000000 + tv_nsec tx = p \<and> 0 \<le> tv_nsec tx \<and> tv_nsec tx \<le> 1000000000 \<and>
    (tv_nsec tx = 1000000000 \<longleftrightarrow> p < 0 \<and> 1000000000 dvd p) \<and> rxTimestampList t' = [] \<and> lt_version t' \<noteq> lt_version t"
  using assms phase_time_sum [of p] phase_time_bounds [of p] phase_time_whole [of p] by (auto simp add: HWTimestamper_adjclockphase_def Let_def)

section \<open>Witnesses\<close>

theorem rx_timestamps_in_order_witness:
  "delivered (fst (run_queue pushRXTimestamp rx_pop [Push (Timestamp_new 1 0 0), Push (Timestamp_new 2 0 0), Pop, Pop]
     LinuxTimestamperGeneric_new)) =
   [(Timestamp_new 1 0 0)\<lparr>ts_version := 0\<rparr>, (Timestamp_new 2 0 0)\<lparr>ts_version := 0\<rparr>]"
proof -
  let ?ops = "[Push (Timestamp_new 1 0 0), Push (Timestamp_new 2 0 0), Pop, Pop]"
  have "rxTimestampList (snd (run_queue pushRXTimestamp rx_pop ?ops LinuxTimestamperGeneric_new)) = []"
    by (simp add: pushRXTimestamp_def rx_pop_def HWTimestamper_rxtimestamp_def LinuxTimestamperGeneric_new_def)
  then show ?thesis
    using rx_timestamps_in_order [of ?ops LinuxTimestamperGeneric_new, OF surjective_pairing]
    by (simp add: LinuxTimestamperGeneric_new_def)
qed

definition sample_reflection :: err_message where
  "sample_reflection = Reflected (replicate 14 0 @ [0x10] @ replicate 33 0) (Some \<lparr>tv_sec = 100, tv_nsec = 5000\<rparr>)"

theorem tx_lock_released_once_witness:
  "\<exists>ok m' w'. getTxTimestamp (sample_platform\<lparr>hw_txtimestamp := (\<lambda>n src mid l.
        case HWTimestamper_txtimestamp 0 True sample_reflection mid l of (ret, ts, rel) \<Rightarrow>
          (ret, case ts of None \<Rightarrow> INVALID_TIMESTAMP | Some t \<Rightarrow> t))\<rparr>) 0 1000000 sample_message sample_world = (ok, m', w') \<and>
     length (tx_releases 0 (\<lambda>n. sample_reflection) (getMessageId sample_message) (ncalls sample_world) (ncalls w')) = 1"
proof -
  let ?P = "sample_platform\<lparr>hw_txtimestamp := (\<lambda>n src mid l.
        case HWTimestamper_txtimestamp 0 True sample_reflection mid l of (ret, ts, rel) \<Rightarrow>
          (ret, case ts of None \<Rightarrow> INVALID_TIMESTAMP | Some t \<Rightarrow> t))\<rparr>"
  have "linux_txtimestamps ?P 0 (\<lambda>n. sample_reflection)" by (auto simp add: linux_txtimestamps_def split: prod.splits)
  moreover have "hw_timestamper (ports sample_world 0)" by (simp add: sample_port_def)
  ultimately show ?thesis
    using tx_lock_released_once [of ?P 0 "\<lambda>n. sample_reflection" sample_world 0 1000000 sample_message] by (metis prod_cases3)
qed


theorem adjclockphase_split_witness:
  "tv_nsec (fst (snd (HWTimestamper_adjclockphase True True (- 1500000000) TicketingLock_init LinuxTimestamperGeneric_new))) \<le> 1000000000"
proof -
  obtain r tx l' t' where "HWTimestamper_adjclockphase True True (- 1500000000) TicketingLock_init LinuxTimestamperGeneric_new = (r, tx, l', t')"
    by (metis surj_pair)
  then show ?thesis using adjclockphase_split by fastforce
qed

end
