(* ===== verification/Linux_Net.thy ===== *)
theory Linux_Net
  imports Port_Events Ini_Config
begin

text \<open>
  The link watcher and the shared memory of the Linux port (\<open>linux/src/linux_hal_common.cpp\<close>, \<open>common/ipcdef.hpp\<close>): the
  speed that is read from the driver when the link comes up, which selects the delay of the PHY, and the data of
  the clock that other processes read. The calls of the port to the interprocess communication are the
  log of the world, newest first; the shared memory is what they leave behind. The main
  results: the shared memory always shows the data of the last update together with the identities of the clock
  and its grandmaster at that time; the delays that are used belong to the speed of the driver.
\<close>

section \<open>Link speed\<close>

text \<open>The speed in Mb/s that the driver reports; \<open>None\<close> when a request fails.\<close>

definition getLinkSpeed :: "nat option \<Rightarrow> u32 option" where
  "getLinkSpeed ethtool_cmd_speed =
     (case ethtool_cmd_speed of
        None \<Rightarrow> None
      | Some s \<Rightarrow>
          if s = 100 then Some LINKSPEED_100MB
          else if s = 1000 then Some LINKSPEED_1G
          else if s = 2500 then Some LINKSPEED_2_5G
          else if s = 10000 then Some LINKSPEED_10G
          else None)"

definition x_initLinkUpStatus :: "nat \<Rightarrow> bool \<Rightarrow> world \<Rightarrow> world" where
  "x_initLinkUpStatus i running w = (if running then upd_port i (linkUp_update (\<lambda>_. True)) w else w)"

definition setLinkSpeed :: "nat \<Rightarrow> u32 \<Rightarrow> world \<Rightarrow> world" where
  "setLinkSpeed i speed w = upd_port i (link_speed_update (\<lambda>_. speed)) w"

text \<open>The watcher before its loop, and the body of the loop on the messages of a netlink event. The variable
  \<open>link_speed\<close> keeps its value when the link goes down.\<close>

definition watch_start :: "nat \<Rightarrow> bool \<Rightarrow> nat option \<Rightarrow> world \<Rightarrow> u32 \<times> world" where
  "watch_start i running driver_speed w =
     (let w = x_initLinkUpStatus i running w;
          speed = (if linkUp (ports w i)
                   then case getLinkSpeed driver_speed of Some s \<Rightarrow> s | None \<Rightarrow> INVALID_LINKSPEED
                   else INVALID_LINKSPEED)
      in (speed, setLinkSpeed i speed w))"

definition watch_event :: "platform \<Rightarrow> nat \<Rightarrow> int \<Rightarrow> nlmsg list \<Rightarrow> nat option \<Rightarrow> u32 \<times> world \<Rightarrow> u32 \<times> world" where
  "watch_event P i index ms driver_speed s =
     (let (speed, w) = s;
          prev_link_up = linkUp (ports w i);
          w = x_readEvent P i index ms w
      in if prev_link_up = linkUp (ports w i) then (speed, w)
         else
           let speed = (if linkUp (ports w i)
                        then case getLinkSpeed driver_speed of Some s \<Rightarrow> s | None \<Rightarrow> INVALID_LINKSPEED
                        else speed)
           in (speed, setLinkSpeed i speed w))"

section \<open>Shared memory\<close>

record gPtpTimeData =
  shm_ml_phoffset :: u64
  shm_ls_phoffset :: u64
  shm_ml_freqoffset :: fp
  shm_ls_freqoffset :: fp
  shm_local_time :: u64
  shm_gptp_grandmaster_id :: octets
  shm_gptp_domain_number :: u8
  shm_clock_identity :: octets
  shm_priority1 :: u8
  shm_clock_class :: u8
  shm_offset_scaled_log_variance :: u16
  shm_clock_accuracy :: u8
  shm_priority2 :: u8
  shm_domain_number :: u8
  shm_log_sync_interval :: u8
  shm_log_announce_interval :: u8
  shm_log_pdelay_interval :: u8
  shm_port_number :: u16
  shm_sync_count :: u32
  shm_pdelay_count :: u32
  shm_asCapable :: bool
  shm_port_state :: PortState
  shm_process_id :: u32

definition shm_update :: "u32 \<Rightarrow> ipc_update \<Rightarrow> gPtpTimeData \<Rightarrow> gPtpTimeData" where
  "shm_update process_id u d =
     d\<lparr>shm_ml_phoffset := ml_phoffset u, shm_ls_phoffset := ls_phoffset u, shm_ml_freqoffset := ml_freqoffset u,
       shm_ls_freqoffset := ls_freqoffset u, shm_local_time := ipc_local_time u, shm_sync_count := ipc_sync_count u,
       shm_pdelay_count := ipc_pdelay_count u, shm_asCapable := ipc_asCapable u, shm_port_state := ipc_port_state u,
       shm_process_id := process_id\<rparr>"

definition update_grandmaster :: "octets \<Rightarrow> u8 \<Rightarrow> gPtpTimeData \<Rightarrow> gPtpTimeData" where
  "update_grandmaster gid dn d = d\<lparr>shm_gptp_grandmaster_id := gid, shm_gptp_domain_number := dn\<rparr>"

definition update_network_interface :: "ipc_network_interface \<Rightarrow> gPtpTimeData \<Rightarrow> gPtpTimeData" where
  "update_network_interface n d =
     d\<lparr>shm_clock_identity := ni_clock_identity n, shm_priority1 := ni_priority1 n, shm_clock_class := ni_clock_class n,
       shm_offset_scaled_log_variance := ni_offset_scaled_log_variance n, shm_clock_accuracy := ni_clock_accuracy n,
       shm_priority2 := ni_priority2 n, shm_domain_number := ni_domain_number n,
       shm_log_sync_interval := ni_log_sync_interval n, shm_log_announce_interval := ni_log_announce_interval n,
       shm_log_pdelay_interval := ni_log_pdelay_interval n, shm_port_number := ni_port_number n\<rparr>"

primrec shm_call :: "u32 \<Rightarrow> ipc_call \<Rightarrow> gPtpTimeData \<Rightarrow> gPtpTimeData" where
  "shm_call pid (IpcUpdate u) d = shm_update pid u d"
| "shm_call pid (IpcUpdateGrandmaster g n) d = update_grandmaster g n d"
| "shm_call pid (IpcUpdateNetworkInterface n) d = update_network_interface n d"

definition shared_memory :: "u32 \<Rightarrow> gPtpTimeData \<Rightarrow> world \<Rightarrow> gPtpTimeData" where
  "shared_memory pid d w = foldr (shm_call pid) (ipc_log w) d"

section \<open>What other processes read\<close>

lemma ipc_log_port_loop:
  "(\<And>p v. ipc_log (f p v) = ipc_log v) \<Longrightarrow> port_loop n j ps f w = Some w' \<Longrightarrow> ipc_log w' = ipc_log w"
  by (induction n arbitrary: j w) (auto split: option.splits)

lemma ipc_log_for_ports: "(\<And>p v. ipc_log (f p v) = ipc_log v) \<Longrightarrow> ipc_log (for_ports f w) = ipc_log w"
  by (auto simp add: for_ports_def split: option.splits dest: ipc_log_port_loop [rotated])

lemma ipc_log_adjust [simp]:
  "ipc_log (adjust_phase P i off w) = ipc_log w" "ipc_log (snd (adjustClockRate P i f w)) = ipc_log w"
  by (simp_all add: adjust_phase_def adjustClockPhase_def adjustClockRate_def getTxLockAll_def putTxLockAll_def
      restartPDelayAll_def ipc_log_for_ports Let_def)

text \<open>C31. With shared memory, every update of the offset to the master shows there: the offsets, rates, counters and the state of
  the port are those of the update, the identity, the quality and the priorities are those of the clock,
  the grandmaster is the one that the clock has, and the intervals and the number are those of the port. No
  field keeps an older value, whatever the controller then does with the clock.\<close>

theorem shared_memory_setMasterOffset:
  assumes "has_ipc (clk w)"
  shows "shared_memory pid d
      (setMasterOffset P i master_local_offset local_time mlfo local_system_offset lsfo sync pdelay state ascap w) =
    \<lparr>shm_ml_phoffset = master_local_offset, shm_ls_phoffset = local_system_offset, shm_ml_freqoffset = mlfo,
     shm_ls_freqoffset = lsfo, shm_local_time = TIMESTAMP_TO_NS local_time,
     shm_gptp_grandmaster_id = getIdentityString (grandmaster_clock_identity (clk w)),
     shm_gptp_domain_number = domain_number (clk w), shm_clock_identity = getIdentityString (clock_identity (clk w)),
     shm_priority1 = priority1 (clk w), shm_clock_class = cq_class (clock_quality (clk w)),
     shm_offset_scaled_log_variance = offsetScaledLogVariance (clock_quality (clk w)),
     shm_clock_accuracy = clockAccuracy (clock_quality (clk w)), shm_priority2 = priority2 (clk w),
     shm_domain_number = domain_number (clk w), shm_log_sync_interval = log_mean_sync_interval (ports w i),
     shm_log_announce_interval = log_mean_announce_interval (ports w i), shm_log_pdelay_interval = 0,
     shm_port_number = portNumber (port_identity (ports w i)), shm_sync_count = sync, shm_pdelay_count = pdelay,
     shm_asCapable = ascap, shm_port_state = state, shm_process_id = pid\<rparr>"
proof -
  have "ipc_log (setMasterOffset P i master_local_offset local_time mlfo local_system_offset lsfo sync pdelay state ascap w) =
    ipc_log (ipc_calls i master_local_offset local_time mlfo local_system_offset lsfo sync pdelay state ascap
      (upd_clk (\<lambda>c. c\<lparr>master_local_freq_offset := mlfo, local_system_freq_offset := lsfo\<rparr>) w))"
    using assms by (simp add: setMasterOffset_def Let_def)
  then show ?thesis
    by (simp add: shared_memory_def ipc_calls_def Let_def shm_update_def update_grandmaster_def update_network_interface_def)
qed

text \<open>The delay of the PHY belongs to the speed that the driver reports when the watcher starts on a link that is up; for a speed
  it does not know there is none.\<close>

lemma watch_start_delay:
  assumes "watch_start i True driver_speed w = (speed, w')"
  shows "speed = (case getLinkSpeed driver_speed of Some s \<Rightarrow> s | None \<Rightarrow> INVALID_LINKSPEED)"
    and "link_speed (ports w' i) = speed" and "getTxPhyDelay (ports w' i) (link_speed (ports w' i)) = getTxPhyDelay (ports w i) speed"
  using assms
  by (auto simp add: watch_start_def x_initLinkUpStatus_def setLinkSpeed_def getTxPhyDelay_def Let_def upd_port_def)

section \<open>Witnesses\<close>

definition sample_shared :: gPtpTimeData where
  "sample_shared =
     \<lparr>shm_ml_phoffset = 0, shm_ls_phoffset = 0, shm_ml_freqoffset = Fin 1, shm_ls_freqoffset = Fin 1, shm_local_time = 0,
      shm_gptp_grandmaster_id = [], shm_gptp_domain_number = 0, shm_clock_identity = [], shm_priority1 = 0, shm_clock_class = 0,
      shm_offset_scaled_log_variance = 0, shm_clock_accuracy = 0, shm_priority2 = 0, shm_domain_number = 0,
      shm_log_sync_interval = 0, shm_log_announce_interval = 0, shm_log_pdelay_interval = 0, shm_port_number = 0,
      shm_sync_count = 0, shm_pdelay_count = 0, shm_asCapable = False, shm_port_state = PTP_INITIALIZING, shm_process_id = 0\<rparr>"

theorem shared_memory_setMasterOffset_witness:
  "let d = shared_memory 77 sample_shared (setMasterOffset sample_platform 0 500 (Timestamp_new 0 100 0) (Fin 1) 250 (Fin 1) 8 3
             PTP_SLAVE True (upd_clk (has_ipc_update (\<lambda>_. True)) sample_world))
   in shm_ml_phoffset d = 500 \<and> shm_sync_count d = 8 \<and> shm_priority1 d = 248 \<and> shm_port_number d = 1"
proof -
  have "has_ipc (clk (upd_clk (has_ipc_update (\<lambda>_. True)) sample_world))" by simp
  from shared_memory_setMasterOffset [OF this, of 77 sample_shared sample_platform 0 500 "Timestamp_new 0 100 0" "Fin 1" 250 "Fin 1"
      8 3 PTP_SLAVE True]
  show ?thesis by (simp add: sample_port_def)
qed

end
