(* ===== verification/Ptp_Wire.thy ===== *)
theory Ptp_Wire
  imports Ptp_Message
begin

text \<open>
  What the wire format keeps. A message written by its \<open>sendPort\<close> and read back by
  \<open>buildPTPMessage\<close> from a receive buffer that starts with the frame is the same message, except
  for the fields the theorems name: \<open>control\<close> is read over four octets, a timestamp loses its
  version, the time base indicator of a Follow_Up is lost, and the common header of an Announce is
  read from behind its body. The last theorem says when a received frame makes the reader leave
  the 128-octet receive buffer.
\<close>

section \<open>Well-formed messages and the header on the wire\<close>

text \<open>Arrays of messages have the length of their declaration. \<open>header_at m b\<close>: the common header
  of \<open>m\<close> stands at the start of \<open>b\<close>.\<close>

definition wf_msg :: "'a PTPMessageCommon_scheme \<Rightarrow> bool" where
  "wf_msg m \<longleftrightarrow> length (flags m) = 2 \<and> wf_cid (clock_id (sourcePortIdentity m))"

definition wf_tlv :: "PathTraceTLV \<Rightarrow> bool" where
  "wf_tlv t \<longleftrightarrow> pt_tlvType t = PLAT_htons PATH_TRACE_TLV_TYPE \<and> (\<forall>c \<in> set (identityList t). wf_cid c)"

definition header_at :: "'a PTPMessageCommon_scheme \<Rightarrow> octets \<Rightarrow> bool" where
  "header_at m b \<longleftrightarrow>
     get 0 1 b = Some [messageType m OR 0x10] \<and>
     get 1 1 b = Some [versionPTP m] \<and>
     get 2 2 b = Some (le_bytes 2 (PLAT_htons (messageLength m))) \<and>
     get 4 1 b = Some [domainNumber m] \<and>
     get 6 2 b = Some (flags m) \<and>
     get 8 8 b = Some (le_bytes 8 (PLAT_htonll (correctionField m))) \<and>
     get 20 8 b = Some (cid (clock_id (sourcePortIdentity m))) \<and>
     get 28 2 b = Some (le_bytes 2 (PLAT_htons (portNumber (sourcePortIdentity m)))) \<and>
     get 30 2 b = Some (le_bytes 2 (PLAT_htons (sequenceId m))) \<and>
     get 33 1 b = Some [logMeanMessageInterval m]"

text \<open>\<open>wire_ts\<close> is a timestamp without its local version; \<open>received\<close> is what the reader makes of a
  message from the buffer \<open>buf\<close>; \<open>decodes\<close> says that the reads of \<open>buildPTPMessage\<close> yield the
  message type, the identities and the message \<open>r\<close>; \<open>delivered\<close> says that a writer yields a
  frame of \<open>l\<close> octets that decodes to the message \<open>m\<close>, whatever follows it in the buffer.\<close>

definition wire_ts :: "Timestamp \<Rightarrow> Timestamp" where
  "wire_ts t = t\<lparr>ts_version := INVALID_TIMESTAMP_VERSION\<rparr>"

definition received :: "PTPMessageCommon \<Rightarrow> octets \<Rightarrow> Timestamp \<Rightarrow> u32 \<Rightarrow> 'a PTPMessageCommon_scheme \<Rightarrow> 'a PTPMessageCommon_scheme" where
  "received blank buf ts cnt m = m\<lparr>versionNetwork := versionNetwork blank, control := of_le (take 4 (drop 32 buf)), gc := False,
    msg_timestamp := ts, timestamp_counter_value := cnt\<rparr>"

definition decodes ::
  "PTPMessageCommon \<Rightarrow> octets \<Rightarrow> int \<Rightarrow> Timestamp \<Rightarrow> u32 \<Rightarrow> 'a PTPMessageCommon_scheme \<Rightarrow> PTPMessage \<Rightarrow> bool" where
  "decodes blank buf sz ts cnt m r \<longleftrightarrow>
     get 0 1 buf = Some [messageType m OR 0x10] \<and>
     rx_sourcePortIdentity buf = Some (sourcePortIdentity m) \<and>
     rx_sequenceId buf = Some (sequenceId m) \<and>
     parse_message blank buf sz (messageType m) (sourcePortIdentity m) (sequenceId m) ts cnt = Inr r"

definition delivered ::
  "('b \<times> octets) option \<Rightarrow> 'b \<Rightarrow> nat \<Rightarrow> 'a PTPMessageCommon_scheme \<Rightarrow> ('a PTPMessageCommon_scheme \<Rightarrow> PTPMessage) \<Rightarrow> bool" where
  "delivered built m1 l m F \<longleftrightarrow>
     (\<exists>frame. built = Some (m1, frame) \<and> length frame = l \<and>
       (\<forall>blank rest ts cnt. decodes blank (frame @ rest) (int l) ts cnt m
          (F (received blank (frame @ rest) ts cnt m))))"

declare add_2_eq_Suc [simp del] add_2_eq_Suc' [simp del]

section \<open>Writing and reading the parts\<close>

lemma buildCommonHeader_written:
  assumes "36 \<le> length buf" and "wf_msg m"
  shows "\<exists>b. buildCommonHeader m buf = Some b \<and> length b = length buf \<and> header_at m b \<and>
    (\<forall>i n. 36 \<le> i \<longrightarrow> get i n b = get i n buf)"
  using assms
  by (simp add: buildCommonHeader_def mem wf_msg_def wf_cid_def getIdentityString_def PTP_CLOCK_IDENTITY_LENGTH_def
      header_at_def getPortNumberNO_def)

lemma rx_sourcePortIdentity_header:
  assumes "header_at m b" "wf_msg m"
  shows "rx_sourcePortIdentity b = Some (sourcePortIdentity m)"
  using assms by (simp add: rx_sourcePortIdentity_def header_at_def wf_msg_def wf_cid_def PTP_CLOCK_IDENTITY_LENGTH_def PortIdentity_wire_def cid_set_def)

lemma rx_sequenceId_header:
  assumes "header_at m b" 
  shows "rx_sequenceId b = Some (sequenceId m)"
  using assms by (simp add: rx_sequenceId_def header_at_def)

lemma copy_common_header_0:
  assumes "header_at m b" "36 \<le> length b" "wf_msg m"
  shows "copy_common_header 0 b src seq ts cnt x = Some (x\<lparr>gc := False, versionPTP := versionPTP m, messageLength := messageLength m,
               domainNumber := domainNumber m, flags := flags m, correctionField := correctionField m,
               sourcePortIdentity := src, sequenceId := seq, control := of_le (take 4 (drop 32 b)),
               logMeanMessageInterval := logMeanMessageInterval m, msg_timestamp := ts,
               timestamp_counter_value := cnt\<rparr>)"
proof -
  have "get 32 4 b = Some (take 4 (drop 32 b))"
    using assms(2) by (simp add: get_def)
  with assms show ?thesis
    by (simp add: copy_common_header_def header_at_def wf_msg_def)
qed

lemma header_at_take: "header_at m b \<Longrightarrow> 34 \<le> l \<Longrightarrow> l \<le> length b \<Longrightarrow> header_at m (take l b)"
  by (simp add: header_at_def get_take)

lemma header_at_append: "header_at m b \<Longrightarrow> 34 \<le> length b \<Longrightarrow> header_at m (b @ r)"
  by (simp add: header_at_def get_append)

lemma header_at_wr: "header_at m b \<Longrightarrow> 34 \<le> off \<Longrightarrow> off + length bs \<le> length b \<Longrightarrow> header_at m (wr off bs b)"
  by (simp add: header_at_def get_wr_other)

lemma copy_common_header_received:
  assumes "header_at m b" "36 \<le> length b" "wf_msg m" "PTPMessageCommon.more x = PTPMessageCommon.more m"
    "messageType x = messageType m" "versionNetwork x = versionNetwork blank"
  shows "copy_common_header 0 b (sourcePortIdentity m) (sequenceId m) ts cnt x = Some (received blank b ts cnt m)"
  unfolding copy_common_header_0 [OF assms(1-3)] received_def
  using assms(4-) by (cases m; cases x) simp

lemma decodesI:
  assumes "header_at m b" and "wf_msg m"
    and "parse_message blank b sz (messageType m) (sourcePortIdentity m) (sequenceId m) ts cnt = Inr r"
  shows "decodes blank b sz ts cnt m r"
  using assms rx_sourcePortIdentity_header [OF assms(1,2)] rx_sequenceId_header [OF assms(1)]
  by (simp add: decodes_def header_at_def)

lemmas ext_defs = PTPMessageCommon.defs PTPMessageAnnounce.defs PTPMessageSync.defs PTPMessageFollowUp.defs
  PTPMessagePathDelayReq.defs PTPMessagePathDelayResp.defs PTPMessagePathDelayRespFollowUp.defs PTPMessageSignalling.defs

lemma header_at_frame:
  assumes "header_at m b" and "34 \<le> l" and "l \<le> length b"
  shows "header_at m (take l b @ rest)"
  using assms by (intro header_at_append header_at_take) simp_all

lemma buildCommonHeader_buf_t:
  assumes "wf_msg m"
  obtains b where "buildCommonHeader m buf_t = Some b" "length b = 256" "header_at m b"
  using buildCommonHeader_written [of buf_t m] assms by (auto simp add: buf_t_def)

lemma read_body:
  assumes "header_at m b" and "36 \<le> length b" and "wf_msg m"
    and "PTPMessageCommon.more x = PTPMessageCommon.more m" and "messageType x = messageType m"
    and "versionNetwork x = versionNetwork blank"
  shows "read_or_fail F (copy_common_header 0 b (sourcePortIdentity m) (sequenceId m) ts cnt x) =
    Inr (F (received blank b ts cnt m))"
  using copy_common_header_received [OF assms] by (simp add: read_or_fail_def)

lemma length_timestamp_puts:
  "off + 10 \<le> length b \<Longrightarrow>
   put_timestamp off t b = Some (wr (off + 6) (le_bytes 4 (PLAT_htonl (nanoseconds t)))
     (wr (off + 2) (le_bytes 4 (PLAT_htonl (seconds_ls t))) (wr off (le_bytes 2 (PLAT_htons (seconds_ms t))) b)))"
  by (simp add: put_timestamp_def mem)

lemma portIdentity_puts:
  "off + 10 \<le> length b \<Longrightarrow> wf_cid (clock_id p) \<Longrightarrow>
   put_portIdentity off p b = Some (wr (off + 8) (le_bytes 2 (PLAT_htons (portNumber p))) (wr off (cid (clock_id p)) b))"
  by (simp add: put_portIdentity_def mem wf_cid_def PTP_CLOCK_IDENTITY_LENGTH_def getIdentityString_def getPortNumberNO_def)

lemma fup_memcpy_toByteString: "length (fup_organizationId t) = 3 \<Longrightarrow> fup_memcpy (fup_toByteString t) = t"
  by (cases t; cases "scaledLastGmPhaseChange t") (simp add: fup_memcpy_def fup_toByteString_def scaledNs_toByteString_def nth_append)

lemma sig_memcpy_toByteString: "length (sig_organizationId t) = 3 \<Longrightarrow> sig_memcpy (sig_toByteString t) = t"
  by (cases t) (simp add: sig_memcpy_def sig_toByteString_def nth_append)

lemma roundtripI:
  assumes "header_at m d" and "wf_msg m" and "36 \<le> l" and "l \<le> length d"
    and "\<And>buf. (\<And>i n. i + n \<le> l \<Longrightarrow> get i n buf = get i n d) \<Longrightarrow>
      parse_message blank buf (int l) (messageType m) (sourcePortIdentity m) (sequenceId m) ts cnt =
      read_or_fail F (copy_common_header 0 buf (sourcePortIdentity m) (sequenceId m) ts cnt x)"
    and "PTPMessageCommon.more x = PTPMessageCommon.more m" and "messageType x = messageType m"
    and "versionNetwork x = versionNetwork blank"
  shows "decodes blank (take l d @ rest) (int l) ts cnt m (F (received blank (take l d @ rest) ts cnt m))"
proof -
  have h: "header_at m (take l d @ rest)"
    using assms(1,3,4) by (intro header_at_frame) simp_all
  have "parse_message blank (take l d @ rest) (int l) (messageType m) (sourcePortIdentity m) (sequenceId m) ts cnt =
      read_or_fail F (copy_common_header 0 (take l d @ rest) (sourcePortIdentity m) (sequenceId m) ts cnt x)"
    using assms(3,4) by (intro assms(5)) (simp add: get_append get_take)
  also have "\<dots> = Inr (F (received blank (take l d @ rest) ts cnt m))"
    using h assms by (intro read_body) simp_all
  finally show ?thesis
    using h assms(2) by (intro decodesI)
qed

lemma more_simps [simp]:
  "PTPMessageCommon.more (ms :: PTPMessageSync) = \<lparr>sync_originTimestamp = sync_originTimestamp ms\<rparr>"
  "PTPMessageCommon.more (mf :: PTPMessageFollowUp) =
     \<lparr>preciseOriginTimestamp = preciseOriginTimestamp mf, fup_tlv = fup_tlv mf\<rparr>"
  "PTPMessageCommon.more (mq :: PTPMessagePathDelayReq) = \<lparr>req_originTimestamp = req_originTimestamp mq\<rparr>"
  "PTPMessageCommon.more (mp :: PTPMessagePathDelayResp) =
     \<lparr>resp_requestingPortIdentity = resp_requestingPortIdentity mp, requestReceiptTimestamp = requestReceiptTimestamp mp\<rparr>"
  "PTPMessageCommon.more (mu :: PTPMessagePathDelayRespFollowUp) =
     \<lparr>responseOriginTimestamp = responseOriginTimestamp mu, rfup_requestingPortIdentity = rfup_requestingPortIdentity mu\<rparr>"
  "PTPMessageCommon.more (mg :: PTPMessageSignalling) =
     \<lparr>targetPortIdentify = targetPortIdentify mg, sig_tlv = sig_tlv mg\<rparr>"
  by (cases ms, simp, cases mf, simp, cases mq, simp, cases mp, simp, cases mu, simp, cases mg, simp)

lemmas frame_simps = length_timestamp_puts portIdentity_puts mem get_portIdentity_def get_timestamp_def wire_ts_def
      wf_cid_def PTP_CLOCK_IDENTITY_LENGTH_def PortIdentity_wire_def cid_set_def Timestamp_default_def

lemma deliveredI:
  assumes wf: "wf_msg m" "wf_msg m0" "\<And>b. header_at m b = header_at m0 b" and l: "36 \<le> l" "l \<le> 256"
    and W: "\<And>b. length b = 256 \<Longrightarrow> header_at m b \<Longrightarrow> \<exists>d. W b = Some d \<and> length d = 256 \<and> header_at m d \<and> Q d"
    and B: "built = buildCommonHeader m0 buf_t \<bind> W \<bind> (\<lambda>d. Some (m1, take l d))"
    and R: "\<And>buf d blank ts cnt. Q d \<Longrightarrow> (\<And>i n. i + n \<le> l \<Longrightarrow> get i n buf = get i n d) \<Longrightarrow>
      parse_message blank buf (int l) (messageType m) (sourcePortIdentity m) (sequenceId m) ts cnt =
      read_or_fail F (copy_common_header 0 buf (sourcePortIdentity m) (sequenceId m) ts cnt (x blank))"
    and x: "\<And>blank. PTPMessageCommon.more (x blank) = PTPMessageCommon.more m"
      "\<And>blank. messageType (x blank) = messageType m" "\<And>blank. versionNetwork (x blank) = versionNetwork blank"
  shows "delivered built m1 l m F"
proof -
  obtain b where b: "buildCommonHeader m0 buf_t = Some b" "length b = 256" "header_at m0 b"
    using wf(2) by (rule buildCommonHeader_buf_t)
  then obtain d where d: "W b = Some d" "length d = 256" "header_at m d" "Q d"
    using W [of b] wf(3) by auto
  have "decodes blank (take l d @ rest) (int l) ts cnt m (F (received blank (take l d @ rest) ts cnt m))"
    for blank rest ts cnt
    using d l R [OF d(4)] by (intro roundtripI [OF d(3) wf(1) l(1) _ _ x]) simp_all
  then show ?thesis
    using b d l by (auto simp add: delivered_def B)
qed

lemma length_fup_toByteString: "length (fup_organizationId t) = 3 \<Longrightarrow> length (fup_toByteString t) = 32"
  by (simp add: fup_toByteString_def scaledNs_toByteString_def)

lemma length_sig_toByteString: "length (sig_organizationId t) = 3 \<Longrightarrow> length (sig_toByteString t) = 16"
  by (simp add: sig_toByteString_def)

lemma htonl_ucast_u16: "(ucast (PLAT_htonl (ucast (w :: u16))) :: u16) = 0"
proof -
  have "le_bytes 4 (ucast w :: u32) ! 2 = 0" "le_bytes 4 (ucast w :: u32) ! 3 = 0"
    by (simp_all add: nth_le_bytes) (rule bit_word_eqI, auto simp add: bit_ucast_iff bit_drop_bit_eq dest: bit_imp_le_length)+
  then have r: "rev (le_bytes 4 (ucast w :: u32)) ! 0 = 0" "rev (le_bytes 4 (ucast w :: u32)) ! 1 = 0"
    by (simp_all add: rev_nth)
  show ?thesis
  proof (rule bit_word_eqI)
    fix n assume "n < LENGTH(16)"
    then have "n div 8 = 0 \<or> n div 8 = 1" by auto
    with r show "bit (ucast (PLAT_htonl (ucast w)) :: u16) n = bit (0 :: u16) n"
      by (auto simp add: PLAT_htonl_def bswap_def bit_ucast_iff bit_of_le)
  qed
qed

lemma PLAT_0 [simp]: "PLAT_htons 0 = 0" "PLAT_htonl 0 = 0" "PLAT_ntohs 0 = 0" "PLAT_ntohl 0 = 0"
  by code_simp+

lemmas roundtrip_simps = wf_msg_def header_at_def ext_defs Let_def parse_message_def message_types frame_simps

lemma get_split:
  assumes "get off (m + n) buf = Some (xs @ ys)" and "length xs = m"
  shows "get off m buf = Some xs" "get (off + m) n buf = Some ys"
proof -
  have le: "off + m + n \<le> length buf" and eq: "take (m + n) (drop off buf) = xs @ ys"
    using assms(1) by (auto simp add: get_def split: if_splits)
  have "take m (drop off buf) = xs"
    using arg_cong [OF eq, of "take m"] assms(2) by simp
  moreover have "take n (drop (off + m) buf) = ys"
    using arg_cong [OF eq, of "drop m"] assms(2) by (simp add: drop_take add.commute)
  ultimately show "get off m buf = Some xs" "get (off + m) n buf = Some ys"
    using le by (simp_all add: get_def)
qed

lemma parse_identities_concat:
  assumes "\<forall>c \<in> set ids. wf_cid c" and "get off (8 * length ids) buf = Some (concat (map cid ids))"
  shows "parse_identities (length ids) off buf t = Some (t\<lparr>identityList := identityList t @ ids\<rparr>)"
  using assms
proof (induction ids arbitrary: off t)
  case (Cons c ids)
  have "get off (8 + 8 * length ids) buf = Some (cid c @ concat (map cid ids))"
    using Cons.prems(2) by simp
  then have "get off 8 buf = Some (cid c)" "get (off + 8) (8 * length ids) buf = Some (concat (map cid ids))"
    by (rule get_split; use Cons.prems(1) in \<open>simp add: wf_cid_def PTP_CLOCK_IDENTITY_LENGTH_def\<close>)+
  then show ?case
    using Cons.IH [of "off + 8"] Cons.prems(1)
    by (simp add: PTP_CLOCK_IDENTITY_LENGTH_def cid_set_def wf_cid_def)
qed simp

lemma more_announce [simp]:
  "PTPMessageCommon.more (ma :: PTPMessageAnnounce) =
     \<lparr>grandmasterIdentity = grandmasterIdentity ma, grandmasterClockQuality = grandmasterClockQuality ma,
      ann_tlv = ann_tlv ma, currentUtcOffset = currentUtcOffset ma, grandmasterPriority1 = grandmasterPriority1 ma,
      grandmasterPriority2 = grandmasterPriority2 ma, stepsRemoved = stepsRemoved ma, timeSource = timeSource ma\<rparr>"
  by (cases ma) simp

lemma length_concat_cids: "\<forall>c \<in> set ids. wf_cid c \<Longrightarrow> length (concat (map cid ids)) = 8 * length ids"
  by (induction ids) (simp_all add: wf_cid_def PTP_CLOCK_IDENTITY_LENGTH_def)

lemma length_pt_toByteString: "wf_tlv t \<Longrightarrow> length (pt_toByteString t) = pt_length t"
  by (simp add: wf_tlv_def pt_toByteString_def pt_length_def length_concat_cids PTP_CLOCK_IDENTITY_LENGTH_def
      getIdentityString_def [abs_def])

lemma parseClockIdentity_toByteString:
  assumes t: "wf_tlv t" and n: "length (identityList t) \<le> 23" and g: "get off (pt_length t) buf = Some (pt_toByteString t)"
    and sz: "int (pt_length t) - 2 \<le> sz" "sz < 2 ^ 31"
  shows "get off 2 buf = Some (le_bytes 2 (pt_tlvType t))"
    "parseClockIdentity (off + 2) buf sz PathTraceTLV_new = Some t"
proof -
  let ?n = "length (identityList t)"
  let ?L = "PLAT_htons (of_nat ?n * 8)"
  have "pt_toByteString t = le_bytes 2 (pt_tlvType t) @ (le_bytes 2 ?L @ concat (map cid (identityList t)))"
    by (simp add: pt_toByteString_def PTP_CLOCK_IDENTITY_LENGTH_def getIdentityString_def [abs_def])
  then have g': "get off (2 + (2 + 8 * ?n)) buf = Some (le_bytes 2 (pt_tlvType t) @ (le_bytes 2 ?L @ concat (map cid (identityList t))))"
    using g by (simp add: pt_length_def PTP_CLOCK_IDENTITY_LENGTH_def)
  from get_split [OF this] show "get off 2 buf = Some (le_bytes 2 (pt_tlvType t))" by simp
  have "get (off + 2) (2 + 8 * ?n) buf = Some (le_bytes 2 ?L @ concat (map cid (identityList t)))"
    using get_split [OF g'] by simp
  from get_split [OF this] have l: "get (off + 2) 2 buf = Some (le_bytes 2 ?L)"
    and ids: "get (off + 4) (8 * ?n) buf = Some (concat (map cid (identityList t)))"
    by (simp_all add: add.commute)
  have u: "uint (of_nat ?n * 8 :: u16) = int (8 * ?n)"
    using n by (simp add: uint_word_ariths unsigned_of_nat take_bit_eq_mod)
  then have u': "uint (PLAT_ntohs (of_le (le_bytes 2 ?L))) = int (8 * ?n)"
    by simp
  have b: "int (8 * ?n) \<le> sz - 2"
    using sz(1) by (simp add: pt_length_def PTP_CLOCK_IDENTITY_LENGTH_def)
  have "uint (word_of_int k :: u32) = k" if "0 \<le> k" "k < 2 ^ 32" for k
    using that by (simp add: uint_word_of_int)
  from this [of "sz - 2"] this [of "int (8 * ?n)"]
  have "\<not> (word_of_int (sz - 2) :: u32) < word_of_int (int (8 * ?n))"
    using b sz n unfolding word_less_def by simp
  then have "parseClockIdentity (off + 2) buf sz PathTraceTLV_new = parse_identities ?n (off + 4) buf PathTraceTLV_new"
    by (simp only: parseClockIdentity_def l Option.bind.simps Let_def u' if_False)
      (simp add: PTP_CLOCK_IDENTITY_LENGTH_def add.commute)
  also have "\<dots> = Some t"
    using t ids by (subst parse_identities_concat) (auto simp add: wf_tlv_def PathTraceTLV_new_def)
  finally show "parseClockIdentity (off + 2) buf sz PathTraceTLV_new = Some t" .
qed

lemma announce_frame:
  fixes m :: PTPMessageAnnounce
  assumes "wf_msg m" and "length (grandmasterIdentity m) = 8" and "wf_tlv (ann_tlv m)"
    and "length (identityList (ann_tlv m)) \<le> 23"
  defines "l \<equiv> 64 + pt_length (ann_tlv m)"
  defines "m' \<equiv> m\<lparr>messageLength := of_nat l\<rparr>"
  obtains d where "build_announce m = Some (m', take l d)" "length d = 256" "header_at m' d"
    "get 44 2 d = Some (le_bytes 2 (PLAT_htons (currentUtcOffset m)))" "get 47 1 d = Some [grandmasterPriority1 m]"
    "get 48 4 d = Some ([cq_class (grandmasterClockQuality m), clockAccuracy (grandmasterClockQuality m)] @
                (le_bytes 2 (PLAT_htons (offsetScaledLogVariance (grandmasterClockQuality m)))))"
    "get 52 1 d = Some [grandmasterPriority2 m]" "get 53 8 d = Some (grandmasterIdentity m)"
    "get 61 2 d = Some (le_bytes 2 (PLAT_htons (stepsRemoved m)))" "get 63 1 d = Some [timeSource m]"
    "get 64 (pt_length (ann_tlv m)) d = Some (pt_toByteString (ann_tlv m))"
proof -
  have l: "l \<le> 252" "pt_length (ann_tlv m) \<le> 188" using assms(4) by (simp_all add: l_def pt_length_def PTP_CLOCK_IDENTITY_LENGTH_def)
  have wf: "wf_msg m'" using assms(1) by (simp add: wf_msg_def m'_def)
  obtain b where b: "buildCommonHeader m' buf_t = Some b" "length b = 256" "header_at m' b"
    using wf by (rule buildCommonHeader_buf_t)
  have ul: "unat (messageLength m') = l"
    using l by (simp add: m'_def unsigned_of_nat take_bit_eq_mod)
  let ?cq = "grandmasterClockQuality m"
  let ?d = "wr 64 (pt_toByteString (ann_tlv m)) (wr 63 [timeSource m] (wr 61 (le_bytes 2 (PLAT_htons (stepsRemoved m)))
     (wr 53 (grandmasterIdentity m) (wr 52 [grandmasterPriority2 m] (wr 48 ([cq_class ?cq, clockAccuracy ?cq] @
                (le_bytes 2 (PLAT_htons (offsetScaledLogVariance ?cq))))
     (wr 47 [grandmasterPriority1 m] (wr 44 (le_bytes 2 (PLAT_htons (currentUtcOffset m))) b)))))))"
  note t = length_pt_toByteString [OF assms(3)]
  have B: "build_announce m = Some (m', take l ?d)"
    using b ul l t assms(2) by (simp add: build_announce_def Let_def l_def [symmetric] m'_def [symmetric] mem) (simp add: m'_def mem)
  have H: "header_at m' ?d"
    using b l t assms(2) by (simp add: header_at_wr)
  show ?thesis
    by (rule that [OF B _ H]) (use b l t assms(2) in \<open>simp_all add: mem\<close>)
qed

lemma get_octet: "i < length buf \<Longrightarrow> get i 1 buf = Some [buf ! i]"
  by (simp add: get_def take_Suc_conv_app_nth hd_drop_conv_nth)

lemma copy_common_header_in_range:
  assumes "b + 36 \<le> length buf"
  shows "copy_common_header b buf src seq ts cnt m =
    Some (m\<lparr>gc := False, versionPTP := buf ! (b + 1), messageLength := PLAT_ntohs (of_le (take 2 (drop (b + 2) buf))),
       domainNumber := buf ! (b + 4), flags := take 2 (drop (b + 6) buf),
       correctionField := PLAT_ntohll (of_le (take 8 (drop (b + 8) buf))), sourcePortIdentity := src, sequenceId := seq,
       control := of_le (take 4 (drop (b + 32) buf)), logMeanMessageInterval := buf ! (b + 33), msg_timestamp := ts,
       timestamp_counter_value := cnt\<rparr>)"
proof -
  have "get i n buf = Some (take n (drop i buf))" if "i + n \<le> length buf" for i n
    using that by (simp add: get_def)
  then show ?thesis
    using assms get_octet [of "b + 1" buf] get_octet [of "b + 4" buf] get_octet [of "b + 33" buf]
    by (simp add: copy_common_header_def)
qed

lemma parse_identities_None:
  "parse_identities n off buf t = None \<longleftrightarrow> 0 < n \<and> length buf < off + 8 * n"
proof (induction n arbitrary: off t)
  case (Suc n)
  show ?case
  proof (cases "off + 8 \<le> length buf")
    case True
    then show ?thesis
      using Suc.IH [of "off + 8"] by (auto simp add: get_def PTP_CLOCK_IDENTITY_LENGTH_def)
  next
    case False
    then show ?thesis by (simp add: get_def PTP_CLOCK_IDENTITY_LENGTH_def)
  qed
qed simp

lemma parseClockIdentity_None:
  assumes "length buf = 128" and "2 \<le> sz" "sz < 2 ^ 31"
  shows "parseClockIdentity 66 buf sz t = None \<longleftrightarrow>
    60 < 8 * (min (uint (PLAT_ntohs (of_le (take 2 (drop 66 buf))))) (sz - 2) div 8)"
proof -
  let ?L = "uint (PLAT_ntohs (of_le (take 2 (drop 66 buf))))"
  have L: "0 \<le> ?L" "?L < 2 ^ 16" using u16_bounds by simp_all
  have "uint (word_of_int k :: u32) = k" if "0 \<le> k" "k < 2 ^ 32" for k
    using that by (simp add: uint_word_of_int)
  from this [of "sz - 2"] this [of ?L]
  have c: "(word_of_int (sz - 2) :: u32) < word_of_int ?L \<longleftrightarrow> sz - 2 < ?L"
    using L assms unfolding word_less_def by simp
  have "parseClockIdentity 66 buf sz t =
      parse_identities (nat (min ?L (sz - 2) div 8)) 68 buf t"
    using assms(1) c by (simp add: parseClockIdentity_def get_def Let_def PTP_CLOCK_IDENTITY_LENGTH_def min_def)
  then show ?thesis
    using assms L by (simp add: parse_identities_None) linarith
qed

lemma get_in_range: "i + n \<le> length buf \<Longrightarrow> get i n buf = Some (take n (drop i buf))"
  by (simp add: get_def)

section \<open>Sample messages\<close>

text \<open>A header for the witnesses, and the memory of a new object.\<close>

definition sample_identity :: PortIdentity where
  "sample_identity = \<lparr>clock_id = \<lparr>cid = [0, 0x1B, 0x21, 0xFF, 0xFE, 1, 2, 3]\<rparr>, portNumber = 1\<rparr>"

definition sample_common :: "MessageType \<Rightarrow> PTPMessageCommon" where
  "sample_common t =
     \<lparr>versionPTP = 2, versionNetwork = 1, messageType = t, sourcePortIdentity = sample_identity,
      sequenceId = 7, control = 5, flags = [2, 8], messageLength = 0, logMeanMessageInterval = 0,
      correctionField = 0x10000, domainNumber = 0, msg_timestamp = Timestamp_default,
      timestamp_counter_value = 0, gc = False\<rparr>"

definition sample_req :: PTPMessagePathDelayReq where
  "sample_req = PTPMessageCommon.extend (sample_common PATH_DELAY_REQ_MESSAGE)
     (PTPMessagePathDelayReq.fields Timestamp_default)"

definition sample_resp :: PTPMessagePathDelayResp where
  "sample_resp = PTPMessageCommon.extend (sample_common PATH_DELAY_RESP_MESSAGE)
     (PTPMessagePathDelayResp.fields sample_identity (Timestamp_new 500 20 1))"

definition sample_resp_followup :: PTPMessagePathDelayRespFollowUp where
  "sample_resp_followup = PTPMessageCommon.extend (sample_common PATH_DELAY_FOLLOWUP_MESSAGE)
     (PTPMessagePathDelayRespFollowUp.fields (Timestamp_new 500 20 1) sample_identity)"

definition sample_sync :: PTPMessageSync where
  "sample_sync = PTPMessageCommon.extend (sample_common SYNC_MESSAGE)
     (PTPMessageSync.fields (Timestamp_new 1 2 3))"

definition sample_signalling :: PTPMessageSignalling where
  "sample_signalling = PTPMessageCommon.extend (sample_common SIGNALLING_MESSAGE)
     (PTPMessageSignalling.fields 0xFF SignallingTLV_new)"

definition sample_followup :: PTPMessageFollowUp where
  "sample_followup = PTPMessageCommon.extend (sample_common FOLLOWUP_MESSAGE)
     (PTPMessageFollowUp.fields (Timestamp_new 500 20 1)
       (setGMTimeBaseIndicator 5 FollowUpTLV_new))"

definition sample_announce :: PTPMessageAnnounce where
  "sample_announce = PTPMessageCommon.extend (sample_common ANNOUNCE_MESSAGE)
     (PTPMessageAnnounce.fields (cid (clock_id sample_identity))
       \<lparr>cq_class = 248, clockAccuracy = 0x22, offsetScaledLogVariance = 0x436A\<rparr>
       (appendClockIdentity (clock_id sample_identity) PathTraceTLV_new) 0 248 248 0 160)"

lemmas sample_defs =
  sample_req_def sample_resp_def sample_resp_followup_def sample_sync_def sample_signalling_def
  sample_followup_def sample_announce_def sample_common_def sample_identity_def ext_defs
  wf_msg_def wf_cid_def PTP_CLOCK_IDENTITY_LENGTH_def

section \<open>Round trips\<close>

text \<open>A Pdelay_Req written by its \<open>sendPort\<close> is a frame of 54 octets that is read back as the same
  message; its origin timestamp is not transmitted.\<close>

theorem pdelay_req_roundtrip:
  fixes m :: PTPMessagePathDelayReq
  assumes "wf_msg m" and "messageType m = PATH_DELAY_REQ_MESSAGE" 
  shows "delivered (build_pdelay_req m) (m\<lparr>messageLength := 54\<rparr>) 54
    (m\<lparr>messageLength := 54, req_originTimestamp := Timestamp_default\<rparr>) MsgPathDelayReq"
  by (rule deliveredI [where ?m0.0 = "m\<lparr>messageLength := 54\<rparr>" and W = Some and Q = "\<lambda>d. True" and x = parse_pdelay_req])
   (use assms in \<open>simp_all add: build_pdelay_req_def parse_pdelay_req_def roundtrip_simps\<close>)

theorem pdelay_req_roundtrip_witness:
  "delivered (build_pdelay_req sample_req) (sample_req\<lparr>messageLength := 54\<rparr>) 54
    (sample_req\<lparr>messageLength := 54, req_originTimestamp := Timestamp_default\<rparr>) MsgPathDelayReq"
  by (rule pdelay_req_roundtrip) (simp_all add: sample_defs)

text \<open>A Pdelay_Resp written by its \<open>sendPort\<close> is a frame of 54 octets that is read back as the same
  message, with the requesting port identity and the request receipt timestamp.\<close>

theorem pdelay_resp_roundtrip:
  fixes m :: PTPMessagePathDelayResp
  assumes "wf_msg m" and "wf_cid (clock_id (resp_requestingPortIdentity m))"
    and "messageType m = PATH_DELAY_RESP_MESSAGE"
  shows "delivered (build_pdelay_resp m) (m\<lparr>messageLength := 54\<rparr>) 54
    (m\<lparr>messageLength := 54, requestReceiptTimestamp := wire_ts (requestReceiptTimestamp m)\<rparr>) MsgPathDelayResp"
  by (rule deliveredI [where ?m0.0 = "m\<lparr>messageLength := 54\<rparr>" and
      W = "\<lambda>b. put_portIdentity 44 (resp_requestingPortIdentity m) b \<bind> put_timestamp 34 (requestReceiptTimestamp m)" and
      Q = "\<lambda>d. get_portIdentity 44 d = Some (resp_requestingPortIdentity m) \<and>
        get_timestamp 34 d = Some (wire_ts (requestReceiptTimestamp m))" and
      x = "\<lambda>blank. PTPMessageCommon.extend (blank\<lparr>messageType := PATH_DELAY_RESP_MESSAGE\<rparr>)
              (PTPMessagePathDelayResp.fields (resp_requestingPortIdentity m) (wire_ts (requestReceiptTimestamp m)))"])
   (use assms in \<open>simp_all add: build_pdelay_resp_def parse_pdelay_resp_def roundtrip_simps\<close>)

theorem pdelay_resp_roundtrip_witness:
  "delivered (build_pdelay_resp sample_resp) (sample_resp\<lparr>messageLength := 54\<rparr>) 54
    (sample_resp\<lparr>messageLength := 54, requestReceiptTimestamp := wire_ts (requestReceiptTimestamp sample_resp)\<rparr>) MsgPathDelayResp"
  by (rule pdelay_resp_roundtrip) (simp_all add: sample_defs)

text \<open>A Pdelay_Resp_Follow_Up written by its \<open>sendPort\<close> is a frame of 54 octets that is read back as
  the same message, with the requesting port identity and the response origin timestamp.\<close>

theorem pdelay_resp_followup_roundtrip:
  fixes m :: PTPMessagePathDelayRespFollowUp
  assumes "wf_msg m" and "wf_cid (clock_id (rfup_requestingPortIdentity m))"
    and "messageType m = PATH_DELAY_FOLLOWUP_MESSAGE"
  shows "delivered (build_pdelay_resp_followup m) (m\<lparr>messageLength := 54\<rparr>) 54
    (m\<lparr>messageLength := 54, responseOriginTimestamp := wire_ts (responseOriginTimestamp m)\<rparr>) MsgPathDelayRespFollowUp"
  by (rule deliveredI [where ?m0.0 = "m\<lparr>messageLength := 54\<rparr>" and
      W = "\<lambda>b. put_portIdentity 44 (rfup_requestingPortIdentity m) b \<bind> put_timestamp 34 (responseOriginTimestamp m)" and
      Q = "\<lambda>d. get_portIdentity 44 d = Some (rfup_requestingPortIdentity m) \<and>
        get_timestamp 34 d = Some (wire_ts (responseOriginTimestamp m))" and
      x = "\<lambda>blank. PTPMessageCommon.extend (blank\<lparr>messageType := PATH_DELAY_FOLLOWUP_MESSAGE\<rparr>)
              (PTPMessagePathDelayRespFollowUp.fields (wire_ts (responseOriginTimestamp m)) (rfup_requestingPortIdentity m))"])
   (use assms in \<open>simp_all add: build_pdelay_resp_followup_def parse_pdelay_resp_followup_def roundtrip_simps\<close>)

theorem pdelay_resp_followup_roundtrip_witness:
  "delivered (build_pdelay_resp_followup sample_resp_followup) (sample_resp_followup\<lparr>messageLength := 54\<rparr>) 54
    (sample_resp_followup\<lparr>messageLength := 54, responseOriginTimestamp := wire_ts (responseOriginTimestamp sample_resp_followup)\<rparr>) MsgPathDelayRespFollowUp"
  by (rule pdelay_resp_followup_roundtrip) (simp_all add: sample_defs)

text \<open>A Sync written by its \<open>sendPort\<close>, which sets a zero origin timestamp, is a frame of 44 octets
  that is read back as the same message.\<close>

theorem sync_roundtrip:
  fixes m :: PTPMessageSync
  assumes "wf_msg m" and "messageType m = SYNC_MESSAGE" 
  shows "delivered (build_sync m) (m\<lparr>messageLength := 44, sync_originTimestamp := Timestamp_new 0 0 0\<rparr>) 44
    (m\<lparr>messageLength := 44, sync_originTimestamp := Timestamp_new 0 0 0\<rparr>) MsgSync"
  by (rule deliveredI [where ?m0.0 = "m\<lparr>messageLength := 44\<rparr>" and W = "put_timestamp 34 (Timestamp_new 0 0 0)" and
      Q = "\<lambda>d. get 34 2 d = Some (le_bytes 2 (0 :: u16)) \<and> get 36 4 d = Some (le_bytes 4 (0 :: u32)) \<and>
        get 40 4 d = Some (le_bytes 4 (0 :: u32))" and
      x = "\<lambda>blank. PTPMessageCommon.extend (blank\<lparr>messageType := SYNC_MESSAGE\<rparr>)
              (PTPMessageSync.fields (Timestamp_new 0 0 0))"])
   (use assms in \<open>simp_all add: build_sync_def parse_sync_def roundtrip_simps Timestamp_new_def\<close>)

theorem sync_roundtrip_witness:
  "delivered (build_sync sample_sync) (sample_sync\<lparr>messageLength := 44, sync_originTimestamp := Timestamp_new 0 0 0\<rparr>) 44
    (sample_sync\<lparr>messageLength := 44, sync_originTimestamp := Timestamp_new 0 0 0\<rparr>) MsgSync"
  by (rule sync_roundtrip) (simp_all add: sample_defs)

text \<open>A Signalling message written by its \<open>sendPort\<close> is a frame of 60 octets that is read back as
  the same message, intervals included.\<close>

theorem signalling_roundtrip:
  fixes m :: PTPMessageSignalling
  assumes "wf_msg m" and "length (sig_organizationId (sig_tlv m)) = 3" and "messageType m = SIGNALLING_MESSAGE"
  shows "delivered (build_signalling m) (m\<lparr>messageLength := 60\<rparr>) 60 (m\<lparr>messageLength := 60\<rparr>) MsgSignalling"
  by (rule deliveredI [where ?m0.0 = "m\<lparr>messageLength := 60\<rparr>" and
      W = "\<lambda>b. put 34 [targetPortIdentify m] b \<bind> put 44 (sig_toByteString (sig_tlv m))" and
      Q = "\<lambda>d. get 34 1 d = Some [targetPortIdentify m] \<and> get 44 16 d = Some (sig_toByteString (sig_tlv m))" and
      x = "\<lambda>blank. PTPMessageCommon.extend (blank\<lparr>messageType := SIGNALLING_MESSAGE\<rparr>)
              (PTPMessageSignalling.fields (targetPortIdentify m) (sig_tlv m))"])
   (use assms in \<open>simp_all add: build_signalling_def parse_signalling_def roundtrip_simps sig_memcpy_toByteString length_sig_toByteString\<close>)

theorem signalling_roundtrip_witness:
  "delivered (build_signalling sample_signalling) (sample_signalling\<lparr>messageLength := 60\<rparr>) 60 (sample_signalling\<lparr>messageLength := 60\<rparr>) MsgSignalling"
  by (rule signalling_roundtrip) (simp_all add: sample_defs SignallingTLV_new_def)

lemma followup_delivered:
  fixes m :: PTPMessageFollowUp
  assumes "wf_msg m" and "length (fup_organizationId (fup_tlv m)) = 3" and "messageType m = FOLLOWUP_MESSAGE"
  defines "m' \<equiv> m\<lparr>messageLength := 76, fup_tlv := setGMTimeBaseIndicator 0 (fup_tlv m)\<rparr>"
  shows "delivered (build_followup m) m' 76
    (m'\<lparr>preciseOriginTimestamp := wire_ts (preciseOriginTimestamp m)\<rparr>) MsgFollowUp"
  by (rule deliveredI [where ?m0.0 = "m\<lparr>messageLength := 76\<rparr>" and
      W = "\<lambda>b. put_timestamp 34 (preciseOriginTimestamp m) b \<bind> put 44 (fup_toByteString (fup_tlv m'))" and
      Q = "\<lambda>d. get_timestamp 34 d = Some (wire_ts (preciseOriginTimestamp m)) \<and> get 44 32 d = Some (fup_toByteString (fup_tlv m'))" and
      x = "\<lambda>blank. PTPMessageCommon.extend (blank\<lparr>messageType := FOLLOWUP_MESSAGE\<rparr>)
              (PTPMessageFollowUp.fields (wire_ts (preciseOriginTimestamp m)) (fup_tlv m'))"])
   (use assms in \<open>simp_all add: build_followup_def parse_followup_def roundtrip_simps fup_memcpy_toByteString htonl_ucast_u16 length_fup_toByteString setGMTimeBaseIndicator_def\<close>)

text \<open>C35. A Follow_Up written by its \<open>sendPort\<close> is a frame of 76 octets that is read back with the same
  header, precise origin timestamp and TLV, but with time base indicator 0 whatever it was: the
  indicator is converted by the 32-bit \<open>PLAT_htonl\<close> and truncated to its 16 low bits.\<close>

theorem followup_roundtrip:
  fixes m :: PTPMessageFollowUp
  assumes "wf_msg m" and "length (fup_organizationId (fup_tlv m)) = 3" and "messageType m = FOLLOWUP_MESSAGE"
  defines "m' \<equiv> m\<lparr>messageLength := 76, fup_tlv := setGMTimeBaseIndicator 0 (fup_tlv m)\<rparr>"
  shows "delivered (build_followup m) m' 76
    (m'\<lparr>preciseOriginTimestamp := wire_ts (preciseOriginTimestamp m)\<rparr>) MsgFollowUp"
  unfolding m'_def by (rule followup_delivered [OF assms(1-3)])

theorem followup_roundtrip_witness:
  "gmTimeBaseIndicator (fup_tlv sample_followup) = 5 \<and>
   delivered (build_followup sample_followup)
     (sample_followup\<lparr>messageLength := 76,
        fup_tlv := setGMTimeBaseIndicator 0 (fup_tlv sample_followup)\<rparr>) 76
     (sample_followup\<lparr>messageLength := 76,
        fup_tlv := setGMTimeBaseIndicator 0 (fup_tlv sample_followup),
        preciseOriginTimestamp := wire_ts (preciseOriginTimestamp sample_followup)\<rparr>) MsgFollowUp"
  using followup_roundtrip [of sample_followup]
  by (simp add: sample_defs FollowUpTLV_new_def setGMTimeBaseIndicator_def)

text \<open>C34. An Announce with at most seven path trace entries, written by its \<open>sendPort\<close>, is read back from
  the 128-octet receive buffer with the same grandmaster data, steps removed, path trace, source
  and sequence number; but the version, domain and correction field (and the other header fields)
  come from the octets behind the Announce body, to which the reader has moved its pointer.\<close>

theorem announce_roundtrip:
  fixes m :: PTPMessageAnnounce
  assumes "wf_msg m" and "length (grandmasterIdentity m) = 8" and "wf_tlv (ann_tlv m)"
    and "length (identityList (ann_tlv m)) \<le> 7" and "messageType m = ANNOUNCE_MESSAGE"
  defines "l \<equiv> 64 + pt_length (ann_tlv m)"
  shows "\<exists>frame. build_announce m = Some (m\<lparr>messageLength := of_nat l\<rparr>, frame) \<and> length frame = l \<and>
    (\<forall>blank rest ts cnt. length (frame @ rest) = 128 \<longrightarrow>
      (\<exists>r. decodes blank (frame @ rest) (int l) ts cnt m (MsgAnnounce r) \<and>
         PTPMessageCommon.more r = PTPMessageCommon.more m \<and>
         versionPTP r = (frame @ rest) ! 67 \<and> domainNumber r = (frame @ rest) ! 70 \<and>
         correctionField r = PLAT_ntohll (of_le (take 8 (drop 74 (frame @ rest))))))"
proof -
  let ?m = "m\<lparr>messageLength := of_nat l\<rparr>"
  let ?cq = "grandmasterClockQuality m"
  have n: "length (identityList (ann_tlv m)) \<le> 23" and l: "l \<le> 124" "pt_length (ann_tlv m) \<le> 60"
    using assms(4) by (simp_all add: l_def pt_length_def PTP_CLOCK_IDENTITY_LENGTH_def)
  have l4: "4 \<le> pt_length (ann_tlv m)" by (simp add: pt_length_def)
  obtain d where B: "build_announce m = Some (?m, take l d)" and d: "length d = 256" "header_at ?m d"
    and f: "get 44 2 d = Some (le_bytes 2 (PLAT_htons (currentUtcOffset m)))" "get 47 1 d = Some [grandmasterPriority1 m]"
    "get 48 4 d = Some ([cq_class ?cq, clockAccuracy ?cq] @
                (le_bytes 2 (PLAT_htons (offsetScaledLogVariance ?cq))))"
    "get 52 1 d = Some [grandmasterPriority2 m]" "get 53 8 d = Some (grandmasterIdentity m)"
    "get 61 2 d = Some (le_bytes 2 (PLAT_htons (stepsRemoved m)))" "get 63 1 d = Some [timeSource m]"
    and t: "get 64 (pt_length (ann_tlv m)) d = Some (pt_toByteString (ann_tlv m))"
    using announce_frame [OF assms(1-3) n, folded l_def] by metis
  have "\<exists>r. decodes blank (take l d @ rest) (int l) ts cnt m (MsgAnnounce r) \<and>
         PTPMessageCommon.more r = PTPMessageCommon.more m \<and>
         versionPTP r = (take l d @ rest) ! 67 \<and> domainNumber r = (take l d @ rest) ! 70 \<and>
         correctionField r = PLAT_ntohll (of_le (take 8 (drop 74 (take l d @ rest))))"
    if len: "length (take l d @ rest) = 128" for blank rest ts cnt
  proof -
    define buf where "buf = take l d @ rest"
    have g: "get i k buf = get i k d" if "i + k \<le> l" for i k
      using that d(1) l by (simp add: buf_def get_append get_take)
    have h: "header_at ?m buf"
      using d l unfolding buf_def by (intro header_at_frame) (simp_all add: l_def)
    have "get 64 (pt_length (ann_tlv m)) buf = Some (pt_toByteString (ann_tlv m))"
      using t g by (simp add: l_def)
    note p = parseClockIdentity_toByteString [OF assms(3) n this, of "int l - 6", simplified]
    have tt: "get 64 2 buf = Some (le_bytes 2 (PLAT_htons PATH_TRACE_TLV_TYPE))"
      using p(1) assms(3) l l4 by (simp add: l_def wf_tlv_def)
    have pp: "parseClockIdentity 66 buf (int l - 6) PathTraceTLV_new = Some (ann_tlv m)"
      using p(2) l l4 by (simp add: l_def)
    have "parse_announce blank buf (int l) = Some (PTPMessageCommon.extend (blank\<lparr>messageType := ANNOUNCE_MESSAGE\<rparr>)
       (PTPMessageCommon.more m), 66)"
      using f g tt pp l l4 by (simp add: parse_announce_def Let_def l_def ext_defs PTP_CLOCK_IDENTITY_LENGTH_def)
    then show ?thesis
      using h assms(1,5) len rx_sourcePortIdentity_header [OF h] rx_sequenceId_header [OF h]
      unfolding buf_def [symmetric]
      by (auto simp add: decodes_def parse_message_def message_types read_or_fail_def copy_common_header_in_range
          header_at_def wf_msg_def PTPMessageCommon.defs)
  qed
  then show ?thesis using B d l by auto
qed

theorem announce_roundtrip_witness:
  "\<exists>frame. build_announce sample_announce = Some (sample_announce\<lparr>messageLength := 76\<rparr>, frame)"
proof -
  have l: "64 + pt_length (ann_tlv sample_announce) = 76"
    by (simp add: sample_defs pt_length_def appendClockIdentity_def PathTraceTLV_new_def)
  have "\<exists>frame. build_announce sample_announce =
      Some (sample_announce\<lparr>messageLength := of_nat (64 + pt_length (ann_tlv sample_announce))\<rparr>, frame)"
    using announce_roundtrip [of sample_announce]
    by (auto simp add: sample_defs wf_tlv_def appendClockIdentity_def PathTraceTLV_new_def)
  then show ?thesis by (simp only: l of_nat_numeral)
qed

text \<open>C36. On the 128-octet receive buffer, the reader reads outside the buffer exactly for an Announce of
  more than 8 octets with a path trace TLV whose entries, limited by the TLV length and by the
  frame size less 8, do not end within the buffer.\<close>

theorem parse_message_overread:
  assumes "length buf = 128" and "0 \<le> sz" "sz \<le> 128"
  shows "parse_message blank buf sz mt src seq ts cnt = Inl OverRead \<longleftrightarrow>
    mt = ANNOUNCE_MESSAGE \<and> 8 < sz \<and> PLAT_ntohs (of_le (take 2 (drop 64 buf))) = PATH_TRACE_TLV_TYPE \<and>
    60 < 8 * (min (uint (PLAT_ntohs (of_le (take 2 (drop 66 buf))))) (sz - 8) div 8)"
proof (cases "mt = ANNOUNCE_MESSAGE")
  case False
  then show ?thesis
    using assms(1) by (simp add: parse_message_def read_or_fail_def parse_sync_def parse_followup_def parse_pdelay_resp_def
       parse_pdelay_resp_followup_def parse_signalling_def get_in_range get_timestamp_def get_portIdentity_def
       PTP_CLOCK_IDENTITY_LENGTH_def copy_common_header_in_range)
next
  case True
  then show ?thesis
    using assms parseClockIdentity_None [OF assms(1), of "sz - 6" PathTraceTLV_new]
    by (cases "parseClockIdentity 66 buf (sz - 6) PathTraceTLV_new")
      (auto simp add: parse_message_def message_types read_or_fail_def parse_announce_def Let_def get_in_range
       PTP_CLOCK_IDENTITY_LENGTH_def copy_common_header_in_range)
qed

theorem parse_message_overread_witness:
  "parse_message (sample_common 0) (replicate 65 0 @ [8, 0, 64] @ replicate 60 0) 128 ANNOUNCE_MESSAGE
     sample_identity 0 Timestamp_default 0 = Inl OverRead"
proof -
  let ?b = "replicate 65 0 @ [8, 0, 64] @ replicate 60 0 :: octets"
  have "PLAT_ntohs (of_le (take 2 (drop 64 ?b))) = PATH_TRACE_TLV_TYPE"
    and "PLAT_ntohs (of_le (take 2 (drop 66 ?b))) = 64"
    by code_simp+
  then show ?thesis
    using parse_message_overread [of ?b 128] by simp
qed

end
