(* ===== verification/Wireless.thy ===== *)
theory Wireless
  imports Ptp_Process Ptp_Wire
begin

text \<open>
  Ports on a wireless link (\<open>common/wireless_port.cpp\<close>, \<open>common/wireless_tstamper.cpp\<close>) and the adapter that
  provides their timestamps (\<open>windows/daemon_cl/intel_wireless.cpp\<close>, \<open>windows_hal.cpp\<close>, \<open>work_queue.cpp\<close>). A master sends
  timing measurement frames; each carries the departure and acknowledgement times of the one before, and a
  Follow-Up message for it. The part of a port that all media share is the port of the world; \<open>WirelessPort\<close> is the
  rest of it. The main results: a dialog of request and confirmation gives the next request the times
  and the sequence number that belong together; the link delay is half the difference of
  the round trip and the turn-around time, and wraps around when the latter is larger; the 32 bit counter of the adapter is
  extended to 64 bits without an error as long as readings are less than a quarter of its range apart.
\<close>

section \<open>Dialogs\<close>

record WirelessDialog =
  d_action :: Timestamp
  action_devclk :: u64
  d_ack :: Timestamp
  ack_devclk :: u64
  dialog_token :: u8
  fwup_seq :: u16

text \<open>The default constructor leaves the counters and the sequence number as they are in memory.\<close>

definition WirelessDialog_new :: "WirelessDialog \<Rightarrow> WirelessDialog" where
  "WirelessDialog_new mem = mem\<lparr>d_action := Timestamp_default, d_ack := Timestamp_default, dialog_token := 0\<rparr>"

record WirelessPort =
  peer_addr :: LinkLayerAddress
  prev_dialog :: WirelessDialog

definition WirelessPort_fields :: "EtherPort \<Rightarrow> EtherPort" where
  "WirelessPort_fields p =
     (let p = setAsCapable True p;
          p = (if initialLogSyncInterval p = LOG2_INTERVAL_INVALID then p\<lparr>initialLogSyncInterval := - 3\<rparr> else p)
      in if initialLogPdelayReqInterval p = LOG2_INTERVAL_INVALID then p\<lparr>initialLogPdelayReqInterval := 127\<rparr> else p)"

definition WirelessPort_new ::
  "PortInit_t \<Rightarrow> LinkLayerAddress \<Rightarrow> WirelessDialog \<Rightarrow> nat \<Rightarrow> world \<Rightarrow> WirelessPort \<times> world" where
  "WirelessPort_new portInit peer mem this w =
     (\<lparr>peer_addr = peer, prev_dialog = (WirelessDialog_new mem)\<lparr>dialog_token := 0\<rparr>\<rparr>,
      upd_port this WirelessPort_fields (CommonPort_new portInit this w))"

definition setPrevDialog :: "WirelessDialog \<Rightarrow> WirelessPort \<Rightarrow> WirelessPort" where
  "setPrevDialog d wp = wp\<lparr>prev_dialog := d\<rparr>"

section \<open>Timing measurement\<close>

text \<open>A request for the transmission of a timing measurement frame. The structure lies in a buffer that
  is cleared before; \<open>tm_fwup_data\<close> is the part of the buffer behind the label.\<close>

record TIMINGMSMT_REQUEST =
  tm_PeerMACAddress :: octets
  tm_Category :: u8
  tm_Action :: u8
  tm_DialogToken :: u8
  tm_FollowUpDialogToken :: u8
  tm_T1 :: u32
  tm_T4 :: u32
  tm_ElementId :: u8
  tm_Length :: u8
  tm_FwUpLabel :: octets
  tm_fwup_data :: octets

definition MAX_DIALOG_TOKEN :: u16 where
  "MAX_DIALOG_TOKEN = 255"

definition FWUP_VDEF_TAG :: u8 where
  "FWUP_VDEF_TAG = 0xDD"

definition FwUpLabel :: octets where
  "FwUpLabel = [0x00, 0x80, 0xC2, 0]"

definition requestTimingMeasurement ::
  "(TIMINGMSMT_REQUEST \<Rightarrow> net_result) \<Rightarrow> WirelessDialog \<Rightarrow> LinkLayerAddress \<Rightarrow> u16 \<Rightarrow> octets \<Rightarrow> int \<Rightarrow>
     WirelessPort \<Rightarrow> (net_result \<times> TIMINGMSMT_REQUEST) \<times> WirelessPort" where
  "requestTimingMeasurement request mem dest seq follow_up followup_length wp =
     (let prev = prev_dialog wp;
          next_dialog = (WirelessDialog_new mem)
            \<lparr>dialog_token := ucast (seq mod MAX_DIALOG_TOKEN + 1), fwup_seq := seq, action_devclk := 0\<rparr>;
          req = \<lparr>tm_PeerMACAddress = toOctetArray dest, tm_Category = 0, tm_Action = 0,
                 tm_DialogToken = dialog_token next_dialog, tm_FollowUpDialogToken = dialog_token prev,
                 tm_T1 = 0, tm_T4 = 0, tm_ElementId = FWUP_VDEF_TAG, tm_Length = 0,
                 tm_FwUpLabel = replicate 4 0, tm_fwup_data = follow_up\<rparr>;
          req = (if tm_FollowUpDialogToken req \<noteq> 0 \<and> action_devclk prev \<noteq> 0
                 then req\<lparr>tm_T1 := ucast (action_devclk prev), tm_T4 := ucast (ack_devclk prev),
                          tm_Length := word_of_int (followup_length + 4), tm_FwUpLabel := FwUpLabel\<rparr>
                 else req)
      in ((request req, req), setPrevDialog next_dialog wp))"

definition timingMeasurementConfirmCB :: "WirelessDialog \<Rightarrow> WirelessPort \<Rightarrow> WirelessPort" where
  "timingMeasurementConfirmCB dialog wp =
     (let dialog = dialog\<lparr>d_action := ts_set64 (action_devclk dialog * 10) (d_action dialog)\<rparr>
      in if dialog_token dialog = dialog_token (prev_dialog wp)
         then setPrevDialog (dialog\<lparr>fwup_seq := fwup_seq (prev_dialog wp)\<rparr>) wp
         else wp)"

text \<open>\<open>buildPTPMessage\<close> for a port that is not an \<open>EtherPort\<close>: event messages are discarded.\<close>

definition wireless_buildPTPMessage ::
  "platform \<Rightarrow> nat \<Rightarrow> octets \<Rightarrow> int \<Rightarrow> LinkLayerAddress \<Rightarrow> world \<Rightarrow> (build_error + PTPMessage) \<times> world" where
  "wireless_buildPTPMessage P i buf sz remote w =
     (case do { t \<leftarrow> get 0 1 buf; src \<leftarrow> rx_sourcePortIdentity buf; seq \<leftarrow> rx_sequenceId buf; Some (hd t) } of
        None \<Rightarrow> (Inl OverRead, crash OutOfBounds w)
      | Some tspec_msg_t \<Rightarrow>
          if drop_bit 3 (tspec_msg_t AND 0xF) = 0 then (Inl NoTimestamp, w)
          else buildPTPMessage P i buf sz remote w)"

text \<open>The reception of a timing measurement frame. The result is the Follow-Up message that is handed to
  \<open>processMessage( port, sync_arrival )\<close> with the time at which its Sync arrived, if any.\<close>

definition timeMeasurementIndicationCB ::
  "platform \<Rightarrow> nat \<Rightarrow> LinkLayerAddress \<Rightarrow> WirelessDialog \<Rightarrow> WirelessDialog \<Rightarrow> octets \<Rightarrow> int \<Rightarrow> WirelessPort \<times> world \<Rightarrow>
     (PTPMessageFollowUp \<times> Timestamp) option \<times> WirelessPort \<times> world" where
  "timeMeasurementIndicationCB P i remote current previous buf buflen s =
     (let (wp, w) = s;
          (msg, w) = wireless_buildPTPMessage P i buf buflen remote w;
          fwup = (case msg of Inr (MsgFollowUp f) \<Rightarrow> Some f | _ \<Rightarrow> None);
          current = current\<lparr>action_devclk := action_devclk current * 10, ack_devclk := ack_devclk current * 10\<rparr>;
          current = current\<lparr>d_action := ts_set64 (action_devclk current) (d_action current)\<rparr>;
          prev_local = prev_dialog wp;
          (call, w) =
            (if dialog_token previous = dialog_token prev_local \<and> fwup \<noteq> None \<and> action_devclk previous \<noteq> 0
             then let previous = previous\<lparr>action_devclk := action_devclk previous * 10, ack_devclk := ack_devclk previous * 10\<rparr>;
                      round_trip = (ucast (ack_devclk previous - action_devclk previous) :: u32);
                      turn_around = (ucast (ack_devclk prev_local - action_devclk prev_local) :: u32);
                      link_delay = ucast ((round_trip - turn_around) div 2)
                  in (Some (the fwup, d_action prev_local), upd_port i (\<lambda>p. snd (setLinkDelay link_delay p)) w)
             else (None, w))
      in (call, setPrevDialog current wp, w))"

section \<open>Events, messages and roles\<close>

definition wireless_becomeSlave :: "platform \<Rightarrow> nat \<Rightarrow> bool \<Rightarrow> world \<Rightarrow> world" where
  "wireless_becomeSlave P i restart_syntonization w =
     (let w = deleteEventTimerLocked P i ANNOUNCE_INTERVAL_TIMEOUT_EXPIRES w;
          w = deleteEventTimerLocked P i SYNC_INTERVAL_TIMEOUT_EXPIRES w;
          w = upd_port i (port_state_update (\<lambda>_. PTP_SLAVE)) w;
          w = (if restart_syntonization then upd_clk newSyntonizationSetPoint w else w)
      in upd_clk updateFUPInfo w)"

definition wireless_becomeMaster :: "platform \<Rightarrow> nat \<Rightarrow> bool \<Rightarrow> world \<Rightarrow> world" where
  "wireless_becomeMaster P i annc w =
     (let w = upd_port i (port_state_update (\<lambda>_. PTP_MASTER)) w;
          w = deleteEventTimerLocked P i ANNOUNCE_RECEIPT_TIMEOUT_EXPIRES w;
          w = stopSyncReceiptTimer i w;
          w = (if annc then startAnnounce P i w else w);
          w = startSyncIntervalTimer P i 16000000 w
      in upd_clk updateFUPInfo w)"

text \<open>The Sync interval: the Follow-Up message of the last frame, if there was one, and the request for the
  next. The variable \<open>length\<close> has no initial value.\<close>

definition wireless_followup :: "platform \<Rightarrow> nat \<Rightarrow> WirelessDialog \<Rightarrow> world \<Rightarrow> PTPMessageFollowUp" where
  "wireless_followup P i d w =
     (PTPMessageFollowUp_new P i w)
       \<lparr>sourcePortIdentity := port_identity (ports w i), sequenceId := fwup_seq d, preciseOriginTimestamp := d_action d\<rparr>"

definition wireless_sync_interval ::
  "platform \<Rightarrow> nat \<Rightarrow> (TIMINGMSMT_REQUEST \<Rightarrow> net_result) \<Rightarrow> WirelessDialog \<Rightarrow> int \<Rightarrow> WirelessPort \<times> world \<Rightarrow>
     (bool \<times> TIMINGMSMT_REQUEST) \<times> WirelessPort \<times> world" where
  "wireless_sync_interval P i request mem uninit s =
     (let (wp, w) = s;
          (follow_up, len, w) =
            (if dialog_token (prev_dialog wp) \<noteq> 0
             then case build_followup (wireless_followup P i (prev_dialog wp) w) of
                    None \<Rightarrow> ([], uninit, crash OutOfBounds w)
                  | Some (m, buf) \<Rightarrow> (buf, int (length buf), w)
             else ([], uninit, w));
          (seq, p) = getNextSyncSequenceId (ports w i);
          w = upd_port i (\<lambda>_. p) w;
          ((r, req), wp) = requestTimingMeasurement request mem (peer_addr wp) seq follow_up len wp
      in ((True, req), wp, w))"

text \<open>Messages that arrive as frames: only those that are not event messages are processed, and of them
  Follow-Up and peer delay messages discard themselves on this kind of port.\<close>

definition wireless_processMessage :: "platform \<Rightarrow> nat \<Rightarrow> octets \<Rightarrow> int \<Rightarrow> LinkLayerAddress \<Rightarrow> world \<Rightarrow> world" where
  "wireless_processMessage P i buf len remote w =
     (case wireless_buildPTPMessage P i buf len remote w of
        (Inl e, w) \<Rightarrow> w
      | (Inr m, w) \<Rightarrow>
          (case m of
             MsgAnnounce a \<Rightarrow> snd (announce_processMessage P i a w)
           | MsgSignalling g \<Rightarrow> snd (signalling_processMessage P i g w)
           | _ \<Rightarrow> w))"

section \<open>The adapter\<close>

text \<open>The counter of the adapter has 32 bits. \<open>gp2_last\<close> is the last reading, with all bits set before the first one,
  and \<open>gp2_ext\<close> counts how often the counter has rolled over.\<close>

record IntelWirelessAdapter =
  ct_done :: bool
  ct_miss :: int
  gp2_last :: u64
  gp2_ext :: u32

definition IntelWirelessAdapter_new :: "IntelWirelessAdapter \<Rightarrow> IntelWirelessAdapter" where
  "IntelWirelessAdapter_new mem = mem\<lparr>gp2_ext := 0, gp2_last := - 1\<rparr>"

definition GP2_ROLLOVER :: u64 where
  "GP2_ROLLOVER = 4294967296"

definition calc_rollover :: "u64 \<Rightarrow> IntelWirelessAdapter \<Rightarrow> u64 \<times> IntelWirelessAdapter" where
  "calc_rollover gp2 a =
     (let gp2 = gp2 AND 0xFFFFFFFF
      in if gp2_last a = - 1 then (gp2, a\<lparr>gp2_last := gp2\<rparr>)
         else
           let a = (if gp2 < GP2_ROLLOVER div 4 \<and> GP2_ROLLOVER * 3 div 4 < gp2_last a
                    then a\<lparr>gp2_ext := gp2_ext a + 1\<rparr> else a);
               l_gp2_ext = (ucast (gp2_ext a) :: u64)
           in if gp2_last a < GP2_ROLLOVER div 4 \<and> GP2_ROLLOVER * 3 div 4 < gp2
              then (gp2 + (l_gp2_ext - 1) * GP2_ROLLOVER, a)
              else (gp2 + l_gp2_ext * GP2_ROLLOVER, a\<lparr>gp2_last := gp2\<rparr>))"

text \<open>The work queue of a timestamper: the tasks of its threads, \<open>None\<close> for an idle thread. A task is taken by the
  first idle thread; without one it is dropped.\<close>

definition DEFAULT_THREAD_COUNT :: nat where
  "DEFAULT_THREAD_COUNT = 5"

definition work_queue_init :: "nat \<Rightarrow> 'e option list" where
  "work_queue_init number_threads = replicate (if number_threads = 0 then DEFAULT_THREAD_COUNT else number_threads) None"

fun submit :: "'e \<Rightarrow> 'e option list \<Rightarrow> bool \<times> 'e option list" where
  "submit e [] = (False, [])"
| "submit e (None # ts) = (True, Some e # ts)"
| "submit e (Some x # ts) = (let (ok, ts) = submit e ts in (ok, Some x # ts))"

text \<open>The events of the driver. \<open>in_fwup\<close> are the octets of an indication from \<open>fwup_data\<close> to the end of the
  structure, padding included, and \<open>in_rest\<close> the octets of the event behind the structure.\<close>

record TIMINGMSMT_CONFIRM_EVENT_DATA =
  cf_DialogToken :: u32
  cf_T1 :: u64
  cf_T4 :: u64

record TIMINGMSMT_EVENT_DATA =
  in_PeerMACAddress :: octets
  in_DialogToken :: u32
  in_FollowUpDialogToken :: u32
  in_T1 :: u64
  in_T4 :: u64
  in_T2 :: u64
  in_T3 :: u64
  in_Length :: u8
  in_fwup :: octets
  in_rest :: octets

datatype wireless_event =
    TIMINGMSMT_CONFIRM_EVENT TIMINGMSMT_CONFIRM_EVENT_DATA
  | TIMINGMSMT_EVENT TIMINGMSMT_EVENT_DATA
  | TIMINGMSMT_CORRELATEDTIME_EVENT u64 u64

text \<open>The number of octets that are copied from behind the structure, an \<open>int\<close>. The difference to \<open>sizeof\<close> is
  unsigned, with the width of \<open>size_t\<close>.\<close>

definition sizeof_followup :: u64 where
  "sizeof_followup = 75"

definition vendor_extension_copy_length :: "u8 \<Rightarrow> int" where
  "vendor_extension_copy_length len =
     (let n = uint len - 1;
          d = (word_of_int n :: u64) - sizeof_followup
      in sint (ucast ((word_of_int n :: u64) - (if 0 < d then d else 0)) :: u32))"

definition IntelWirelessTimestamperEventHandler ::
  "wireless_event \<Rightarrow> IntelWirelessAdapter \<Rightarrow> (wireless_event option \<times> IntelWirelessAdapter) option" where
  "IntelWirelessTimestamperEventHandler e a =
     (case e of
        TIMINGMSMT_CONFIRM_EVENT c \<Rightarrow>
          let (t1, a) = calc_rollover (cf_T1 c) a; (t4, a) = calc_rollover (cf_T4 c) a
          in Some (Some (TIMINGMSMT_CONFIRM_EVENT (c\<lparr>cf_T1 := t1, cf_T4 := t4\<rparr>)), a)
      | TIMINGMSMT_EVENT d \<Rightarrow>
          let (t2, a) = calc_rollover (in_T2 d div 100) a; (t3, a) = calc_rollover (in_T3 d div 100) a
          in (case get 0 (nat (vendor_extension_copy_length (in_Length d))) (in_rest d) of
                None \<Rightarrow> None
              | Some copied \<Rightarrow> Some (Some (TIMINGMSMT_EVENT (d\<lparr>in_T2 := t2, in_T3 := t3, in_rest := copied\<rparr>)), a))
      | TIMINGMSMT_CORRELATEDTIME_EVENT tsc local \<Rightarrow>
          if 0 < ct_miss a then Some (None, a\<lparr>ct_miss := ct_miss a - 1\<rparr>)
          else let (local, a) = calc_rollover local a
               in Some (Some (TIMINGMSMT_CORRELATEDTIME_EVENT tsc local), a\<lparr>ct_done := True\<rparr>))"

section \<open>The timestamper\<close>

definition scale64 :: "u64 \<Rightarrow> u32 \<Rightarrow> u32 \<Rightarrow> u64" where
  "scale64 i m n =
     (let rem = i mod ucast n; i = i div ucast n; res = i * ucast m; tmp = rem * ucast m; tmp = tmp div ucast n
      in res + tmp)"

record WindowsWirelessTimestamper =
  system_counter :: u64
  wt_system_time :: Timestamp
  wt_device_time :: Timestamp
  tsc_hz :: u64

text \<open>What the timestamper does with an event of the adapter, and the message it hands on.\<close>

definition WirelessTimestamperCallback ::
  "platform \<Rightarrow> nat \<Rightarrow> WirelessDialog \<Rightarrow> wireless_event \<Rightarrow> WindowsWirelessTimestamper \<times> WirelessPort \<times> world \<Rightarrow>
     (PTPMessageFollowUp \<times> Timestamp) option \<times> WindowsWirelessTimestamper \<times> WirelessPort \<times> world" where
  "WirelessTimestamperCallback P i mem e s =
     (let (t, wp, w) = s; tmp1 = WirelessDialog_new mem; tmp2 = WirelessDialog_new mem
      in case e of
           TIMINGMSMT_CONFIRM_EVENT c \<Rightarrow>
             (None, t, timingMeasurementConfirmCB
                (tmp1\<lparr>action_devclk := cf_T1 c, ack_devclk := cf_T4 c, dialog_token := ucast (cf_DialogToken c)\<rparr>) wp, w)
         | TIMINGMSMT_EVENT d \<Rightarrow>
             let prev = tmp1\<lparr>action_devclk := in_T1 d, ack_devclk := in_T4 d, dialog_token := ucast (in_FollowUpDialogToken d)\<rparr>;
                 curr = tmp2\<lparr>action_devclk := in_T2 d, ack_devclk := in_T3 d, dialog_token := ucast (in_DialogToken d)\<rparr>;
                 (call, wp, w) = timeMeasurementIndicationCB P i \<lparr>addr = in_PeerMACAddress d\<rparr> curr prev
                   (in_fwup d @ in_rest d) (uint (in_Length d) - 4) (wp, w)
             in (call, t, wp, w)
         | TIMINGMSMT_CORRELATEDTIME_EVENT tsc local \<Rightarrow>
             let t = t\<lparr>system_counter := scale64 tsc 1000000000 (ucast (tsc_hz t))\<rparr>;
                 t = t\<lparr>wt_system_time := ts_set64 (system_counter t) (wt_system_time t),
                       wt_device_time := ts_set64 (local * 10 * 10) (wt_device_time t)\<rparr>
             in (None, t, wp, w))"

definition to_u32 :: "'a arch_scheme \<Rightarrow> fp \<Rightarrow> u32" where
  "to_u32 A x = word_of_int (fp_to_int (oob A) 0 (2 ^ 32 - 1) x)"

text \<open>\<open>HWTimestamper_gettime\<close>: the cross timestamp that was just refreshed, or an extrapolation of the last one to the
  performance counter \<open>tsc_now\<close> with the rate \<open>lsfo\<close> of the local clock to the system.\<close>

definition wireless_gettime ::
  "'a arch_scheme \<Rightarrow> bool \<Rightarrow> u64 \<Rightarrow> fp \<Rightarrow> WindowsWirelessTimestamper \<Rightarrow> Timestamp \<times> Timestamp \<Rightarrow> Timestamp \<times> Timestamp" where
  "wireless_gettime A refreshed tsc_now lsfo t out =
     (if refreshed then (wt_system_time t, wt_device_time t)
      else
        let F = ld_fmt A;
            hz = fp_div F (fp_of_int F (sint (tsc_hz t))) (fp_of_int F 1000000000);
            device_delta = to_u32 A (fp_div F (fp_of_int F (uint (tsc_now - system_counter t))) hz);
            device_delta = to_u32 A (fp_mul (fr_fmt A) (fp_of_int (fr_fmt A) (uint device_delta)) lsfo)
        in (ts_set64 (to_u64 A (fp_div F (fp_of_int F (sint tsc_now)) hz)) (fst out),
            ts_add (ts_set64 (ucast device_delta) (snd out)) (wt_device_time t)))"

section \<open>The link delay\<close>

lemma half_difference:
  "uint (ucast (((x :: u32) - y) div 2) :: u64) =
     (if uint y \<le> uint x then (uint x - uint y) div 2 else (2 ^ 32 + uint x - uint y) div 2)"
proof -
  have "uint (x - y) = (if uint y \<le> uint x then uint x - uint y else 2 ^ 32 + uint x - uint y)"
    using uint_range_size [of x] uint_range_size [of y]
    by (simp add: uint_sub_if_size word_size)
  then show ?thesis by (simp add: uint_div uint_up_ucast is_up)
qed

text \<open>The round trip and the turn-around time of a dialog in nanoseconds, as the timestamper computes them:
  \<open>previous\<close> has the times of the peer in units of ten nanoseconds, \<open>local\<close> those of this side, already scaled.\<close>

definition round_trip_ns :: "WirelessDialog \<Rightarrow> int" where
  "round_trip_ns previous = 10 * uint (ack_devclk previous - action_devclk previous)"

definition turn_around_ns :: "WirelessDialog \<Rightarrow> int" where
  "turn_around_ns local = uint (ack_devclk local - action_devclk local)"

definition wrapped_delay :: "int \<Rightarrow> int \<Rightarrow> int" where
  "wrapped_delay rt ta = (if ta \<le> rt then (rt - ta) div 2 else (2 ^ 32 + rt - ta) div 2)"

lemma uint_ucast_32: "uint (x :: u64) < 2 ^ 32 \<Longrightarrow> uint (ucast x :: u32) = uint x"
  by (simp add: unsigned_ucast_eq take_bit_eq_mod)

lemma uint_scaled:
  assumes "10 * uint ((x :: u64) - y) < 2 ^ 32"
  shows "uint (x * 10 - y * 10) = 10 * uint (x - y)"
proof -
  have "x * 10 - y * 10 = 10 * (x - y)" by (simp add: algebra_simps)
  then show ?thesis using uint_mult_lem [of "10 :: u64" "x - y"] assms by (simp add: mult.commute)
qed

lemma indication_delay:
  assumes "round_trip_ns previous < 2 ^ 32" and "turn_around_ns local < 2 ^ 32"
  shows "uint (ucast (((ucast (ack_devclk previous * 10 - action_devclk previous * 10) :: u32) -
      ucast (ack_devclk local - action_devclk local)) div 2) :: u64) =
    wrapped_delay (round_trip_ns previous) (turn_around_ns local)"
  using assms
  by (simp add: half_difference uint_ucast_32 uint_scaled round_trip_ns_def turn_around_ns_def wrapped_delay_def)

lemma one_way_delay_setLinkDelay [simp]: "one_way_delay (snd (setLinkDelay d p)) = d"
  by (simp add: setLinkDelay_def Let_def)

text \<open>C17. The link delay that a wireless slave measures from a matching frame is half of the difference between the
  round trip of the peer and the own turn-around time. When the turn-around time is the larger one, as jitter of the clocks can
  make it, the difference wraps at 32 bits, and the delay is not slightly negative but close to \<open>2 ^ 31\<close> nanoseconds.\<close>

theorem wireless_link_delay:
  assumes "timeMeasurementIndicationCB P i remote current previous buf buflen (wp, w) = (Some (f, t), wp', w')"
    and "round_trip_ns previous < 2 ^ 32" and "turn_around_ns (prev_dialog wp) < 2 ^ 32"
  shows "t = d_action (prev_dialog wp) \<and>
    uint (one_way_delay (ports w' i)) = wrapped_delay (round_trip_ns previous) (turn_around_ns (prev_dialog wp))"
  using assms(1) indication_delay [OF assms(2,3)]
  by (auto simp add: timeMeasurementIndicationCB_def Let_def split: prod.splits if_splits)

section \<open>A dialog\<close>

lemma wireless_followup_wf:
  assumes "wf_pi (port_identity (ports w i))"
  shows "wf_msg (wireless_followup P i d w)" "length (fup_organizationId (fup_tlv (wireless_followup P i d w))) = 3"
    "messageType (wireless_followup P i d w) = FOLLOWUP_MESSAGE" "sequenceId (wireless_followup P i d w) = fwup_seq d"
    "preciseOriginTimestamp (wireless_followup P i d w) = d_action d"
  using assms
  by (simp_all add: wireless_followup_def PTPMessageFollowUp_new_def PTPMessageCommon_new_def wf_msg_def wf_pi_def ext_defs
      FollowUpTLV_new_def Let_def PTP_PTPTIMESCALE_def)

text \<open>The message that the master builds is read by a slave with the same sequence number and origin.\<close>

lemma wireless_followup_read:
  assumes "wf_pi (port_identity (ports w i))"
  obtains m frame f where "build_followup (wireless_followup P i d w) = Some (m, frame)" "length frame = 76"
    "\<And>Q j remote v rest. wireless_buildPTPMessage Q j (frame @ rest) 76 remote v = (Inr (MsgFollowUp (f Q rest)), v)"
    "\<And>Q rest. sequenceId (f Q rest) = fwup_seq d" "\<And>Q rest. preciseOriginTimestamp (f Q rest) = wire_ts (d_action d)"
proof -
  let ?m = "wireless_followup P i d w"
  note wf = wireless_followup_wf [OF assms, of P d]
  let ?r = "?m\<lparr>messageLength := 76, fup_tlv := setGMTimeBaseIndicator 0 (fup_tlv ?m), preciseOriginTimestamp := wire_ts (d_action d)\<rparr>"
  obtain m frame where b: "build_followup ?m = Some (m, frame)" "length frame = 76"
    and dec: "\<And>blank rest ts cnt. decodes blank (frame @ rest) 76 ts cnt ?r (MsgFollowUp (received blank (frame @ rest) ts cnt ?r))"
    using followup_delivered [OF wf(1-3)] wf(5) by (auto simp add: delivered_def)
  show ?thesis
  proof (rule that [OF b, of "\<lambda>Q rest. received (msg_mem Q) (frame @ rest) (Timestamp_new 0 0 0) 0 ?r"])
    show "wireless_buildPTPMessage Q j (frame @ rest) 76 remote v =
        (Inr (MsgFollowUp (received (msg_mem Q) (frame @ rest) (Timestamp_new 0 0 0) 0 ?r)), v)" for Q j remote v rest
      using dec [of "msg_mem Q" rest "Timestamp_new 0 0 0" 0] wf(3)
      by (simp add: decodes_def wireless_buildPTPMessage_def buildPTPMessage_def FOLLOWUP_MESSAGE_def Let_def)
  qed (simp_all add: received_def wf)
qed

lemma dialog_token_nonzero: "(ucast ((s :: u16) mod MAX_DIALOG_TOKEN + 1) :: u8) \<noteq> 0"
proof -
  have m: "uint (s mod MAX_DIALOG_TOKEN) = uint s mod 255" by (simp add: MAX_DIALOG_TOKEN_def uint_mod)
  have "uint s mod 255 < 255" by (rule pos_mod_bound) simp
  then have "uint (s mod MAX_DIALOG_TOKEN + 1) = uint s mod 255 + 1"
    using m by (simp add: uint_plus_if_size word_size)
  then have "uint (ucast (s mod MAX_DIALOG_TOKEN + 1) :: u8) = (uint s mod 255 + 1) mod 256"
    by (simp add: unsigned_ucast_eq take_bit_eq_mod)
  moreover have "0 \<le> uint s mod 255" "uint s mod 255 < 255" by (simp_all add: pos_mod_bound)
  ultimately have "uint (ucast (s mod MAX_DIALOG_TOKEN + 1) :: u8) \<noteq> 0" by simp
  then show ?thesis by (metis unsigned_0)
qed

lemma sync_interval_request:
  assumes "wireless_sync_interval P i send mem u (wp, w) = ((r, q), wp', w')"
  shows "tm_DialogToken q \<noteq> 0" "tm_FollowUpDialogToken q = dialog_token (prev_dialog wp)"
    "dialog_token (prev_dialog wp') = tm_DialogToken q" "fwup_seq (prev_dialog wp') = sync_sequence_id (ports w i)"
    "action_devclk (prev_dialog wp') = 0"
  using assms dialog_token_nonzero
  by (auto simp add: wireless_sync_interval_def requestTimingMeasurement_def setPrevDialog_def getNextSyncSequenceId_def crash_def
      Let_def split: if_splits option.splits)

lemma sync_interval_result: "wireless_sync_interval P i send mem u (wp, w) = ((r, q), wp', w') \<Longrightarrow> r"
  by (auto simp add: wireless_sync_interval_def Let_def split: prod.splits)

lemma sync_interval_times:
  assumes "wireless_sync_interval P i send mem u (wp, w) = ((r, q), wp', w')"
  shows "dialog_token (prev_dialog wp) \<noteq> 0 \<Longrightarrow> action_devclk (prev_dialog wp) \<noteq> 0 \<Longrightarrow>
      tm_T1 q = ucast (action_devclk (prev_dialog wp)) \<and> tm_T4 q = ucast (ack_devclk (prev_dialog wp))"
    and "action_devclk (prev_dialog wp) = 0 \<Longrightarrow> tm_T1 q = 0 \<and> tm_T4 q = 0 \<and> tm_Length q = 0"
  using assms
  by (auto simp add: wireless_sync_interval_def requestTimingMeasurement_def setPrevDialog_def Let_def split: prod.splits)

lemma sync_interval_followup:
  assumes "wireless_sync_interval P i send mem u (wp, w) = ((r, q), wp', w')"
    and "dialog_token (prev_dialog wp) \<noteq> 0" and "action_devclk (prev_dialog wp) \<noteq> 0"
    and "build_followup (wireless_followup P i (prev_dialog wp) w) = Some (m, frame)" and "length frame = 76"
  shows "tm_fwup_data q = frame" "uint (tm_Length q) = 80"
  using assms
  by (auto simp add: wireless_sync_interval_def requestTimingMeasurement_def setPrevDialog_def Let_def split: prod.splits)

text \<open>A frame that the driver does not confirm, or confirms with another token, gets no Follow-Up message: the next
  request has no vendor data.\<close>

lemma unconfirmed_request:
  assumes "wireless_sync_interval P i send mem u (wp, w) = ((r, q), wp1, w1)" and "dialog_token d \<noteq> tm_DialogToken q"
    and "wireless_sync_interval P i send mem' u' (timingMeasurementConfirmCB d wp1, w2) = ((r2, q2), wp2, w3)"
  shows "tm_T1 q2 = 0 \<and> tm_T4 q2 = 0 \<and> tm_Length q2 = 0"
proof -
  note q = sync_interval_request [OF assms(1)]
  have "timingMeasurementConfirmCB d wp1 = wp1" using assms(2) q(3) by (simp add: timingMeasurementConfirmCB_def Let_def)
  then show ?thesis using sync_interval_times(2) [OF assms(3)] q(5) by simp
qed

lemma confirmed_dialog:
  assumes "dialog_token d = dialog_token (prev_dialog wp)"
  shows "prev_dialog (timingMeasurementConfirmCB d wp) =
    d\<lparr>d_action := ts_set64 (action_devclk d * 10) (d_action d), fwup_seq := fwup_seq (prev_dialog wp)\<rparr>"
  using assms by (simp add: timingMeasurementConfirmCB_def setPrevDialog_def Let_def)

lemma indicated_dialog:
  assumes "timeMeasurementIndicationCB P i remote c p buf buflen (wp, w) = (call, wp', w')"
  shows "prev_dialog wp' = c\<lparr>action_devclk := action_devclk c * 10, ack_devclk := ack_devclk c * 10,
    d_action := ts_set64 (action_devclk c * 10) (d_action c)\<rparr>"
  using assms by (auto simp add: timeMeasurementIndicationCB_def setPrevDialog_def Let_def split: prod.splits)

lemma indication_without_times:
  "timeMeasurementIndicationCB P i remote c p buf buflen (wp, w) = (call, wp', w') \<Longrightarrow> action_devclk p = 0 \<Longrightarrow> call = None"
  by (auto simp add: timeMeasurementIndicationCB_def Let_def split: prod.splits)

lemma indication_matches:
  assumes "timeMeasurementIndicationCB P i remote c p buf buflen (wp, w) = (call, wp', w')"
    and "wireless_buildPTPMessage P i buf buflen remote w = (Inr (MsgFollowUp f), w)"
    and "dialog_token p = dialog_token (prev_dialog wp)" and "action_devclk p \<noteq> 0"
    and "round_trip_ns p < 2 ^ 32" and "turn_around_ns (prev_dialog wp) < 2 ^ 32"
  shows "call = Some (f, d_action (prev_dialog wp))"
    "uint (one_way_delay (ports w' i)) = wrapped_delay (round_trip_ns p) (turn_around_ns (prev_dialog wp))"
  using assms(1-4) indication_delay [OF assms(5,6)]
  by (auto simp add: timeMeasurementIndicationCB_def Let_def)

text \<open>C13. The two ends of a wireless link agree on a dialog. The master requests a frame, the driver confirms it with the times
  of its departure and acknowledgement, and the master requests the next frame; the slave receives both. The slave
  then hands on a Follow-Up message that has the sequence number of the first Sync, the departure time of the first frame as its
  origin and the arrival time of the first frame as the time of the Sync, and it has measured the link delay from the four times.\<close>

theorem wireless_dialog:
  assumes "wireless_sync_interval P i send mem u (wp, w) = ((r1, q1), wp1, w1)"
    and "dialog_token d = tm_DialogToken q1" and "(ucast (action_devclk d) :: u32) \<noteq> 0"
    and "wireless_sync_interval P i send mem' u' (timingMeasurementConfirmCB d wp1, w2) = ((r2, q2), wp3, w3)"
    and "wf_pi (port_identity (ports w2 i))"
    and "timeMeasurementIndicationCB Q j remote c1 p1 buf len (vp, v) = (x, vp1, v1)" and "dialog_token c1 = tm_DialogToken q1"
    and "timeMeasurementIndicationCB Q j remote c2 p2 (tm_fwup_data q2 @ rest) (uint (tm_Length q2) - 4) (vp1, v2) = (call, vp2, v3)"
    and "dialog_token p2 = tm_FollowUpDialogToken q2" and "action_devclk p2 = ucast (tm_T1 q2)" and "ack_devclk p2 = ucast (tm_T4 q2)"
    and "round_trip_ns p2 < 2 ^ 32" and "round_trip_ns c1 < 2 ^ 32"
  shows "\<exists>f. call = Some (f, ts_set64 (action_devclk c1 * 10) (d_action c1)) \<and>
    sequenceId f = sync_sequence_id (ports w i) \<and>
    preciseOriginTimestamp f = wire_ts (ts_set64 (action_devclk d * 10) (d_action d)) \<and>
    uint (one_way_delay (ports v3 j)) = wrapped_delay (round_trip_ns p2) (round_trip_ns c1)"
proof -
  note q1 = sync_interval_request [OF assms(1)] and q2 = sync_interval_request [OF assms(4)]
  note v = indicated_dialog [OF assms(6)]
  let ?m = "prev_dialog (timingMeasurementConfirmCB d wp1)"
  have m: "?m = d\<lparr>d_action := ts_set64 (action_devclk d * 10) (d_action d), fwup_seq := sync_sequence_id (ports w i)\<rparr>"
    using confirmed_dialog [of d wp1] assms(2) q1 by simp
  have t1: "action_devclk d \<noteq> 0" using assms(3) by auto
  obtain mm frame f where f: "build_followup (wireless_followup P i ?m w2) = Some (mm, frame)" "length frame = 76"
    "\<And>Q j remote v rest. wireless_buildPTPMessage Q j (frame @ rest) 76 remote v = (Inr (MsgFollowUp (f Q rest)), v)"
    "\<And>Q rest. sequenceId (f Q rest) = fwup_seq ?m" "\<And>Q rest. preciseOriginTimestamp (f Q rest) = wire_ts (d_action ?m)"
    using wireless_followup_read [OF assms(5)] by blast
  have q2': "tm_fwup_data q2 = frame" "uint (tm_Length q2) = 80" "tm_T1 q2 = ucast (action_devclk d)"
    using sync_interval_followup [OF assms(4) _ _ f(1,2)] sync_interval_times(1) [OF assms(4)] m q1(1) t1 assms(2) by simp_all
  have ta: "turn_around_ns (prev_dialog vp1) = round_trip_ns c1"
    using v uint_scaled assms(13) by (simp add: turn_around_ns_def round_trip_ns_def)
  have p2: "action_devclk p2 \<noteq> 0"
    using assms(3,10) q2'(3) uint_up_ucast [where 'b = 64, of "tm_T1 q2"] by (simp add: is_up unsigned_eq_0_iff [symmetric, where 'a = int])
  have "call = Some (f Q rest, d_action (prev_dialog vp1)) \<and>
      uint (one_way_delay (ports v3 j)) = wrapped_delay (round_trip_ns p2) (turn_around_ns (prev_dialog vp1))"
    using indication_matches [OF assms(8), of "f Q rest"] f(3) q2' v p2 ta assms(2,7,9,12,13) q2 m by simp
  then show ?thesis using f(4,5) m v ta by auto
qed

section \<open>The extended counter\<close>

text \<open>The reference: the counter as an integer without bounds. A reading is trusted when it is less than a
  quarter of the range away from the last one; a reading from before a rollover that has been seen does not
  become the last one.\<close>

abbreviation gp2_range :: int where
  "gp2_range \<equiv> 4294967296"

fun tracked :: "int \<Rightarrow> int list \<Rightarrow> bool" where
  "tracked l [] \<longleftrightarrow> True"
| "tracked l (c # cs) \<longleftrightarrow> \<bar>c - l\<bar> < gp2_range div 4 \<and> tracked (if c div gp2_range < l div gp2_range then l else c) cs"

fun calc_rollovers :: "u64 list \<Rightarrow> IntelWirelessAdapter \<Rightarrow> u64 list" where
  "calc_rollovers [] a = []"
| "calc_rollovers (x # xs) a = (let (y, a) = calc_rollover x a in y # calc_rollovers xs a)"

text \<open>The adapter represents the last reading \<open>l\<close> when the first one was in the period \<open>e\<close>.\<close>

definition represents :: "int \<Rightarrow> int \<Rightarrow> IntelWirelessAdapter \<Rightarrow> bool" where
  "represents e l a \<longleftrightarrow> uint (gp2_last a) = l mod gp2_range \<and> 0 \<le> l div gp2_range - e \<and> uint (gp2_ext a) = l div gp2_range - e"

lemma masked_reading: "uint ((word_of_int c :: u64) AND 0xFFFFFFFF) = c mod gp2_range"
proof -
  have "(word_of_int c :: u64) AND 0xFFFFFFFF = take_bit 32 (word_of_int c)"
    by (simp add: take_bit_eq_mask mask_eq_exp_minus_1)
  then show ?thesis
    by (simp add: take_bit_eq_mod uint_mod uint_word_of_int mod_mod_cancel)
qed

lemma period_quotients:
  fixes qc rc ql rl :: int
  assumes "\<bar>(qc * gp2_range + rc) - (ql * gp2_range + rl)\<bar> < gp2_range div 4" and "0 \<le> rc" "rc < gp2_range" "0 \<le> rl" "rl < gp2_range"
  shows "qc = ql + 1 \<or> qc = ql \<or> qc = ql - 1"
    and "rc < gp2_range div 4 \<and> gp2_range * 3 div 4 < rl \<longleftrightarrow> qc = ql + 1" and "rl < gp2_range div 4 \<and> gp2_range * 3 div 4 < rc \<longleftrightarrow> qc = ql - 1"
proof -
  have b: "qc * gp2_range + rc - (ql * gp2_range + rl) < 1073741824" "ql * gp2_range + rl - (qc * gp2_range + rc) < 1073741824"
    using assms(1) by (simp_all add: abs_less_iff)
  show d: "qc = ql + 1 \<or> qc = ql \<or> qc = ql - 1" using b assms(2-5) by linarith
  then show "rc < gp2_range div 4 \<and> gp2_range * 3 div 4 < rl \<longleftrightarrow> qc = ql + 1" and "rl < gp2_range div 4 \<and> gp2_range * 3 div 4 < rc \<longleftrightarrow> qc = ql - 1"
    using b assms(2-5) by (elim disjE; simp; linarith)+
qed

lemma period_cases:
  assumes "\<bar>c - l\<bar> < gp2_range div 4"
  shows "c div gp2_range = l div gp2_range + 1 \<or> c div gp2_range = l div gp2_range \<or> c div gp2_range = l div gp2_range - 1"
    and "c mod gp2_range < gp2_range div 4 \<and> gp2_range * 3 div 4 < l mod gp2_range \<longleftrightarrow> c div gp2_range = l div gp2_range + 1"
    and "l mod gp2_range < gp2_range div 4 \<and> gp2_range * 3 div 4 < c mod gp2_range \<longleftrightarrow> c div gp2_range = l div gp2_range - 1"
  using period_quotients [of "c div gp2_range" "c mod gp2_range" "l div gp2_range" "l mod gp2_range"] assms by simp_all

definition extended :: "int \<Rightarrow> int \<Rightarrow> u64" where
  "extended e c = word_of_int (c - gp2_range * e)"

lemma extended_parts: "k = c div gp2_range - e \<Longrightarrow> word_of_int (c mod gp2_range) + word_of_int k * word_of_int gp2_range = extended e c"
proof -
  assume k: "k = c div gp2_range - e"
  have "c mod gp2_range + (c div gp2_range - e) * gp2_range = c - gp2_range * e" by (simp add: algebra_simps minus_div_mult_eq_mod [symmetric])
  then show ?thesis unfolding extended_def k by (simp only: wi_hom_mult wi_hom_add)
qed

lemma calc_rollover_split:
  assumes "gp2_last a \<noteq> - 1" and "x AND 0xFFFFFFFF = g"
    and "forward \<longleftrightarrow> g < GP2_ROLLOVER div 4 \<and> GP2_ROLLOVER * 3 div 4 < gp2_last a"
    and "back \<longleftrightarrow> gp2_last a < GP2_ROLLOVER div 4 \<and> GP2_ROLLOVER * 3 div 4 < g"
  shows "calc_rollover x a =
    (let ext = (if forward then gp2_ext a + 1 else gp2_ext a)
     in if back then (g + (ucast ext - 1) * GP2_ROLLOVER, a\<lparr>gp2_ext := ext\<rparr>)
        else (g + ucast ext * GP2_ROLLOVER, a\<lparr>gp2_ext := ext, gp2_last := g\<rparr>))"
  using assms(1) unfolding assms(3,4) by (simp add: calc_rollover_def assms(2) Let_def)

lemma rollover_step:
  assumes "represents e l a" and "\<bar>c - l\<bar> < gp2_range div 4" and "c div gp2_range - e < 2 ^ 32"
  shows "\<exists>a'. calc_rollover (word_of_int c) a = (extended e c, a') \<and>
    represents e (if c div gp2_range < l div gp2_range then l else c) a'"
proof -
  let ?g = "(word_of_int c :: u64) AND 0xFFFFFFFF"
  note r = assms(1) [unfolded represents_def]
  have g: "?g = word_of_int (c mod gp2_range)" by (metis masked_reading word_of_int_uint)
  have "gp2_last a \<noteq> - 1"
  proof
    assume "gp2_last a = - 1"
    then have "l mod gp2_range = 2 ^ 64 - 1" using r by (simp add: unsigned_minus_1_eq_mask mask_eq_exp_minus_1)
    then show False using pos_mod_bound [of gp2_range l] by simp
  qed
  moreover have "c div gp2_range = l div gp2_range + 1 \<longleftrightarrow> ?g < GP2_ROLLOVER div 4 \<and> GP2_ROLLOVER * 3 div 4 < gp2_last a"
    "c div gp2_range = l div gp2_range - 1 \<longleftrightarrow> gp2_last a < GP2_ROLLOVER div 4 \<and> GP2_ROLLOVER * 3 div 4 < ?g"
    using period_cases(2,3) [OF assms(2)] masked_reading [of c] r by (simp_all add: word_less_def GP2_ROLLOVER_def)
  ultimately have step: "calc_rollover (word_of_int c) a =
      (let ext = (if c div gp2_range = l div gp2_range + 1 then gp2_ext a + 1 else gp2_ext a)
       in if c div gp2_range = l div gp2_range - 1 then (?g + (ucast ext - 1) * GP2_ROLLOVER, a\<lparr>gp2_ext := ext\<rparr>)
          else (?g + ucast ext * GP2_ROLLOVER, a\<lparr>gp2_ext := ext, gp2_last := ?g\<rparr>))"
    by (intro calc_rollover_split refl)
  have sum: "?g + x * GP2_ROLLOVER = extended e c" if "x = word_of_int (c div gp2_range - e)" for x
    using extended_parts [OF refl, of c e] that g by (simp add: GP2_ROLLOVER_def)
  consider "c div gp2_range = l div gp2_range + 1" | "c div gp2_range = l div gp2_range" | "c div gp2_range = l div gp2_range - 1" using period_cases(1) [OF assms(2)] by blast
  then show ?thesis
  proof cases
    case 1
    then have ext: "uint (gp2_ext a + 1) = c div gp2_range - e" using r assms(3) by (simp add: uint_plus_if_size word_size)
    then have "(ucast (gp2_ext a + 1) :: u64) = word_of_int (c div gp2_range - e)" unfolding ucast_eq by (rule arg_cong)
    with step 1 sum [OF this] have "calc_rollover (word_of_int c) a = (extended e c, a\<lparr>gp2_ext := gp2_ext a + 1, gp2_last := ?g\<rparr>)"
      by (simp add: Let_def)
    then show ?thesis using 1 r ext masked_reading [of c] by (simp add: represents_def)
  next
    case 2
    then have "(ucast (gp2_ext a) :: u64) = word_of_int (c div gp2_range - e)" using r unfolding ucast_eq by simp
    with step 2 sum [OF this] have "calc_rollover (word_of_int c) a = (extended e c, a\<lparr>gp2_last := ?g\<rparr>)" by simp
    then show ?thesis using 2 r masked_reading [of c] by (simp add: represents_def)
  next
    case 3
    then have "(ucast (gp2_ext a) - 1 :: u64) = word_of_int (c div gp2_range - e)" using r unfolding ucast_eq by simp
    with step 3 sum [OF this] have "calc_rollover (word_of_int c) a = (extended e c, a)" by simp
    then show ?thesis using 3 r by (simp add: represents_def)
  qed
qed

lemma first_reading: "(word_of_int c :: u64) AND 0xFFFFFFFF = extended (c div gp2_range) c"
proof -
  have "c - gp2_range * (c div gp2_range) = c mod gp2_range" by (rule minus_mult_div_eq_mod)
  then show ?thesis unfolding extended_def by (metis masked_reading word_of_int_uint)
qed

text \<open>C14. The extension of the counter is exact: for every sequence of readings that are less than a quarter of
  the range apart, in any order across the rollover, the results are the readings of an unbounded counter that
  starts in the period of the first reading, until the 32 bit count of rollovers is exhausted.\<close>

theorem calc_rollover_exact:
  assumes "tracked c cs" and "\<forall>x \<in> set cs. x div gp2_range - c div gp2_range < 2 ^ 32"
  shows "calc_rollovers (map word_of_int (c # cs)) (IntelWirelessAdapter_new mem) =
    map (extended (c div gp2_range)) (c # cs)"
proof -
  have "calc_rollovers (map word_of_int xs) a = map (extended e) xs"
    if "tracked l xs" "represents e l a" "\<forall>x \<in> set xs. x div gp2_range - e < 2 ^ 32" for e l xs a
    using that
  proof (induction xs arbitrary: l a)
    case (Cons x xs)
    then obtain a' where "calc_rollover (word_of_int x) a = (extended e x, a')"
      "represents e (if x div gp2_range < l div gp2_range then l else x) a'"
      using rollover_step [of e l a x] by auto
    with Cons.IH [OF _ this(2)] Cons.prems show ?case by simp
  qed simp
  moreover obtain a where "calc_rollover (word_of_int c) (IntelWirelessAdapter_new mem) = (extended (c div gp2_range) c, a)"
    "represents (c div gp2_range) c a"
    using masked_reading [of c] first_reading [of c]
    by (simp add: calc_rollover_def IntelWirelessAdapter_new_def represents_def Let_def)
  ultimately show ?thesis using assms by simp
qed

section \<open>The driver\<close>

text \<open>The number of octets copied from an indication does not depend on its length field, since an unsigned difference is
  positive unless it is zero. An indication with less than 75 octets behind its structure is read out of bounds.\<close>

lemma copy_length_constant: "vendor_extension_copy_length len = 75"
proof -
  let ?n = "word_of_int (uint len - 1) :: u64"
  have "?n - (if 0 < ?n - sizeof_followup then ?n - sizeof_followup else 0) = 75"
    by (auto simp add: sizeof_followup_def word_gt_0)
  then have "vendor_extension_copy_length len = sint (ucast (75 :: u64) :: u32)"
    unfolding vendor_extension_copy_length_def Let_def by (rule arg_cong)
  then show ?thesis by simp
qed

lemma indication_overread:
  "IntelWirelessTimestamperEventHandler (TIMINGMSMT_EVENT d) a = None \<longleftrightarrow> length (in_rest d) < 75"
  by (simp add: IntelWirelessTimestamperEventHandler_def copy_length_constant get_def Let_def split_beta)

lemma div_mult_split: "0 < n \<Longrightarrow> (q * n + r) * m div n = q * m + r * m div (n :: int)"
proof -
  assume "0 < n"
  moreover have "(q * n + r) * m = r * m + q * m * n" by (simp add: algebra_simps)
  ultimately show ?thesis by simp
qed

text \<open>\<open>scale64\<close> multiplies before it divides without an overflow of the product: it is exact whenever the result
  has 64 bits.\<close>

text \<open>The extrapolation subtracts nanoseconds from ticks: at the very tick of the last cross timestamp, 100 seconds after the
  start of a counter of 10 MHz, it finds an elapsed time of almost \<open>2 ^ 64\<close> ticks.\<close>

lemma extrapolation_units: "(1000000000 :: u64) - scale64 1000000000 1000000000 10000000 = - 99000000000"
  by code_simp

lemma scale64_exact:
  assumes "0 < n" and "uint i * uint m div uint n < 2 ^ 64"
  shows "uint (scale64 i m n) = uint i * uint m div uint n"
proof -
  let ?i = "uint i" and ?m = "uint m" and ?n = "uint n"
  have n: "0 < ?n" "?n < 2 ^ 32" "0 \<le> ?m" "?m < 2 ^ 32"
    using assms(1) uint_range_size [of n] uint_range_size [of m] by (simp_all add: word_less_def word_size)
  have up: "uint (ucast m :: u64) = ?m" "uint (ucast n :: u64) = ?n" by (simp_all add: uint_up_ucast is_up)
  have split: "?i * ?m div ?n = ?i div ?n * ?m + ?i mod ?n * ?m div ?n"
    using div_mult_split [OF n(1), of "?i div ?n" "?i mod ?n" ?m] by (simp only: div_mult_mod_eq)
  have "?i mod ?n * ?m < 2 ^ 32 * 2 ^ 32"
    using n pos_mod_bound [OF n(1), of ?i] pos_mod_sign [OF n(1), of ?i] by (intro mult_strict_mono') simp_all
  then have "uint ((i mod ucast n) * ucast m) = ?i mod ?n * ?m"
    using uint_mult_lem [of "i mod ucast n" "ucast m :: u64"] by (simp add: uint_mod up)
  moreover have "0 \<le> ?i mod ?n * ?m div ?n" using n by (simp add: pos_imp_zdiv_nonneg_iff)
  moreover from this have "uint ((i div ucast n) * ucast m) = ?i div ?n * ?m"
    using uint_mult_lem [of "i div ucast n" "ucast m :: u64"] split assms(2) by (simp add: uint_div up)
  ultimately show ?thesis
    using split assms(2) uint_add_lem [of "i div ucast n * ucast m" "i mod ucast n * ucast m div ucast n"]
    by (simp add: scale64_def Let_def uint_div up)
qed

text \<open>An event is taken over by exactly one idle thread, and lost when all threads are busy.\<close>

lemma submit_idle: "fst (submit e ts) \<longleftrightarrow> None \<in> set ts"
  by (induction e ts rule: submit.induct) (auto simp add: split_beta Let_def)

lemma submit_tasks:
  "mset (filter (\<lambda>t. t \<noteq> None) (snd (submit e ts))) =
     (if None \<in> set ts then {#Some e#} else {#}) + mset (filter (\<lambda>t. t \<noteq> None) ts)"
  by (induction e ts rule: submit.induct) (auto simp add: split_beta Let_def)

section \<open>Witnesses\<close>

definition sample_dialog :: "u8 \<Rightarrow> u64 \<Rightarrow> u64 \<Rightarrow> WirelessDialog" where
  "sample_dialog token t t' =
     \<lparr>d_action = Timestamp_default, action_devclk = t, d_ack = Timestamp_default, ack_devclk = t', dialog_token = token, fwup_seq = 0\<rparr>"

definition sample_wireless_port :: "WirelessDialog \<Rightarrow> WirelessPort" where
  "sample_wireless_port d = \<lparr>peer_addr = \<lparr>addr = [0, 0x1B, 0x21, 4, 5, 6]\<rparr>, prev_dialog = d\<rparr>"

definition sample_adapter :: IntelWirelessAdapter where
  "sample_adapter = \<lparr>ct_done = False, ct_miss = 0, gp2_last = 0, gp2_ext = 0\<rparr>"

lemma sample_port_identity_wf: "wf_pi (port_identity sample_port)"
  by (simp add: sample_port_def wf_pi_def wf_cid_def PTP_CLOCK_IDENTITY_LENGTH_def)

text \<open>A round trip of 1000 ns and a turn-around time of 1010 ns.\<close>

theorem wireless_link_delay_witness:
  "\<exists>frame f t wp' w'. timeMeasurementIndicationCB sample_platform 0 \<lparr>addr = [0, 0x1B, 0x21, 4, 5, 6]\<rparr> (sample_dialog 6 400 500)
      (sample_dialog 5 100 200) frame 76 (sample_wireless_port (sample_dialog 5 0 1010), sample_world) = (Some (f, t), wp', w') \<and>
    uint (one_way_delay (ports w' 0)) = 2147483643"
proof -
  have "wf_pi (port_identity (ports sample_world 0))" by (simp add: sample_port_identity_wf)
  note read = wireless_followup_read [OF this, of sample_platform "sample_dialog 5 0 0"]
  obtain frame f where b: "\<And>Q j remote v rest. wireless_buildPTPMessage Q j (frame @ rest) 76 remote v = (Inr (MsgFollowUp (f Q rest)), v)"
    by (rule read, rule that)
  obtain call wp' w' where i: "timeMeasurementIndicationCB sample_platform 0 \<lparr>addr = [0, 0x1B, 0x21, 4, 5, 6]\<rparr> (sample_dialog 6 400 500)
      (sample_dialog 5 100 200) (frame @ []) 76 (sample_wireless_port (sample_dialog 5 0 1010), sample_world) = (call, wp', w')"
    by (metis prod.exhaust)
  have "call = Some (f sample_platform [], d_action (prev_dialog (sample_wireless_port (sample_dialog 5 0 1010))))"
    by (rule indication_matches(1) [OF i b])
      (simp_all add: sample_dialog_def sample_wireless_port_def round_trip_ns_def turn_around_ns_def)
  note i' = i [unfolded this]
  have "uint (one_way_delay (ports w' 0)) = 2147483643"
    using wireless_link_delay [OF i']
    by (simp add: sample_dialog_def sample_wireless_port_def round_trip_ns_def turn_around_ns_def wrapped_delay_def)
  with i' show ?thesis by blast
qed

text \<open>A round trip of 1000 ns and a turn-around time of 400 ns.\<close>

theorem wireless_dialog_witness:
  "\<exists>q1 wp1 w1 q2 wp2 w2 vp1 v1 f t vp2 v2.
     wireless_sync_interval sample_platform 0 (\<lambda>_. net_succeed) (sample_dialog 0 0 0) 0
       (sample_wireless_port (sample_dialog 0 0 0), sample_world) = ((True, q1), wp1, w1) \<and>
     wireless_sync_interval sample_platform 0 (\<lambda>_. net_succeed) (sample_dialog 0 0 0) 0
       (timingMeasurementConfirmCB (sample_dialog (tm_DialogToken q1) 100 200) wp1, sample_world) = ((True, q2), wp2, w2) \<and>
     timeMeasurementIndicationCB sample_platform 0 (peer_addr wp1) (sample_dialog (tm_DialogToken q1) 5000 5040) (sample_dialog 0 0 0) [] 0
       (sample_wireless_port (sample_dialog 0 0 0), sample_world) = (None, vp1, v1) \<and>
     timeMeasurementIndicationCB sample_platform 0 (peer_addr wp1) (sample_dialog (tm_DialogToken q2) 9000 9040)
       (sample_dialog (tm_FollowUpDialogToken q2) (ucast (tm_T1 q2)) (ucast (tm_T4 q2))) (tm_fwup_data q2) (uint (tm_Length q2) - 4)
       (vp1, sample_world) = (Some (f, t), vp2, v2) \<and>
     sequenceId f = 0 \<and> TIMESTAMP_TO_NS (preciseOriginTimestamp f) = 1000 \<and> TIMESTAMP_TO_NS t = 50000 \<and> one_way_delay (ports v2 0) = 300"
proof -
  let ?z = "sample_dialog 0 0 0" and ?wp = "sample_wireless_port (sample_dialog 0 0 0)"
  let ?next = "wireless_sync_interval sample_platform 0 (\<lambda>_. net_succeed) ?z 0" and ?cb = "timeMeasurementIndicationCB sample_platform 0"
  obtain r1 q1 wp1 w1 where 1: "?next (?wp, sample_world) = ((r1, q1), wp1, w1)" by (metis surj_pair)
  let ?d = "sample_dialog (tm_DialogToken q1) 100 200" and ?c1 = "sample_dialog (tm_DialogToken q1) 5000 5040"
  obtain r2 q2 wp2 w2 where 2: "?next (timingMeasurementConfirmCB ?d wp1, sample_world) = ((r2, q2), wp2, w2)" by (metis surj_pair)
  obtain x vp1 v1 where 3: "?cb (peer_addr wp1) ?c1 ?z [] 0 (?wp, sample_world) = (x, vp1, v1)" by (metis prod.exhaust)
  let ?p2 = "sample_dialog (tm_FollowUpDialogToken q2) (ucast (tm_T1 q2)) (ucast (tm_T4 q2))"
  obtain call vp2 v2 where 4: "?cb (peer_addr wp1) (sample_dialog (tm_DialogToken q2) 9000 9040) ?p2 (tm_fwup_data q2 @ [])
      (uint (tm_Length q2) - 4) (vp1, sample_world) = (call, vp2, v2)" by (metis prod.exhaust)
  have r: "r1" "r2" "x = None"
    using sync_interval_result [OF 1] sync_interval_result [OF 2] indication_without_times [OF 3] by (simp_all add: sample_dialog_def)
  note q1 = sync_interval_request [OF 1]
  have t: "tm_T1 q2 = 100" "tm_T4 q2 = 200"
    using sync_interval_times(1) [OF 2] confirmed_dialog [of ?d wp1] q1 by (simp_all add: sample_dialog_def)
  have "\<exists>f. call = Some (f, ts_set64 (action_devclk ?c1 * 10) (d_action ?c1)) \<and> sequenceId f = sync_sequence_id (ports sample_world 0) \<and>
      preciseOriginTimestamp f = wire_ts (ts_set64 (action_devclk ?d * 10) (d_action ?d)) \<and>
      uint (one_way_delay (ports v2 0)) = wrapped_delay (round_trip_ns ?p2) (round_trip_ns ?c1)"
    by (rule wireless_dialog [OF 1 _ _ 2 _ 3 _ 4]) (use t sample_port_identity_wf in \<open>simp_all add: sample_dialog_def round_trip_ns_def\<close>)
  then obtain f where f: "call = Some (f, ts_set64 50000 Timestamp_default)" "sequenceId f = 0"
      "preciseOriginTimestamp f = wire_ts (ts_set64 1000 Timestamp_default)" "uint (one_way_delay (ports v2 0)) = uint (300 :: u64)"
    using t by (auto simp add: sample_dialog_def sample_port_def round_trip_ns_def wrapped_delay_def)
  have "TIMESTAMP_TO_NS (wire_ts (ts_set64 1000 Timestamp_default)) = 1000" "TIMESTAMP_TO_NS (ts_set64 50000 Timestamp_default) = 50000"
    by code_simp+
  with f have "sequenceId f = 0 \<and> TIMESTAMP_TO_NS (preciseOriginTimestamp f) = 1000 \<and>
      TIMESTAMP_TO_NS (ts_set64 50000 Timestamp_default) = 50000 \<and> one_way_delay (ports v2 0) = 300"
    by (simp only: word_uint_eq_iff)
  note this [THEN conjunct1] this [THEN conjunct2, THEN conjunct1] this [THEN conjunct2, THEN conjunct2, THEN conjunct1]
    this [THEN conjunct2, THEN conjunct2, THEN conjunct2]
  moreover have "r1 = True" "r2 = True" using r by simp_all
  note 1 [unfolded this] 2 [unfolded this] 3 [unfolded r(3)] 4 [unfolded f(1) append_Nil2]
  ultimately show ?thesis by (intro exI conjI)
qed

theorem calc_rollover_exact_witness:
  "calc_rollovers (map word_of_int [4294967290, 4294967300, 4294967294, 4294967310]) (IntelWirelessAdapter_new sample_adapter) =
     [4294967290, 4294967300, 4294967294, 4294967310]"
  using calc_rollover_exact [of 4294967290 "[4294967300, 4294967294, 4294967310]" sample_adapter] by (simp add: extended_def)

end
