(* ===== verification/Windows_Clock.thy ===== *)
theory Windows_Clock
  imports Ptp_Process Linux_Timestamper
begin

text \<open>
  Time on the Windows platform (\<open>windows/daemon_cl/\<close>): conversions of file times and performance counters and the cross timestamps
  of \<open>windows_crosststamp.cpp\<close> and \<open>windows_crosststamp_simple.cpp\<close>. What the system calls read is an argument, and a
  \<open>LARGE_INTEGER\<close> is the word of its bits. Pointers to results are those of the caller's variables; null ones, which no
  caller passes, are left out.
  The main results: file times are restored from their nanoseconds; an instance that is initialised never fails and
  never faults; its device time is exact as long as the product of the counter and \<open>10 ^ 9\<close> fits in 64 bits, and
  only then; time alone never triggers a new calibration.
\<close>

section \<open>Conversions\<close>

record FILETIME =
  dwLowDateTime :: u32
  dwHighDateTime :: u32

definition WINDOWS_TO_UNIX_EPOCH_OFFSET :: u64 where
  "WINDOWS_TO_UNIX_EPOCH_OFFSET = 116444736000000000"

definition fileTimeToUnixNs :: "FILETIME \<Rightarrow> u64" where
  "fileTimeToUnixNs ft =
     (let windows_time = push_bit 32 (ucast (dwHighDateTime ft)) OR ucast (dwLowDateTime ft);
          unix_time_100ns = windows_time - WINDOWS_TO_UNIX_EPOCH_OFFSET
      in unix_time_100ns * 100)"

definition unixNsToFileTime :: "u64 \<Rightarrow> FILETIME" where
  "unixNsToFileTime unix_ns =
     (let windows_time = unix_ns div 100 + WINDOWS_TO_UNIX_EPOCH_OFFSET
      in \<lparr>dwLowDateTime = ucast (windows_time AND 0xFFFFFFFF), dwHighDateTime = ucast (drop_bit 32 windows_time)\<rparr>)"

definition fileTimeToTimestamp :: "FILETIME \<Rightarrow> Timestamp" where
  "fileTimeToTimestamp ft = ts_set64 (fileTimeToUnixNs ft) Timestamp_default"

definition performanceCounterToNanoseconds :: "u64 \<Rightarrow> u64 \<Rightarrow> u64" where
  "performanceCounterToNanoseconds frequency counter = (counter * 1000000000) div frequency"

section \<open>Cross timestamps\<close>

datatype TimestampMethod = UNKNOWN | QPC_SYSTEM_TIME | RDTSC_SYSTEM_TIME | HARDWARE_ASSISTED | FALLBACK_CORRELATION

text \<open>The members of the class that the code reads or writes; \<open>last_update\<close> is the static variable of
  \<open>updateCorrelation\<close>, which \<open>cleanup\<close> does not reset.\<close>

record WindowsCrossTimestamp =
  m_initialized :: bool
  m_interface_label :: string
  m_method :: TimestampMethod
  m_qpc_frequency :: u64
  m_rdtsc_frequency :: u64
  last_qpc :: u64
  last_systime :: FILETIME
  calibration_count :: u32
  last_calibration :: u64
  m_quality :: u32
  m_estimated_error_ns :: u64
  m_hw_available :: bool
  successful_timestamps :: u64
  failed_timestamps :: u64
  last_update :: u64

definition WindowsCrossTimestamp_new :: WindowsCrossTimestamp where
  "WindowsCrossTimestamp_new =
     \<lparr>m_initialized = False, m_interface_label = [], m_method = UNKNOWN, m_qpc_frequency = 0, m_rdtsc_frequency = 0,
      last_qpc = 0, last_systime = \<lparr>dwLowDateTime = 0, dwHighDateTime = 0\<rparr>, calibration_count = 0, last_calibration = 0,
      m_quality = 0, m_estimated_error_ns = 0, m_hw_available = False, successful_timestamps = 0, failed_timestamps = 0,
      last_update = 0\<rparr>"

text \<open>What one call reads: the counter before and after the system time, the system time (\<open>rd_precise\<close> is
  \<open>None\<close> where \<open>GetSystemTimePreciseAsFileTime\<close> is missing) and the pairs of a calibration.\<close>

record clock_reads =
  rd_before :: u64
  rd_after :: u64
  rd_precise :: "FILETIME option"
  rd_standard :: FILETIME
  rd_samples :: "nat \<Rightarrow> u64 \<times> FILETIME"

definition rd_systime :: "clock_reads \<Rightarrow> FILETIME" where
  "rd_systime r = (case rd_precise r of Some ft \<Rightarrow> ft | None \<Rightarrow> rd_standard r)"

definition getHighPrecisionSystemTime :: "clock_reads \<Rightarrow> u64" where
  "getHighPrecisionSystemTime r = fileTimeToUnixNs (rd_systime r)"

definition calibrate_sample :: "u64 \<times> FILETIME \<Rightarrow> WindowsCrossTimestamp \<Rightarrow> WindowsCrossTimestamp" where
  "calibrate_sample s c = c\<lparr>last_qpc := fst s, last_systime := snd s, calibration_count := calibration_count c + 1\<rparr>"

definition num_samples :: nat where
  "num_samples = 10"

definition calibrateCorrelation :: "(nat \<Rightarrow> u64 \<times> FILETIME) \<Rightarrow> WindowsCrossTimestamp \<Rightarrow> WindowsCrossTimestamp" where
  "calibrateCorrelation samples c =
     (let c = fold (\<lambda>i. calibrate_sample (samples i)) [0..<num_samples] c
      in c\<lparr>last_calibration := last_qpc c\<rparr>)"

definition updateCorrelation :: "(nat \<Rightarrow> u64 \<times> FILETIME) \<Rightarrow> WindowsCrossTimestamp \<Rightarrow> WindowsCrossTimestamp" where
  "updateCorrelation samples c =
     (let current_time = last_qpc c
      in if successful_timestamps c mod 1000 = 0 \<or> 10 * m_qpc_frequency c < current_time - last_update c
         then (calibrateCorrelation samples c)\<lparr>last_update := current_time\<rparr>
         else c)"

definition cross_cleanup :: "WindowsCrossTimestamp \<Rightarrow> WindowsCrossTimestamp" where
  "cross_cleanup c =
     (if m_initialized c
      then c\<lparr>last_qpc := 0, last_systime := \<lparr>dwLowDateTime = 0, dwHighDateTime = 0\<rparr>, calibration_count := 0,
             last_calibration := 0, successful_timestamps := 0, failed_timestamps := 0, m_initialized := False,
             m_method := UNKNOWN\<rparr>
      else c)"

text \<open>The frequency of the time stamp counter is measured against the performance counter. A quotient by zero
  faults: \<open>None\<close>.\<close>

record rdtsc_reads =
  cpuid_edx :: u32
  rf_qpc_freq :: u64
  rf_qpc_start :: u64
  rf_qpc_end :: u64
  rf_rdtsc_start :: u64
  rf_rdtsc_end :: u64

definition isRDTSCAvailable :: "rdtsc_reads \<Rightarrow> bool" where
  "isRDTSCAvailable r \<longleftrightarrow> cpuid_edx r AND push_bit 8 1 \<noteq> 0"

definition getRDTSCFrequency :: "rdtsc_reads \<Rightarrow> u64 option" where
  "getRDTSCFrequency r =
     (if \<not> isRDTSCAvailable r then Some 0
      else let qpc_delta = rf_qpc_end r - rf_qpc_start r;
               rdtsc_delta = rf_rdtsc_end r - rf_rdtsc_start r
           in if qpc_delta = 0 then None else Some (rdtsc_delta * rf_qpc_freq r div qpc_delta))"

definition detectBestMethod :: "rdtsc_reads \<Rightarrow> WindowsCrossTimestamp \<Rightarrow> TimestampMethod" where
  "detectBestMethod r c =
     (if m_hw_available c then HARDWARE_ASSISTED
      else if isRDTSCAvailable r then RDTSC_SYSTEM_TIME
      else QPC_SYSTEM_TIME)"

definition init_method :: "rdtsc_reads \<Rightarrow> WindowsCrossTimestamp \<Rightarrow> WindowsCrossTimestamp option" where
  "init_method r c =
     (case m_method c of
        RDTSC_SYSTEM_TIME \<Rightarrow>
          (case getRDTSCFrequency r of
             None \<Rightarrow> None
           | Some f \<Rightarrow>
               let c = c\<lparr>m_rdtsc_frequency := f\<rparr>
               in Some (if f = 0 then c\<lparr>m_method := QPC_SYSTEM_TIME\<rparr> else c))
      | HARDWARE_ASSISTED \<Rightarrow> Some (c\<lparr>m_method := QPC_SYSTEM_TIME\<rparr>)
      | _ \<Rightarrow> Some c)"

text \<open>\<open>qpf\<close> is what \<open>QueryPerformanceFrequency\<close> returns and stores.\<close>

definition cross_initialize ::
  "string option \<Rightarrow> bool \<times> u64 \<Rightarrow> rdtsc_reads \<Rightarrow> (nat \<Rightarrow> u64 \<times> FILETIME) \<Rightarrow> WindowsCrossTimestamp \<Rightarrow>
   (bool \<times> WindowsCrossTimestamp) option" where
  "cross_initialize iface_label qpf r samples c =
     (let c = (if m_initialized c then cross_cleanup c else c)
      in case iface_label of
           None \<Rightarrow> Some (False, c)
         | Some l \<Rightarrow>
             let c = c\<lparr>m_interface_label := take 255 l, m_qpc_frequency := snd qpf\<rparr>
             in if \<not> fst qpf \<or> m_qpc_frequency c = 0 then Some (False, c)
                else case init_method r (c\<lparr>m_method := detectBestMethod r c\<rparr>) of
                       None \<Rightarrow> None
                     | Some c \<Rightarrow> Some (True, (calibrateCorrelation samples c)\<lparr>m_initialized := True\<rparr>))"

text \<open>The measurements: success, the system time, the device time and the instance.\<close>

type_synonym cross_result = "(bool \<times> Timestamp \<times> Timestamp \<times> WindowsCrossTimestamp) option"

definition getCrossTimestamp_QPC :: "clock_reads \<Rightarrow> Timestamp \<Rightarrow> WindowsCrossTimestamp \<Rightarrow> cross_result" where
  "getCrossTimestamp_QPC r device_time c =
     (if m_qpc_frequency c = 0 then None
      else
        let qpc_device = sdiv64 (rd_before r + rd_after r) 2;
            device_ns = performanceCounterToNanoseconds (m_qpc_frequency c) qpc_device;
            qpc_delta = rd_after r - rd_before r;
            error_ns = performanceCounterToNanoseconds (m_qpc_frequency c) qpc_delta
        in Some (True, fileTimeToTimestamp (rd_systime r), ts_set64 device_ns device_time,
             c\<lparr>m_estimated_error_ns := error_ns,
               m_quality := (if error_ns < 100 then 95 else if error_ns < 500 then 85 else if error_ns < 1000 then 70 else 50)\<rparr>))"

definition getCrossTimestamp_RDTSC :: "clock_reads \<Rightarrow> Timestamp \<Rightarrow> WindowsCrossTimestamp \<Rightarrow> cross_result" where
  "getCrossTimestamp_RDTSC r device_time c =
     (if m_rdtsc_frequency c = 0 then None
      else
        let rdtsc_device = (rd_before r + rd_after r) div 2;
            device_ns = (rdtsc_device * 1000000000) div m_rdtsc_frequency c;
            rdtsc_delta = rd_after r - rd_before r;
            error_ns = (rdtsc_delta * 1000000000) div m_rdtsc_frequency c
        in Some (True, fileTimeToTimestamp (rd_systime r), ts_set64 device_ns device_time,
             c\<lparr>m_estimated_error_ns := error_ns,
               m_quality := (if error_ns < 50 then 98 else if error_ns < 200 then 90 else if error_ns < 500 then 75 else 60)\<rparr>))"

definition getCrossTimestamp_Hardware :: "clock_reads \<Rightarrow> Timestamp \<Rightarrow> WindowsCrossTimestamp \<Rightarrow> cross_result" where
  "getCrossTimestamp_Hardware r device_time c = getCrossTimestamp_QPC r device_time c"

definition getCrossTimestamp_Fallback :: "clock_reads \<Rightarrow> WindowsCrossTimestamp \<Rightarrow> cross_result" where
  "getCrossTimestamp_Fallback r c =
     (let system_time = fileTimeToTimestamp (rd_standard r)
      in Some (True, system_time, system_time, c\<lparr>m_estimated_error_ns := 15600000, m_quality := 30\<rparr>))"

definition cross_method :: "clock_reads \<Rightarrow> Timestamp \<Rightarrow> WindowsCrossTimestamp \<Rightarrow> cross_result" where
  "cross_method r device_time c =
     (case m_method c of
        QPC_SYSTEM_TIME \<Rightarrow> getCrossTimestamp_QPC r device_time c
      | RDTSC_SYSTEM_TIME \<Rightarrow> getCrossTimestamp_RDTSC r device_time c
      | HARDWARE_ASSISTED \<Rightarrow>
          (case getCrossTimestamp_Hardware r device_time c of
             Some (False, _, device_time, c) \<Rightarrow> getCrossTimestamp_QPC r device_time c
           | other \<Rightarrow> other)
      | _ \<Rightarrow> getCrossTimestamp_Fallback r c)"

text \<open>The result of a call that succeeds: system time, device time, local clock and nominal rate.\<close>

definition getCrossTimestamp ::
  "clock_reads \<Rightarrow> Timestamp \<Rightarrow> WindowsCrossTimestamp \<Rightarrow>
   ((Timestamp \<times> Timestamp \<times> u32 \<times> u32) option \<times> WindowsCrossTimestamp) option" where
  "getCrossTimestamp r device_time c =
     (if \<not> m_initialized c then Some (None, c)
      else
        case cross_method r device_time c of
          None \<Rightarrow> None
        | Some (success, system_time, device_time, c) \<Rightarrow>
            if success
            then Some (Some (system_time, device_time, seconds_ls system_time, 1000000000),
                   updateCorrelation (rd_samples r) (c\<lparr>successful_timestamps := successful_timestamps c + 1\<rparr>))
            else Some (None, c\<lparr>failed_timestamps := failed_timestamps c + 1\<rparr>))"

definition isPreciseTimestampingSupported :: "WindowsCrossTimestamp \<Rightarrow> bool" where
  "isPreciseTimestampingSupported c \<longleftrightarrow> m_initialized c \<and> m_method c \<noteq> FALLBACK_CORRELATION"

section \<open>The simple module\<close>

record SimpleCrossTimestamp =
  g_initialized :: bool
  g_qpc_frequency :: u64
  g_system_time_precise_available :: bool
  g_last_estimated_error_ns :: u64

text \<open>\<open>kernel32\<close> is \<open>None\<close> when the module is not found, and otherwise whether it exports the precise time.\<close>

definition simple_initialize :: "bool \<times> u64 \<Rightarrow> bool option \<Rightarrow> SimpleCrossTimestamp \<Rightarrow> bool \<times> SimpleCrossTimestamp" where
  "simple_initialize qpf kernel32 g =
     (if g_initialized g then (True, g)
      else
        let g = g\<lparr>g_qpc_frequency := snd qpf\<rparr>
        in if \<not> fst qpf \<or> g_qpc_frequency g = 0 then (False, g)
           else let g = (case kernel32 of None \<Rightarrow> g | Some p \<Rightarrow> g\<lparr>g_system_time_precise_available := p\<rparr>)
                in (True, g\<lparr>g_initialized := True\<rparr>))"

definition simple_cleanup :: "SimpleCrossTimestamp \<Rightarrow> SimpleCrossTimestamp" where
  "simple_cleanup g =
     g\<lparr>g_initialized := False, g_system_time_precise_available := False, g_qpc_frequency := 0, g_last_estimated_error_ns := 0\<rparr>"

definition simple_systime :: "FILETIME \<Rightarrow> FILETIME \<Rightarrow> SimpleCrossTimestamp \<Rightarrow> FILETIME" where
  "simple_systime precise standard g = (if g_system_time_precise_available g then precise else standard)"

definition simple_quality :: "bool \<Rightarrow> u64 \<Rightarrow> u32" where
  "simple_quality precise error_ns =
     (if precise
      then if error_ns < 100 then 95 else if error_ns < 500 then 85 else if error_ns < 1000 then 70 else 50
      else if error_ns < 500 then 70 else if error_ns < 1000 then 50 else if error_ns < 5000 then 30 else 15)"

text \<open>\<open>None\<close>: the division faults; \<open>Some (None, _)\<close>: the call returns false.\<close>

definition simple_getCrossTimestamp ::
  "u64 \<Rightarrow> FILETIME \<Rightarrow> FILETIME \<Rightarrow> u64 \<Rightarrow> SimpleCrossTimestamp \<Rightarrow> ((u64 \<times> u64 \<times> u32) option \<times> SimpleCrossTimestamp) option" where
  "simple_getCrossTimestamp qpc_before precise standard qpc_after g =
     (if \<not> g_initialized g then Some (None, g)
      else if g_qpc_frequency g = 0 then None
      else
        let qpc_mid = sdiv64 (qpc_before + qpc_after) 2;
            system_time_ns = fileTimeToUnixNs (simple_systime precise standard g);
            device_time_ns = performanceCounterToNanoseconds (g_qpc_frequency g) qpc_mid;
            qpc_delta = qpc_after - qpc_before;
            error_ns = performanceCounterToNanoseconds (g_qpc_frequency g) qpc_delta
        in Some (Some (system_time_ns, device_time_ns, simple_quality (g_system_time_precise_available g) error_ns),
             g\<lparr>g_last_estimated_error_ns := error_ns\<rparr>))"

definition isPreciseTimestampingAvailable :: "SimpleCrossTimestamp \<Rightarrow> bool" where
  "isPreciseTimestampingAvailable g \<longleftrightarrow> g_initialized g \<and> g_system_time_precise_available g"

definition getSystemTimeNs :: "FILETIME \<Rightarrow> FILETIME \<Rightarrow> SimpleCrossTimestamp \<Rightarrow> u64" where
  "getSystemTimeNs precise standard g =
     (if \<not> g_initialized g then 0 else fileTimeToUnixNs (simple_systime precise standard g))"

definition getQPCTimeNs :: "u64 \<Rightarrow> SimpleCrossTimestamp \<Rightarrow> u64 option" where
  "getQPCTimeNs qpc g =
     (if \<not> g_initialized g then Some 0
      else if g_qpc_frequency g = 0 then None
      else Some (performanceCounterToNanoseconds (g_qpc_frequency g) qpc))"

section \<open>Conversions: laws\<close>

lemma uint_mult_1e9:
  "uint ((c::u64) * 1000000000) = uint c * 1000000000 mod 2 ^ 64"
  by (simp add: uint_word_ariths take_bit_eq_mod)

text \<open>A quotient of a product that wraps is never the quotient of the product.\<close>

lemma div_mod_exact_iff:
  assumes "0 < f" and "f \<le> m" and "0 \<le> (x::int)" and "0 < m"
  shows "x mod m div f = x div f \<longleftrightarrow> x < m"
proof
  assume eq: "x mod m div f = x div f"
  show "x < m"
  proof (rule ccontr)
    assume "\<not> x < m"
    then have "x mod m \<le> x - m" using assms by (metis linorder_not_less mod_pos_pos_trivial minus_mod_self2 zmod_le_nonneg_dividend diff_ge_0_iff_ge)
    then have "x mod m div f \<le> (x - f) div f" using assms by (intro zdiv_mono1) simp_all
    then show False using eq assms by (simp add: div_add_self2 [of f "x - f", simplified])
  qed
qed (use assms in simp)

lemma performanceCounterToNanoseconds_exact_iff:
  assumes "f \<noteq> 0"
  shows "uint (performanceCounterToNanoseconds f c) = uint c * 1000000000 div uint f \<longleftrightarrow> uint c \<le> 18446744073"
proof -
  have "0 < uint f" using assms by (metis uint_0_iff uint_ge_0 order_le_less)
  moreover have "uint f \<le> 2 ^ 64" using uint_lt2p [of f] by simp
  moreover have "uint c * 1000000000 < 2 ^ 64 \<longleftrightarrow> uint c \<le> 18446744073" by auto
  ultimately show ?thesis
    using div_mod_exact_iff [of "uint f" "2 ^ 64" "uint c * 1000000000"]
    by (simp add: performanceCounterToNanoseconds_def uint_div uint_mult_1e9)
qed

lemma file_time_bits:
  fixes w :: u64
  shows "push_bit 32 (ucast (ucast (drop_bit 32 w) :: u32)) OR ucast (ucast (w AND 0xFFFFFFFF) :: u32) = w"
proof -
  have mask: "(0xFFFFFFFF::u64) = mask 32" by (simp add: mask_eq_exp_minus_1)
  show ?thesis unfolding mask by (rule bit_word_eqI) (auto simp: bit_simps)
qed

theorem file_time_roundtrip: "fileTimeToUnixNs (unixNsToFileTime ns) = ns - ns mod 100"
proof -
  have "ns div 100 * 100 = ns - ns mod 100" by (metis add_diff_cancel_right' div_mult_mod_eq)
  then show ?thesis by (simp add: fileTimeToUnixNs_def unixNsToFileTime_def Let_def file_time_bits)
qed

section \<open>Cross timestamps: laws\<close>

text \<open>The invariant of an instance: once initialised it has the frequency its method divides by, and the method is
  one of the two that measure.\<close>

definition cross_inv :: "WindowsCrossTimestamp \<Rightarrow> bool" where
  "cross_inv c \<longleftrightarrow> m_initialized c \<and> m_qpc_frequency c \<noteq> 0 \<and>
     (m_method c = QPC_SYSTEM_TIME \<or> m_method c = RDTSC_SYSTEM_TIME \<and> m_rdtsc_frequency c \<noteq> 0)"

lemma fold_calibrate_sample:
  "fold (\<lambda>i. calibrate_sample (s i)) is c =
     c\<lparr>last_qpc := (if is = [] then last_qpc c else fst (s (last is))),
       last_systime := (if is = [] then last_systime c else snd (s (last is))),
       calibration_count := calibration_count c + of_nat (length is)\<rparr>"
  by (induction "is" arbitrary: c) (simp_all add: calibrate_sample_def)

lemma calibrateCorrelation_eq:
  "calibrateCorrelation s c =
     c\<lparr>last_qpc := fst (s 9), last_systime := snd (s 9), calibration_count := calibration_count c + 10, last_calibration := fst (s 9)\<rparr>"
  by (simp add: calibrateCorrelation_def fold_calibrate_sample num_samples_def)

lemma updateCorrelation_keeps [simp]:
  "m_initialized (updateCorrelation s c) = m_initialized c" "m_method (updateCorrelation s c) = m_method c"
  "m_qpc_frequency (updateCorrelation s c) = m_qpc_frequency c" "m_rdtsc_frequency (updateCorrelation s c) = m_rdtsc_frequency c"
  "m_quality (updateCorrelation s c) = m_quality c" "m_estimated_error_ns (updateCorrelation s c) = m_estimated_error_ns c"
  "successful_timestamps (updateCorrelation s c) = successful_timestamps c"
  "failed_timestamps (updateCorrelation s c) = failed_timestamps c"
  by (simp_all add: updateCorrelation_def calibrateCorrelation_eq Let_def)

lemma cross_initialize_inv:
  assumes "cross_initialize l q r s c = Some (True, c')"
  shows "cross_inv c'" "successful_timestamps c' = successful_timestamps (if m_initialized c then cross_cleanup c else c)"
  using assms
  by (auto simp: cross_initialize_def init_method_def cross_inv_def detectBestMethod_def calibrateCorrelation_eq Let_def
      split: option.splits if_splits)

text \<open>One call on an initialised instance.\<close>

lemma getCrossTimestamp_works:
  assumes "cross_inv c"
  obtains system_time device_time c' where
    "getCrossTimestamp r d c = Some (Some (system_time, device_time, seconds_ls system_time, 1000000000), c')"
    and "cross_inv c'" and "50 \<le> m_quality c'" and "m_quality c' \<le> 98"
    and "successful_timestamps c' = successful_timestamps c + 1" and "failed_timestamps c' = failed_timestamps c"
    and "system_time = fileTimeToTimestamp (rd_systime r)"
proof -
  have "\<exists>t c'. cross_method r d c = Some (True, fileTimeToTimestamp (rd_systime r), t, c') \<and> cross_inv c' \<and>
      50 \<le> m_quality c' \<and> m_quality c' \<le> 98 \<and> successful_timestamps c' = successful_timestamps c \<and>
      failed_timestamps c' = failed_timestamps c"
    using assms by (auto simp: cross_inv_def cross_method_def getCrossTimestamp_QPC_def getCrossTimestamp_RDTSC_def Let_def)
  then obtain t c1 where "cross_method r d c = Some (True, fileTimeToTimestamp (rd_systime r), t, c1)" "cross_inv c1"
      "50 \<le> m_quality c1" "m_quality c1 \<le> 98" "successful_timestamps c1 = successful_timestamps c"
      "failed_timestamps c1 = failed_timestamps c"
    by blast
  then show thesis using assms
    by (intro that [of "fileTimeToTimestamp (rd_systime r)" t "updateCorrelation (rd_samples r) (c1\<lparr>successful_timestamps := successful_timestamps c + 1\<rparr>)"])
      (simp_all add: getCrossTimestamp_def cross_inv_def)
qed

fun cross_run ::
  "(clock_reads \<times> Timestamp) list \<Rightarrow> WindowsCrossTimestamp \<Rightarrow>
   ((Timestamp \<times> Timestamp \<times> u32 \<times> u32) option list \<times> WindowsCrossTimestamp) option" where
  "cross_run [] c = Some ([], c)"
| "cross_run ((r, d) # calls) c =
     (case getCrossTimestamp r d c of
        None \<Rightarrow> None
      | Some (x, c) \<Rightarrow> map_option (\<lambda>(xs, c). (x # xs, c)) (cross_run calls c))"

lemma cross_run_works:
  assumes "cross_inv c"
  shows "\<exists>ts c'. cross_run calls c = Some (map Some ts, c') \<and> map fst ts = map (fileTimeToTimestamp \<circ> rd_systime \<circ> fst) calls \<and>
    cross_inv c' \<and> failed_timestamps c' = failed_timestamps c \<and>
    successful_timestamps c' = successful_timestamps c + of_nat (length calls) \<and>
    (50 \<le> m_quality c' \<and> m_quality c' \<le> 98 \<or> calls = [])"
  using assms
proof (induction calls arbitrary: c)
  case Nil
  then show ?case by simp
next
  case (Cons call calls)
  obtain r d where call: "call = (r, d)" by (cases call)
  obtain s t c1 where one: "getCrossTimestamp r d c = Some (Some (s, t, seconds_ls s, 1000000000), c1)" "cross_inv c1"
      "50 \<le> m_quality c1" "m_quality c1 \<le> 98" "successful_timestamps c1 = successful_timestamps c + 1"
      "failed_timestamps c1 = failed_timestamps c" "s = fileTimeToTimestamp (rd_systime r)"
    by (rule getCrossTimestamp_works [OF Cons.prems])
  obtain ts c2 where rest: "cross_run calls c1 = Some (map Some ts, c2)"
      "map fst ts = map (fileTimeToTimestamp \<circ> rd_systime \<circ> fst) calls" "cross_inv c2"
      "failed_timestamps c2 = failed_timestamps c1" "successful_timestamps c2 = successful_timestamps c1 + of_nat (length calls)"
      "50 \<le> m_quality c2 \<and> m_quality c2 \<le> 98 \<or> calls = []"
    using Cons.IH [OF one(2)] by blast
  have "50 \<le> m_quality c2 \<and> m_quality c2 \<le> 98" using rest(1,6) one(3,4) by auto
  then show ?case using one rest
    by (intro exI [of _ "(s, t, seconds_ls s, 1000000000) # ts"] exI [of _ c2]) (simp add: call)
qed

text \<open>C18. An instance of \<open>WindowsCrossTimestamp\<close> that \<open>initialize\<close> accepts answers every later call of
  \<open>getCrossTimestamp\<close>: no division faults, no call fails, the system times are the file times that were read, the
  answers never come from the fallback (their quality is between 50 and 98 percent) and precise timestamping stays supported.\<close>

theorem cross_timestamps_never_fail:
  assumes "cross_initialize l q rr s c = Some (True, c1)"
  shows "\<exists>ts c2. cross_run calls c1 = Some (map Some ts, c2) \<and>
    map fst ts = map (fileTimeToTimestamp \<circ> rd_systime \<circ> fst) calls \<and>
    isPreciseTimestampingSupported c2 \<and> failed_timestamps c2 = failed_timestamps c1 \<and>
    (50 \<le> m_quality c2 \<and> m_quality c2 \<le> 98 \<or> calls = [])"
  using cross_run_works [OF cross_initialize_inv(1) [OF assms], of calls]
  by (auto simp: isPreciseTimestampingSupported_def cross_inv_def)

definition sample_reads :: "u64 \<Rightarrow> u64 \<Rightarrow> clock_reads" where
  "sample_reads before after =
     \<lparr>rd_before = before, rd_after = after, rd_precise = Some (unixNsToFileTime 1700000000000000000),
      rd_standard = unixNsToFileTime 1700000000000000000, rd_samples = (\<lambda>i. (before, unixNsToFileTime 1700000000000000000))\<rparr>"

lemma sample_systime: "rd_systime (sample_reads b a) = unixNsToFileTime 1700000000000000000"
  by (simp add: rd_systime_def sample_reads_def)

definition sample_rdtsc :: rdtsc_reads where
  "sample_rdtsc = \<lparr>cpuid_edx = 0, rf_qpc_freq = 0, rf_qpc_start = 0, rf_qpc_end = 0, rf_rdtsc_start = 0, rf_rdtsc_end = 0\<rparr>"

definition sample_cross :: WindowsCrossTimestamp where
  "sample_cross =
     (case cross_initialize (Some ''eth'') (True, 10000000) sample_rdtsc (rd_samples (sample_reads 500 501)) WindowsCrossTimestamp_new of
        Some (_, c) \<Rightarrow> c | None \<Rightarrow> WindowsCrossTimestamp_new)"

lemma sample_cross_initialize:
  "cross_initialize (Some ''eth'') (True, 10000000) sample_rdtsc (rd_samples (sample_reads 500 501)) WindowsCrossTimestamp_new =
     Some (True, sample_cross)"
  by (simp add: sample_cross_def cross_initialize_def init_method_def detectBestMethod_def isRDTSCAvailable_def sample_rdtsc_def
      WindowsCrossTimestamp_new_def Let_def)

theorem cross_timestamps_never_fail_witness:
  "\<exists>ts c2. cross_run [(sample_reads 1000 1010, Timestamp_default)] sample_cross = Some (map Some ts, c2) \<and>
    map fst ts = [fileTimeToTimestamp (unixNsToFileTime 1700000000000000000)] \<and> 50 \<le> m_quality c2"
proof -
  obtain ts c2 where "cross_run [(sample_reads 1000 1010, Timestamp_default)] sample_cross = Some (map Some ts, c2)"
      "map fst ts = [fileTimeToTimestamp (rd_systime (sample_reads 1000 1010))]" "50 \<le> m_quality c2"
    using cross_timestamps_never_fail [OF sample_cross_initialize, of "[(sample_reads 1000 1010, Timestamp_default)]"]
    by (simp del: cross_run.simps) metis
  then show ?thesis unfolding sample_systime by metis
qed

text \<open>The counter of a measurement and its frequency.\<close>

definition method_frequency :: "WindowsCrossTimestamp \<Rightarrow> u64" where
  "method_frequency c = (if m_method c = RDTSC_SYSTEM_TIME then m_rdtsc_frequency c else m_qpc_frequency c)"

definition mid_counter :: "clock_reads \<Rightarrow> int" where
  "mid_counter r = (uint (rd_before r) + uint (rd_after r)) div 2"

lemma sdiv64_nonneg:
  assumes "sint a = n" and "0 \<le> n" and "n < 2 ^ 63"
  shows "uint (sdiv64 a 2) = n div 2"
proof -
  have "sgn n * (\<bar>n\<bar> div 2) = n div 2" using assms(2) by (cases "n = 0") simp_all
  moreover have "take_bit 64 (n div 2) = n div 2" using assms(2,3) by (intro take_bit_int_eq_self) simp_all
  ultimately show ?thesis using assms(1) by (simp only: sdiv64_def uint_word_of_int_eq) simp
qed

lemma uint_mid_counter:
  assumes "uint (rd_before r) < 2 ^ 62" and "uint (rd_after r) < 2 ^ 62"
  shows "uint (sdiv64 (rd_before r + rd_after r) 2) = mid_counter r" "uint ((rd_before r + rd_after r) div 2) = mid_counter r"
proof -
  let ?s = "uint (rd_before r) + uint (rd_after r)"
  have nonneg: "0 \<le> ?s" by simp
  have sum: "uint (rd_before r + rd_after r) = ?s" using assms by (intro uint_add_lem [THEN iffD1]) simp
  then show "uint ((rd_before r + rd_after r) div 2) = mid_counter r" by (simp add: uint_div mid_counter_def)
  have "- (2 ^ 63) \<le> ?s" by (rule order_trans [OF _ nonneg]) simp
  then have "signed_take_bit 63 ?s = ?s" using assms by (intro signed_take_bit_int_eq_self) auto
  then have "sint (rd_before r + rd_after r) = ?s" by (simp add: sint_uint sum)
  then show "uint (sdiv64 (rd_before r + rd_after r) 2) = mid_counter r"
    using assms sdiv64_nonneg [OF _ nonneg] by (simp add: mid_counter_def)
qed

text \<open>C19. The device time of a cross timestamp, taken from counters that are read below \<open>2 ^ 62\<close>, is the elapsed time of
  the counter in nanoseconds if and only if the mean counter is at most 18446744073. One tick later the 64-bit product
  wraps and the device time falls back: after 6.1 seconds of a 3 GHz time stamp counter, and after
  30.7 minutes of a 10 MHz performance counter.\<close>

theorem cross_device_time_exact:
  assumes "cross_inv c" and "uint (rd_before r) < 2 ^ 62" and "uint (rd_after r) < 2 ^ 62"
    and "getCrossTimestamp r d c = Some (Some (system_time, device_time, local_clock, rate), c')"
  shows "ts_ns device_time = mid_counter r * 10 ^ 9 div uint (method_frequency c) \<longleftrightarrow> mid_counter r \<le> 18446744073"
proof -
  have "device_time = ts_set64 (performanceCounterToNanoseconds (m_qpc_frequency c) (sdiv64 (rd_before r + rd_after r) 2)) d \<and>
      m_method c = QPC_SYSTEM_TIME \<or>
    device_time = ts_set64 (performanceCounterToNanoseconds (m_rdtsc_frequency c) ((rd_before r + rd_after r) div 2)) d \<and>
      m_method c = RDTSC_SYSTEM_TIME"
    using assms(1,4)
    by (auto simp: cross_inv_def getCrossTimestamp_def cross_method_def getCrossTimestamp_QPC_def getCrossTimestamp_RDTSC_def
        performanceCounterToNanoseconds_def Let_def)
  then show ?thesis
    using assms(1) uint_mid_counter [OF assms(2,3)]
      performanceCounterToNanoseconds_exact_iff [of "m_qpc_frequency c" "sdiv64 (rd_before r + rd_after r) 2"]
      performanceCounterToNanoseconds_exact_iff [of "m_rdtsc_frequency c" "(rd_before r + rd_after r) div 2"]
    by (elim disjE conjE) (simp_all add: cross_inv_def ts_ns_set64 method_frequency_def)
qed

lemma getCrossTimestamp_updates:
  assumes "cross_inv c" and "getCrossTimestamp r d c = Some (x, c')"
  shows "\<exists>e q. c' = updateCorrelation (rd_samples r)
    (c\<lparr>m_estimated_error_ns := e, m_quality := q, successful_timestamps := successful_timestamps c + 1\<rparr>)"
proof -
  have "\<exists>t u e q. cross_method r d c = Some (True, t, u, c\<lparr>m_estimated_error_ns := e, m_quality := q\<rparr>)"
    using assms(1) unfolding cross_inv_def cross_method_def getCrossTimestamp_QPC_def getCrossTimestamp_RDTSC_def Let_def
    by (elim conjE disjE) (simp_all, blast+)
  then obtain t u e q where "cross_method r d c = Some (True, t, u, c\<lparr>m_estimated_error_ns := e, m_quality := q\<rparr>)" by blast
  then show ?thesis using assms by (intro exI [of _ e] exI [of _ q]) (simp add: getCrossTimestamp_def cross_inv_def)
qed

lemma updateCorrelation_idle:
  assumes "successful_timestamps c mod 1000 \<noteq> 0" and "last_qpc c - last_update c \<le> 10 * m_qpc_frequency c"
  shows "updateCorrelation s c = c"
  using assms by (simp add: updateCorrelation_def Let_def linorder_not_less [symmetric])

text \<open>An initialised instance recalibrates when its count of timestamps reaches a multiple of 1000. The elapsed time that
  \<open>updateCorrelation\<close> compares is the one between the last two calibrations, so that time alone never triggers
  a calibration, however long the instance runs.\<close>

theorem calibration_by_count_only:
  assumes "cross_inv c" and "last_qpc c - last_update c \<le> 10 * m_qpc_frequency c"
    and "cross_run calls c = Some (xs, c')"
    and "\<And>k. 0 < k \<Longrightarrow> k \<le> length calls \<Longrightarrow> (successful_timestamps c + of_nat k) mod 1000 \<noteq> 0"
  shows "last_calibration c' = last_calibration c" "calibration_count c' = calibration_count c"
proof -
  have "last_calibration c' = last_calibration c \<and> calibration_count c' = calibration_count c"
    using assms
  proof (induction calls arbitrary: c xs)
    case Nil
    then show ?case by simp
  next
    case (Cons call calls)
    obtain r d where call: "call = (r, d)" by (cases call)
    obtain s t c1 where one: "getCrossTimestamp r d c = Some (Some (s, t, seconds_ls s, 1000000000), c1)" "cross_inv c1"
        "successful_timestamps c1 = successful_timestamps c + 1"
      by (rule getCrossTimestamp_works [OF Cons.prems(1)])
    have "(successful_timestamps c + 1) mod 1000 \<noteq> 0" using Cons.prems(4) [of 1] by simp
    then have keep: "last_calibration c1 = last_calibration c \<and> calibration_count c1 = calibration_count c \<and>
        last_qpc c1 = last_qpc c \<and> last_update c1 = last_update c \<and> m_qpc_frequency c1 = m_qpc_frequency c"
      using Cons.prems(2) getCrossTimestamp_updates [OF Cons.prems(1) one(1)] by (auto simp: updateCorrelation_idle)
    obtain ys where "cross_run calls c1 = Some (ys, c')" using Cons.prems(3) one(1) by (auto simp: call)
    moreover have "(successful_timestamps c1 + of_nat k) mod 1000 \<noteq> 0" if "0 < k" "k \<le> length calls" for k
      using Cons.prems(4) [of "Suc k"] that one(3) by (simp add: add.assoc)
    ultimately show ?case using Cons.IH [of c1 ys] one(2) keep Cons.prems(2) by simp
  qed
  then show "last_calibration c' = last_calibration c" "calibration_count c' = calibration_count c" by simp_all
qed

lemma sample_cross_inv: "cross_inv sample_cross"
  by (rule cross_initialize_inv(1) [OF sample_cross_initialize])

theorem cross_device_time_exact_witness:
  "\<exists>st dt lc rate c'. getCrossTimestamp (sample_reads 18446744074 18446744074) Timestamp_default sample_cross = Some (Some (st, dt, lc, rate), c') \<and>
     ts_ns dt \<noteq> 18446744074 * 10 ^ 9 div uint (method_frequency sample_cross)"
proof -
  obtain st dt c' where one:
      "getCrossTimestamp (sample_reads 18446744074 18446744074) Timestamp_default sample_cross = Some (Some (st, dt, seconds_ls st, 1000000000), c')"
    by (rule getCrossTimestamp_works [OF sample_cross_inv])
  moreover have "ts_ns dt \<noteq> 18446744074 * 10 ^ 9 div uint (method_frequency sample_cross)"
    using cross_device_time_exact [OF sample_cross_inv _ _ one] by (simp add: mid_counter_def sample_reads_def)
  ultimately show ?thesis by blast
qed

end
