(* ===== verification/Windows_Timestamper.thy ===== *)
theory Windows_Timestamper
  imports Windows_Clock
begin

text \<open>
  The timestamper of Ethernet adapters on Windows (\<open>windows_hal.hpp\<close>, \<open>windows_hal.cpp\<close>) with the tables and the detection of
  clock rates it uses (\<open>windows_hal_vendor_intel.cpp\<close>, \<open>windows_hal_iphlpapi.cpp\<close>, \<open>windows_hal_ndis.cpp\<close>,
  \<open>windows_hal_common.cpp\<close>, \<open>tsc.hpp\<close>), all under \<open>windows/daemon_cl/\<close>. The adapters, the processor and the answers of
  the driver are arguments. The build has no NDIS timestamp structures, so that the bodies under that condition are absent
  (they do not compile: \<open>detected_rate\<close> is undeclared there).
  The main results: the adapter that is initialised has a positive clock rate; a receive timestamp is delivered only for the message
  it belongs to, and it is the last one the driver holds: the earlier ones are lost.
\<close>

section \<open>Clock rates\<close>

text \<open>\<open>strstr (s, p) != NULL\<close>\<close>

fun strstr :: "string \<Rightarrow> string \<Rightarrow> bool" where
  "strstr [] p \<longleftrightarrow> p = []"
| "strstr (c # s) p \<longleftrightarrow> take (length p) (c # s) = p \<or> strstr s p"

definition DeviceClockRateMap :: "(u32 \<times> string) list" where
  "DeviceClockRateMap = [(1000000000, ''I217-LM''), (1008000000, ''I219''), (1250000000, ''I210'')]"

fun device_rate :: "string \<Rightarrow> (u32 \<times> string) list \<Rightarrow> u32 option" where
  "device_rate desc [] = None"
| "device_rate desc ((clock_rate, device_desc) # rate_map) =
     (if strstr desc device_desc then Some clock_rate else device_rate desc rate_map)"

definition intel_oui_prefixes :: "octets list" where
  "intel_oui_prefixes =
     [[0x00, 0x1C, 0xC8], [0x00, 0x15, 0x17], [0x00, 0x1B, 0x21], [0x00, 0x0E, 0x0C], [0x00, 0x02, 0xB3], [0x00, 0x03, 0x47],
      [0x00, 0x07, 0xE9], [0x00, 0x13, 0xCE], [0x00, 0x19, 0x99], [0x00, 0x1F, 0x3C], [0x00, 0x0D, 0x3A], [0x90, 0xE2, 0xBA]]"

definition intel_device_specs :: "(string \<times> u64 \<times> bool) list" where
  "intel_device_specs =
     [(''I217'', 1000000000, True), (''I218'', 1000000000, True), (''I219'', 1008000000, True), (''I210'', 1000000000, True),
      (''I211'', 1000000000, True), (''I350'', 1000000000, True), (''82599'', 1000000000, True), (''X520'', 1000000000, True),
      (''X540'', 1000000000, True), (''X550'', 1000000000, True), (''X710'', 1000000000, True), (''XL710'', 1000000000, True),
      (''XXV710'', 1000000000, True), (''82540'', 0, False), (''82541'', 0, False), (''82545'', 0, False), (''82546'', 0, False),
      (''82566'', 0, False), (''82567'', 0, False), (''82571'', 0, False), (''82572'', 0, False), (''82573'', 0, False),
      (''82574'', 1000000000, False), (''82575'', 0, False), (''82576'', 1000000000, False), (''82577'', 0, False),
      (''82578'', 0, False), (''82579'', 1000000000, False)]"

definition isIntelDevice :: "octets \<Rightarrow> bool" where
  "isIntelDevice mac \<longleftrightarrow> list_ex (\<lambda>prefix. mac ! 0 = prefix ! 0 \<and> mac ! 1 = prefix ! 1 \<and> mac ! 2 = prefix ! 2) intel_oui_prefixes"

definition getIntelDeviceSpecs :: "string \<Rightarrow> (u64 \<times> bool) option" where
  "getIntelDeviceSpecs device_desc = map_option snd (find (\<lambda>spec. strstr device_desc (fst spec)) intel_device_specs)"

definition getIntelClockRate :: "string \<Rightarrow> u64" where
  "getIntelClockRate device_desc = (case getIntelDeviceSpecs device_desc of Some (clock_rate, _) \<Rightarrow> clock_rate | None \<Rightarrow> 0)"

definition isIntelTimestampSupported :: "string \<Rightarrow> bool" where
  "isIntelTimestampSupported device_desc = (case getIntelDeviceSpecs device_desc of Some (_, support) \<Rightarrow> support | None \<Rightarrow> False)"

text \<open>An entry of \<open>GetAdaptersAddresses\<close>: description (missing, or cut to the 255 characters that fit), physical address, and
  the answer of \<open>GetInterfaceActiveTimestampCapabilities\<close> (\<open>None\<close> when it fails or the build lacks it): the frequency and
  whether all receive, all transmit or tagged transmit timestamps are supported.\<close>

record adapter_address =
  ad_description :: "string option"
  ad_physical :: octets
  ad_caps :: "(u64 \<times> bool) option"

definition desc_matches :: "string \<Rightarrow> adapter_address \<Rightarrow> bool" where
  "desc_matches iface_label a \<longleftrightarrow> (case ad_description a of Some d \<Rightarrow> strstr iface_label d | None \<Rightarrow> False)"

definition narrow_desc :: "adapter_address \<Rightarrow> string" where
  "narrow_desc a = (case ad_description a of Some d \<Rightarrow> d | None \<Rightarrow> [])"

text \<open>The rate of the adapter that matches: the active capability, else the Intel table.\<close>

definition adapter_rate :: "adapter_address \<Rightarrow> u64" where
  "adapter_rate a =
     (let intel = (if length (ad_physical a) = 6 \<and> isIntelDevice (ad_physical a) then getIntelClockRate (narrow_desc a) else 0)
      in case ad_caps a of Some (f, _) \<Rightarrow> if f \<noteq> 0 then f else intel | None \<Rightarrow> intel)"

text \<open>The first call asks for the size of the buffer. It fails with \<open>ERROR_BUFFER_OVERFLOW\<close> on any system with an adapter;
  other errors, and a buffer that cannot be allocated, end the detection: \<open>None\<close>. \<open>Some None\<close>: the second call
  fails.\<close>

type_synonym adapter_query = "adapter_address list option option"

definition getHardwareClockRate_IPHLPAPI :: "adapter_query \<Rightarrow> string \<Rightarrow> u64" where
  "getHardwareClockRate_IPHLPAPI q iface_label =
     (case q of
        None \<Rightarrow> 0
      | Some adapters \<Rightarrow>
          let detected_rate =
                (case adapters of
                   None \<Rightarrow> 0
                 | Some as \<Rightarrow> (case find (desc_matches iface_label) as of Some a \<Rightarrow> adapter_rate a | None \<Rightarrow> 0))
          in if detected_rate = 0
             then case device_rate iface_label DeviceClockRateMap of Some r \<Rightarrow> ucast r | None \<Rightarrow> 0
             else detected_rate)"

definition other_vendor_timestamps :: "string \<Rightarrow> bool" where
  "other_vendor_timestamps d \<longleftrightarrow>
     strstr d ''NetXtreme-E'' \<or> strstr d ''BCM57'' \<or> strstr d ''BCM58'' \<or> strstr d ''ConnectX'' \<or> strstr d ''Mellanox''"

definition adapter_timestamps :: "adapter_address \<Rightarrow> bool" where
  "adapter_timestamps a =
     (case ad_caps a of
        Some (_, support) \<Rightarrow> support
      | None \<Rightarrow>
          length (ad_physical a) = 6 \<and>
          (isIntelDevice (ad_physical a) \<and> isIntelTimestampSupported (narrow_desc a) \<or> other_vendor_timestamps (narrow_desc a)))"

definition isHardwareTimestampSupported_IPHLPAPI :: "adapter_query \<Rightarrow> string \<Rightarrow> bool" where
  "isHardwareTimestampSupported_IPHLPAPI q iface_label =
     (case q of
        Some (Some as) \<Rightarrow> (case find (desc_matches iface_label) as of Some a \<Rightarrow> adapter_timestamps a | None \<Rightarrow> False)
      | _ \<Rightarrow> False)"

definition getHardwareClockRate_NDIS :: "string \<Rightarrow> u64" where
  "getHardwareClockRate_NDIS iface_label = 0"

definition isHardwareTimestampSupported_NDIS :: "string \<Rightarrow> bool" where
  "isHardwareTimestampSupported_NDIS iface_label = False"

definition configureHardwareTimestamp_NDIS :: "string \<Rightarrow> bool" where
  "configureHardwareTimestamp_NDIS iface_label = isHardwareTimestampSupported_NDIS iface_label"

definition getHardwareClockRate :: "adapter_query \<Rightarrow> string option \<Rightarrow> u64" where
  "getHardwareClockRate q iface_label =
     (case iface_label of
        None \<Rightarrow> 0
      | Some l \<Rightarrow>
          let rate = getHardwareClockRate_IPHLPAPI q l
          in if rate \<noteq> 0 then rate
             else let rate = getHardwareClockRate_NDIS l in if rate \<noteq> 0 then rate else 0)"

definition isHardwareTimestampSupported :: "adapter_query \<Rightarrow> string option \<Rightarrow> bool" where
  "isHardwareTimestampSupported q iface_label =
     (case iface_label of
        None \<Rightarrow> False
      | Some l \<Rightarrow> isHardwareTimestampSupported_IPHLPAPI q l \<or> isHardwareTimestampSupported_NDIS l)"

definition configureHardwareTimestamp :: "adapter_query \<Rightarrow> string option \<Rightarrow> bool" where
  "configureHardwareTimestamp q iface_label =
     (case iface_label of
        None \<Rightarrow> False
      | Some l \<Rightarrow> configureHardwareTimestamp_NDIS l \<or> isHardwareTimestampSupported_IPHLPAPI q l)"

section \<open>The frequency of the processor's clock\<close>

definition ModelNumberSystemClockRateMap :: "(int list \<times> u32) list" where
  "ModelNumberSystemClockRateMap = [([0x5E, 0x4E], 24000000)]"

fun FindFrequencyByModel_in :: "(int list \<times> u32) list \<Rightarrow> u8 \<Rightarrow> u32 \<Rightarrow> u32" where
  "FindFrequencyByModel_in [] model_query ret = ret"
| "FindFrequencyByModel_in ((model_list, clock_rate) # rest) model_query ret =
     FindFrequencyByModel_in rest model_query (if uint model_query \<in> set model_list then clock_rate else ret)"

definition FindFrequencyByModel :: "u8 \<Rightarrow> u32" where
  "FindFrequencyByModel model_query = FindFrequencyByModel_in ModelNumberSystemClockRateMap model_query 0"

text \<open>\<open>cpuid_0\<close> and \<open>cpuid_15\<close> are the registers EAX of those leaves, \<open>qpf\<close> what \<open>QueryPerformanceFrequency\<close> returns and stores.\<close>

record processor =
  cpuid_0 :: u32
  cpuid_15 :: u32
  is_windows_10 :: bool
  wProcessorRevision :: u16
  qpf :: "bool \<times> u64"

definition CLOCK_INFO_CPUID_LEAF :: int where
  "CLOCK_INFO_CPUID_LEAF = 0x15"

definition getTSCFrequency :: "processor \<Rightarrow> bool \<Rightarrow> u64" where
  "getTSCFrequency p builtin =
     (let max_cpuid_level = sint (cpuid_0 p);
          tmp0 = (if CLOCK_INFO_CPUID_LEAF \<le> max_cpuid_level then cpuid_15 p else cpuid_0 p)
      in if \<not> is_windows_10 p \<and> CLOCK_INFO_CPUID_LEAF \<le> max_cpuid_level \<and> 1 \<le> sint tmp0 \<and> builtin
         then ucast (FindFrequencyByModel (ucast (drop_bit 8 (wProcessorRevision p))))
         else if fst (qpf p) then snd (qpf p) else 0)"

section \<open>The Ethernet timestamper\<close>

text \<open>\<open>miniport\<close> tells whether the handle of the adapter is valid.\<close>

record WindowsEtherTimestamper =
  et_version :: u8
  miniport :: bool
  tsc_hz :: u64
  netclock_hz :: u64
  cross_timestamping_initialized :: bool

definition WindowsEtherTimestamper_new :: WindowsEtherTimestamper where
  "WindowsEtherTimestamper_new =
     \<lparr>et_version = 0, miniport = False, tsc_hz = 0, netclock_hz = 0, cross_timestamping_initialized = False\<rparr>"

definition nanoseconds64ToTimestamp :: "u64 \<Rightarrow> Timestamp" where
  "nanoseconds64ToTimestamp time =
     Timestamp_default\<lparr>nanoseconds := ucast (time mod 1000000000),
       seconds_ls := ucast ((time div 1000000000) AND 0xFFFFFFFF),
       seconds_ms := ucast (drop_bit 32 (time div 1000000000))\<rparr>"

definition scale_to_nanoseconds :: "'a arch_scheme \<Rightarrow> u64 \<Rightarrow> u64 \<Rightarrow> u64" where
  "scale_to_nanoseconds A hz time =
     (let F = ld_fmt A; scaled_output = fp_div F (fp_of_int F (sint hz)) (fp_of_int F 1000000000)
      in to_u64 A (fp_div F (fp_of_int F (uint time)) scaled_output))"

definition scaleNativeClockToNanoseconds :: "'a arch_scheme \<Rightarrow> WindowsEtherTimestamper \<Rightarrow> u64 \<Rightarrow> u64" where
  "scaleNativeClockToNanoseconds A t time = scale_to_nanoseconds A (netclock_hz t) time"

definition scaleTSCClockToNanoseconds :: "'a arch_scheme \<Rightarrow> WindowsEtherTimestamper \<Rightarrow> u64 \<Rightarrow> u64" where
  "scaleTSCClockToNanoseconds A t time = scale_to_nanoseconds A (tsc_hz t) time"

text \<open>What the system offers at initialisation: the list of \<open>GetAdaptersInfo\<close>, the list of
  \<open>GetAdaptersAddresses\<close>, whether a device opens, the answers to the two timestamp queries (\<open>None\<close> for an error
  or, for the capabilities, a short answer), the processor and the clocks.\<close>

record adapter_info =
  AddressLength :: nat
  Address :: octets
  Description :: string
  AdapterName :: string

record windows_system =
  GetAdaptersInfo :: "adapter_info list option"
  GetAdaptersAddresses :: adapter_query
  CreateFile :: "string \<Rightarrow> bool"
  timestamp_capability :: "octets option"
  timestamp_current_config :: "octets option"
  sys_processor :: processor
  sys_rdtsc :: rdtsc_reads
  sys_samples :: "nat \<Rightarrow> u64 \<times> FILETIME"

definition NETWORK_CARD_ID_PREFIX :: string where
  "NETWORK_CARD_ID_PREFIX = [CHR 0x5C, CHR 0x5C, CHR ''.'', CHR 0x5C]"

definition detect_rate :: "adapter_query \<Rightarrow> string \<Rightarrow> u64 option" where
  "detect_rate q desc =
     (let detected_rate = getHardwareClockRate_IPHLPAPI q desc;
          detected_rate = (if detected_rate = 0 then getHardwareClockRate_NDIS desc else detected_rate)
      in if 0 < detected_rate then Some detected_rate else map_option ucast (device_rate desc DeviceClockRateMap))"

text \<open>The result, the configuration that is written to the adapter, the timestamper and the global instance for cross
  timestamps; \<open>None\<close> when the initialisation of cross timestamps faults.\<close>

definition ether_HWTimestamper_init ::
  "windows_system \<Rightarrow> LinkLayerAddress option \<Rightarrow> WindowsEtherTimestamper \<Rightarrow> WindowsCrossTimestamp \<Rightarrow>
   (bool \<times> octets option \<times> WindowsEtherTimestamper \<times> WindowsCrossTimestamp) option" where
  "ether_HWTimestamper_init S iface_label t c =
     (case iface_label of
        None \<Rightarrow> Some (False, None, t, c)
      | Some label_addr \<Rightarrow>
     (case GetAdaptersInfo S of
        None \<Rightarrow> Some (False, None, t, c)
      | Some infos \<Rightarrow>
     (case find (\<lambda>a. AddressLength a = 6 \<and> lla_eq label_addr \<lparr>addr = take 6 (Address a)\<rparr>) infos of
        None \<Rightarrow> Some (False, None, t, c)
      | Some a \<Rightarrow>
     (case detect_rate (GetAdaptersAddresses S) (Description a) of
        None \<Rightarrow> Some (False, None, t, c)
      | Some rate \<Rightarrow>
          let t = t\<lparr>netclock_hz := rate\<rparr>;
              network_card_id = take 63 (NETWORK_CARD_ID_PREFIX @ AdapterName a);
              t = t\<lparr>miniport := CreateFile S network_card_id\<rparr>
          in if \<not> miniport t then Some (False, None, t, c)
             else
     (case timestamp_capability S of
        None \<Rightarrow> Some (False, None, t, c)
      | Some caps \<Rightarrow>
          if list_all (\<lambda>b. b = 0) caps then Some (False, None, t, c)
          else
            let config = (case timestamp_current_config S of Some _ \<Rightarrow> Some caps | None \<Rightarrow> None);
                t = t\<lparr>tsc_hz := getTSCFrequency (sys_processor S) True\<rparr>
            in if tsc_hz t = 0 then Some (False, config, t, c)
               else case cross_initialize (Some (Description a)) (qpf (sys_processor S)) (sys_rdtsc S) (sys_samples S) c of
                      None \<Rightarrow> None
                    | Some (ok, c) \<Rightarrow> Some (True, config, t\<lparr>cross_timestamping_initialized := ok\<rparr>, c))))))"

text \<open>\<open>HWTimestamper_gettime\<close>. \<open>systim\<close> is the answer to \<open>OID_INTEL_GET_SYSTIM\<close>; the legacy method leaves
  the local clock and the nominal rate alone.\<close>

definition ether_HWTimestamper_gettime ::
  "'a arch_scheme \<Rightarrow> clock_reads \<Rightarrow> u32 list option \<Rightarrow> Timestamp \<Rightarrow> WindowsEtherTimestamper \<Rightarrow> WindowsCrossTimestamp \<Rightarrow>
   ((Timestamp \<times> Timestamp \<times> (u32 \<times> u32) option) option \<times> WindowsCrossTimestamp) option" where
  "ether_HWTimestamper_gettime A r systim device_time t c =
     (let legacy =
            (case systim of
               None \<Rightarrow> None
             | Some buf \<Rightarrow>
                 let now_net = scaleNativeClockToNanoseconds A t (push_bit 32 (ucast (buf ! 1)) OR ucast (buf ! 0));
                     device_time = (nanoseconds64ToTimestamp now_net)\<lparr>ts_version := et_version t\<rparr>;
                     now_tsc = scaleTSCClockToNanoseconds A t (push_bit 32 (ucast (buf ! 3)) OR ucast (buf ! 2));
                     system_time = (nanoseconds64ToTimestamp now_tsc)\<lparr>ts_version := et_version t\<rparr>
                 in Some (system_time, device_time, None))
      in if isPreciseTimestampingSupported c
         then case getCrossTimestamp r device_time c of
                None \<Rightarrow> None
              | Some (Some (system_time, device_time, local_clock, nominal_clock_rate), c) \<Rightarrow>
                  Some (Some (system_time\<lparr>ts_version := et_version t\<rparr>, device_time\<lparr>ts_version := et_version t\<rparr>,
                    Some (local_clock, nominal_clock_rate)), c)
              | Some (None, c) \<Rightarrow> Some (legacy, c)
         else Some (legacy, c))"

text \<open>The loops that read timestamps until the driver has no more. A read is the error code, the four words and the
  number of bytes returned. No result: every read of the list succeeds, and the loop goes on. The words on the stack are
  those of \<open>buf\<close>.\<close>

type_synonym oid_read = "u32 \<times> u32 list \<times> u32"

definition ERROR_SUCCESS :: u32 where
  "ERROR_SUCCESS = 0"

definition ERROR_GEN_FAILURE :: u32 where
  "ERROR_GEN_FAILURE = 31"

fun read_stamps :: "oid_read list \<Rightarrow> u32 list \<Rightarrow> oid_read option" where
  "read_stamps [] buf = None"
| "read_stamps ((result, buf_tmp, returned) # reads) buf =
     (if result = ERROR_SUCCESS then read_stamps reads buf_tmp else Some (result, buf, returned))"

definition stamp_time :: "'a arch_scheme \<Rightarrow> WindowsEtherTimestamper \<Rightarrow> u32 list \<Rightarrow> Timestamp" where
  "stamp_time A t buf =
     (nanoseconds64ToTimestamp (scaleNativeClockToNanoseconds A t (push_bit 32 (ucast (buf ! 1)) OR ucast (buf ! 0))))
       \<lparr>ts_version := et_version t\<rparr>"

definition ether_HWTimestamper_txtimestamp ::
  "'a arch_scheme \<Rightarrow> oid_read list \<Rightarrow> u32 list \<Rightarrow> WindowsEtherTimestamper \<Rightarrow> Timestamp \<Rightarrow> (int \<times> Timestamp) option" where
  "ether_HWTimestamper_txtimestamp A reads buf t timestamp =
     map_option
       (\<lambda>(result, buf, returned).
          if result \<noteq> ERROR_GEN_FAILURE then (GPTP_EC_FAILURE, timestamp)
          else if returned \<noteq> 16 then (GPTP_EC_EAGAIN, timestamp)
          else (GPTP_EC_SUCCESS, stamp_time A t buf))
       (read_stamps reads buf)"

definition stamp_sequence :: "u32 list \<Rightarrow> u16" where
  "stamp_sequence buf = PLAT_ntohs (ucast (drop_bit 16 (buf ! 3)))"

definition ether_HWTimestamper_rxtimestamp ::
  "'a arch_scheme \<Rightarrow> oid_read list \<Rightarrow> u32 list \<Rightarrow> WindowsEtherTimestamper \<Rightarrow> PTPMessageId \<Rightarrow> Timestamp \<Rightarrow> (int \<times> Timestamp) option" where
  "ether_HWTimestamper_rxtimestamp A reads buf t messageId timestamp =
     map_option
       (\<lambda>(result, buf, returned).
          if result \<noteq> ERROR_GEN_FAILURE then (GPTP_EC_FAILURE, timestamp)
          else if returned \<noteq> 16 then (GPTP_EC_EAGAIN, timestamp)
          else if stamp_sequence buf \<noteq> id_sequenceId messageId then (GPTP_EC_EAGAIN, timestamp)
          else (GPTP_EC_SUCCESS, stamp_time A t buf))
       (read_stamps reads buf)"

section \<open>Laws\<close>

text \<open>The Intel table and the table of devices disagree on the rate of the I210.\<close>

theorem I210_rates_differ:
  "getIntelClockRate ''Intel(R) I210'' = 1000000000" "device_rate ''Intel(R) I210'' DeviceClockRateMap = Some 1250000000"
  by code_simp+

lemma device_rate_pos: "device_rate desc DeviceClockRateMap = Some r \<Longrightarrow> r \<noteq> 0"
  by (auto simp: DeviceClockRateMap_def split: if_splits)

lemma detect_rate_pos:
  assumes "detect_rate q desc = Some rate"
  shows "rate \<noteq> 0"
proof -
  have "(ucast r :: u64) \<noteq> 0" if "device_rate desc DeviceClockRateMap = Some r" for r
    using that by (auto simp: DeviceClockRateMap_def split: if_splits)
  then show ?thesis using assms by (auto simp: detect_rate_def Let_def split: if_splits)
qed

lemma ether_init_fields:
  assumes "ether_HWTimestamper_init S l t c = Some (True, config, t', c')"
  shows "netclock_hz t' \<noteq> 0" and "tsc_hz t' \<noteq> 0" and "et_version t' = et_version t"
    and "\<exists>desc. cross_initialize (Some desc) (qpf (sys_processor S)) (sys_rdtsc S) (sys_samples S) c =
      Some (cross_timestamping_initialized t', c')"
  using assms unfolding ether_HWTimestamper_init_def Let_def
  by (auto simp: detect_rate_pos split: option.splits if_splits)

lemma cross_initialize_refused:
  assumes "cross_initialize l q r s c = Some (False, c')"
  shows "\<not> isPreciseTimestampingSupported c'"
  using assms
  by (auto simp: cross_initialize_def cross_cleanup_def isPreciseTimestampingSupported_def Let_def split: option.splits if_splits)

text \<open>C20. Once \<open>HWTimestamper_init\<close> has accepted an adapter, both clock rates are positive and
  \<open>HWTimestamper_gettime\<close> never faults: with cross timestamps it succeeds whatever the driver answers and
  returns the file time that was read, and without them it succeeds exactly when the driver answers the query of its time.\<close>

theorem ether_init_gettime:
  assumes "ether_HWTimestamper_init S l t c = Some (True, config, t', c')"
  shows "netclock_hz t' \<noteq> 0 \<and> tsc_hz t' \<noteq> 0 \<and>
    (\<exists>res c''. ether_HWTimestamper_gettime A r systim d t' c' = Some (res, c'') \<and>
      (if cross_timestamping_initialized t'
       then map_option fst res = Some ((fileTimeToTimestamp (rd_systime r))\<lparr>ts_version := et_version t\<rparr>)
       else c'' = c' \<and> (res = None) = (systim = None)))"
proof -
  obtain desc where init: "cross_initialize (Some desc) (qpf (sys_processor S)) (sys_rdtsc S) (sys_samples S) c =
      Some (cross_timestamping_initialized t', c')"
    using ether_init_fields(4) [OF assms] by blast
  have "\<exists>res c''. ether_HWTimestamper_gettime A r systim d t' c' = Some (res, c'') \<and>
      (if cross_timestamping_initialized t'
       then map_option fst res = Some ((fileTimeToTimestamp (rd_systime r))\<lparr>ts_version := et_version t\<rparr>)
       else c'' = c' \<and> (res = None) = (systim = None))"
  proof (cases "cross_timestamping_initialized t'")
    case True
    then have inv: "cross_inv c'" using cross_initialize_inv(1) init by metis
    then have "isPreciseTimestampingSupported c'" by (auto simp: cross_inv_def isPreciseTimestampingSupported_def)
    moreover obtain st dt c'' where
        "getCrossTimestamp r d c' = Some (Some (st, dt, seconds_ls st, 1000000000), c'')" "st = fileTimeToTimestamp (rd_systime r)"
      by (rule getCrossTimestamp_works [OF inv])
    ultimately show ?thesis
      using True ether_init_fields(3) [OF assms] by (simp add: ether_HWTimestamper_gettime_def Let_def)
  next
    case False
    then have "\<not> isPreciseTimestampingSupported c'" using cross_initialize_refused init by metis
    then show ?thesis using False by (simp add: ether_HWTimestamper_gettime_def Let_def split: option.split)
  qed
  then show ?thesis using ether_init_fields(1,2) [OF assms] by blast
qed

lemma nanoseconds64ToTimestamp_set64: "nanoseconds64ToTimestamp time = ts_set64 time Timestamp_default"
proof -
  have mask: "(0xFFFFFFFF::u64) = mask 32" by (simp add: mask_eq_exp_minus_1)
  have "(ucast (x AND mask 32) :: u32) = ucast x" for x :: u64 by (rule bit_word_eqI) (auto simp: bit_simps)
  then show ?thesis by (simp add: nanoseconds64ToTimestamp_def ts_set64_def mask)
qed

lemma scale_1GHz:
  assumes "wf_arch A" and "uint time \<le> 2 ^ 53"
  shows "scale_to_nanoseconds A 1000000000 time = time"
proof -
  have F: "wf_fmt (ld_fmt A)" "53 \<le> fprec (ld_fmt A)" using assms(1) by (simp_all add: wf_arch_def)
  have le: "(2::int) ^ 53 \<le> 2 ^ fprec (ld_fmt A)" using F(2) by (intro power_increasing) simp_all
  have exact: "fp_of_int (ld_fmt A) n = Fin (of_int n)" if "\<bar>n\<bar> \<le> 2 ^ 53" for n
    using that le by (intro fp_of_int_exact F(1)) linarith
  have one: "fround (ld_fmt A) 1 = Fin 1" using exact [of 1] by (simp add: fp_of_int_def)
  have round: "fround (ld_fmt A) (of_int (uint time)) = Fin (of_int (uint time))"
    using exact [of "uint time"] assms(2) by (simp add: fp_of_int_def)
  have "uint time \<le> 2 ^ 64 - 1" using uint_lt2p [of time] by simp
  then have "to_u64 A (Fin (of_int (uint time))) = time" by (simp add: to_u64_def fp_to_int_range word_of_int_uint del: of_int_uint)
  then show ?thesis
    using exact [of 1000000000] exact [of "uint time"] assms(2) one round
    by (simp add: scale_to_nanoseconds_def Let_def del: of_int_uint)
qed

lemma ERROR_codes: "ERROR_GEN_FAILURE \<noteq> ERROR_SUCCESS"
  by (simp add: ERROR_SUCCESS_def ERROR_GEN_FAILURE_def)

lemma read_stamps_app:
  "read_stamps (map (\<lambda>s. (ERROR_SUCCESS, s, k s)) ss @ (e, tmp, n) # rest) buf =
     (if e = ERROR_SUCCESS then read_stamps rest tmp else Some (e, if ss = [] then buf else last ss, n))"
  by (induction ss arbitrary: buf) auto

definition raw_stamp :: "u32 list \<Rightarrow> u64" where
  "raw_stamp buf = push_bit 32 (ucast (buf ! 1)) OR ucast (buf ! 0)"

text \<open>C21. When the driver holds the timestamps \<open>ss\<close> and then reports that it has no more,
  \<open>HWTimestamper_rxtimestamp\<close> reads all of them and looks only at the last one: it delivers that time, in nanoseconds
  for a clock of 1 GHz, if its sequence number is the one of the message, and asks to try again otherwise. An
  earlier timestamp is lost even if it belongs to the message.\<close>

theorem rx_timestamp_of_message:
  assumes "wf_arch A" and "netclock_hz t = 1000000000" and "ss \<noteq> []" and "uint (raw_stamp (last ss)) \<le> 2 ^ 53"
  shows "\<exists>ts. ts_ns ts = uint (raw_stamp (last ss)) \<and> ts_version ts = et_version t \<and>
    ether_HWTimestamper_rxtimestamp A (map (\<lambda>s. (ERROR_SUCCESS, s, k s)) ss @ (ERROR_GEN_FAILURE, tmp, 16) # rest) buf t messageId timestamp =
      Some (if stamp_sequence (last ss) = id_sequenceId messageId then (GPTP_EC_SUCCESS, ts) else (GPTP_EC_EAGAIN, timestamp))"
proof (intro exI conjI)
  have stamp: "stamp_time A t (last ss) = (ts_set64 (raw_stamp (last ss)) Timestamp_default)\<lparr>ts_version := et_version t\<rparr>"
    using scale_1GHz [OF assms(1,4)] assms(2)
    by (simp add: stamp_time_def scaleNativeClockToNanoseconds_def raw_stamp_def nanoseconds64ToTimestamp_set64)
  show "ts_ns (stamp_time A t (last ss)) = uint (raw_stamp (last ss))"
    using ts_ns_set64(1) [of "raw_stamp (last ss)"] by (simp add: stamp ts_ns_def)
  show "ts_version (stamp_time A t (last ss)) = et_version t" by (simp add: stamp)
  show "ether_HWTimestamper_rxtimestamp A (map (\<lambda>s. (ERROR_SUCCESS, s, k s)) ss @ (ERROR_GEN_FAILURE, tmp, 16) # rest) buf t messageId timestamp =
      Some (if stamp_sequence (last ss) = id_sequenceId messageId then (GPTP_EC_SUCCESS, stamp_time A t (last ss)) else (GPTP_EC_EAGAIN, timestamp))"
    using assms(3) ERROR_codes by (simp add: ether_HWTimestamper_rxtimestamp_def read_stamps_app)
qed

definition sample_timestamper :: WindowsEtherTimestamper where
  "sample_timestamper = WindowsEtherTimestamper_new\<lparr>netclock_hz := 1000000000\<rparr>"

theorem rx_timestamp_of_message_witness:
  "\<exists>ts. ts_ns ts = 2 ^ 32 + 7 \<and>
     ether_HWTimestamper_rxtimestamp sample_arch [(ERROR_SUCCESS, [7, 1, 0, 0x05000000], 16), (ERROR_GEN_FAILURE, [], 16)] []
       sample_timestamper \<lparr>id_messageType = SYNC_MESSAGE, id_sequenceId = 5\<rparr> Timestamp_default = Some (GPTP_EC_SUCCESS, ts)"
proof -
  have raw: "uint (raw_stamp [7, 1, 0, 0x05000000]) = 2 ^ 32 + 7" and sequence: "stamp_sequence [7, 1, 0, 0x05000000] = 5"
    by code_simp+
  show ?thesis
    using rx_timestamp_of_message [of sample_arch sample_timestamper "[[7, 1, 0, 0x05000000]]" "\<lambda>s. 16" "[]" "[]" "[]"
        "\<lparr>id_messageType = SYNC_MESSAGE, id_sequenceId = 5\<rparr>" Timestamp_default]
    by (simp add: sample_arch_wf sample_timestamper_def raw sequence) blast
qed

definition sample_system :: windows_system where
  "sample_system =
     \<lparr>GetAdaptersInfo = Some [\<lparr>AddressLength = 6, Address = [1, 2, 3, 4, 5, 6, 0, 0], Description = ''I219'', AdapterName = ''card''\<rparr>],
      GetAdaptersAddresses = None, CreateFile = (\<lambda>_. True), timestamp_capability = Some [1], timestamp_current_config = None,
      sys_processor = \<lparr>cpuid_0 = 0, cpuid_15 = 0, is_windows_10 = True, wProcessorRevision = 0, qpf = (True, 10000000)\<rparr>,
      sys_rdtsc = sample_rdtsc, sys_samples = rd_samples (sample_reads 500 501)\<rparr>"

lemma sample_system_init:
  "\<exists>t c. ether_HWTimestamper_init sample_system (Some \<lparr>addr = [1, 2, 3, 4, 5, 6]\<rparr>) WindowsEtherTimestamper_new WindowsCrossTimestamp_new =
     Some (True, None, t, c) \<and> cross_timestamping_initialized t"
proof -
  have rate: "detect_rate None ''I219'' = Some 1008000000" by code_simp
  have "lla_eq \<lparr>addr = [1, 2, 3, 4, 5, 6]\<rparr> \<lparr>addr = [1, 2, 3, 4, 5, 6]\<rparr>" by code_simp
  then show ?thesis
    by (simp add: ether_HWTimestamper_init_def sample_system_def rate Let_def getTSCFrequency_def cross_initialize_def init_method_def
        detectBestMethod_def isRDTSCAvailable_def sample_rdtsc_def WindowsCrossTimestamp_new_def)
qed

theorem ether_init_gettime_witness:
  "\<exists>t c res c'. ether_HWTimestamper_init sample_system (Some \<lparr>addr = [1, 2, 3, 4, 5, 6]\<rparr>) WindowsEtherTimestamper_new
       WindowsCrossTimestamp_new = Some (True, None, t, c) \<and>
     ether_HWTimestamper_gettime sample_arch (sample_reads 1000 1010) None Timestamp_default t c = Some (res, c') \<and> res \<noteq> None"
proof -
  obtain t c where init: "ether_HWTimestamper_init sample_system (Some \<lparr>addr = [1, 2, 3, 4, 5, 6]\<rparr>) WindowsEtherTimestamper_new
      WindowsCrossTimestamp_new = Some (True, None, t, c)" "cross_timestamping_initialized t"
    using sample_system_init by blast
  show ?thesis
    using ether_init_gettime [OF init(1), of sample_arch "sample_reads 1000 1010" None Timestamp_default] init by fastforce
qed

end
