(* ===== verification/Windows_Net.thy ===== *)
theory Windows_Net
  imports Windows_Timestamper Linux_Net
begin

text \<open>
  The network side of the Windows daemon (\<open>windows/daemon_cl/\<close>): frames through the packet capture library (\<open>packet.cpp\<close> and
  the class \<open>WindowsPCAPNetworkInterface\<close> of \<open>windows_hal.hpp\<close>), the link monitor (\<open>windows_hal.cpp\<close>) and the command line
  (\<open>daemon_cl.cpp\<close>). The answers of the capture library and of the system are arguments. A read outside of the data of a frame
  is \<open>None\<close>. The main results: a frame that fits into the 96 octets of a capture is received as it was sent, and a
  longer one is read past its end; the link monitor notifies exactly the changes of the link; an address is parsed from
  its printed form.
\<close>

section \<open>Frames\<close>

datatype packet_error_t = PACKET_NO_ERROR | PACKET_NOMEMORY_ERROR | PACKET_BADBUFFER_ERROR | PACKET_XMIT_ERROR
  | PACKET_IFLOOKUP_ERROR | PACKET_IFNOTFOUND_ERROR | PACKET_CREATEMUTEX_ERROR | PACKET_GETMUTEX_ERROR
  | PACKET_RLSMUTEX_ERROR | PACKET_RECVTIMEOUT_ERROR | PACKET_RECVFAILED_ERROR | PACKET_BIND_ERROR

definition MAX_FRAME_SIZE :: nat where
  "MAX_FRAME_SIZE = 96"

definition PACKET_HDR_LENGTH :: nat where
  "PACKET_HDR_LENGTH = 14"

record packet_handle =
  ph_iface :: "string option"
  iface_addr :: octets
  ph_ethertype :: u16

text \<open>\<open>memory\<close> and \<open>mutex\<close>: whether they are available.\<close>

definition mallocPacketHandle :: "bool \<Rightarrow> bool \<Rightarrow> packet_error_t \<times> packet_handle option" where
  "mallocPacketHandle memory mutex =
     (if \<not> memory then (PACKET_NOMEMORY_ERROR, None)
      else (if mutex then PACKET_NO_ERROR else PACKET_CREATEMUTEX_ERROR,
            Some \<lparr>ph_iface = None, iface_addr = [], ph_ethertype = 0\<rparr>))"

definition PCAP_INTERFACENAMEPREFIX :: string where
  "PCAP_INTERFACENAMEPREFIX = ''rpcap://'' @ [CHR 0x5C] @ ''Device'' @ [CHR 0x5C] @ ''NPF_''"

text \<open>\<open>adapters\<close> are the physical addresses and names of \<open>GetAdaptersAddresses\<close>; \<open>pcap_open\<close> tells which names open.\<close>

definition openInterfaceByAddr ::
  "(octets \<times> string) list option \<Rightarrow> (string \<Rightarrow> bool) \<Rightarrow> octets \<Rightarrow> packet_handle \<Rightarrow> packet_error_t \<times> packet_handle" where
  "openInterfaceByAddr adapters pcap_open address h =
     (case adapters of
        None \<Rightarrow> (PACKET_IFLOOKUP_ERROR, h)
      | Some as \<Rightarrow>
          (case find (\<lambda>a. length (fst a) = 6 \<and> memcmp (fst a) address = 0) as of
             None \<Rightarrow> (PACKET_IFNOTFOUND_ERROR, h)
           | Some a \<Rightarrow>
               let name = PCAP_INTERFACENAMEPREFIX @ take 38 (snd a)
               in if pcap_open name then (PACKET_NO_ERROR, h\<lparr>ph_iface := Some name, iface_addr := address\<rparr>)
                  else (PACKET_IFLOOKUP_ERROR, h\<lparr>ph_iface := None\<rparr>)))"

definition packetBind :: "bool \<Rightarrow> bool \<Rightarrow> u16 \<Rightarrow> packet_handle \<Rightarrow> packet_error_t \<times> packet_handle" where
  "packetBind compiled filter_set ethertype h =
     (if \<not> compiled \<or> \<not> filter_set then (PACKET_BIND_ERROR, h) else (PACKET_NO_ERROR, h\<lparr>ph_ethertype := ethertype\<rparr>))"

text \<open>The buffer holds 14 octets for the header and then the payload of the given length. The result is the error
  and the frame that is handed to the library.\<close>

definition sendFrame :: "packet_handle \<Rightarrow> octets \<Rightarrow> u16 \<Rightarrow> octets \<Rightarrow> nat \<Rightarrow> bool \<Rightarrow> packet_error_t \<times> octets" where
  "sendFrame h address ethertype payload len transmitted =
     (let ethertype_no = PLAT_htons ethertype;
          ret = (if len < PACKET_HDR_LENGTH then PACKET_BADBUFFER_ERROR else PACKET_NO_ERROR);
          payload = address @ iface_addr h @ le_bytes 2 ethertype_no @ drop 14 payload
      in (if transmitted then ret else PACKET_XMIT_ERROR, take (len + PACKET_HDR_LENGTH) payload))"

text \<open>What \<open>pcap_next_ex\<close> gives: a frame has its length on the wire and the octets that were captured.\<close>

datatype pcap_result = Pcap_timeout | Pcap_error | Pcap_frame u32 octets

text \<open>The length of the payload: the length on the wire without the header, in 32 bits, if there is room for it.\<close>

definition recv_length :: "u32 \<Rightarrow> u64 \<Rightarrow> nat" where
  "recv_length hdr_len len =
     (let n = ucast (hdr_len - of_nat PACKET_HDR_LENGTH) in unat (if len \<le> n then len else n))"

text \<open>The error, the payload and the address of the sender. The payload and the address keep their values, \<open>None\<close>, without a
  frame.\<close>

definition recvFrame ::
  "bool \<Rightarrow> pcap_result \<Rightarrow> bool \<Rightarrow> u64 \<Rightarrow> (packet_error_t \<times> (octets \<times> octets) option) option" where
  "recvFrame mutex next released len =
     (if \<not> mutex then Some (PACKET_GETMUTEX_ERROR, None)
      else
        map_option (\<lambda>(ret, out). (if released then ret else PACKET_RLSMUTEX_ERROR, out))
          (case next of
             Pcap_timeout \<Rightarrow> Some (PACKET_RECVTIMEOUT_ERROR, None)
           | Pcap_error \<Rightarrow> Some (PACKET_RECVFAILED_ERROR, None)
           | Pcap_frame hdr_len data \<Rightarrow>
               let len = recv_length hdr_len len
               in if length data < PACKET_HDR_LENGTH + len \<or> length data < 12 then None
                  else Some (PACKET_NO_ERROR, Some (take len (drop PACKET_HDR_LENGTH data), take 6 (drop 6 data)))))"

definition pcap_send :: "packet_handle \<Rightarrow> LinkLayerAddress \<Rightarrow> u16 \<Rightarrow> octets \<Rightarrow> nat \<Rightarrow> bool \<Rightarrow> net_result \<times> octets" where
  "pcap_send h dest etherType payload len transmitted =
     (let (e, frame) = sendFrame h (addr dest) etherType payload len transmitted
      in (if e \<noteq> PACKET_NO_ERROR then net_fatal else net_succeed, frame))"

definition pcap_nrecv :: "bool \<Rightarrow> pcap_result \<Rightarrow> bool \<Rightarrow> u64 \<Rightarrow> (net_result \<times> (octets \<times> LinkLayerAddress) option) option" where
  "pcap_nrecv mutex next released len =
     map_option
       (\<lambda>(pferror, out).
          if pferror \<noteq> PACKET_NO_ERROR \<and> pferror \<noteq> PACKET_RECVTIMEOUT_ERROR then (net_fatal, None)
          else if pferror = PACKET_RECVTIMEOUT_ERROR then (net_trfail, None)
          else (net_succeed, map_option (\<lambda>(payload, source). (payload, \<lparr>addr = source\<rparr>)) out))
       (recvFrame mutex next released len)"

text \<open>\<open>createInterface\<close> of the factory; \<open>None\<close> when it fails.\<close>

definition createInterface ::
  "bool \<Rightarrow> bool \<Rightarrow> (octets \<times> string) list option \<Rightarrow> (string \<Rightarrow> bool) \<Rightarrow> bool \<Rightarrow> bool \<Rightarrow> LinkLayerAddress option \<Rightarrow>
   (LinkLayerAddress \<times> packet_handle) option" where
  "createInterface memory mutex adapters pcap_open compiled filter_set label =
     (case label of
        None \<Rightarrow> None
      | Some a \<Rightarrow>
          (case mallocPacketHandle memory mutex of
             (PACKET_NO_ERROR, Some h) \<Rightarrow>
               (case openInterfaceByAddr adapters pcap_open (addr a) h of
                  (PACKET_NO_ERROR, h) \<Rightarrow>
                    (case packetBind compiled filter_set PTP_ETHERTYPE h of
                       (PACKET_NO_ERROR, h) \<Rightarrow> Some (a, h)
                     | _ \<Rightarrow> None)
                | _ \<Rightarrow> None)
           | _ \<Rightarrow> None))"

section \<open>The link monitor\<close>

text \<open>An entry of \<open>GetAdaptersAddresses\<close>: whether its operational status is up, and for each unicast address whether
  its state is preferred or deprecated.\<close>

record link_adapter =
  la_description :: string
  la_physical :: octets
  la_up :: bool
  la_unicast :: "bool list"

definition checkLinkStatus :: "link_adapter list option \<Rightarrow> string \<Rightarrow> octets \<Rightarrow> bool" where
  "checkLinkStatus adapters interfaceDesc macAddress =
     (case adapters of
        None \<Rightarrow> False
      | Some as \<Rightarrow>
          (case find (\<lambda>a. strstr interfaceDesc (la_description a) \<and> length (la_physical a) = 6 \<and> la_physical a = take 6 macAddress) as of
             Some a \<Rightarrow> la_up a
           | None \<Rightarrow> False))"

text \<open>\<open>started\<close>: whether \<open>startLinkMonitoring\<close> succeeds. The second list is the one that \<open>checkLinkStatus\<close> reads.\<close>

definition windows_watchNetLink ::
  "link_adapter list option \<Rightarrow> bool \<Rightarrow> link_adapter list option \<Rightarrow> LinkLayerAddress \<Rightarrow> EtherPort \<Rightarrow> EtherPort" where
  "windows_watchNetLink adapters started later port_addr p =
     (case adapters of
        None \<Rightarrow> p
      | Some as \<Rightarrow>
          (case find (\<lambda>a. length (la_physical a) = 6 \<and> memcmp (addr port_addr) (la_physical a) = 0) as of
             None \<Rightarrow> p
           | Some a \<Rightarrow>
               if started then setAsCapable (checkLinkStatus later (la_description a) (addr port_addr)) p
               else setAsCapable (la_up a \<and> (list_ex (\<lambda>b. b) (la_unicast a) \<or> la_unicast a = [])) p))"

datatype monitor_wait = Addr_change | Route_change | Monitor_timeout | Monitor_failed | Monitor_other

text \<open>The loop of \<open>linkMonitorThreadProc\<close>, on the results of its waits and what \<open>checkLinkStatus\<close> then returns, until it is
  told to stop: the values given to \<open>setAsCapable\<close> and the last state.\<close>

fun linkMonitor_loop :: "bool \<Rightarrow> (monitor_wait \<times> bool) list \<Rightarrow> bool list \<times> bool" where
  "linkMonitor_loop lastLinkState [] = ([], lastLinkState)"
| "linkMonitor_loop lastLinkState ((dwResult, currentLinkState) # rounds) =
     (if dwResult = Addr_change \<or> dwResult = Route_change \<or> dwResult = Monitor_timeout
      then if currentLinkState \<noteq> lastLinkState
           then let (calls, final) = linkMonitor_loop currentLinkState rounds in (currentLinkState # calls, final)
           else linkMonitor_loop lastLinkState rounds
      else if dwResult = Monitor_failed then ([], lastLinkState)
      else linkMonitor_loop lastLinkState rounds)"

text \<open>The list of monitors. \<open>stopLinkMonitoring\<close> removes its argument from the list and frees it.\<close>

definition startLinkMonitoring :: "bool \<Rightarrow> bool \<Rightarrow> bool \<Rightarrow> 'm \<Rightarrow> 'm list \<Rightarrow> bool \<times> 'm list" where
  "startLinkMonitoring addr_change route_change created m monitors =
     (if addr_change \<and> route_change \<and> created then (True, monitors @ [m]) else (False, monitors))"

definition stopLinkMonitoring :: "'m \<Rightarrow> 'm list \<Rightarrow> 'm list" where
  "stopLinkMonitoring m monitors = removeAll m monitors"

text \<open>\<open>cleanupLinkMonitoring\<close> advances an iterator whose element the call has removed: the behaviour is undefined as soon as there
  is a monitor.\<close>

definition cleanupLinkMonitoring :: "'m list \<Rightarrow> 'm list option" where
  "cleanupLinkMonitoring monitors = (case monitors of [] \<Rightarrow> Some [] | m # _ \<Rightarrow> None)"

definition findLinkSpeed :: "(octets \<times> u64) list \<Rightarrow> LinkLayerAddress \<Rightarrow> u32" where
  "findLinkSpeed adapters own_addr =
     (case find (\<lambda>a. length (fst a) = 6 \<and> lla_eq own_addr \<lparr>addr = fst a\<rparr>) adapters of
        None \<Rightarrow> INVALID_LINKSPEED
      | Some a \<Rightarrow>
          let speed = snd a div 1000
          in if speed = ucast LINKSPEED_1G then LINKSPEED_1G
             else if speed = ucast LINKSPEED_100MB then LINKSPEED_100MB
             else INVALID_LINKSPEED)"

section \<open>The command line\<close>

text \<open>\<open>strtol\<close> with base 16 where a \<open>long\<close> has 32 bits: the value and the rest.\<close>

fun hex_prefix :: "string \<Rightarrow> string" where
  "hex_prefix (c # x # d # s) =
     (if c = CHR ''0'' \<and> (x = CHR ''x'' \<or> x = CHR ''X'') \<and> digit_val d < 16 then d # s else c # x # d # s)"
| "hex_prefix s = s"

definition strtol16 :: "string \<Rightarrow> int \<times> string" where
  "strtol16 s =
     (let (neg, t) = sign_prefix (dropWhile isspace s);
          t = hex_prefix t
      in if \<not> starts_with_digit 16 t then (0, s)
         else let (n, rest) = digits 16 0 t
              in (if neg then max (- (2 ^ 31)) (- int n) else min (2 ^ 31 - 1) (int n), rest))"

text \<open>\<open>None\<close>: the next conversion would start behind the end of the string.\<close>

fun parse_octets :: "nat \<Rightarrow> string \<Rightarrow> octets option" where
  "parse_octets 0 s = Some []"
| "parse_octets (Suc n) s =
     (case strtol16 s of
        (v, []) \<Rightarrow> if n = 0 then Some [word_of_int v] else None
      | (v, _ # cur) \<Rightarrow> map_option ((#) (word_of_int v)) (parse_octets n cur))"

definition parseMacAddr :: "string \<Rightarrow> octets \<Rightarrow> (int \<times> octets) option" where
  "parseMacAddr macstr octet_string =
     (if min (length macstr) 17 \<noteq> 17 then Some (- 1, octet_string) else map_option (\<lambda>os. (0, os)) (parse_octets 6 macstr))"

record windows_options =
  wo_wireless :: bool
  wo_priority1 :: u8

definition strtoul32 :: "string \<Rightarrow> u32" where
  "strtoul32 s =
     (let (neg, t) = sign_prefix (dropWhile isspace s);
          (b, t) = base_prefix 0 t
      in if \<not> starts_with_digit b t then 0
         else let (n, rest) = digits b 0 t
              in if 2 ^ 32 \<le> n then - 1 else if neg then - of_nat n else of_nat n)"

definition ispunct :: "char \<Rightarrow> bool" where
  "ispunct c \<longleftrightarrow> (let n = (of_char c :: nat) in 33 \<le> n \<and> n \<le> 47 \<or> 58 \<le> n \<and> n \<le> 64 \<or> 91 \<le> n \<and> n \<le> 96 \<or> 123 \<le> n \<and> n \<le> 126)"

text \<open>The character at an index of a string that ends with a zero.\<close>

definition char_at :: "string \<Rightarrow> nat \<Rightarrow> char" where
  "char_at s n = (if n < length s then s ! n else NUL)"

text \<open>The loop over the optional arguments, after the name of the program: the options and the arguments left, or \<open>None\<close> when the help is printed.\<close>

fun windows_args :: "windows_options \<Rightarrow> string list \<Rightarrow> (windows_options \<times> string list) option" where
  "windows_args st [] = Some (st, [])"
| "windows_args st (a # args) =
     (if ispunct (char_at a 0)
      then let c = char_at a 1
           in if c \<in> {CHR ''H'', CHR ''h''} then None
              else if c \<in> {CHR ''W'', CHR ''w''} then windows_args (st\<lparr>wo_wireless := True\<rparr>) args
              else if c \<in> {CHR ''R'', CHR ''r''}
                   then case args of
                          [] \<Rightarrow> windows_args st args
                        | v # args' \<Rightarrow>
                            let tmp = strtoul32 v
                            in windows_args (if 255 < tmp then st else st\<lparr>wo_priority1 := ucast tmp\<rparr>) args'
              else windows_args st args
      else Some (st, a # args))"

text \<open>The addresses that follow: the results of \<open>parseMacAddr\<close> are ignored, so that a text of the wrong length leaves the
  variable as it is. \<open>Some None\<close>: \<open>main\<close> returns with an error; \<open>None\<close>: a read behind the end of an argument. The result is the local
  address and, for wireless operation, the virtual and the peer's address.\<close>

definition windows_main_args ::
  "octets \<Rightarrow> string list \<Rightarrow> (windows_options \<times> LinkLayerAddress \<times> (LinkLayerAddress \<times> LinkLayerAddress) option) option option" where
  "windows_main_args addr_ostr argv =
     (case (if argv = [] then None else windows_args \<lparr>wo_wireless = False, wo_priority1 = 248\<rparr> argv) of
        None \<Rightarrow> Some None
      | Some (st, []) \<Rightarrow> Some None
      | Some (st, a # args) \<Rightarrow>
          (case parseMacAddr a addr_ostr of
             None \<Rightarrow> None
           | Some (_, o1) \<Rightarrow>
               if \<not> wo_wireless st then Some (Some (st, \<lparr>addr = o1\<rparr>, None))
               else (case args of
                       [] \<Rightarrow> Some None
                     | b # args \<Rightarrow>
                         (case parseMacAddr b o1 of
                            None \<Rightarrow> None
                          | Some (_, o2) \<Rightarrow>
                              (case args of
                                 [] \<Rightarrow> Some None
                               | c # _ \<Rightarrow>
                                   (case parseMacAddr c o2 of
                                      None \<Rightarrow> None
                                    | Some (_, o3) \<Rightarrow> Some (Some (st, \<lparr>addr = o1\<rparr>, Some (\<lparr>addr = o2\<rparr>, \<lparr>addr = o3\<rparr>)))))))))"

section \<open>Laws\<close>

text \<open>What the library captures of a frame.\<close>

definition capture :: "octets \<Rightarrow> pcap_result" where
  "capture frame = Pcap_frame (of_nat (length frame)) (take MAX_FRAME_SIZE frame)"

text \<open>The number of octets that \<open>recvFrame\<close> copies of a frame with a whole header.\<close>

lemma recv_length_min:
  assumes "14 \<le> n" and "n < 2 ^ 32" and "room < 2 ^ 64"
  shows "recv_length (of_nat n) (of_nat room) = min room (n - 14)"
proof -
  have 14: "of_nat n - 14 = (of_nat (n - 14) :: u32)" using assms(1) by (simp add: of_nat_diff)
  have "uint (ucast (of_nat (n - 14) :: u32) :: u64) = int (n - 14)"
    using assms(2) by (simp add: uint_up_ucast is_up unsigned_of_nat take_bit_nat_eq_self)
  then have "unat (ucast (of_nat (n - 14) :: u32) :: u64) = n - 14" by (metis nat_int unat_eq_nat_uint)
  moreover have "unat (of_nat room :: u64) = room" using assms(3) by (simp add: unsigned_of_nat take_bit_nat_eq_self)
  ultimately show ?thesis by (simp add: recv_length_def PACKET_HDR_LENGTH_def Let_def 14 word_le_nat_alt min_def)
qed

lemma recvFrame_capture:
  assumes "14 \<le> length frame" and "length frame < 2 ^ 32" and "room < 2 ^ 64"
  shows "recvFrame True (capture frame) True (of_nat room) =
    (if 14 + min room (length frame - 14) \<le> 96
     then Some (PACKET_NO_ERROR, Some (take room (drop 14 frame), take 6 (drop 6 frame))) else None)"
proof -
  let ?n = "min room (length frame - 14)"
  have len: "min (length frame) 96 < 14 + ?n \<or> min (length frame) 96 < 12 \<longleftrightarrow> \<not> 14 + ?n \<le> 96" using assms(1) by auto
  have copy: "take ?n (drop 14 (take 96 frame)) = take room (drop 14 frame)" if "14 + ?n \<le> 96"
  proof -
    have "take ?n (drop 14 (take 96 frame)) = take ?n (drop 14 frame)" using that by (simp only: drop_take take_take) simp
    then show ?thesis by (simp add: min_def)
  qed
  have source: "take 6 (drop 6 (take 96 frame)) = take 6 (drop 6 frame)" by (simp only: drop_take take_take) simp
  show ?thesis
    using copy source unfolding recvFrame_def capture_def MAX_FRAME_SIZE_def PACKET_HDR_LENGTH_def
    by (simp only: pcap_result.case recv_length_min [OF assms] Let_def length_take len) simp
qed

text \<open>C22. A frame that one station sends and another captures is received exactly: with room for it, the receiver gets the
  payload and the address of the sender when the payload has at most 82 octets, and reads past the end of the captured data
  when it is longer (an announce message with a path trace of two clocks has 84).\<close>

theorem frame_roundtrip:
  assumes "length dest = 6" and "length (iface_addr h) = 6" and "length header = 14" and "length payload \<le> room" and "room < 2 ^ 31"
  shows "pcap_nrecv True (capture (snd (pcap_send h \<lparr>addr = dest\<rparr> etherType (header @ payload) (length payload) transmitted))) True (of_nat room) =
    (if length payload \<le> 82 then Some (net_succeed, Some (payload, \<lparr>addr = iface_addr h\<rparr>)) else None)"
proof -
  let ?frame = "dest @ iface_addr h @ le_bytes 2 (PLAT_htons etherType) @ payload"
  have frame: "snd (pcap_send h \<lparr>addr = dest\<rparr> etherType (header @ payload) (length payload) transmitted) = ?frame"
    using assms by (simp add: pcap_send_def sendFrame_def PACKET_HDR_LENGTH_def Let_def)
  have len: "length ?frame = 14 + length payload" using assms(1,2) by simp
  have payload: "take room (drop 14 ?frame) = payload" and source: "take 6 (drop 6 ?frame) = iface_addr h"
    using assms(1,2,4) by (simp_all add: numeral_eq_Suc)
  have "min room (length ?frame - 14) = length payload" using assms(4) len by simp
  then have "recvFrame True (capture ?frame) True (of_nat room) =
      (if length payload \<le> 82 then Some (PACKET_NO_ERROR, Some (payload, iface_addr h)) else None)"
    using recvFrame_capture [of ?frame room] assms(4,5) len payload source by simp
  then show ?thesis by (simp add: pcap_nrecv_def frame)
qed

text \<open>A payload shorter than the header is sent, and reported as an error.\<close>

lemma short_frame_sent_as_error:
  assumes "len < 14"
  shows "pcap_send h d etherType buf len True = (net_fatal, take (len + 14) (addr d @ iface_addr h @ le_bytes 2 (PLAT_htons etherType) @ drop 14 buf))"
  using assms by (simp add: pcap_send_def sendFrame_def PACKET_HDR_LENGTH_def Let_def)

text \<open>A frame shorter than its header has a huge length.\<close>

lemma runt_frame_overread:
  assumes "k < 14" and "0 < room" and "room < 2 ^ 31"
  shows "recvFrame True (Pcap_frame (of_nat k) (take k frame)) r (of_nat room) = None"
proof -
  have "(of_nat k :: u32) - 14 = word_of_int (2 ^ 32 - int (14 - k))" using assms(1) by (simp add: of_nat_diff)
  then have "uint ((of_nat k :: u32) - 14) = 2 ^ 32 - int (14 - k)"
    using assms(1) by (simp only: uint_word_of_int_eq) (simp add: take_bit_int_eq_self)
  then have "2 ^ 31 \<le> uint (ucast ((of_nat k :: u32) - 14) :: u64)" using assms(1) by (simp add: uint_up_ucast is_up)
  moreover have "uint (of_nat room :: u64) = int room" using assms(3) by (simp add: unsigned_of_nat take_bit_nat_eq_self)
  ultimately have "(of_nat room :: u64) \<le> ucast ((of_nat k :: u32) - 14)" using assms(3) by (simp add: word_le_def)
  then have "recv_length (of_nat k) (of_nat room) = room"
    using assms(3) by (simp add: recv_length_def PACKET_HDR_LENGTH_def unsigned_of_nat take_bit_nat_eq_self)
  moreover have "min (length frame) k < 14 + room" using assms(1) by simp
  ultimately show ?thesis by (simp add: recvFrame_def PACKET_HDR_LENGTH_def Let_def)
qed

text \<open>C25. The link monitor notifies the port of exactly the changes of the link: while its waits end with an event or a timeout, the
  values it passes to \<open>setAsCapable\<close> are the observed states without repetitions, starting from the state at its start.\<close>

theorem link_monitor_changes:
  assumes "list_all (\<lambda>r. fst r \<in> {Addr_change, Route_change, Monitor_timeout}) rounds"
  shows "linkMonitor_loop s rounds = (tl (remdups_adj (s # map snd rounds)), last (s # map snd rounds))"
  using assms
proof (induction rounds arbitrary: s)
  case Nil
  then show ?case by simp
next
  case (Cons r rounds)
  obtain wait up where r: "r = (wait, up)" by (cases r)
  have wait: "wait = Addr_change \<or> wait = Route_change \<or> wait = Monitor_timeout" using Cons.prems r by auto
  have "remdups_adj (up # us) = up # tl (remdups_adj (up # us))" for us by (metis hd_remdups_adj list.exhaust_sel list.sel(1) list.distinct(1) remdups_adj_Nil_iff)
  moreover have "linkMonitor_loop t rounds = (tl (remdups_adj (t # map snd rounds)), last (t # map snd rounds))" for t
    using Cons by simp
  ultimately show ?case using wait by (simp add: r)
qed

theorem link_monitor_changes_witness:
  "linkMonitor_loop True [(Addr_change, False), (Monitor_timeout, False), (Route_change, True)] = ([False, True], True)"
  using link_monitor_changes [of "[(Addr_change, False), (Monitor_timeout, False), (Route_change, True)]" True] by simp

text \<open>Stopping the monitors is defined only when there are none: with a monitor that was started, cleaning up is undefined.\<close>

lemma cleanup_with_monitor: "startLinkMonitoring a r t m ms = (True, ms') \<Longrightarrow> cleanupLinkMonitoring ms' = None"
  by (auto simp: startLinkMonitoring_def cleanupLinkMonitoring_def split: if_splits list.split)

definition mac_text :: "octets \<Rightarrow> string" where
  "mac_text m = butlast (concat (map (\<lambda>b. fmt_2_2X b @ ''-'') m))"

lemma hex_digit_values:
  assumes "n < 16"
  shows "digit_val (hex_digit n) = n" "\<not> isspace (hex_digit n)" "hex_digit n \<noteq> CHR ''-''" "hex_digit n \<noteq> CHR ''+''"
    "hex_digit n \<noteq> CHR ''x''" "hex_digit n \<noteq> CHR ''X''"
proof -
  have "list_all (\<lambda>n. digit_val (hex_digit n) = n \<and> \<not> isspace (hex_digit n) \<and>
      hex_digit n \<notin> {CHR ''-'', CHR ''+'', CHR ''x'', CHR ''X''}) [0..<16]"
    by code_simp
  then show "digit_val (hex_digit n) = n" "\<not> isspace (hex_digit n)" "hex_digit n \<noteq> CHR ''-''" "hex_digit n \<noteq> CHR ''+''"
    "hex_digit n \<noteq> CHR ''x''" "hex_digit n \<noteq> CHR ''X''"
    using assms by (auto simp: list_all_iff simp del: upt.simps)
qed

lemma strtol16_octet:
  assumes "r = [] \<or> \<not> digit_val (hd r) < 16"
  shows "strtol16 (fmt_2_2X b @ r) = (uint b, r)"
proof -
  let ?h = "unat b div 16" and ?l = "unat b mod 16"
  have b: "unat b < 256" using unsigned_less [of b] by simp
  then have lt: "?h < 16" "?l < 16" by (simp_all add: less_mult_imp_div_less)
  have "hex_prefix (hex_digit ?h # hex_digit ?l # r) = hex_digit ?h # hex_digit ?l # r"
    using hex_digit_values [OF lt(2)] by (cases r) simp_all
  moreover have "digits 16 0 (hex_digit ?h # hex_digit ?l # r) = (unat b, r)"
    using assms hex_digit_values(1) [OF lt(1)] hex_digit_values(1) [OF lt(2)] lt by (cases r) (simp_all add: mult.commute [of _ 16])
  ultimately show ?thesis
    using hex_digit_values [OF lt(1)] lt uint_lt2p [of b] by (simp add: strtol16_def fmt_2_2X_def Let_def)
qed

lemma parse_octets_text:
  "parse_octets (Suc (length m)) (concat (map (\<lambda>b. fmt_2_2X b @ ''-'') m) @ fmt_2_2X b) = Some (m @ [b])"
proof (induction m)
  case Nil
  then show ?case using strtol16_octet [of "[]" b] by simp
next
  case (Cons a m)
  have "\<not> digit_val CHR ''-'' < 16" by code_simp
  then show ?case using Cons strtol16_octet [of "CHR ''-'' # concat (map (\<lambda>b. fmt_2_2X b @ ''-'') m) @ fmt_2_2X b" a] by simp
qed

lemma length_fmt_2_2X: "length (fmt_2_2X b) = 2"
  by (simp add: fmt_2_2X_def)

lemma concat_lengths: "length (concat (map (\<lambda>b. fmt_2_2X b @ ''-'') m)) = 3 * length m"
  by (induction m) (simp_all add: length_fmt_2_2X)

text \<open>\<open>parseMacAddr\<close> restores every address from its printed form, six pairs of hexadecimal digits separated by hyphens.\<close>

theorem parse_mac_roundtrip:
  assumes "length m = 6"
  shows "parseMacAddr (mac_text m) octet_string = Some (0, m)"
proof -
  obtain ms b where m: "m = ms @ [b]" using assms by (cases m rule: rev_cases) auto
  then have form: "mac_text m = concat (map (\<lambda>b. fmt_2_2X b @ ''-'') ms) @ fmt_2_2X b"
    by (simp add: mac_text_def butlast_append)
  have ms: "length ms = 5" using assms m by simp
  then have "Suc (length ms) = 6" by simp
  then have "parse_octets 6 (mac_text m) = Some m" using parse_octets_text [of ms b] m form by metis
  moreover have "length (mac_text m) = 17" using concat_lengths [of ms] ms by (simp only: form length_append length_fmt_2_2X)
  ultimately show ?thesis by (simp add: parseMacAddr_def)
qed

theorem parse_mac_roundtrip_witness: "parseMacAddr ''00-1B-21-01-02-FF'' [] = Some (0, [0x00, 0x1B, 0x21, 0x01, 0x02, 0xFF])"
proof -
  have "mac_text [0x00, 0x1B, 0x21, 0x01, 0x02, 0xFF] = ''00-1B-21-01-02-FF''" by code_simp
  then show ?thesis using parse_mac_roundtrip [of "[0x00, 0x1B, 0x21, 0x01, 0x02, 0xFF]" "[]"] by simp
qed

text \<open>A text of the wrong length is refused, but the refusal is ignored: the address of the port is what the variable held.\<close>

lemma short_mac_ignored:
  assumes "\<not> ispunct (char_at a 0)" and "length a < 17"
  shows "windows_main_args octets (a # args) = Some (Some (\<lparr>wo_wireless = False, wo_priority1 = 248\<rparr>, \<lparr>addr = octets\<rparr>, None))"
  using assms by (simp add: windows_main_args_def parseMacAddr_def)

theorem frame_roundtrip_witness:
  "pcap_nrecv True (capture (snd (pcap_send \<lparr>ph_iface = None, iface_addr = [1, 2, 3, 4, 5, 6], ph_ethertype = 0\<rparr>
      \<lparr>addr = [7, 8, 9, 10, 11, 12]\<rparr> 0x88F7 (replicate 14 0 @ [42]) 1 True))) True 100 =
    Some (net_succeed, Some ([42], \<lparr>addr = [1, 2, 3, 4, 5, 6]\<rparr>))"
  using frame_roundtrip [of "[7, 8, 9, 10, 11, 12]" "\<lparr>ph_iface = None, iface_addr = [1, 2, 3, 4, 5, 6], ph_ethertype = 0\<rparr>"
      "replicate 14 0" "[42]" 100 "0x88F7" True]
  by simp

end
