(* ===== verification/Windows_Ipc.thy ===== *)
theory Windows_Ipc
  imports Linux_Net
begin

text \<open>
  Interprocess communication of the Windows daemon (\<open>windows/daemon_cl/\<close>): the sorted list of peers (\<open>PeerList.hpp\<close>), the addresses and
  messages of the named pipe (\<open>windows_ipc.hpp\<close>), the offsets that clients query (\<open>IPCListener.hpp\<close>, \<open>windows_hal.cpp\<close>) and the loop of
  the listener (\<open>IPCListener.cpp\<close>), a state machine over the state of the pipe. What the system calls and the client deliver in a round is an
  argument; a round that leaves the loop through \<open>do_error\<close> is \<open>Leave\<close>. The updates of the clock run on other threads, one statement at a time,
  and interleave with the loop; the lock around the offsets (\<open>Lockable.hpp\<close>) is part of the state. The main results: the list of peers is a set of
  addresses of which only those are inserted that the handler accepts; every answer of the listener holds the values of the last complete
  updates, none of an update that is in progress; a message of an unknown kind ends the listener.
\<close>

section \<open>Addresses\<close>

datatype AddrWhich = MAC_ADDR | IP_ADDR | INVALID_ADDR

text \<open>The octets of the union: six for a link layer address, of which an IP address uses four.\<close>

record PeerAddr =
  pa_which :: AddrWhich
  pa_octets :: octets

definition IP_ADDR_OCTETS :: nat where
  "IP_ADDR_OCTETS = 4"

definition peer_eq :: "PeerAddr \<Rightarrow> PeerAddr \<Rightarrow> bool" where
  "peer_eq a other =
     (let result = (case pa_which a of
                      MAC_ADDR \<Rightarrow> memcmp (take ETHER_ADDR_OCTETS (pa_octets other)) (take ETHER_ADDR_OCTETS (pa_octets a))
                    | IP_ADDR \<Rightarrow> memcmp (take IP_ADDR_OCTETS (pa_octets other)) (take IP_ADDR_OCTETS (pa_octets a))
                    | INVALID_ADDR \<Rightarrow> - 1)
      in result = 0)"

definition peer_less :: "PeerAddr \<Rightarrow> PeerAddr \<Rightarrow> bool" where
  "peer_less a other =
     (let result = (case pa_which a of
                      MAC_ADDR \<Rightarrow> memcmp (take ETHER_ADDR_OCTETS (pa_octets other)) (take ETHER_ADDR_OCTETS (pa_octets a))
                    | IP_ADDR \<Rightarrow> memcmp (take IP_ADDR_OCTETS (pa_octets other)) (take IP_ADDR_OCTETS (pa_octets a))
                    | INVALID_ADDR \<Rightarrow> 1)
      in result < 0)"

section \<open>The list of peers\<close>

text \<open>\<open>pl_init\<close> is the handler for new peers, by its result; the state it attaches to a peer and the handler for removed
  ones do not change the list. The constructor leaves \<open>ready\<close> uninitialised.\<close>

record PeerList =
  pl_init :: "(PeerAddr \<Rightarrow> bool) option"
  internal_vector :: "PeerAddr list"
  pl_ready :: bool

definition PeerList_new :: "bool \<Rightarrow> PeerList" where
  "PeerList_new ready = \<lparr>pl_init = None, internal_vector = [], pl_ready = ready\<rparr>"

definition setInit :: "(PeerAddr \<Rightarrow> bool) \<Rightarrow> PeerList \<Rightarrow> PeerList" where
  "setInit f l = l\<lparr>pl_init := Some f\<rparr>"

text \<open>Whether the address is found, and the position of the iterator.\<close>

fun peer_find :: "PeerAddr \<Rightarrow> PeerAddr list \<Rightarrow> bool \<times> nat" where
  "peer_find a [] = (False, 0)"
| "peer_find a (x # xs) =
     (if peer_eq a x then (True, 0)
      else if peer_less a x then (False, 0)
      else (case peer_find a xs of (found, n) \<Rightarrow> (found, Suc n)))"

definition peer_add :: "PeerAddr \<Rightarrow> PeerList \<Rightarrow> bool \<times> PeerList" where
  "peer_add a l =
     (case peer_find a (internal_vector l) of
        (found, it) \<Rightarrow>
          if found then (False, l)
          else (True,
            case pl_init l of
              None \<Rightarrow> l
            | Some init \<Rightarrow>
                if \<not> init a then l
                else l\<lparr>internal_vector := take it (internal_vector l) @ a # drop it (internal_vector l)\<rparr>))"

definition peer_remove :: "PeerAddr \<Rightarrow> PeerList \<Rightarrow> bool \<times> PeerList" where
  "peer_remove a l =
     (case peer_find a (internal_vector l) of
        (found, it) \<Rightarrow>
          if \<not> found then (False, l)
          else (True, l\<lparr>internal_vector := take it (internal_vector l) @ drop (Suc it) (internal_vector l)\<rparr>))"

section \<open>Offsets\<close>

record Offset =
  of_ml_phoffset :: u64
  of_ml_freqoffset :: fp
  of_ls_phoffset :: u64
  of_ls_freqoffset :: fp
  of_local_time :: u64
  of_gptp_grandmaster_id :: octets
  of_gptp_domain_number :: u8
  of_clock_identity :: octets
  of_priority1 :: u8
  of_clock_class :: u8
  of_offset_scaled_log_variance :: u16
  of_clock_accuracy :: u8
  of_priority2 :: u8
  of_domain_number :: u8
  of_log_sync_interval :: u8
  of_log_announce_interval :: u8
  of_log_pdelay_interval :: u8
  of_port_number :: u16

text \<open>The values of the constructor, and those of \<open>memset\<close>.\<close>

definition Offset_new :: Offset where
  "Offset_new =
     \<lparr>of_ml_phoffset = 0, of_ml_freqoffset = Fin 0, of_ls_phoffset = 0, of_ls_freqoffset = Fin 0, of_local_time = 0,
      of_gptp_grandmaster_id = replicate 8 0, of_gptp_domain_number = 0, of_clock_identity = replicate 8 0, of_priority1 = 0xFF,
      of_clock_class = 0xFF, of_offset_scaled_log_variance = 0, of_clock_accuracy = 0xFF, of_priority2 = 0xFF, of_domain_number = 0,
      of_log_sync_interval = 0, of_log_announce_interval = 0, of_log_pdelay_interval = 0, of_port_number = 0\<rparr>"

definition Offset_zero :: Offset where
  "Offset_zero =
     \<lparr>of_ml_phoffset = 0, of_ml_freqoffset = Fin 0, of_ls_phoffset = 0, of_ls_freqoffset = Fin 0, of_local_time = 0,
      of_gptp_grandmaster_id = replicate 8 0, of_gptp_domain_number = 0, of_clock_identity = replicate 8 0, of_priority1 = 0,
      of_clock_class = 0, of_offset_scaled_log_variance = 0, of_clock_accuracy = 0, of_priority2 = 0, of_domain_number = 0,
      of_log_sync_interval = 0, of_log_announce_interval = 0, of_log_pdelay_interval = 0, of_port_number = 0\<rparr>"

text \<open>\<open>LockableOffset\<close>, with the exclusive lock of its base class; the constructor leaves \<open>ready\<close> uninitialised.\<close>

record LockableOffset =
  lo_lock :: bool
  lo_offset :: Offset
  lo_ready :: bool

definition LockableOffset_new :: "bool \<Rightarrow> LockableOffset" where
  "LockableOffset_new ready = \<lparr>lo_lock = False, lo_offset = Offset_new, lo_ready = ready\<rparr>"

text \<open>\<open>get\<close> waits while the lock is taken: \<open>None\<close>.\<close>

definition lockable_get :: "LockableOffset \<Rightarrow> LockableOffset option" where
  "lockable_get l = (if lo_lock l then None else Some (l\<lparr>lo_lock := True\<rparr>))"

definition lockable_put :: "LockableOffset \<Rightarrow> LockableOffset" where
  "lockable_put l = l\<lparr>lo_lock := False\<rparr>"

text \<open>The statements of an update, each one a step of its thread.\<close>

datatype offset_stmt = Get | Assign "Offset \<Rightarrow> Offset" | SetReady | Put

primrec exec_stmt :: "offset_stmt \<Rightarrow> LockableOffset \<Rightarrow> LockableOffset option" where
  "exec_stmt Get l = lockable_get l"
| "exec_stmt (Assign f) l = Some (l\<lparr>lo_offset := f (lo_offset l)\<rparr>)"
| "exec_stmt SetReady l = Some (if \<not> lo_ready l then l\<lparr>lo_ready := True\<rparr> else l)"
| "exec_stmt Put l = Some (lockable_put l)"

definition npipe_update :: "ipc_update \<Rightarrow> offset_stmt list" where
  "npipe_update u =
     [Get,
      Assign (\<lambda>d. d\<lparr>of_local_time := ipc_local_time u\<rparr>),
      Assign (\<lambda>d. d\<lparr>of_ml_freqoffset := ml_freqoffset u\<rparr>),
      Assign (\<lambda>d. d\<lparr>of_ml_phoffset := ml_phoffset u\<rparr>),
      Assign (\<lambda>d. d\<lparr>of_ls_freqoffset := ls_freqoffset u\<rparr>),
      Assign (\<lambda>d. d\<lparr>of_ls_phoffset := ls_phoffset u\<rparr>),
      SetReady, Put]"

definition npipe_update_grandmaster :: "octets \<Rightarrow> u8 \<Rightarrow> offset_stmt list" where
  "npipe_update_grandmaster gid dn =
     [Get,
      Assign (\<lambda>d. d\<lparr>of_gptp_grandmaster_id := gid\<rparr>),
      Assign (\<lambda>d. d\<lparr>of_gptp_domain_number := dn\<rparr>),
      SetReady, Put]"

definition npipe_update_network_interface :: "ipc_network_interface \<Rightarrow> offset_stmt list" where
  "npipe_update_network_interface n =
     [Get,
      Assign (\<lambda>d. d\<lparr>of_clock_identity := ni_clock_identity n\<rparr>),
      Assign (\<lambda>d. d\<lparr>of_priority1 := ni_priority1 n\<rparr>),
      Assign (\<lambda>d. d\<lparr>of_clock_class := ni_clock_class n\<rparr>),
      Assign (\<lambda>d. d\<lparr>of_offset_scaled_log_variance := ni_offset_scaled_log_variance n\<rparr>),
      Assign (\<lambda>d. d\<lparr>of_clock_accuracy := ni_clock_accuracy n\<rparr>),
      Assign (\<lambda>d. d\<lparr>of_priority2 := ni_priority2 n\<rparr>),
      Assign (\<lambda>d. d\<lparr>of_domain_number := ni_domain_number n\<rparr>),
      Assign (\<lambda>d. d\<lparr>of_log_sync_interval := ni_log_sync_interval n\<rparr>),
      Assign (\<lambda>d. d\<lparr>of_log_announce_interval := ni_log_announce_interval n\<rparr>),
      Assign (\<lambda>d. d\<lparr>of_log_pdelay_interval := ni_log_pdelay_interval n\<rparr>),
      Assign (\<lambda>d. d\<lparr>of_port_number := ni_port_number n\<rparr>),
      SetReady, Put]"

primrec npipe_call :: "ipc_call \<Rightarrow> offset_stmt list" where
  "npipe_call (IpcUpdate u) = npipe_update u"
| "npipe_call (IpcUpdateGrandmaster g n) = npipe_update_grandmaster g n"
| "npipe_call (IpcUpdateNetworkInterface n) = npipe_update_network_interface n"

section \<open>The listener\<close>

datatype pipe_state = PIPE_CLOSED | PIPE_UNCONNECT | PIPE_CONNECT_PENDING | PIPE_CONNECT | PIPE_READ_PENDING

record listener_data =
  ls_state :: pipe_state
  ls_pipe :: bool
  ls_list :: PeerList
  ls_offset :: LockableOffset

text \<open>Packed sizes of \<open>WindowsNPipeMessage\<close> and \<open>WinNPipeCtrlMessage\<close> where an \<open>OVERLAPPED\<close> has 32 octets; a query has no data of its own.\<close>

definition sizeof_base :: int where
  "sizeof_base = 44"

definition sizeof_ctrl :: int where
  "sizeof_ctrl = 60"

text \<open>\<open>ReadFile\<close>: the number of octets, or the error.\<close>

datatype read_file = Read_bytes nat | Read_error int

definition ERROR_BROKEN_PIPE :: int where
  "ERROR_BROKEN_PIPE = 109"

definition ERROR_PIPE_CONNECTED :: int where
  "ERROR_PIPE_CONNECTED = 535"

definition ERROR_IO_PENDING :: int where
  "ERROR_IO_PENDING = 997"

definition read_ol :: "int \<Rightarrow> int \<Rightarrow> read_file \<Rightarrow> int" where
  "read_ol sz offs f =
     (if sz - offs < 0 \<or> sz = 0 then - 1
      else if sz - offs = 0 then offs
      else case f of
             Read_error err \<Rightarrow> if err = ERROR_IO_PENDING then 0 else - 1
           | Read_bytes n \<Rightarrow> if int n = sz - offs then offs + int n else - 1)"

datatype wait_result = WAIT_OBJECT_0 | WAIT_TIMEOUT | WAIT_OTHER

text \<open>What a round meets: whether the pipe can be created and the event reset, the result of \<open>ConnectNamedPipe\<close> (\<open>None\<close> for success), of
  the wait, of the overlapped read with the last error after it, of its completion, and the message.\<close>

record pipe_env =
  env_create :: bool
  env_reset :: bool
  env_connect :: "int option"
  env_wait :: wait_result
  env_read :: read_file
  env_error :: int
  env_complete :: read_file
  env_type :: int
  env_rest :: read_file
  env_which :: int
  env_addr :: PeerAddr

text \<open>The end of a round: the loop goes on, with the offsets that were sent, or it is left. A round reads the offsets only while it holds
  their lock, so that it is one step at that time; when the lock is taken it waits.\<close>

datatype round = Round listener_data "Offset option" | Leave | Blocked

definition CTRL_MSG :: int where
  "CTRL_MSG = 1"

definition OFFSET_MSG :: int where
  "OFFSET_MSG = 3"

definition ADD_PEER :: int where
  "ADD_PEER = 0"

definition REMOVE_PEER :: int where
  "REMOVE_PEER = 1"

definition offset_answer :: "LockableOffset \<Rightarrow> Offset" where
  "offset_answer l = (if lo_ready l then lo_offset l else Offset_zero)"

definition handle_message :: "pipe_env \<Rightarrow> int \<Rightarrow> listener_data \<Rightarrow> round" where
  "handle_message e readlen s =
     (if env_type e = CTRL_MSG
      then if read_ol sizeof_ctrl readlen (env_rest e) = - 1 then Leave
           else if env_which e = ADD_PEER
           then Round (s\<lparr>ls_list := (if pl_ready (ls_list s) then snd (peer_add (env_addr e) (ls_list s)) else ls_list s),
                         ls_state := PIPE_CONNECT\<rparr>) None
           else if env_which e = REMOVE_PEER
           then Round (s\<lparr>ls_list := (if pl_ready (ls_list s) then snd (peer_remove (env_addr e) (ls_list s)) else ls_list s),
                         ls_state := PIPE_CONNECT\<rparr>) None
           else Leave
      else if env_type e = OFFSET_MSG
      then if read_ol sizeof_base readlen (env_rest e) = - 1 then Leave
           else case lockable_get (ls_offset s) of
                  None \<Rightarrow> Blocked
                | Some l \<Rightarrow> Round (s\<lparr>ls_offset := lockable_put l, ls_state := PIPE_CONNECT\<rparr>) (Some (offset_answer l))
      else Leave)"

text \<open>The three branches of the loop.\<close>

definition round_closed :: "pipe_env \<Rightarrow> listener_data \<Rightarrow> round" where
  "round_closed e s = (if \<not> env_create e then Leave else Round (s\<lparr>ls_pipe := True, ls_state := PIPE_UNCONNECT\<rparr>) None)"

definition connect_wait :: "pipe_env \<Rightarrow> listener_data \<Rightarrow> round" where
  "connect_wait e s =
     (case env_wait e of
        WAIT_OBJECT_0 \<Rightarrow> Round (s\<lparr>ls_state := PIPE_CONNECT\<rparr>) None
      | WAIT_TIMEOUT \<Rightarrow> Round s None
      | WAIT_OTHER \<Rightarrow> Leave)"

definition round_connecting :: "pipe_env \<Rightarrow> listener_data \<Rightarrow> round" where
  "round_connecting e s =
     (if ls_state s \<noteq> PIPE_CONNECT_PENDING
      then if \<not> env_reset e then Leave
           else case env_connect e of
                  None \<Rightarrow> Round (s\<lparr>ls_state := PIPE_CONNECT\<rparr>) None
                | Some err \<Rightarrow>
                    if err = ERROR_PIPE_CONNECTED then Round (s\<lparr>ls_state := PIPE_CONNECT\<rparr>) None
                    else if err = ERROR_IO_PENDING then connect_wait e (s\<lparr>ls_state := PIPE_CONNECT_PENDING\<rparr>)
                    else Leave
      else connect_wait e s)"

definition read_wait :: "pipe_env \<Rightarrow> listener_data \<Rightarrow> round" where
  "read_wait e s =
     (case env_wait e of
        WAIT_OTHER \<Rightarrow> Leave
      | WAIT_TIMEOUT \<Rightarrow> Round s None
      | WAIT_OBJECT_0 \<Rightarrow>
          (case env_complete e of
             Read_error err \<Rightarrow> if err = ERROR_BROKEN_PIPE then Round (s\<lparr>ls_state := PIPE_CLOSED\<rparr>) None else Leave
           | Read_bytes readlen \<Rightarrow> handle_message e (int readlen) s))"

definition round_connected :: "pipe_env \<Rightarrow> listener_data \<Rightarrow> round" where
  "round_connected e s =
     (if ls_state s \<noteq> PIPE_READ_PENDING
      then if \<not> env_reset e then Leave
           else if read_ol sizeof_base 0 (env_read e) = - 1 \<and> env_error e \<noteq> ERROR_IO_PENDING
           then if env_error e = ERROR_BROKEN_PIPE then Round (s\<lparr>ls_state := PIPE_CLOSED\<rparr>) None else Leave
           else read_wait e (s\<lparr>ls_state := PIPE_READ_PENDING\<rparr>)
      else read_wait e s)"

definition IPCListenerLoop :: "pipe_env \<Rightarrow> listener_data \<Rightarrow> round" where
  "IPCListenerLoop e s =
     (case ls_state s of
        PIPE_CLOSED \<Rightarrow> round_closed e s
      | PIPE_UNCONNECT \<Rightarrow> round_connecting e s
      | PIPE_CONNECT_PENDING \<Rightarrow> round_connecting e s
      | _ \<Rightarrow> round_connected e s)"

text \<open>The data when \<open>WindowsNamedPipeIPC::init\<close> starts the listener; the two flags are the ones that are uninitialised.\<close>

definition npipe_init :: "bool \<Rightarrow> bool \<Rightarrow> listener_data" where
  "npipe_init list_ready offset_ready =
     \<lparr>ls_state = PIPE_CLOSED, ls_pipe = False, ls_list = PeerList_new list_ready, ls_offset = LockableOffset_new offset_ready\<rparr>"

text \<open>The interleavings of the listener with any number of threads that update the offsets: the updates that are complete, newest first, the
  data, and for each thread the update it runs with the statements that are left.\<close>

type_synonym updaters = "nat \<Rightarrow> (ipc_call \<times> offset_stmt list) option"

inductive npipe_reaches :: "bool \<Rightarrow> bool \<Rightarrow> ipc_call list \<Rightarrow> listener_data \<Rightarrow> updaters \<Rightarrow> bool" for list_ready offset_ready where
  start: "npipe_reaches list_ready offset_ready [] (npipe_init list_ready offset_ready) (\<lambda>_. None)"
| round: "npipe_reaches list_ready offset_ready calls s th \<Longrightarrow> IPCListenerLoop e s = Round s' answer \<Longrightarrow>
    npipe_reaches list_ready offset_ready calls s' th"
| call: "npipe_reaches list_ready offset_ready calls s th \<Longrightarrow> th t = None \<Longrightarrow>
    npipe_reaches list_ready offset_ready calls s (th(t \<mapsto> (c, npipe_call c)))"
| stmt: "npipe_reaches list_ready offset_ready calls s th \<Longrightarrow> th t = Some (c, x # y # xs) \<Longrightarrow> exec_stmt x (ls_offset s) = Some l \<Longrightarrow>
    npipe_reaches list_ready offset_ready calls (s\<lparr>ls_offset := l\<rparr>) (th(t \<mapsto> (c, y # xs)))"
| return: "npipe_reaches list_ready offset_ready calls s th \<Longrightarrow> th t = Some (c, [x]) \<Longrightarrow> exec_stmt x (ls_offset s) = Some l \<Longrightarrow>
    npipe_reaches list_ready offset_ready (c # calls) (s\<lparr>ls_offset := l\<rparr>) (th(t := None))"

section \<open>The list of peers is a set\<close>

text \<open>Commands of clients, which add or remove an address: their results and the list at the end, and the same on a set of keys, of which
  those are inserted that the handler accepts.\<close>

fun commands :: "('a \<Rightarrow> 'l \<Rightarrow> bool \<times> 'l) \<Rightarrow> ('a \<Rightarrow> 'l \<Rightarrow> bool \<times> 'l) \<Rightarrow> (bool \<times> 'a) list \<Rightarrow> 'l \<Rightarrow> bool list \<times> 'l" where
  "commands add remove [] l = ([], l)"
| "commands add remove ((adds, a) # cs) l =
     (let (r, l) = (if adds then add a l else remove a l); (rs, l) = commands add remove cs l in (r # rs, l))"

fun set_commands :: "('a \<Rightarrow> 'k) \<Rightarrow> ('a \<Rightarrow> bool) \<Rightarrow> (bool \<times> 'a) list \<Rightarrow> 'k set \<Rightarrow> bool list \<times> 'k set" where
  "set_commands key ok [] K = ([], K)"
| "set_commands key ok ((adds, a) # cs) K =
     (let (rs, K') = set_commands key ok cs (if \<not> adds then K - {key a} else if ok a then insert (key a) K else K)
      in ((adds \<longleftrightarrow> key a \<notin> K) # rs, K'))"

text \<open>What a client of the list relies on: the results and effects of its operations on a set of keys.\<close>

locale peer_set =
  fixes add :: "'a \<Rightarrow> 'l \<Rightarrow> bool \<times> 'l"
    and remove :: "'a \<Rightarrow> 'l \<Rightarrow> bool \<times> 'l"
    and members :: "'l \<Rightarrow> 'k set"
    and key :: "'a \<Rightarrow> 'k"
    and ok :: "'a \<Rightarrow> bool"
    and good :: "'a \<Rightarrow> bool"
    and valid :: "'l \<Rightarrow> bool"
  assumes add_valid: "valid l \<Longrightarrow> good a \<Longrightarrow> valid (snd (add a l))"
    and remove_valid: "valid l \<Longrightarrow> good a \<Longrightarrow> valid (snd (remove a l))"
    and add_result: "valid l \<Longrightarrow> good a \<Longrightarrow> fst (add a l) \<longleftrightarrow> key a \<notin> members l"
    and remove_result: "valid l \<Longrightarrow> good a \<Longrightarrow> fst (remove a l) \<longleftrightarrow> key a \<in> members l"
    and add_members: "valid l \<Longrightarrow> good a \<Longrightarrow> members (snd (add a l)) = (if ok a then insert (key a) (members l) else members l)"
    and remove_members: "valid l \<Longrightarrow> good a \<Longrightarrow> members (snd (remove a l)) = members l - {key a}"
begin

lemma commands_refine:
  assumes "valid l" and "\<forall>c\<in>set cs. good (snd c)"
  shows "valid (snd (commands add remove cs l)) \<and> set_commands key ok cs (members l) = (fst (commands add remove cs l), members (snd (commands add remove cs l)))"
  using assms
proof (induction cs arbitrary: l)
  case Nil
  then show ?case by simp
next
  case (Cons c cs)
  obtain adds a where c: "c = (adds, a)" by (cases c)
  have good: "good a" using Cons.prems(2) c by simp
  obtain r l1 where one: "(if adds then add a l else remove a l) = (r, l1)" by (metis surj_pair)
  then have "valid l1" using add_valid [OF Cons.prems(1) good] remove_valid [OF Cons.prems(1) good] by (auto split: if_splits)
  moreover have "r \<longleftrightarrow> (adds \<longleftrightarrow> key a \<notin> members l)"
    using one add_result [OF Cons.prems(1) good] remove_result [OF Cons.prems(1) good] by (auto split: if_splits)
  moreover have "members l1 = (if \<not> adds then members l - {key a} else if ok a then insert (key a) (members l) else members l)"
    using one add_members [OF Cons.prems(1) good] remove_members [OF Cons.prems(1) good] by (auto split: if_splits)
  ultimately show ?case using Cons.IH [of l1] Cons.prems(2) one by (auto simp: c Let_def split: prod.splits)
qed

end

text \<open>The key of an address and its rank in the list, which is sorted by falling ranks.\<close>

definition peer_key :: "PeerAddr \<Rightarrow> octets" where
  "peer_key a = take (if pa_which a = IP_ADDR then IP_ADDR_OCTETS else ETHER_ADDR_OCTETS) (pa_octets a)"

definition peer_rank :: "PeerAddr \<Rightarrow> int" where
  "peer_rank a = be_val (peer_key a)"

definition good_peer :: "AddrWhich \<Rightarrow> PeerAddr \<Rightarrow> bool" where
  "good_peer w a \<longleftrightarrow> w \<noteq> INVALID_ADDR \<and> pa_which a = w \<and> length (pa_octets a) = ETHER_ADDR_OCTETS"

definition sorted_peers :: "AddrWhich \<Rightarrow> PeerAddr list \<Rightarrow> bool" where
  "sorted_peers w xs \<longleftrightarrow> list_all (good_peer w) xs \<and> sorted_wrt (\<lambda>a b. peer_rank b < peer_rank a) xs"

lemma peer_compare:
  assumes "good_peer w a" and "good_peer w b"
  shows "peer_eq a b \<longleftrightarrow> peer_key a = peer_key b" "peer_less a b \<longleftrightarrow> peer_rank b < peer_rank a"
    "peer_key a = peer_key b \<longleftrightarrow> peer_rank a = peer_rank b"
proof -
  have len: "length (peer_key b) = length (peer_key a)" using assms by (auto simp: good_peer_def peer_key_def)
  have "peer_eq a b \<longleftrightarrow> memcmp (peer_key b) (peer_key a) = 0" "peer_less a b \<longleftrightarrow> memcmp (peer_key b) (peer_key a) < 0"
    using assms by (auto simp: good_peer_def peer_eq_def peer_less_def peer_key_def split: AddrWhich.splits)
  then show "peer_eq a b \<longleftrightarrow> peer_key a = peer_key b" "peer_less a b \<longleftrightarrow> peer_rank b < peer_rank a"
    using memcmp_be_val [OF len] by (auto simp: peer_rank_def)
  show "peer_key a = peer_key b \<longleftrightarrow> peer_rank a = peer_rank b"
    unfolding peer_rank_def using be_val_inj [OF len [symmetric]] by simp
qed

text \<open>The iterator stands between the addresses of higher and of lower rank.\<close>

lemma peer_find_split:
  assumes "sorted_peers w xs" and "good_peer w a"
  obtains us vs where "xs = us @ vs" and "list_all (\<lambda>x. peer_rank a < peer_rank x) us" and "snd (peer_find a xs) = length us"
    and "if fst (peer_find a xs) then vs \<noteq> [] \<and> peer_rank (hd vs) = peer_rank a else list_all (\<lambda>x. peer_rank x < peer_rank a) vs"
proof -
  have "\<exists>us vs. xs = us @ vs \<and> list_all (\<lambda>x. peer_rank a < peer_rank x) us \<and> snd (peer_find a xs) = length us \<and>
      (if fst (peer_find a xs) then vs \<noteq> [] \<and> peer_rank (hd vs) = peer_rank a else list_all (\<lambda>x. peer_rank x < peer_rank a) vs)"
    using assms(1)
  proof (induction xs)
    case Nil
    then show ?case by simp
  next
    case (Cons x xs)
    have x: "good_peer w x" and sorted: "sorted_peers w xs" and below: "list_all (\<lambda>y. peer_rank y < peer_rank x) xs"
      using Cons.prems by (simp_all add: sorted_peers_def list_all_iff)
    note compare = peer_compare [OF assms(2) x]
    consider "peer_eq a x" | "\<not> peer_eq a x" "peer_less a x" | "\<not> peer_eq a x" "\<not> peer_less a x" by blast
    then show ?case
    proof cases
      case 1
      then show ?thesis using compare by (intro exI [of _ "[]"] exI [of _ "x # xs"]) simp
    next
      case 2
      then have "list_all (\<lambda>y. peer_rank y < peer_rank a) (x # xs)" using compare below by (auto simp: list_all_iff)
      then show ?thesis using 2 by (intro exI [of _ "[]"] exI [of _ "x # xs"]) simp
    next
      case 3
      obtain us vs where "xs = us @ vs" "list_all (\<lambda>x. peer_rank a < peer_rank x) us" "snd (peer_find a xs) = length us"
          "if fst (peer_find a xs) then vs \<noteq> [] \<and> peer_rank (hd vs) = peer_rank a else list_all (\<lambda>x. peer_rank x < peer_rank a) vs"
        using Cons.IH [OF sorted] by blast
      then show ?thesis using 3 compare
        by (intro exI [of _ "x # us"] exI [of _ vs]) (auto simp: split_beta)
    qed
  qed
  then show thesis using that by blast
qed

definition peers_valid :: "AddrWhich \<Rightarrow> (PeerAddr \<Rightarrow> bool) option \<Rightarrow> PeerList \<Rightarrow> bool" where
  "peers_valid w h l \<longleftrightarrow> sorted_peers w (internal_vector l) \<and> pl_init l = h"

text \<open>The addresses that the handler accepts; without a handler none.\<close>

definition accepts :: "(PeerAddr \<Rightarrow> bool) option \<Rightarrow> PeerAddr \<Rightarrow> bool" where
  "accepts h a = (case h of None \<Rightarrow> False | Some init \<Rightarrow> init a)"

definition peers_members :: "PeerList \<Rightarrow> octets set" where
  "peers_members l = peer_key ` set (internal_vector l)"

lemma key_member:
  assumes "sorted_peers w xs" and "good_peer w a"
  shows "peer_key a \<in> peer_key ` set xs \<longleftrightarrow> peer_rank a \<in> peer_rank ` set xs"
proof -
  have "peer_key a = peer_key x \<longleftrightarrow> peer_rank a = peer_rank x" if "x \<in> set xs" for x
    using that assms by (intro peer_compare(3) [of w]) (auto simp: sorted_peers_def list_all_iff)
  then show ?thesis by (auto simp: image_iff)
qed

lemma peer_found:
  assumes "sorted_peers w xs" and "good_peer w a"
  shows "fst (peer_find a xs) \<longleftrightarrow> peer_key a \<in> peer_key ` set xs"
proof -
  obtain us vs where xs: "xs = us @ vs" "list_all (\<lambda>x. peer_rank a < peer_rank x) us"
      "if fst (peer_find a xs) then vs \<noteq> [] \<and> peer_rank (hd vs) = peer_rank a else list_all (\<lambda>x. peer_rank x < peer_rank a) vs"
    using peer_find_split [OF assms] by metis
  have "fst (peer_find a xs) \<longleftrightarrow> peer_rank a \<in> peer_rank ` set xs"
  proof (cases "fst (peer_find a xs)")
    case True
    then have "hd vs \<in> set xs" "peer_rank (hd vs) = peer_rank a" using xs by auto
    then show ?thesis using True by (metis imageI)
  next
    case False
    then have "list_all (\<lambda>x. peer_rank x \<noteq> peer_rank a) xs" using xs by (auto simp: list_all_iff)
    then show ?thesis using False by (auto simp: list_all_iff)
  qed
  then show ?thesis using key_member [OF assms] by simp
qed

lemma peer_add_vector:
  assumes "peers_valid w h l" and "good_peer w a"
  shows "if peer_key a \<in> peers_members l then peer_add a l = (False, l)
    else if \<not> accepts h a then peer_add a l = (True, l)
    else \<exists>us vs. internal_vector l = us @ vs \<and> peer_add a l = (True, l\<lparr>internal_vector := us @ a # vs\<rparr>) \<and> sorted_peers w (us @ a # vs)"
proof (cases "fst (peer_find a (internal_vector l))")
  case True
  then show ?thesis
    using peer_found [of w "internal_vector l" a] assms by (auto simp: peers_valid_def peers_members_def peer_add_def split_beta)
next
  case False
  have sorted: "sorted_peers w (internal_vector l)" using assms(1) by (simp add: peers_valid_def)
  obtain us vs where xs: "internal_vector l = us @ vs" "list_all (\<lambda>x. peer_rank a < peer_rank x) us"
      "snd (peer_find a (internal_vector l)) = length us" "list_all (\<lambda>x. peer_rank x < peer_rank a) vs"
    using False by (auto intro: peer_find_split [OF sorted assms(2)])
  have "peer_add a l = (True, if accepts h a then l\<lparr>internal_vector := us @ a # vs\<rparr> else l)"
    using assms(1) False xs(1,3) by (auto simp: peer_add_def peers_valid_def accepts_def split_beta split: option.splits)
  moreover have "sorted_peers w (us @ a # vs)"
    using sorted xs assms(2) by (auto simp: sorted_peers_def sorted_wrt_append list_all_iff)
  ultimately show ?thesis
    using peer_found [OF sorted assms(2)] False xs(1) by (auto simp: peers_members_def)
qed

lemma peer_remove_vector:
  assumes "peers_valid w h l" and "good_peer w a"
  shows "if peer_key a \<in> peers_members l
    then \<exists>us v vs. internal_vector l = us @ v # vs \<and> peer_key v = peer_key a \<and> peer_remove a l = (True, l\<lparr>internal_vector := us @ vs\<rparr>) \<and>
      peer_key a \<notin> peer_key ` set (us @ vs)
    else peer_remove a l = (False, l)"
proof (cases "fst (peer_find a (internal_vector l))")
  case False
  then show ?thesis
    using peer_found [of w "internal_vector l" a] assms by (auto simp: peers_valid_def peers_members_def peer_remove_def split_beta)
next
  case True
  have sorted: "sorted_peers w (internal_vector l)" using assms(1) by (simp add: peers_valid_def)
  obtain us vs' where split: "internal_vector l = us @ vs'" "snd (peer_find a (internal_vector l)) = length us"
      "vs' \<noteq> []" "peer_rank (hd vs') = peer_rank a"
    using True by (auto intro: peer_find_split [OF sorted assms(2)])
  obtain v vs where "vs' = v # vs" using split(3) by (cases vs') auto
  then have xs: "internal_vector l = us @ v # vs" "snd (peer_find a (internal_vector l)) = length us" "peer_rank v = peer_rank a"
    using split by simp_all
  have good: "good_peer w v" and rest: "sorted_peers w (us @ vs)" and other: "\<forall>x\<in>set (us @ vs). peer_rank x \<noteq> peer_rank v"
    using sorted xs(1) by (auto simp: sorted_peers_def sorted_wrt_append)
  have "peer_remove a l = (True, l\<lparr>internal_vector := us @ vs\<rparr>)" using True xs(1,2) by (simp add: peer_remove_def split_beta)
  moreover have "peer_key v = peer_key a" using peer_compare(3) [OF good assms(2)] xs(3) by simp
  moreover have "peer_key a \<notin> peer_key ` set (us @ vs)" using key_member [OF rest assms(2)] other xs(3) by auto
  ultimately show ?thesis using peer_found [OF sorted assms(2)] True xs(1) by (auto simp: peers_members_def)
qed

lemma sorted_peers_remove: "sorted_peers w (us @ v # vs) \<Longrightarrow> sorted_peers w (us @ vs)"
  by (auto simp: sorted_peers_def sorted_wrt_append)

text \<open>The list provides a set, for addresses of one kind.\<close>

interpretation peers: peer_set peer_add peer_remove peers_members peer_key "accepts h" "good_peer w" "peers_valid w h"
proof unfold_locales
  fix l a
  assume valid: "peers_valid w h l" and good: "good_peer w a"
  note add = peer_add_vector [OF valid good] and remove = peer_remove_vector [OF valid good]
  show "peers_valid w h (snd (peer_add a l))" using add valid by (auto simp: peers_valid_def split: if_splits)
  show "peers_valid w h (snd (peer_remove a l))"
    using remove valid by (auto simp: peers_valid_def split: if_splits intro: sorted_peers_remove)
  show "fst (peer_add a l) \<longleftrightarrow> peer_key a \<notin> peers_members l" using add by (auto split: if_splits)
  show "fst (peer_remove a l) \<longleftrightarrow> peer_key a \<in> peers_members l" using remove by (auto split: if_splits)
  show "peers_members (snd (peer_add a l)) = (if accepts h a then insert (peer_key a) (peers_members l) else peers_members l)"
    using add by (auto simp: peers_members_def split: if_splits)
  show "peers_members (snd (peer_remove a l)) = peers_members l - {peer_key a}"
    using remove by (fastforce simp: peers_members_def split: if_splits)
qed

text \<open>A set of which nothing is inserted stays empty.\<close>

lemma set_commands_none: "set_commands key (\<lambda>_. False) cs {} = (List.map fst cs, {})"
  by (induction cs) (auto simp: Let_def)

text \<open>C24. The sorted vector of peers implements, for addresses of one kind, a set of which those addresses are inserted that the handler for new
  peers accepts: for any sequence of additions and removals on a new list with the handler \<open>h\<close>, an addition reports whether the
  address was absent, accepted or not, a removal whether it was present, and the addresses left are those of the set. Without a handler, as the
  daemon leaves its list, every addition reports success and nothing is stored, and every removal fails.\<close>

theorem peer_list_is_set:
  assumes "\<forall>c\<in>set cs. good_peer w (snd c)"
  shows "let l = (case h of None \<Rightarrow> PeerList_new ready | Some init \<Rightarrow> setInit init (PeerList_new ready));
             (rs, l') = commands peer_add peer_remove cs l
         in set_commands peer_key (accepts h) cs {} = (rs, peers_members l') \<and>
            (h = None \<longrightarrow> rs = List.map fst cs \<and> internal_vector l' = [])"
proof -
  define l where "l = (case h of None \<Rightarrow> PeerList_new ready | Some init \<Rightarrow> setInit init (PeerList_new ready))"
  obtain rs l' where c: "commands peer_add peer_remove cs l = (rs, l')" by (metis surj_pair)
  have "peers_valid w h l" "peers_members l = {}"
    by (auto simp: l_def peers_valid_def peers_members_def sorted_peers_def setInit_def PeerList_new_def split: option.splits)
  then have r: "set_commands peer_key (accepts h) cs {} = (rs, peers_members l')"
    using peers.commands_refine [of w h l cs] assms c by simp
  have "rs = List.map fst cs \<and> internal_vector l' = []" if "h = None"
  proof -
    have "accepts h = (\<lambda>_. False)" using that by (auto simp: accepts_def)
    then show ?thesis using r set_commands_none [of peer_key cs] by (simp add: peers_members_def)
  qed
  then show ?thesis using r by (simp add: c flip: l_def)
qed

definition sample_commands :: "(bool \<times> PeerAddr) list" where
  "sample_commands =
     [(True, \<lparr>pa_which = MAC_ADDR, pa_octets = [1, 2, 3, 4, 5, 6]\<rparr>), (True, \<lparr>pa_which = MAC_ADDR, pa_octets = [1, 2, 3, 4, 5, 9]\<rparr>),
      (True, \<lparr>pa_which = MAC_ADDR, pa_octets = [1, 2, 3, 4, 5, 6]\<rparr>), (False, \<lparr>pa_which = MAC_ADDR, pa_octets = [1, 2, 3, 4, 5, 9]\<rparr>)]"

theorem peer_list_is_set_witness:
  "set_commands peer_key (accepts (Some (\<lambda>_. True))) sample_commands {} =
    ([True, True, False, True], peers_members (snd (commands peer_add peer_remove sample_commands (setInit (\<lambda>_. True) (PeerList_new False))))) \<and>
   fst (commands peer_add peer_remove sample_commands (PeerList_new False)) = [True, True, True, False] \<and>
   internal_vector (snd (commands peer_add peer_remove sample_commands (PeerList_new False))) = []"
proof -
  have results: "fst (commands peer_add peer_remove sample_commands (setInit (\<lambda>_. True) (PeerList_new False))) = [True, True, False, True]"
    by code_simp
  have good: "\<forall>c\<in>set sample_commands. good_peer MAC_ADDR (snd c)" by (simp add: sample_commands_def good_peer_def ETHER_ADDR_OCTETS_def)
  have kinds: "List.map fst sample_commands = [True, True, True, False]" by (simp add: sample_commands_def)
  show ?thesis
    using peer_list_is_set [OF good, where h = "Some (\<lambda>_. True)" and ready = False]
      peer_list_is_set [OF good, where h = None and ready = False] results kinds
    by (simp add: split_beta Let_def)
qed

section \<open>The listener answers the current offsets\<close>

text \<open>The newest update of each kind, and the offsets of which every field has the value of the newest update of its kind, or that of the
  constructor when there is none.\<close>

fun newest_update :: "ipc_call list \<Rightarrow> ipc_update option" where
  "newest_update [] = None"
| "newest_update (IpcUpdate u # cs) = Some u"
| "newest_update (_ # cs) = newest_update cs"

fun newest_grandmaster :: "ipc_call list \<Rightarrow> (octets \<times> u8) option" where
  "newest_grandmaster [] = None"
| "newest_grandmaster (IpcUpdateGrandmaster g n # cs) = Some (g, n)"
| "newest_grandmaster (_ # cs) = newest_grandmaster cs"

fun newest_interface :: "ipc_call list \<Rightarrow> ipc_network_interface option" where
  "newest_interface [] = None"
| "newest_interface (IpcUpdateNetworkInterface n # cs) = Some n"
| "newest_interface (_ # cs) = newest_interface cs"

definition or_default :: "'b \<Rightarrow> ('a \<Rightarrow> 'b) \<Rightarrow> 'a option \<Rightarrow> 'b" where
  "or_default d f x = (case x of None \<Rightarrow> d | Some y \<Rightarrow> f y)"

definition current_values :: "ipc_call list \<Rightarrow> Offset" where
  "current_values calls =
     (let u = newest_update calls; g = newest_grandmaster calls; n = newest_interface calls
      in \<lparr>of_ml_phoffset = or_default 0 ml_phoffset u, of_ml_freqoffset = or_default (Fin 0) ml_freqoffset u,
          of_ls_phoffset = or_default 0 ls_phoffset u, of_ls_freqoffset = or_default (Fin 0) ls_freqoffset u,
          of_local_time = or_default 0 ipc_local_time u,
          of_gptp_grandmaster_id = or_default (replicate 8 0) fst g, of_gptp_domain_number = or_default 0 snd g,
          of_clock_identity = or_default (replicate 8 0) ni_clock_identity n, of_priority1 = or_default 0xFF ni_priority1 n,
          of_clock_class = or_default 0xFF ni_clock_class n,
          of_offset_scaled_log_variance = or_default 0 ni_offset_scaled_log_variance n,
          of_clock_accuracy = or_default 0xFF ni_clock_accuracy n, of_priority2 = or_default 0xFF ni_priority2 n,
          of_domain_number = or_default 0 ni_domain_number n, of_log_sync_interval = or_default 0 ni_log_sync_interval n,
          of_log_announce_interval = or_default 0 ni_log_announce_interval n,
          of_log_pdelay_interval = or_default 0 ni_log_pdelay_interval n, of_port_number = or_default 0 ni_port_number n\<rparr>)"

text \<open>An update takes the lock, assigns, sets the flag and puts the lock; all its assignments together make its values the newest ones.\<close>

definition assign_all :: "(Offset \<Rightarrow> Offset) list \<Rightarrow> Offset \<Rightarrow> Offset" where
  "assign_all fs d = fold (\<lambda>f. f) fs d"

lemma npipe_call_stmts:
  "\<exists>fs. npipe_call c = Get # List.map Assign fs @ [SetReady, Put] \<and>
    (\<forall>calls. assign_all fs (current_values calls) = current_values (c # calls))"
proof (cases c)
  case (IpcUpdate u)
  show ?thesis
    by (rule exI [of _ "[\<lambda>d. d\<lparr>of_local_time := ipc_local_time u\<rparr>, \<lambda>d. d\<lparr>of_ml_freqoffset := ml_freqoffset u\<rparr>,
        \<lambda>d. d\<lparr>of_ml_phoffset := ml_phoffset u\<rparr>, \<lambda>d. d\<lparr>of_ls_freqoffset := ls_freqoffset u\<rparr>, \<lambda>d. d\<lparr>of_ls_phoffset := ls_phoffset u\<rparr>]"])
      (simp add: IpcUpdate npipe_update_def assign_all_def current_values_def or_default_def Let_def)
next
  case (IpcUpdateGrandmaster g n)
  show ?thesis
    by (rule exI [of _ "[\<lambda>d. d\<lparr>of_gptp_grandmaster_id := g\<rparr>, \<lambda>d. d\<lparr>of_gptp_domain_number := n\<rparr>]"])
      (simp add: IpcUpdateGrandmaster npipe_update_grandmaster_def assign_all_def current_values_def or_default_def Let_def)
next
  case (IpcUpdateNetworkInterface n)
  show ?thesis
    by (rule exI [of _ "[\<lambda>d. d\<lparr>of_clock_identity := ni_clock_identity n\<rparr>, \<lambda>d. d\<lparr>of_priority1 := ni_priority1 n\<rparr>,
        \<lambda>d. d\<lparr>of_clock_class := ni_clock_class n\<rparr>, \<lambda>d. d\<lparr>of_offset_scaled_log_variance := ni_offset_scaled_log_variance n\<rparr>,
        \<lambda>d. d\<lparr>of_clock_accuracy := ni_clock_accuracy n\<rparr>, \<lambda>d. d\<lparr>of_priority2 := ni_priority2 n\<rparr>,
        \<lambda>d. d\<lparr>of_domain_number := ni_domain_number n\<rparr>, \<lambda>d. d\<lparr>of_log_sync_interval := ni_log_sync_interval n\<rparr>,
        \<lambda>d. d\<lparr>of_log_announce_interval := ni_log_announce_interval n\<rparr>, \<lambda>d. d\<lparr>of_log_pdelay_interval := ni_log_pdelay_interval n\<rparr>,
        \<lambda>d. d\<lparr>of_port_number := ni_port_number n\<rparr>]"])
      (simp add: IpcUpdateNetworkInterface npipe_update_network_interface_def assign_all_def current_values_def or_default_def Let_def)
qed

text \<open>A thread outside its critical section; the thread inside, which has done the assignments \<open>fs\<close> over the values \<open>d\<close>; and the state of the
  offsets: with the lock free they hold the complete updates.\<close>

definition outside :: "(ipc_call \<times> offset_stmt list) option \<Rightarrow> bool" where
  "outside x \<longleftrightarrow> (\<forall>c xs. x = Some (c, xs) \<longrightarrow> xs = npipe_call c)"

definition inside :: "ipc_call list \<Rightarrow> LockableOffset \<Rightarrow> ipc_call \<Rightarrow> offset_stmt list \<Rightarrow> bool" where
  "inside calls l c xs \<longleftrightarrow>
     (\<exists>gs. assign_all gs (lo_offset l) = current_values (c # calls) \<and>
       (xs = List.map Assign gs @ [SetReady, Put] \<or> gs = [] \<and> xs = [Put] \<and> lo_ready l))"

definition npipe_inv :: "bool \<Rightarrow> ipc_call list \<Rightarrow> LockableOffset \<Rightarrow> updaters \<Rightarrow> bool" where
  "npipe_inv r calls l th \<longleftrightarrow>
     (if lo_lock l then \<exists>t c xs. th t = Some (c, xs) \<and> inside calls l c xs \<and> (\<forall>t'. t' \<noteq> t \<longrightarrow> outside (th t'))
      else (\<forall>t. outside (th t)) \<and> lo_offset l = current_values calls \<and> (lo_ready l \<longleftrightarrow> r \<or> calls \<noteq> []))"

lemma outside_stmts: "outside (Some (c, xs)) \<Longrightarrow> \<exists>ys. xs = Get # ys \<and> ys \<noteq> []"
  using npipe_call_stmts [of c] by (auto simp: outside_def)

lemma inside_no_get: "inside calls l c xs \<Longrightarrow> xs \<noteq> [] \<and> Get \<notin> set xs"
  by (auto simp: inside_def)

text \<open>A statement of the thread inside.\<close>

lemma inside_stmt:
  assumes "inside calls l c (x # y # xs)" and "exec_stmt x l = Some l'"
  shows "inside calls l' c (y # xs)" and "lo_lock l' = lo_lock l"
proof -
  obtain gs where g: "assign_all gs (lo_offset l) = current_values (c # calls)" "x # y # xs = List.map Assign gs @ [SetReady, Put]"
    using assms(1) by (auto simp: inside_def)
  have "inside calls l' c (y # xs) \<and> lo_lock l' = lo_lock l"
  proof (cases gs)
    case Nil
    then show ?thesis using g assms(2) by (auto simp: inside_def assign_all_def split: if_splits)
  next
    case (Cons f fs)
    then have "assign_all fs (lo_offset l') = current_values (c # calls)" "y # xs = List.map Assign fs @ [SetReady, Put]"
      using g assms(2) by (auto simp: assign_all_def)
    moreover have "lo_lock l' = lo_lock l" using Cons g(2) assms(2) by auto
    ultimately show ?thesis by (auto simp: inside_def)
  qed
  then show "inside calls l' c (y # xs)" "lo_lock l' = lo_lock l" by blast+
qed

lemma inside_return:
  assumes "inside calls l c [x]" and "exec_stmt x l = Some l'"
  shows "\<not> lo_lock l'" and "lo_offset l' = current_values (c # calls)" and "lo_ready l'"
  using assms by (auto simp: inside_def assign_all_def lockable_put_def append_eq_Cons_conv)

lemma npipe_inv_inside:
  assumes "npipe_inv r calls l th" and "\<not> outside (th t)" and "th t = Some (c, xs)"
  shows "inside calls l c xs" and "lo_lock l" and "t' \<noteq> t \<Longrightarrow> outside (th t')"
proof -
  show l: "lo_lock l" using assms(1,2) unfolding npipe_inv_def by (auto split: if_splits)
  then obtain u c' xs' where u: "th u = Some (c', xs')" "inside calls l c' xs'" "\<And>t'. t' \<noteq> u \<Longrightarrow> outside (th t')"
    using assms(1) unfolding npipe_inv_def by auto
  then have "t = u" using assms(2) by blast
  then show "inside calls l c xs" "t' \<noteq> t \<Longrightarrow> outside (th t')" using u assms(3) by auto
qed

lemma npipe_inv_call:
  assumes "npipe_inv r calls l th" and "th t = None"
  shows "npipe_inv r calls l (th(t \<mapsto> (c, npipe_call c)))"
proof (cases "lo_lock l")
  case True
  then obtain u c' xs where u: "th u = Some (c', xs)" "inside calls l c' xs" "\<forall>t'. t' \<noteq> u \<longrightarrow> outside (th t')"
    using assms(1) unfolding npipe_inv_def by auto
  then have "u \<noteq> t" using assms(2) by auto
  then show ?thesis using True u by (auto simp: npipe_inv_def outside_def intro!: exI [of _ u])
next
  case False
  then show ?thesis using assms(1) by (auto simp: npipe_inv_def outside_def)
qed

lemma npipe_inv_stmt:
  assumes "npipe_inv r calls l th" and "th t = Some (c, x # y # xs)" and "exec_stmt x l = Some l'"
  shows "npipe_inv r calls l' (th(t \<mapsto> (c, y # xs)))"
proof (cases "outside (th t)")
  case True
  then obtain fs where f: "x # y # xs = Get # List.map Assign fs @ [SetReady, Put]"
      "\<forall>calls. assign_all fs (current_values calls) = current_values (c # calls)"
    using npipe_call_stmts [of c] assms(2) by (auto simp: outside_def)
  then have l: "\<not> lo_lock l" "l' = l\<lparr>lo_lock := True\<rparr>" using assms(3) by (auto simp: lockable_get_def split: if_splits)
  then have "inside calls l' c (y # xs)" using f assms(1) by (auto simp: npipe_inv_def inside_def)
  then show ?thesis using l assms(1) by (auto simp: npipe_inv_def)
next
  case False
  note l = npipe_inv_inside [OF assms(1) False assms(2)]
  show ?thesis using inside_stmt [OF l(1) assms(3)] l(2,3) by (auto simp: npipe_inv_def)
qed

lemma npipe_inv_return:
  assumes "npipe_inv r calls l th" and "th t = Some (c, [x])" and "exec_stmt x l = Some l'"
  shows "npipe_inv r (c # calls) l' (th(t := None))"
proof -
  have "\<not> outside (th t)" using outside_stmts [of c "[x]"] assms(2) by auto
  note l = npipe_inv_inside [OF assms(1) this assms(2)]
  have "outside None" by (simp add: outside_def)
  then show ?thesis using inside_return [OF l(1) assms(3)] l(3) by (auto simp: npipe_inv_def)
qed

text \<open>What a round keeps, by the parts of its body.\<close>

fun keeps :: "listener_data \<Rightarrow> round \<Rightarrow> bool" where
  "keeps s Leave \<longleftrightarrow> True"
| "keeps s Blocked \<longleftrightarrow> lo_lock (ls_offset s)"
| "keeps s (Round s' answer) \<longleftrightarrow>
     ls_offset s' = ls_offset s \<and>
     (answer = None \<or> \<not> lo_lock (ls_offset s) \<and> answer = Some (if lo_ready (ls_offset s) then lo_offset (ls_offset s) else Offset_zero)) \<and> (ls_pipe s \<longrightarrow> ls_pipe s') \<and>
     (pl_init (ls_list s) = None \<and> internal_vector (ls_list s) = [] \<longrightarrow> pl_init (ls_list s') = None \<and> internal_vector (ls_list s') = [])"

lemma keeps_state [simp]: "keeps (s\<lparr>ls_state := st\<rparr>) r = keeps s r"
  by (cases r) simp_all

lemma keeps_handle_message: "keeps s (handle_message e n s)"
  by (cases "ls_offset s") (simp add: handle_message_def peer_add_def peer_remove_def lockable_get_def lockable_put_def offset_answer_def)

lemma keeps_connect_wait: "keeps s (connect_wait e s)"
  by (simp add: connect_wait_def split: wait_result.split)

lemma keeps_read_wait: "keeps s (read_wait e s)"
  by (simp add: read_wait_def keeps_handle_message split: wait_result.split read_file.split)

lemma keeps_connecting: "keeps s (round_connecting e s)"
  using keeps_connect_wait [of s e] keeps_connect_wait [of "s\<lparr>ls_state := PIPE_CONNECT_PENDING\<rparr>" e]
  by (simp add: round_connecting_def split: option.split)

lemma keeps_connected: "keeps s (round_connected e s)"
  using keeps_read_wait [of s e] keeps_read_wait [of "s\<lparr>ls_state := PIPE_READ_PENDING\<rparr>" e]
  by (simp add: round_connected_def)

lemma loop_keeps: "keeps s (IPCListenerLoop e s)"
  by (simp add: IPCListenerLoop_def round_closed_def keeps_connecting keeps_connected split: pipe_state.split)

lemma round_keeps:
  assumes "IPCListenerLoop e s = Round s' answer"
  shows "keeps s (Round s' answer)" and "ls_state s = PIPE_CLOSED \<Longrightarrow> ls_pipe s'"
proof -
  show "keeps s (Round s' answer)" using loop_keeps [of s e] assms by simp
  show "ls_pipe s'" if "ls_state s = PIPE_CLOSED" using assms that by (auto simp: IPCListenerLoop_def round_closed_def split: if_splits)
qed

lemma npipe_reaches_inv: "npipe_reaches lr r calls s th \<Longrightarrow> npipe_inv r calls (ls_offset s) th"
proof (induction rule: npipe_reaches.induct)
  case start
  have "Offset_new = current_values []" by (simp add: Offset_new_def current_values_def or_default_def)
  then show ?case by (simp add: npipe_inv_def npipe_init_def LockableOffset_new_def outside_def)
next
  case (round calls s th e s' answer)
  then show ?case using round_keeps(1) by force
next
  case (call calls s th t c)
  show ?case by (rule npipe_inv_call [OF call.IH call.hyps(2)])
next
  case (stmt calls s th t c x y xs l)
  show ?case using npipe_inv_stmt [OF stmt.IH stmt.hyps(2,3)] by (simp add: fun_upd_def)
next
  case (return calls s th t c x l)
  show ?case using npipe_inv_return [OF return.IH return.hyps(2,3)] by (simp add: fun_upd_def)
qed

text \<open>C23. Whatever the interleaving of the listener with the statements of any number of threads that update the offsets, an answer of the
  listener has in each field the value of the newest complete update of its kind, or of the constructor before the first one; no
  value of an update in progress shows. Only before the first update at all is the answer zeros, unless the uninitialised flag happens to
  be set.\<close>

theorem npipe_answer_current:
  assumes "npipe_reaches lr r calls s th" and "IPCListenerLoop e s = Round s' (Some d)"
  shows "d = (if calls \<noteq> [] \<or> r then current_values calls else Offset_zero)"
  using round_keeps(1) [OF assms(2)] npipe_reaches_inv [OF assms(1)] by (auto simp: npipe_inv_def)

text \<open>When the listener waits for the lock, a thread that holds it can go on.\<close>

lemma npipe_not_stuck:
  assumes "npipe_reaches lr r calls s th" and "IPCListenerLoop e s = Blocked"
  shows "\<exists>t c x xs l. th t = Some (c, x # xs) \<and> exec_stmt x (ls_offset s) = Some l"
proof -
  have "lo_lock (ls_offset s)" using loop_keeps [of s e] assms(2) by simp
  then obtain t c xs where t: "th t = Some (c, xs)" "inside calls (ls_offset s) c xs"
    using npipe_reaches_inv [OF assms(1)] by (auto simp: npipe_inv_def)
  obtain x ys where "xs = x # ys" "x \<noteq> Get" using inside_no_get [OF t(2)] by (cases xs) auto
  moreover from this obtain l where "exec_stmt x (ls_offset s) = Some l" by (cases x) auto
  ultimately show ?thesis using t(1) by blast
qed

text \<open>No handler for new peers is ever set, so that the list stays empty although adding a peer reports success; the pipe is open in
  every state but the closed one.\<close>

theorem npipe_peers_empty:
  assumes "npipe_reaches lr r calls s th"
  shows "internal_vector (ls_list s) = []" "pl_init (ls_list s) = None" "ls_pipe s \<or> ls_state s = PIPE_CLOSED"
proof -
  have "internal_vector (ls_list s) = [] \<and> pl_init (ls_list s) = None \<and> (ls_pipe s \<or> ls_state s = PIPE_CLOSED)"
    using assms
  proof (induction rule: npipe_reaches.induct)
    case start
    then show ?case by (simp add: npipe_init_def PeerList_new_def)
  next
    case (round calls s th e s' answer)
    then show ?case using round_keeps [OF round.hyps(2)] by auto
  qed simp_all
  then show "internal_vector (ls_list s) = []" "pl_init (ls_list s) = None" "ls_pipe s \<or> ls_state s = PIPE_CLOSED" by blast+
qed

text \<open>The documented kind of a query, \<open>QUERY_MSG\<close>, ends the listener, as does any unknown kind.\<close>

lemma unknown_message_ends_listener:
  assumes "env_type e \<noteq> CTRL_MSG" and "env_type e \<noteq> OFFSET_MSG"
  shows "handle_message e n s = Leave"
  using assms by (simp add: handle_message_def)

definition sample_env :: pipe_env where
  "sample_env =
     \<lparr>env_create = True, env_reset = True, env_connect = None, env_wait = WAIT_OBJECT_0, env_read = Read_bytes 44, env_error = 0,
      env_complete = Read_bytes 44, env_type = OFFSET_MSG, env_rest = Read_bytes 0, env_which = 0,
      env_addr = \<lparr>pa_which = INVALID_ADDR, pa_octets = []\<rparr>\<rparr>"

lemma sample_rounds:
  "ls_state s = PIPE_CLOSED \<Longrightarrow> IPCListenerLoop sample_env s = Round (s\<lparr>ls_pipe := True, ls_state := PIPE_UNCONNECT\<rparr>) None"
  "ls_state s = PIPE_UNCONNECT \<Longrightarrow> IPCListenerLoop sample_env s = Round (s\<lparr>ls_state := PIPE_CONNECT\<rparr>) None"
  "ls_state s = PIPE_CONNECT \<Longrightarrow> \<not> lo_lock (ls_offset s) \<Longrightarrow> \<exists>s' d. IPCListenerLoop sample_env s = Round s' (Some d)"
  by (simp_all add: IPCListenerLoop_def round_closed_def round_connecting_def round_connected_def read_wait_def handle_message_def
      sample_env_def read_ol_def sizeof_base_def OFFSET_MSG_def CTRL_MSG_def ERROR_IO_PENDING_def lockable_get_def)

text \<open>An update that finds the lock free can run to its end.\<close>

lemma run_stmts:
  assumes "npipe_reaches lr r calls s (th(t \<mapsto> (c, xs @ [Put])))" and "Get \<notin> set xs"
  shows "\<exists>l. npipe_reaches lr r (c # calls) (s\<lparr>ls_offset := l\<rparr>) (th(t := None)) \<and> \<not> lo_lock l"
  using assms
proof (induction xs arbitrary: s)
  case Nil
  let ?l = "lockable_put (ls_offset s)"
  have "npipe_reaches lr r (c # calls) (s\<lparr>ls_offset := ?l\<rparr>) ((th(t \<mapsto> (c, [] @ [Put])))(t := None))"
    by (rule npipe_reaches.return [OF Nil(1), where x = Put]) simp_all
  moreover have "\<not> lo_lock ?l" by (simp add: lockable_put_def)
  ultimately show ?case unfolding fun_upd_upd by blast
next
  case (Cons x xs)
  obtain l where l: "exec_stmt x (ls_offset s) = Some l" using Cons.prems(2) by (cases x) auto
  obtain y ys where y: "xs @ [Put] = y # ys" by (cases xs) auto
  have "npipe_reaches lr r calls (s\<lparr>ls_offset := l\<rparr>) ((th(t \<mapsto> (c, (x # xs) @ [Put])))(t \<mapsto> (c, y # ys)))"
    by (rule npipe_reaches.stmt [OF Cons.prems(1) _ l]) (simp add: y)
  then have "npipe_reaches lr r calls (s\<lparr>ls_offset := l\<rparr>) (th(t \<mapsto> (c, xs @ [Put])))" unfolding fun_upd_upd y .
  from Cons.IH [OF this] show ?case using Cons.prems(2) by simp
qed

lemma update_completes:
  assumes "npipe_reaches lr r calls s th" and "\<not> lo_lock (ls_offset s)" and "th t = None"
  shows "\<exists>l. npipe_reaches lr r (c # calls) (s\<lparr>ls_offset := l\<rparr>) th \<and> \<not> lo_lock l"
proof -
  obtain fs where f: "npipe_call c = Get # (List.map Assign fs @ [SetReady]) @ [Put]" using npipe_call_stmts [of c] by auto
  obtain y ys where y: "(List.map Assign fs @ [SetReady]) @ [Put] = y # ys" by (cases fs) auto
  let ?l = "(ls_offset s)\<lparr>lo_lock := True\<rparr>"
  have "npipe_reaches lr r calls s (th(t \<mapsto> (c, Get # y # ys)))" using npipe_reaches.call [OF assms(1,3), of c] unfolding f y .
  then have "npipe_reaches lr r calls (s\<lparr>ls_offset := ?l\<rparr>) ((th(t \<mapsto> (c, Get # y # ys)))(t \<mapsto> (c, y # ys)))"
    by (rule npipe_reaches.stmt [where x = Get]) (simp_all add: assms(2) lockable_get_def)
  then have "npipe_reaches lr r calls (s\<lparr>ls_offset := ?l\<rparr>) (th(t \<mapsto> (c, (List.map Assign fs @ [SetReady]) @ [Put])))"
    unfolding fun_upd_upd y .
  from run_stmts [OF this] show ?thesis unfolding fun_upd_idem [of th, OF assms(3)] by auto
qed

theorem npipe_answer_current_witness:
  "\<exists>s s' d. npipe_reaches False False [IpcUpdateGrandmaster [1, 2, 3, 4, 5, 6, 7, 8] 5] s (\<lambda>_. None) \<and>
     IPCListenerLoop sample_env s = Round s' (Some d) \<and>
     of_gptp_grandmaster_id d = [1, 2, 3, 4, 5, 6, 7, 8] \<and> of_gptp_domain_number d = 5 \<and> of_priority1 d = 0xFF"
proof -
  let ?c = "IpcUpdateGrandmaster [1, 2, 3, 4, 5, 6, 7, 8] 5"
  let ?s0 = "npipe_init False False"
  let ?s1 = "?s0\<lparr>ls_pipe := True, ls_state := PIPE_UNCONNECT\<rparr>"
  let ?s2 = "?s1\<lparr>ls_state := PIPE_CONNECT\<rparr>"
  have "npipe_reaches False False [] ?s1 (\<lambda>_. None)"
    by (rule npipe_reaches.round [OF npipe_reaches.start sample_rounds(1)]) (simp add: npipe_init_def)
  then have r: "npipe_reaches False False [] ?s2 (\<lambda>_. None)" by (rule npipe_reaches.round [OF _ sample_rounds(2)]) simp
  obtain l where reach: "npipe_reaches False False [?c] (?s2\<lparr>ls_offset := l\<rparr>) (\<lambda>_. None)" and free: "\<not> lo_lock l"
    using update_completes [OF r, where c = ?c] by (auto simp: npipe_init_def LockableOffset_new_def)
  obtain s' d where answer: "IPCListenerLoop sample_env (?s2\<lparr>ls_offset := l\<rparr>) = Round s' (Some d)"
    using sample_rounds(3) [of "?s2\<lparr>ls_offset := l\<rparr>"] free by auto
  have "d = current_values [?c]" using npipe_answer_current [OF reach answer] by simp
  then have "of_gptp_grandmaster_id d = [1, 2, 3, 4, 5, 6, 7, 8]" "of_gptp_domain_number d = 5" "of_priority1 d = 0xFF"
    by (simp_all add: current_values_def or_default_def)
  then show ?thesis using reach answer by blast
qed

end
