(* ===== verification/Windows_Os.thy ===== *)
theory Windows_Os
  imports Timer_Queue
begin

text \<open>
  Locks, conditions, timers and threads of the Windows platform (\<open>windows/daemon_cl/windows_hal.hpp\<close> and the callbacks of
  \<open>windows_hal_common.cpp\<close>). The results of waits and the identifiers of threads are arguments. The main results: the timers of an event are those
  that were started since it was cancelled last; the callbacks run nothing, neither
  the handler of a timer that expires nor the function of a thread; a lock that is not recursive is lost to the thread that held it last.
\<close>

section \<open>Locks\<close>

datatype OSLockType = oslock_recursive | oslock_nonrecursive

datatype OSLockResult = oslock_ok | oslock_self | oslock_held | oslock_fail

datatype mutex_wait = Wait_object_0 | Wait_timed_out | Wait_failed

text \<open>\<open>wl_thread_id\<close> is not initialised by the constructor.\<close>

record WindowsLock =
  wl_type :: OSLockType
  wl_thread_id :: u32

definition lock_l :: "mutex_wait \<Rightarrow> OSLockResult" where
  "lock_l wait_result =
     (case wait_result of Wait_timed_out \<Rightarrow> oslock_held | Wait_object_0 \<Rightarrow> oslock_ok | Wait_failed \<Rightarrow> oslock_fail)"

text \<open>The result, whether the mutex is released again, and the lock.\<close>

definition nonreentrant_lock_l :: "u32 \<Rightarrow> mutex_wait \<Rightarrow> WindowsLock \<Rightarrow> OSLockResult \<times> bool \<times> WindowsLock" where
  "nonreentrant_lock_l current wait_result l =
     (case wait_result of
        Wait_object_0 \<Rightarrow>
          if wl_thread_id l = current then (oslock_self, True, l) else (oslock_ok, False, l\<lparr>wl_thread_id := current\<rparr>)
      | Wait_timed_out \<Rightarrow> (oslock_held, False, l)
      | Wait_failed \<Rightarrow> (oslock_fail, False, l))"

text \<open>\<open>lock\<close> and \<open>trylock\<close> differ in the time they wait.\<close>

definition windows_lock :: "u32 \<Rightarrow> mutex_wait \<Rightarrow> WindowsLock \<Rightarrow> OSLockResult \<times> bool \<times> WindowsLock" where
  "windows_lock current wait_result l =
     (if wl_type l = oslock_recursive then (lock_l wait_result, False, l) else nonreentrant_lock_l current wait_result l)"

text \<open>\<open>unlock\<close> releases the mutex and leaves the members alone.\<close>

definition windows_unlock :: "WindowsLock \<Rightarrow> OSLockResult \<times> bool \<times> WindowsLock" where
  "windows_unlock l = (oslock_ok, True, l)"

section \<open>Conditions\<close>

text \<open>Whether the lock is held, and the number of waiting threads. An operation that blocks is \<open>None\<close>.\<close>

record WindowsCondition =
  wc_locked :: bool
  wc_wait_count :: int

definition windows_wait_prelock :: "WindowsCondition \<Rightarrow> WindowsCondition option" where
  "windows_wait_prelock c = (if wc_locked c then None else Some (c\<lparr>wc_locked := True, wc_wait_count := wc_wait_count c + 1\<rparr>))"

text \<open>\<open>wait\<close>: the thread goes to sleep and gives up the lock; woken, it has the lock again, counts down and releases
  it.\<close>

definition windows_wait_sleep :: "WindowsCondition \<Rightarrow> WindowsCondition" where
  "windows_wait_sleep c = c\<lparr>wc_locked := False\<rparr>"

definition windows_wait_return :: "WindowsCondition \<Rightarrow> WindowsCondition option" where
  "windows_wait_return c = (if wc_locked c then None else Some (c\<lparr>wc_wait_count := wc_wait_count c - 1\<rparr>))"

text \<open>Whether the waiting threads are woken.\<close>

definition windows_signal :: "WindowsCondition \<Rightarrow> (bool \<times> WindowsCondition) option" where
  "windows_signal c = (if wc_locked c then None else Some (wc_wait_count c > 0, c))"

section \<open>Timers\<close>

text \<open>The arguments of a timer: the delay in milliseconds that \<open>CreateTimerQueueTimer\<close> is given, the event and whether its
  descriptor is freed with it.\<close>

record WindowsTimerQueueHandlerArg =
  wt_due :: u32
  wt_inner_arg :: event_descriptor_t
  wt_type :: Event
  wt_rm :: bool

text \<open>The lists of timers by event, and the timers that were retired.\<close>

record WindowsTimerQueue =
  wtq_map :: "Event \<Rightarrow> WindowsTimerQueueHandlerArg list option"
  retiredTimers :: "WindowsTimerQueueHandlerArg list"

definition WindowsTimerQueue_new :: WindowsTimerQueue where
  "WindowsTimerQueue_new = \<lparr>wtq_map = (\<lambda>_. None), retiredTimers = []\<rparr>"

fun pop_all :: "'a list \<Rightarrow> 'a list" where
  "pop_all [] = []"
| "pop_all (a # as) = pop_all as"

definition cleanupRetiredTimers :: "WindowsTimerQueue \<Rightarrow> WindowsTimerQueue" where
  "cleanupRetiredTimers q = q\<lparr>retiredTimers := pop_all (retiredTimers q)\<rparr>"

definition windows_addEvent :: "u32 \<Rightarrow> Event \<Rightarrow> event_descriptor_t \<Rightarrow> bool \<Rightarrow> WindowsTimerQueue \<Rightarrow> bool \<times> WindowsTimerQueue" where
  "windows_addEvent micros type arg rm q =
     (let q = cleanupRetiredTimers q;
          q = (case wtq_map q type of None \<Rightarrow> q\<lparr>wtq_map := (wtq_map q)(type \<mapsto> [])\<rparr> | Some _ \<Rightarrow> q);
          outer_arg = \<lparr>wt_due = micros div 1000, wt_inner_arg = arg, wt_type = type, wt_rm = rm\<rparr>
      in (True, q\<lparr>wtq_map := (wtq_map q)(type \<mapsto> outer_arg # the (wtq_map q type))\<rparr>))"

definition windows_cancelEvent :: "Event \<Rightarrow> WindowsTimerQueue \<Rightarrow> bool \<times> WindowsTimerQueue" where
  "windows_cancelEvent type q =
     (case wtq_map q type of
        None \<Rightarrow> (False, q)
      | Some arg_list \<Rightarrow> (True, q\<lparr>wtq_map := (wtq_map q)(type \<mapsto> pop_all arg_list)\<rparr>))"

text \<open>The callbacks of \<open>windows_hal_common.cpp\<close>, the only ones there are. The callback of a timer yields the descriptors whose handler it runs
  and the queue; the one of a thread yields its exit code and whether it calls the function of the thread.\<close>

definition WindowsTimerQueueHandler :: "WindowsTimerQueueHandlerArg \<Rightarrow> WindowsTimerQueue \<Rightarrow> event_descriptor_t list \<times> WindowsTimerQueue" where
  "WindowsTimerQueueHandler arg_in q = ([], q)"

definition windows_OSThreadCallback :: "'f \<Rightarrow> u32 \<times> 'f option" where
  "windows_OSThreadCallback input = (0, None)"

text \<open>\<open>WindowsThread::start\<close>: the result, and the function the new thread calls.\<close>

definition windows_thread_start :: "bool \<Rightarrow> 'f \<Rightarrow> bool \<times> 'f option" where
  "windows_thread_start created function = (if created then (True, snd (windows_OSThreadCallback function)) else (False, None))"

section \<open>Laws\<close>

lemma pop_all_Nil [simp]: "pop_all as = []"
  by (induction as) simp_all

text \<open>A lock that is not recursive and was taken by a thread cannot be taken by it again, even after it was released: the
  thread is told that it holds the lock, and the mutex is released.\<close>

theorem nonrecursive_lock_lost:
  assumes "wl_type l = oslock_nonrecursive" and "windows_lock t Wait_object_0 l = (oslock_ok, rel, l1)"
    and "windows_unlock l1 = (r, rel', l2)"
  shows "windows_lock t Wait_object_0 l2 = (oslock_self, True, l2)"
  using assms by (auto simp: windows_lock_def nonreentrant_lock_l_def windows_unlock_def split: if_splits)

text \<open>A signal sent between the two halves of a wait is not lost: it blocks until the waiting thread sleeps, and then wakes it.\<close>

lemma windows_signal_not_lost:
  assumes "windows_wait_prelock c = Some c'" and "0 \<le> wc_wait_count c"
  shows "windows_signal c' = None" "\<exists>c''. windows_signal (windows_wait_sleep c') = Some (True, c'')"
  using assms by (auto simp: windows_wait_prelock_def windows_signal_def windows_wait_sleep_def split: if_splits)

text \<open>The timers of an event, newest first.\<close>

definition timers_of :: "Event \<Rightarrow> WindowsTimerQueue \<Rightarrow> WindowsTimerQueueHandlerArg list" where
  "timers_of e q = (case wtq_map q e of Some as \<Rightarrow> as | None \<Rightarrow> [])"

lemma windows_addEvent_timers:
  "timers_of e (snd (windows_addEvent us type d rm q)) =
     (if e = type then \<lparr>wt_due = us div 1000, wt_inner_arg = d, wt_type = type, wt_rm = rm\<rparr> # timers_of e q else timers_of e q)"
  by (simp add: timers_of_def windows_addEvent_def cleanupRetiredTimers_def Let_def split: option.split)

lemma windows_cancelEvent_timers: "timers_of e (snd (windows_cancelEvent type q)) = (if e = type then [] else timers_of e q)"
  by (auto simp: timers_of_def windows_cancelEvent_def split: option.split)

text \<open>Operations on the queue: timers are started and cancelled by the ports, and expire.\<close>

datatype timer_request = Start_timer u32 Event event_descriptor_t bool | Cancel_timer Event | Expire_timer WindowsTimerQueueHandlerArg

primrec timer_op :: "timer_request \<Rightarrow> WindowsTimerQueue \<Rightarrow> event_descriptor_t list \<times> WindowsTimerQueue" where
  "timer_op (Start_timer us e d rm) q = ([], snd (windows_addEvent us e d rm q))"
| "timer_op (Cancel_timer e) q = ([], snd (windows_cancelEvent e q))"
| "timer_op (Expire_timer a) q = WindowsTimerQueueHandler a q"

fun timer_ops :: "timer_request list \<Rightarrow> WindowsTimerQueue \<Rightarrow> event_descriptor_t list \<times> WindowsTimerQueue" where
  "timer_ops [] q = ([], q)"
| "timer_ops (x # xs) q = (let (ds, q) = timer_op x q; (ds', q) = timer_ops xs q in (ds @ ds', q))"

text \<open>The timers that were started since the last cancellation, newest first.\<close>

fun started :: "Event \<Rightarrow> timer_request list \<Rightarrow> WindowsTimerQueueHandlerArg list \<Rightarrow> WindowsTimerQueueHandlerArg list" where
  "started e [] as = as"
| "started e (Start_timer us t d rm # xs) as =
     started e xs (if t = e then \<lparr>wt_due = us div 1000, wt_inner_arg = d, wt_type = t, wt_rm = rm\<rparr> # as else as)"
| "started e (Cancel_timer t # xs) as = started e xs (if t = e then [] else as)"
| "started e (Expire_timer a # xs) as = started e xs as"

text \<open>On the Windows platform no event is ever delivered: whatever timers are started, cancelled and expire, no handler runs, and the list of an
  event holds all timers that were started since the event was cancelled last, also those that expired.\<close>

theorem windows_timers_undelivered:
  "fst (timer_ops xs q) = []" "timers_of e (snd (timer_ops xs q)) = started e xs (timers_of e q)"
proof (induction xs arbitrary: q)
  case (Cons x xs)
  case 1
  show ?case using Cons by (cases x) (simp_all add: split_beta WindowsTimerQueueHandler_def)
  case 2
  show ?case
    using Cons by (cases x) (auto simp: split_beta WindowsTimerQueueHandler_def windows_addEvent_timers windows_cancelEvent_timers)
qed simp_all

lemma windows_threads_idle: "snd (windows_thread_start created f) = None"
  by (simp add: windows_thread_start_def windows_OSThreadCallback_def)

end
