(* ===== verification/Spec2Isabelle.thy ===== *)
theory Spec2Isabelle
  imports Command_Line Linux_Timestamper Linux_Net Wireless Windows_Net Windows_Ipc Windows_Os
begin

text \<open>
  Verification of the gPTP daemon (IEEE 802.1AS), whose C++ sources are under \<open>src/\<close>. This theory imports the others and holds the
  properties that span several components.

  \<^bold>\<open>The program.\<close> The daemon synchronises the clock of a network interface. A \<^emph>\<open>port\<close> (\<open>common/common_port.cpp\<close>,
  \<open>common/ether_port.cpp\<close>, \<open>common/wireless_port.cpp\<close>) receives frames in a listening thread, decodes them to \<^emph>\<open>messages\<close>
  (\<open>common/ptp_message.cpp\<close>) and processes them: Announce messages decide, by the best master selection, whether the port is master or slave; Sync
  and Follow-Up messages give a slave the time of its master; the Pdelay messages measure the delay of the link and the
  rate of the neighbour. The \<^emph>\<open>clock\<close> (\<open>common/ieee1588clock.cpp\<close>) compares the times, adjusts the rate of the device with a proportional and integral controller, and
  tells other processes the offsets. A \<^emph>\<open>timer queue\<close> delivers the events of a port in a thread of its own. A \<^emph>\<open>platform\<close>
  (\<open>linux/src\<close>, \<open>windows/daemon_cl\<close>) provides timestamps, frames, timers, locks, storage and shared data, and \<open>main\<close> (\<open>daemon_cl.cpp\<close>)
  reads the options and starts all of it.

  \<^bold>\<open>Foundations.\<close>
  \<^item> \<open>Gptp_Prelude\<close>: words, octet arrays with bounds, byte order (\<open>linux/src/platform.cpp\<close>); the collections \<open>bytes\<close> and \<open>mem\<close>.
  \<^item> \<open>Gptp_Float\<close>: binary floating point with rounding, on rational numbers, so that it computes.
  \<^item> \<open>Std_Map\<close>: \<open>std::map\<close> as a sorted list; the locale \<open>map_keys\<close> is interpreted on the keys of the timer queue and of the identity map.

  \<^bold>\<open>The protocol, common to all platforms.\<close>
  \<^item> \<open>Ieee1588\<close>: value types of \<open>common/ieee1588.hpp\<close>. The lemmas say exactly when the arithmetic of timestamps is that of nanoseconds.
  \<^item> \<open>Ieee1588_Clock\<close>: the class \<open>IEEE1588Clock\<close>: comparison of priority vectors (the lexicographic order of the standard), rate measurement, controller, saved state.
  \<^item> \<open>Gptp_World\<close>: the state of the daemon, a record \<open>world\<close> of clock, ports and logs of everything handed to the outside, and the \<open>platform\<close>, a record of functions
    whose results may depend on the number of calls before, hence an arbitrary environment. The locale \<open>world_predicate\<close> states what an invariant must
    survive; its extensions in \<open>Ether_Port\<close> and \<open>Port_Events\<close> add roles, events and the daemon. They are interpreted for well-formedness, for slave-only
    operation, for the timers of a master and for a halt of the peer delay mechanism.
  \<^item> \<open>Common_Port\<close>, \<open>Ether_Port\<close>: \<open>CommonPort\<close> and \<open>EtherPort\<close>: timers, timeouts, sending with departure timestamps, roles.
  \<^item> \<open>Ptp_Message\<close>, \<open>Ptp_Send\<close>, \<open>Ptp_Wire\<close>: the message classes, their writers and \<open>buildPTPMessage\<close>. The round trips state which fields survive the wire and which the code loses.
  \<^item> \<open>Ptp_Process\<close>: the functions \<open>processMessage\<close>: acceptance of Announce messages, matching of Follow-Up messages, the link delay with its roundings, duplicate responses.
  \<^item> \<open>Port_Events\<close>: \<open>processEvent\<close> and the best master selection, which refines an abstract one; with the priority of a slave-only clock no event makes the port
    master (but a run of unmatched Follow-Up messages does, see \<open>Ptp_Process\<close>).
  \<^item> \<open>Wireless\<close>: \<open>WirelessPort\<close>, \<open>WirelessTimestamper\<close> and the adapter of \<open>windows/daemon_cl/intel_wireless.cpp\<close>: dialogs, link delay, extension of a 32 bit counter.
  \<^item> \<open>Ini_Config\<close>: the parser of \<open>common/ini.c\<close> and the handler of \<open>common/gptp_cfg.cpp\<close>.

  \<^bold>\<open>The Linux platform.\<close>
  \<^item> \<open>Timer_Queue\<close>: \<open>LinuxTimerQueue\<close>; the locale \<open>timer_queue\<close> presents it as a multiset of pending timers.
  \<^item> \<open>Ticketing_Lock\<close>: \<open>TicketingLock\<close> and \<open>LinuxCondition\<close> as step relations of threads: the lock is served in the order of arrival
    and wakes the next thread, and a handshake ends without a lost signal.
  \<^item> \<open>Linux_Timestamper\<close>, \<open>Linux_Net\<close>, \<open>Persist_File\<close>: \<open>linux_hal_generic.cpp\<close> and \<open>linux_hal_generic_adj.cpp\<close>, the link watcher and the shared memory, the mapped file.
  \<^item> \<open>Daemon\<close>, \<open>Command_Line\<close>: \<open>daemon_cl.cpp\<close>: the threads of the running daemon as one step relation, what it keeps, how long duplicate responses
    halt the peer delay mechanism; the options, the restart from saved state.

  \<^bold>\<open>The Windows platform\<close> (\<open>windows/daemon_cl\<close>).
  \<^item> \<open>Windows_Clock\<close>: \<open>windows_crosststamp.cpp\<close> and its simple variant: cross timestamps never fail once initialised, and are exact up to a bound.
  \<^item> \<open>Windows_Timestamper\<close>: \<open>WindowsEtherTimestamper\<close> with the detection of clock rates: initialisation, time, transmit and receive timestamps.
  \<^item> \<open>Windows_Net\<close>: \<open>packet.cpp\<close>, the link monitor of \<open>windows_hal.cpp\<close> and the command line: what of a frame is received, which changes are notified.
  \<^item> \<open>Windows_Ipc\<close>: the list of peers as a set of what its handler accepts (locale \<open>peer_set\<close>), and the named pipe listener as a state machine that interleaves
    with the statements of the threads that update the offsets; the lock between them lets no half update out.
  \<^item> \<open>Windows_Os\<close>: locks, conditions, timer queue and threads of \<open>windows_hal.hpp\<close>.

  \<^bold>\<open>Correspondence.\<close> A C++ class is a record with the members that some operation reads; an operation is a function on it that carries the name of the method,
  with a prefix where several classes share it. Pointers to messages are options. Faults (null pointers, accesses outside of an array, division by zero, \<open>abort\<close>) are the value
  \<open>None\<close> or the flag \<open>fault\<close> of the world, after which there is no step. Integers have their width. System calls and driver answers are arguments or
  fields of the platform; what a property needs of them is a hypothesis of its own (\<open>wf_arch\<close>: the formats of floating point; \<open>timers_work\<close>: timers and locks
  can be created).

  \<^bold>\<open>Loops and bounds.\<close> All functions are total. Loops over data are structural recursions; the search for a free timer key ends because only finitely many
  keys are in use; the waits for timestamps recurse on the counter of the code (\<open>TX_TIMEOUT_ITER\<close>); loops over ports take \<open>MAX_PORTS\<close> rounds, the size of the array. The
  loops that read from a driver until it has no more run over the list of its answers, and have no result while it goes on. Endless loops of
  threads are the repeated steps of a relation, or recursions over the rounds that were made. The buffers have the sizes of the code: 256 octets to send, 128 to receive, 96 to capture.

  \<^bold>\<open>Not modelled.\<close> Logging, usage texts and \<open>toString\<close> functions (output that nothing reads); the abstract classes of the
  operating system layer (they have no code); the timestampers for the i210 and Intel CE libraries (\<open>linux_hal_i210.cpp\<close>, \<open>linux_hal_intelce.cpp\<close>), alternatives at build time that move
  values between registers of libraries outside of the sources; opening and configuring of devices by \<open>ioctl\<close>; the watchdogs, which only call a service manager;
  the loading of the wireless driver library; \<open>windows_driver_info.cpp\<close>, diagnostics that no part of the daemon uses and that refers to undeclared identifiers; the code
  of \<open>windows_hal_ndis.cpp\<close> under a condition with which it does not compile; the test programs. The creation of clock and port in the Windows \<open>main\<close> repeats that of
  the Linux one. Simultaneous access of threads to the same data without a lock is not modelled: a handler is one step, except where it waits for a departure timestamp, and
  except for the locks, conditions and offsets of \<open>Ticketing_Lock\<close> and \<open>Windows_Ipc\<close>, whose users interleave statement by statement.
\<close>

section \<open>Properties of the daemon\<close>

text \<open>C1. In every state that the daemon reaches from a start without a file of saved state (no option \<open>-M\<close>) and with sync intervals
  other than \<open>-128\<close> (\<open>start_ok\<close>), by any interleaving of timers, frames,
  link changes and late transmit timestamps, the port is initialising, master or slave, every rate that the
  timestamper was asked for is a number within 250 ppm, the rate of the peer is 1 or strictly within 250 ppm, the
  identity map and the timer queue are valid, and every pending timer carries its own event for the port, with a
  valid time value.\<close>

theorem daemon_invariant:
  assumes "wf_arch P" and "start_ok opts w" and "daemon_start P opts w = (True, w0)" and "daemon_reaches P (w0, None) (u, s)"
  shows "port_state (ports u 0) \<in> {PTP_INITIALIZING, PTP_MASTER, PTP_SLAVE} \<and>
    (\<forall>f. AdjClockRate f \<in> set (hw_log u) \<longrightarrow> (\<exists>r. f = Fin r \<and> - 250 \<le> r \<and> r \<le> 250)) \<and>
    rate_ok P (peer_rate_offset (ports u 0)) \<and> smap_inv pi_less wf_pi (identity_map (ports u 0)) \<and>
    tq_inv (timerq (clk u)) \<and> (\<forall>a. a \<in># tq_pending (timerq (clk u)) \<longrightarrow> timer_ok {0} a)"
proof -
  have "wf_system P {0} u"
    using wf_reaches [OF assms(4)] daemon_start_wf [OF assms(1-3)] by (simp add: flight_ok_def)
  then have "wf_clk {0} (clk u)" "wf_port P (ports u 0)" "\<forall>h \<in> set (hw_log u). command_ok h"
    by (auto simp add: wf_system_def wf_world_def)
  then show ?thesis
    by (auto simp add: wf_clk_def wf_port_def command_ok_def LOWER_FREQ_LIMIT_def UPPER_FREQ_LIMIT_def)
qed

text \<open>C2. When locks and timers of the platform work, then in every state reachable from a start as in C1 in which the port is
  master a sync interval timer of the port is pending: its signal delivers it, and the step of the timer thread
  that sends the next Sync message is enabled when that thread does not wait for a departure timestamp and the program has not failed.\<close>

theorem master_keeps_sync_timer:
  assumes "wf_arch P" and "timers_work P" and "start_ok opts w" and "daemon_start P opts w = (True, w0)"
    and "daemon_reaches P (w0, None) (u, s)" and "port_state (ports u 0) = PTP_MASTER"
  shows "\<exists>k d u'. timer_fires k u = Some (d, u') \<and> ed_event d = SYNC_INTERVAL_TIMEOUT_EXPIRES \<and> ed_port d = 0 \<and>
    (fault u = None \<longrightarrow> daemon_step P (u, None) (timerq_handler P d u', None))"
proof -
  have "master_live P 0 u"
    using live_reaches [OF assms(5)] live_start [OF assms(1-4)] by (simp add: flight_ok_def)
  then obtain k d u' where f: "timer_fires k u = Some (d, u')" "ed_event d = SYNC_INTERVAL_TIMEOUT_EXPIRES" "ed_port d = 0"
    using live_fires [OF _ assms(6)] by blast
  then have "fault u = None \<longrightarrow> daemon_step P (u, None) (timerq_handler P d u', None)"
    using daemon_step.Timer [OF _ f(1)] by simp
  with f show ?thesis by (intro exI conjI)
qed

text \<open>C3. The controller of the clock and the Linux timestamper together: whatever offset and rate the master
  has, the rate that the controller asks for reaches the kernel as a frequency of at most 250 ppm in units of
  \<open>2 ^ -16\<close> ppm that differs from it by less than two of these units. Neither the accumulation in single
  precision nor the shift of the integer part overflows.\<close>

theorem controller_rate_in_kernel:
  assumes "wf_arch P" and "ppm_ok c" and "fp_below 68 rate" and "interval \<noteq> 0x80" and "hw_timestamper (ports w i)"
  shows "\<exists>r. hw_log (snd (adjustClockRate P i (ppm (adjust_frequency P interval off rate c)) w)) = AdjClockRate (Fin r) # hw_log w \<and>
    \<bar>sint (HWTimestamper_adjclockrate P (Fin r))\<bar> \<le> 250 * 65536 \<and>
    \<bar>of_int (sint (HWTimestamper_adjclockrate P (Fin r))) - r * 65536\<bar> < 2"
proof -
  let ?f = "fp_conv FLOAT (ppm (adjust_frequency P interval off rate c))"
  have "command_ok (AdjClockRate ?f)"
    using ppm_command adjust_frequency_ppm_ok assms(1-4) by blast
  then obtain r where r: "?f = Fin r" "\<bar>r\<bar> \<le> 250"
    by (auto simp add: command_ok_def LOWER_FREQ_LIMIT_def UPPER_FREQ_LIMIT_def abs_le_iff)
  from adjclockrate_sint [OF r(2), of P] r(1) assms(5) show ?thesis by (auto simp add: adjustClockRate_def)
qed

section \<open>Witnesses\<close>

theorem daemon_invariant_witness:
  "\<exists>d u'. daemon_reaches sample_platform (sample_start, None) (timerq_handler sample_platform d u', None) \<and>
     ed_event d = SYNC_INTERVAL_TIMEOUT_EXPIRES \<and>
     port_state (ports (timerq_handler sample_platform d u') 0) \<in> {PTP_INITIALIZING, PTP_MASTER, PTP_SLAVE}"
  using sample_start_step daemon_invariant [OF sample_platform_wf(1) sample_start_ok sample_start] by metis

theorem master_keeps_sync_timer_witness:
  "\<exists>k d u'. timer_fires k sample_start = Some (d, u') \<and> ed_event d = SYNC_INTERVAL_TIMEOUT_EXPIRES \<and> ed_port d = 0"
  using master_keeps_sync_timer [OF sample_platform_wf sample_start_ok sample_start daemon_reaches.Start sample_start_master(1)]
  by blast

theorem controller_rate_in_kernel_witness:
  "\<exists>r. hw_log (snd (adjustClockRate sample_platform 0 (ppm (adjust_frequency sample_platform 0 5000 (Fin 1) sample_clock)) sample_world)) =
      AdjClockRate (Fin r) # hw_log sample_world \<and> \<bar>sint (HWTimestamper_adjclockrate sample_platform (Fin r))\<bar> \<le> 250 * 65536"
proof -
  have "fp_below 68 (Fin 1)" by (simp add: fp_below_def pow2_def)
  then show ?thesis
    using controller_rate_in_kernel [OF sample_platform_wf(1) sample_clock_facts(3), of "Fin 1" 0 sample_world 0 5000]
    by (auto simp add: sample_port_def)
qed

end
